(* ===== verification/Prelude.thy ===== *)
theory Prelude
  imports Main "HOL-Library.Word"
begin

text \<open>
  Shared vocabulary of the development: results and early returns, the calls a program makes to
  the outside world, and the pieces of Rust's standard library on strings and integers that the
  sources use.

  A fallible pure function returns \<open>'e + 'a\<close> (\<open>Inl\<close> is \<open>Err\<close>, \<open>Inr\<close> is \<open>Ok\<close>). A function with
  effects is a value of type \<open>('c, 'e, 'a) io\<close>: it takes the history of the calls made so far and
  returns its result with the extended history. What the outside world answers to a call is a
  parameter that may depend on the whole history, so nothing is fixed about the cluster, the
  \<open>helm\<close> binary or the file system.
\<close>

named_theorems io_simps "unfolding rules of the effect combinators"
named_theorems io_success "when the effect combinators succeed"
named_theorems emits_intros "introduction rules for what an effectful function may call"
named_theorems returns_intros "introduction rules for functions that return"
named_theorems passes_intros "introduction rules for functions that return a given result"

section \<open>Results\<close>

definition res_bind :: "'e + 'a \<Rightarrow> ('a \<Rightarrow> 'e + 'b) \<Rightarrow> 'e + 'b" where
  "res_bind m f = (case m of Inl e \<Rightarrow> Inl e | Inr x \<Rightarrow> f x)"

definition ok_or :: "'a option \<Rightarrow> 'e \<Rightarrow> 'e + 'a" where
  "ok_or m e = (case m of None \<Rightarrow> Inl e | Some x \<Rightarrow> Inr x)"

definition map_err :: "('e \<Rightarrow> 'f) \<Rightarrow> 'e + 'a \<Rightarrow> 'f + 'a" where
  "map_err g m = (case m of Inl e \<Rightarrow> Inl (g e) | Inr x \<Rightarrow> Inr x)"

definition ensure :: "bool \<Rightarrow> 'e \<Rightarrow> 'e + unit" where
  "ensure b e = (if b then Inr () else Inl e)"

definition unwrap_or :: "'a option \<Rightarrow> 'a \<Rightarrow> 'a" where
  "unwrap_or m d = (case m of None \<Rightarrow> d | Some x \<Rightarrow> x)"

definition is_ok :: "'e + 'a \<Rightarrow> bool" where
  "is_ok r = (case r of Inl _ \<Rightarrow> False | Inr _ \<Rightarrow> True)"

lemma res_bind_simps [simp]:
  "res_bind (Inl e) f = Inl e"
  "res_bind (Inr x) f = f x"
  by (simp_all add: res_bind_def)

lemma ok_or_simps [simp]:
  "ok_or None e = Inl e"
  "ok_or (Some x) e = Inr x"
  by (simp_all add: ok_or_def)

lemma map_err_simps [simp]:
  "map_err g (Inl e) = Inl (g e)"
  "map_err g (Inr x) = Inr x"
  by (simp_all add: map_err_def)

lemma unwrap_or_simps [simp]:
  "unwrap_or None d = d"
  "unwrap_or (Some x) d = x"
  by (simp_all add: unwrap_or_def)

lemma ensure_simps [simp]:
  "ensure True e = Inr ()"
  "ensure False e = Inl e"
  by (simp_all add: ensure_def)

lemma is_ok_simps [simp]:
  "is_ok (Inl e) = False"
  "is_ok (Inr x) = True"
  by (simp_all add: is_ok_def)

lemma res_bind_Inr_iff [simp]: "res_bind m f = Inr y \<longleftrightarrow> (\<exists>x. m = Inr x \<and> f x = Inr y)"
  by (cases m) auto

lemma res_bind_Inl_iff:
  "res_bind m f = Inl e \<longleftrightarrow> m = Inl e \<or> (\<exists>x. m = Inr x \<and> f x = Inl e)"
  by (cases m) auto

lemma ok_or_Inr_iff [simp]: "ok_or m e = Inr x \<longleftrightarrow> m = Some x"
  by (cases m) auto

lemma ok_or_Inl_iff [simp]: "ok_or m e = Inl e' \<longleftrightarrow> m = None \<and> e' = e"
  by (cases m) auto

lemma map_err_Inr_iff [simp]: "map_err g m = Inr x \<longleftrightarrow> m = Inr x"
  by (cases m) auto

lemma ensure_Inr_iff [simp]: "ensure b e = Inr u \<longleftrightarrow> b"
  by (simp add: ensure_def)

lemma ensure_Inl_iff [simp]: "ensure b e = Inl e' \<longleftrightarrow> \<not> b \<and> e' = e"
  by (auto simp: ensure_def)

lemma is_ok_iff: "is_ok r \<longleftrightarrow> (\<exists>x. r = Inr x)"
  by (cases r) auto

lemma not_is_ok_iff: "\<not> is_ok r \<longleftrightarrow> (\<exists>e. r = Inl e)"
  by (cases r) auto

text \<open>A loop that pushes one converted element per iteration and returns at the first error.\<close>

fun traverse :: "('a \<Rightarrow> 'e + 'b) \<Rightarrow> 'a list \<Rightarrow> 'e + 'b list" where
  "traverse f [] = Inr []"
| "traverse f (x # xs) = res_bind (f x) (\<lambda>y. res_bind (traverse f xs) (\<lambda>ys. Inr (y # ys)))"

lemma traverse_Inr_iff: "traverse f xs = Inr ys \<longleftrightarrow> list_all2 (\<lambda>x y. f x = Inr y) xs ys"
  by (induction xs arbitrary: ys) (auto simp: list_all2_Cons1)

lemma traverse_cong [fundef_cong]:
  "xs = ys \<Longrightarrow> (\<And>x. x \<in> set ys \<Longrightarrow> f x = g x) \<Longrightarrow> traverse f xs = traverse g ys"
  by (induction xs arbitrary: ys) auto

lemma traverse_total: "(\<And>x. x \<in> set xs \<Longrightarrow> f x = Inr (g x)) \<Longrightarrow> traverse f xs = Inr (map g xs)"
  by (induction xs) auto

lemma traverse_Inl_iff_ex: "(\<exists>e. traverse f xs = Inl e) \<longleftrightarrow> (\<exists>x \<in> set xs. \<not> is_ok (f x))"
proof (induction xs)
  case Nil
  then show ?case by simp
next
  case (Cons a xs)
  then show ?case
    by (cases "f a"; cases "traverse f xs") auto
qed

lemma traverse_append:
  "traverse f (xs @ ys) = res_bind (traverse f xs) (\<lambda>us. res_bind (traverse f ys) (\<lambda>vs. Inr (us @ vs)))"
proof (induction xs)
  case Nil
  show ?case by (cases "traverse f ys") simp_all
next
  case (Cons a xs)
  then show ?case
    by (cases "f a"; cases "traverse f xs"; cases "traverse f ys") simp_all
qed

section \<open>Effects\<close>

type_synonym ('c, 'e, 'a) io = "'c list \<Rightarrow> ('e + 'a) \<times> 'c list"

definition io_ok :: "'a \<Rightarrow> ('c, 'e, 'a) io" where
  "io_ok x = (\<lambda>h. (Inr x, h))"

definition io_err :: "'e \<Rightarrow> ('c, 'e, 'a) io" where
  "io_err e = (\<lambda>h. (Inl e, h))"

definition io_res :: "'e + 'a \<Rightarrow> ('c, 'e, 'a) io" where
  "io_res r = (\<lambda>h. (r, h))"

definition io_bind :: "('c, 'e, 'a) io \<Rightarrow> ('a \<Rightarrow> ('c, 'e, 'b) io) \<Rightarrow> ('c, 'e, 'b) io" where
  "io_bind m f = (\<lambda>h. case m h of (Inl e, h') \<Rightarrow> (Inl e, h') | (Inr x, h') \<Rightarrow> f x h')"

text \<open>One call to the outside world; its answer may depend on everything that happened before.\<close>

definition io_call :: "'c \<Rightarrow> ('c list \<Rightarrow> 'e + 'a) \<Rightarrow> ('c, 'e, 'a) io" where
  "io_call c answer = (\<lambda>h. (answer h, h @ [c]))"

definition io_emit :: "'c \<Rightarrow> ('c, 'e, unit) io" where
  "io_emit c = (\<lambda>h. (Inr (), h @ [c]))"

definition io_when :: "bool \<Rightarrow> ('c, 'e, unit) io \<Rightarrow> ('c, 'e, unit) io" where
  "io_when b m = (if b then m else io_ok ())"

definition io_or_else :: "('c, 'e, 'a) io \<Rightarrow> ('e \<Rightarrow> ('c, 'f, 'a) io) \<Rightarrow> ('c, 'f, 'a) io" where
  "io_or_else m g = (\<lambda>h. case m h of (Inl e, h') \<Rightarrow> g e h' | (Inr x, h') \<Rightarrow> (Inr x, h'))"

definition io_map_err :: "('e \<Rightarrow> 'f) \<Rightarrow> ('c, 'e, 'a) io \<Rightarrow> ('c, 'f, 'a) io" where
  "io_map_err g m = (\<lambda>h. case m h of (r, h') \<Rightarrow> (map_err g r, h'))"

text \<open>Runs a function and hands its result, error or not, to the caller.\<close>

definition io_try :: "('c, 'e, 'a) io \<Rightarrow> ('c, 'f, 'e + 'a) io" where
  "io_try m = (\<lambda>h. case m h of (r, h') \<Rightarrow> (Inr r, h'))"

lemmas io_defs = io_ok_def io_err_def io_res_def io_bind_def io_call_def io_emit_def io_when_def
  io_or_else_def io_map_err_def io_try_def

lemma io_apply [io_simps]:
  "io_ok x h = (Inr x, h)"
  "io_err e h = (Inl e, h)"
  "io_res r h = (r, h)"
  "io_call c answer h = (answer h, h @ [c])"
  "io_emit c h = (Inr (), h @ [c])"
  by (simp_all add: io_defs)

lemma io_bind_apply [io_simps]:
  "io_bind m f h = (case m h of (Inl e, h') \<Rightarrow> (Inl e, h') | (Inr x, h') \<Rightarrow> f x h')"
  by (simp add: io_bind_def)

lemma io_when_apply [io_simps]: "io_when b m h = (if b then m h else (Inr (), h))"
  by (simp add: io_defs)

lemma io_or_else_apply [io_simps]:
  "io_or_else m g h = (case m h of (Inl e, h') \<Rightarrow> g e h' | (Inr x, h') \<Rightarrow> (Inr x, h'))"
  by (simp add: io_or_else_def)

lemma io_map_err_apply [io_simps]:
  "io_map_err g m h = (case m h of (r, h') \<Rightarrow> (map_err g r, h'))"
  by (simp add: io_map_err_def)

lemma io_try_apply [io_simps]: "io_try m h = (case m h of (r, h') \<Rightarrow> (Inr r, h'))"
  by (simp add: io_try_def)

lemma io_bind_Inr_iff [io_success]:
  "io_bind m f h = (Inr y, h') \<longleftrightarrow> (\<exists>x h1. m h = (Inr x, h1) \<and> f x h1 = (Inr y, h'))"
  by (auto simp: io_bind_def split: prod.splits sum.splits)

lemma io_Inr_iff [io_success]:
  "io_ok x h = (Inr y, h') \<longleftrightarrow> y = x \<and> h' = h"
  "io_err e h = (Inr y, h') \<longleftrightarrow> False"
  "io_res r h = (Inr y, h') \<longleftrightarrow> r = Inr y \<and> h' = h"
  "io_call c answer h = (Inr y, h') \<longleftrightarrow> answer h = Inr y \<and> h' = h @ [c]"
  "io_emit c h = (Inr u, h') \<longleftrightarrow> h' = h @ [c]"
  "io_when b m h = (Inr u, h') \<longleftrightarrow> (if b then m h = (Inr u, h') else h' = h)"
  "io_map_err g n h = (Inr y, h') \<longleftrightarrow> n h = (Inr y, h')"
  "io_try n h = (Inr z, h') \<longleftrightarrow> n h = (z, h')"
  by (auto simp: io_defs split: prod.splits)

lemma io_bind_Inl_iff:
  "io_bind m f h = (Inl e, h') \<longleftrightarrow>
     m h = (Inl e, h') \<or> (\<exists>x h1. m h = (Inr x, h1) \<and> f x h1 = (Inl e, h'))"
  by (auto simp: io_bind_def split: prod.splits sum.splits)

lemma io_bind_cases:
  assumes "io_bind m f h = (r, h')"
  obtains (fails) e where "m h = (Inl e, h')" and "r = Inl e"
  | (continues) x h1 where "m h = (Inr x, h1)" and "f x h1 = (r, h')"
  using assms by (auto simp: io_bind_def split: prod.splits sum.splits)

text \<open>
  \<open>emits P m\<close>: whatever the world answers, \<open>m\<close> only appends calls that satisfy \<open>P\<close>
  to the history.
\<close>

definition emits :: "('c \<Rightarrow> bool) \<Rightarrow> ('c, 'e, 'a) io \<Rightarrow> bool" where
  "emits P m \<longleftrightarrow> (\<forall>h. \<exists>t. snd (m h) = h @ t \<and> list_all P t)"

lemma emitsD: "emits P m \<Longrightarrow> m h = (r, h') \<Longrightarrow> \<exists>t. h' = h @ t \<and> list_all P t"
  unfolding emits_def by (metis snd_conv)

lemma emits_ok [emits_intros]: "emits P (io_ok x)"
  and emits_err [emits_intros]: "emits P (io_err e)"
  and emits_res [emits_intros]: "emits P (io_res r)"
  by (simp_all add: emits_def io_defs)

lemma emits_call [emits_intros]: "P c \<Longrightarrow> emits P (io_call c answer)"
  and emits_emit [emits_intros]: "P c \<Longrightarrow> emits P (io_emit c)"
  by (simp_all add: emits_def io_defs)

lemma emits_bind [emits_intros]:
  assumes "emits P m" and "\<And>x. emits P (f x)"
  shows "emits P (io_bind m f)"
  unfolding emits_def
proof
  fix h
  obtain r h1 where m: "m h = (r, h1)" by fastforce
  obtain t where t: "h1 = h @ t" "list_all P t" using emitsD [OF assms(1) m] by blast
  show "\<exists>t. snd (io_bind m f h) = h @ t \<and> list_all P t"
  proof (cases r)
    case (Inl e)
    with m t show ?thesis by (simp add: io_bind_def)
  next
    case (Inr x)
    obtain t' where "snd (f x h1) = h1 @ t'" "list_all P t'"
      using assms(2) unfolding emits_def by blast
    with m t Inr show ?thesis by (simp add: io_bind_def)
  qed
qed

text \<open>As before, where the second part depends on how the first one has ended.\<close>

lemma emits_bind_result:
  assumes "emits P m" and "\<And>x h h'. m h = (Inr x, h') \<Longrightarrow> emits P (f x)"
  shows "emits P (io_bind m f)"
  unfolding emits_def
proof
  fix h
  obtain r h1 where m: "m h = (r, h1)" by fastforce
  obtain t where t: "h1 = h @ t" "list_all P t" using emitsD [OF assms(1) m] by blast
  show "\<exists>t. snd (io_bind m f h) = h @ t \<and> list_all P t"
  proof (cases r)
    case (Inl e)
    with m t show ?thesis by (simp add: io_bind_def)
  next
    case (Inr x)
    with m assms(2) obtain t' where "snd (f x h1) = h1 @ t'" "list_all P t'" unfolding emits_def by blast
    with m t Inr show ?thesis by (intro exI [of _ "t @ t'"]) (simp add: io_bind_def)
  qed
qed

lemma emits_or_else [emits_intros]:
  assumes "emits P m" and "\<And>e. emits P (g e)"
  shows "emits P (io_or_else m g)"
  unfolding emits_def
proof
  fix h
  obtain r h1 where m: "m h = (r, h1)" by fastforce
  obtain t where t: "h1 = h @ t" "list_all P t" using emitsD [OF assms(1) m] by blast
  show "\<exists>t. snd (io_or_else m g h) = h @ t \<and> list_all P t"
  proof (cases r)
    case (Inr x)
    with m t show ?thesis by (simp add: io_or_else_def)
  next
    case (Inl e)
    obtain t' where "snd (g e h1) = h1 @ t'" "list_all P t'"
      using assms(2) unfolding emits_def by blast
    with m t Inl show ?thesis by (simp add: io_or_else_def)
  qed
qed

lemma emits_when [emits_intros]: "(b \<Longrightarrow> emits P m) \<Longrightarrow> emits P (io_when b m)"
  by (simp add: io_when_def emits_ok)

lemma emits_map_err [emits_intros]: "emits P m \<Longrightarrow> emits P (io_map_err g m)"
  and emits_try [emits_intros]: "emits P m \<Longrightarrow> emits P (io_try m)"
  unfolding emits_def io_defs by (auto split: prod.splits) (metis snd_conv)+

lemma emits_if [emits_intros]:
  "(b \<Longrightarrow> emits P m) \<Longrightarrow> (\<not> b \<Longrightarrow> emits P n) \<Longrightarrow> emits P (if b then m else n)"
  by simp

lemma emits_option [emits_intros]:
  "(m = None \<Longrightarrow> emits P n) \<Longrightarrow> (\<And>x. m = Some x \<Longrightarrow> emits P (f x)) \<Longrightarrow>
     emits P (case m of None \<Rightarrow> n | Some x \<Rightarrow> f x)"
  by (cases m) auto

lemma emits_mono: "emits P m \<Longrightarrow> (\<And>c. P c \<Longrightarrow> Q c) \<Longrightarrow> emits Q m"
  unfolding emits_def by (metis list.pred_mono_strong)

section \<open>Strings and integers of Rust's standard library\<close>

text \<open>\<open>str::split\<close> on one character: always at least one piece.\<close>

fun split_on :: "char \<Rightarrow> string \<Rightarrow> string list" where
  "split_on c [] = [[]]"
| "split_on c (x # xs) =
     (if x = c then [] # split_on c xs
      else (case split_on c xs of [] \<Rightarrow> [[x]] | p # ps \<Rightarrow> (x # p) # ps))"

fun join_with :: "string \<Rightarrow> string list \<Rightarrow> string" where
  "join_with sep [] = []"
| "join_with sep [s] = s"
| "join_with sep (s # ss) = s @ sep @ join_with sep ss"

lemma split_on_not_Nil [simp]: "split_on c s \<noteq> []"
  by (induction s) (auto split: list.splits)

lemma length_split_on: "length (split_on c s) = Suc (length (filter ((=) c) s))"
  by (induction s) (auto split: list.splits)

lemma join_with_Cons: "ss \<noteq> [] \<Longrightarrow> join_with sep (s # ss) = s @ sep @ join_with sep ss"
  by (cases ss) auto

lemma join_split_on: "join_with [c] (split_on c s) = s"
proof (induction s)
  case Nil
  then show ?case by simp
next
  case (Cons x xs)
  obtain p ps where "split_on c xs = p # ps" by (cases "split_on c xs") auto
  with Cons show ?case by (cases ps) (auto simp: join_with_Cons)
qed

lemma split_on_no_sep: "p \<in> set (split_on c s) \<Longrightarrow> c \<notin> set p"
proof (induction s arbitrary: p)
  case Nil
  then show ?case by simp
next
  case (Cons x xs)
  obtain q qs where q: "split_on c xs = q # qs" by (cases "split_on c xs") auto
  with Cons.IH have "c \<notin> set q" and "\<And>r. r \<in> set qs \<Longrightarrow> c \<notin> set r" by auto
  with Cons.prems q show ?case by (auto split: if_splits)
qed

lemma split_on_free: "c \<notin> set s \<Longrightarrow> split_on c s = [s]"
  by (induction s) auto

lemma split_on_append: "c \<notin> set s \<Longrightarrow> split_on c (s @ c # t) = s # split_on c t"
  by (induction s) auto

text \<open>\<open>str::contains\<close>, \<open>str::strip_prefix\<close>, \<open>str::replace\<close> of one character.\<close>

fun contains_str :: "string \<Rightarrow> string \<Rightarrow> bool" where
  "contains_str pat [] = (pat = [])"
| "contains_str pat (x # xs) = (take (length pat) (x # xs) = pat \<or> contains_str pat xs)"

definition strip_prefix_char :: "char \<Rightarrow> string \<Rightarrow> string option" where
  "strip_prefix_char c s = (case s of [] \<Rightarrow> None | x # xs \<Rightarrow> if x = c then Some xs else None)"

definition replace_char :: "char \<Rightarrow> char \<Rightarrow> string \<Rightarrow> string" where
  "replace_char a b = map (\<lambda>x. if x = a then b else x)"

lemma replace_char_absent: "a \<noteq> b \<Longrightarrow> a \<notin> set (replace_char a b s)"
  by (auto simp: replace_char_def)

lemma contains_str_iff: "contains_str pat s \<longleftrightarrow> (\<exists>pre post. s = pre @ pat @ post)"
proof (induction s)
  case Nil
  then show ?case by simp
next
  case (Cons x xs)
  have here: "take (length pat) (x # xs) = pat \<longleftrightarrow> (\<exists>post. x # xs = pat @ post)"
    by (metis append_eq_conv_conj append_take_drop_id)
  show ?case
  proof
    assume "contains_str pat (x # xs)"
    with here Cons.IH consider post where "x # xs = [] @ pat @ post"
      | pre post where "x # xs = (x # pre) @ pat @ post"
      by auto
    then show "\<exists>pre post. x # xs = pre @ pat @ post" by metis
  next
    assume "\<exists>pre post. x # xs = pre @ pat @ post"
    then obtain pre post where eq: "x # xs = pre @ pat @ post" by blast
    show "contains_str pat (x # xs)"
    proof (cases pre)
      case Nil
      with eq have "x # xs = pat @ post" by simp
      with here show ?thesis by (metis contains_str.simps(2))
    next
      case (Cons y ys)
      with eq have "xs = ys @ pat @ post" by simp
      then show ?thesis using Cons.IH by auto
    qed
  qed
qed

text \<open>
  \<open>str::trim\<close> on the bytes of a UTF-8 text: the encodings of the characters with the property
  White_Space are dropped from both ends. None of them is a proper part of the encoding of another
  character, so they can be looked for from the end as well.
\<close>

definition white_space :: "string list" where
  "white_space =
     [[CHR '' ''], [CHR 0x09], [CHR 0x0A], [CHR 0x0B], [CHR 0x0C], [CHR 0x0D],
      [CHR 0xC2, CHR 0x85], [CHR 0xC2, CHR 0xA0], [CHR 0xE1, CHR 0x9A, CHR 0x80]] @
     map (\<lambda>c. [CHR 0xE2, CHR 0x80, c])
       [CHR 0x80, CHR 0x81, CHR 0x82, CHR 0x83, CHR 0x84, CHR 0x85, CHR 0x86, CHR 0x87, CHR 0x88, CHR 0x89,
        CHR 0x8A, CHR 0xA8, CHR 0xA9, CHR 0xAF] @
     [[CHR 0xE2, CHR 0x81, CHR 0x9F], [CHR 0xE3, CHR 0x80, CHR 0x80]]"

lemma find_prefix:
  assumes "find (\<lambda>w. w \<noteq> [] \<and> take (length w) s = w) ws = Some w"
  shows "0 < length w \<and> 0 < length s"
proof -
  from assms have "w \<noteq> []" "take (length w) s = w" by (auto simp: find_Some_iff)
  then show ?thesis by (cases s) auto
qed

function drop_white :: "string list \<Rightarrow> string \<Rightarrow> string" where
  "drop_white ws s = (case find (\<lambda>w. w \<noteq> [] \<and> take (length w) s = w) ws of
      None \<Rightarrow> s
    | Some w \<Rightarrow> drop_white ws (drop (length w) s))"
  by pat_completeness auto

termination
  by (relation "measure (length \<circ> snd)") (auto dest: find_prefix intro: diff_less)

declare drop_white.simps [simp del]

definition trim_str :: "string \<Rightarrow> string" where
  "trim_str s = rev (drop_white (map rev white_space) (rev (drop_white white_space s)))"

text \<open>Decimal rendering, \<open>to_string\<close> of unsigned and signed integers.\<close>

definition digit_char :: "nat \<Rightarrow> char" where
  "digit_char d = char_of (48 + d)"

fun nat_to_dec :: "nat \<Rightarrow> string" where
  "nat_to_dec n = (if n < 10 then [digit_char n] else nat_to_dec (n div 10) @ [digit_char (n mod 10)])"

declare nat_to_dec.simps [simp del]

definition i32_to_string :: "32 word \<Rightarrow> string" where
  "i32_to_string w = (if 0 \<le> sint w then nat_to_dec (nat (sint w))
                      else CHR ''-'' # nat_to_dec (nat (- sint w)))"

text \<open>\<open>str::parse::<u128>\<close>, with the checked multiplication and addition of the loop.\<close>

datatype parse_int_error = Empty | InvalidDigit | PosOverflow

definition to_digit :: "char \<Rightarrow> nat option" where
  "to_digit c = (let n = of_char c :: nat in if 48 \<le> n \<and> n < 58 then Some (n - 48) else None)"

definition checked_mul_u128 :: "128 word \<Rightarrow> 128 word \<Rightarrow> 128 word option" where
  "checked_mul_u128 a b = (if unat a * unat b < 2 ^ 128 then Some (a * b) else None)"

definition checked_add_u128 :: "128 word \<Rightarrow> 128 word \<Rightarrow> 128 word option" where
  "checked_add_u128 a b = (if unat a + unat b < 2 ^ 128 then Some (a + b) else None)"

fun parse_u128_digits :: "128 word \<Rightarrow> string \<Rightarrow> parse_int_error + 128 word" where
  "parse_u128_digits acc [] = Inr acc"
| "parse_u128_digits acc (c # cs) =
     res_bind (ok_or (to_digit c) InvalidDigit) (\<lambda>x.
     res_bind (ok_or (checked_mul_u128 acc 10) PosOverflow) (\<lambda>m.
     res_bind (ok_or (checked_add_u128 m (word_of_nat x)) PosOverflow) (\<lambda>a.
     parse_u128_digits a cs)))"

definition parse_u128 :: "string \<Rightarrow> parse_int_error + 128 word" where
  "parse_u128 s = (case s of
      [] \<Rightarrow> Inl Empty
    | [c] \<Rightarrow> if c = CHR ''+'' \<or> c = CHR ''-'' then Inl InvalidDigit else parse_u128_digits 0 [c]
    | c # cs \<Rightarrow> if c = CHR ''+'' then parse_u128_digits 0 cs else parse_u128_digits 0 s)"

text \<open>Decimal digits, and what the parser does on a string of digits.\<close>

definition dec_value :: "nat \<Rightarrow> nat list \<Rightarrow> nat" where
  "dec_value = foldl (\<lambda>a d. 10 * a + d)"

fun dec_digits :: "nat \<Rightarrow> nat list" where
  "dec_digits n = (if n < 10 then [n] else dec_digits (n div 10) @ [n mod 10])"

declare dec_digits.simps [simp del]

lemma nat_to_dec_digits: "nat_to_dec n = map digit_char (dec_digits n)"
proof (induction n rule: nat_to_dec.induct)
  case (1 n)
  then show ?case by (cases "n < 10") (simp_all add: nat_to_dec.simps [of n] dec_digits.simps [of n])
qed

lemma dec_digits_small: "d \<in> set (dec_digits n) \<Longrightarrow> d < 10"
proof (induction n rule: dec_digits.induct)
  case (1 n)
  then show ?case by (cases "n < 10") (auto simp: dec_digits.simps [of n])
qed

lemma dec_digits_not_Nil [simp]: "dec_digits n \<noteq> []"
  by (subst dec_digits.simps) simp

lemma dec_value_append: "dec_value a (xs @ ys) = dec_value (dec_value a xs) ys"
  by (simp add: dec_value_def)

lemma dec_value_digits: "dec_value 0 (dec_digits n) = n"
proof (induction n rule: dec_digits.induct)
  case (1 n)
  show ?case
  proof (cases "n < 10")
    case True
    then show ?thesis by (simp add: dec_digits.simps [of n] dec_value_def)
  next
    case False
    with "1.IH" show ?thesis
      by (simp add: dec_digits.simps [of n] dec_value_append) (simp add: dec_value_def)
  qed
qed

lemma dec_value_mono: "a \<le> dec_value a ds"
proof (induction ds arbitrary: a)
  case Nil
  then show ?case by (simp add: dec_value_def)
next
  case (Cons d ds)
  have "a \<le> 10 * a + d" by simp
  also have "\<dots> \<le> dec_value (10 * a + d) ds" by (rule Cons.IH)
  finally show ?case by (simp add: dec_value_def)
qed

lemma digit_char_simps [simp]:
  "digit_char 0 = CHR ''0''" "digit_char 1 = CHR ''1''" "digit_char (Suc 0) = CHR ''1''"
  "digit_char (Suc (Suc 0)) = CHR ''2''" "digit_char (Suc (Suc (Suc 0))) = CHR ''3''"
  "digit_char 2 = CHR ''2''" "digit_char 3 = CHR ''3''" "digit_char 4 = CHR ''4''"
  "digit_char 5 = CHR ''5''" "digit_char 6 = CHR ''6''" "digit_char 7 = CHR ''7''"
  "digit_char 8 = CHR ''8''" "digit_char 9 = CHR ''9''"
  by code_simp+

lemma of_char_digit_char: "d < 10 \<Longrightarrow> (of_char (digit_char d) :: nat) = 48 + d"
  by (simp add: digit_char_def)

lemma to_digit_digit_char [simp]: "d < 10 \<Longrightarrow> to_digit (digit_char d) = Some d"
  by (simp add: to_digit_def of_char_digit_char)

lemma digit_char_inj: "a < 10 \<Longrightarrow> b < 10 \<Longrightarrow> digit_char a = digit_char b \<Longrightarrow> a = b"
  by (metis add_left_cancel of_char_digit_char)

lemma digit_char_range: "d < 10 \<Longrightarrow> digit_char d \<notin> {CHR ''+'', CHR ''-'', CHR ''.'', CHR '','', CHR ''='', CHR ''/''}"
  by (auto dest: arg_cong [where f = "of_char :: char \<Rightarrow> nat"] simp: of_char_digit_char)

lemma nat_to_dec_not_Nil [simp]: "nat_to_dec n \<noteq> []"
  by (simp add: nat_to_dec_digits)

lemma nat_to_dec_chars: "c \<in> set (nat_to_dec n) \<Longrightarrow> \<exists>d < 10. c = digit_char d"
  by (auto simp: nat_to_dec_digits dest: dec_digits_small)

lemma nat_to_dec_inj: "nat_to_dec m = nat_to_dec n \<longleftrightarrow> m = n"
proof
  assume eq: "nat_to_dec m = nat_to_dec n"
  have "inj_on digit_char (set (dec_digits m) \<union> set (dec_digits n))"
    by (rule inj_onI) (auto dest: dec_digits_small digit_char_inj)
  with eq have "dec_digits m = dec_digits n"
    by (auto simp: nat_to_dec_digits dest: map_inj_on)
  then show "m = n" by (metis dec_value_digits)
qed simp

lemma unat_checked_step:
  assumes "10 * unat acc + d < 2 ^ 128" and "d < 10"
  shows "unat (acc * 10 + word_of_nat d :: 128 word) = 10 * unat acc + d"
  using assms by (simp add: unat_word_ariths unat_of_nat mult.commute)

lemma parse_u128_digits_step:
  assumes "d < 10"
  shows "parse_u128_digits acc (digit_char d # cs) =
    (if 10 * unat acc + d < 2 ^ 128 then parse_u128_digits (acc * 10 + word_of_nat d) cs
     else Inl PosOverflow)"
  using assms
  by (auto simp: checked_mul_u128_def checked_add_u128_def unat_word_ariths unat_of_nat mult.commute)

lemma parse_u128_digits_value:
  assumes "\<And>d. d \<in> set ds \<Longrightarrow> d < 10"
  shows "parse_u128_digits acc (map digit_char ds) =
    (if dec_value (unat acc) ds < 2 ^ 128 then Inr (word_of_nat (dec_value (unat acc) ds))
     else Inl PosOverflow)"
  using assms
proof (induction ds arbitrary: acc)
  case Nil
  have "unat acc < 2 ^ 128" using unsigned_less [of acc] by simp
  then show ?case by (simp add: dec_value_def)
next
  case (Cons d ds)
  then have d: "d < 10" by simp
  show ?case
  proof (cases "10 * unat acc + d < 2 ^ 128")
    case True
    with Cons d show ?thesis
      by (simp add: parse_u128_digits_step unat_checked_step dec_value_def del: parse_u128_digits.simps)
  next
    case False
    with dec_value_mono [of "10 * unat acc + d" ds]
    have "\<not> dec_value (unat acc) (d # ds) < 2 ^ 128" by (simp add: dec_value_def)
    with False d show ?thesis
      by (simp add: parse_u128_digits_step del: parse_u128_digits.simps)
  qed
qed

lemma parse_u128_nat_to_dec:
  "parse_u128 (nat_to_dec n) = (if n < 2 ^ 128 then Inr (word_of_nat n) else Inl PosOverflow)"
proof -
  obtain c cs where c: "nat_to_dec n = c # cs" by (cases "nat_to_dec n") auto
  then obtain d where "d < 10" "c = digit_char d" using nat_to_dec_chars [of c n] by auto
  then have "c \<noteq> CHR ''+''" "c \<noteq> CHR ''-''" using digit_char_range [of d] by auto
  with c have "parse_u128 (nat_to_dec n) = parse_u128_digits 0 (nat_to_dec n)"
    by (cases cs) (simp_all add: parse_u128_def)
  then show ?thesis
    using parse_u128_digits_value [of "dec_digits n" 0, OF dec_digits_small]
    by (simp add: nat_to_dec_digits dec_value_digits)
qed

end
