(* ===== verification/Names.thy ===== *)
theory Names
  imports Prelude
begin

text \<open>
  Names of the Kubernetes objects of one upgrade (\<^verbatim>\<open>plugin/src/constants.rs\<close> and
  \<^verbatim>\<open>plugin/src/cli_utils/upgrade/k8s/mod.rs\<close>). The argument \<open>tag\<close> stands for the version tag the
  build puts into \<^verbatim>\<open>version_info!()\<close>.
\<close>

definition upgrade_job_image_tag :: string where
  "upgrade_job_image_tag = ''develop''"

definition upgrade_config_map_mount_path :: string where
  "upgrade_config_map_mount_path = ''/upgrade-config-map''"

definition get_destination_version_tag :: "string option \<Rightarrow> string" where
  "get_destination_version_tag tag = unwrap_or tag upgrade_job_image_tag"

definition upgrade_obj_suffix :: "string option \<Rightarrow> string" where
  "upgrade_obj_suffix tag = replace_char CHR ''.'' CHR ''-'' (get_destination_version_tag tag)"

definition upgrade_name_concat :: "string option \<Rightarrow> string \<Rightarrow> string \<Rightarrow> string" where
  "upgrade_name_concat tag release_name component_name =
     release_name @ ''-'' @ component_name @ ''-'' @ upgrade_obj_suffix tag"

text \<open>The selector of the events of the upgrade job.\<close>

definition upgrade_events_field_selector :: "string option \<Rightarrow> string \<Rightarrow> string" where
  "upgrade_events_field_selector tag release_name =
     ''regarding.kind=Job,regarding.name='' @ upgrade_name_concat tag release_name ''upgrade''"

lemma upgrade_obj_suffix_no_dot: "CHR ''.'' \<notin> set (upgrade_obj_suffix tag)"
  by (simp add: upgrade_obj_suffix_def replace_char_absent)

lemma upgrade_name_concat_inj [simp]:
  "upgrade_name_concat tag r c = upgrade_name_concat tag r c' \<longleftrightarrow> c = c'"
  by (simp add: upgrade_name_concat_def)

end
