(* ===== verification/SetFile.thy ===== *)
theory SetFile
  imports Names
begin

text \<open>
  The \<^verbatim>\<open>--set-file\<close> arguments of an upgrade (\<^verbatim>\<open>upgrade/k8s/resources.rs\<close>): the contents of the
  files go into a ConfigMap under the keys 1, 2, ..., and the arguments are rewritten to point
  into the directory where the upgrade job mounts that ConfigMap. \<open>read\<close> is the file system
  (\<^verbatim>\<open>fs::read_to_string\<close>).
\<close>

datatype set_file_error =
    InvalidSetFileArgument
  | ReadFailed string
  | KeyNotPresent
  | ParseSetFileArgument

fun config_map_loop ::
  "(string \<Rightarrow> string + string) \<Rightarrow> nat \<Rightarrow> string list \<Rightarrow> (string \<rightharpoonup> string) \<Rightarrow> (string \<rightharpoonup> string) \<Rightarrow>
     set_file_error + (string \<rightharpoonup> string) \<times> (string \<rightharpoonup> string)" where
  "config_map_loop read i [] data_map upgrade_map = Inr (data_map, upgrade_map)"
| "config_map_loop read i (sf # sfs) data_map upgrade_map =
     (let index = i + 1 in
      case split_on CHR ''='' sf of
        [key, filepath] \<Rightarrow>
          res_bind (map_err ReadFailed (read filepath)) (\<lambda>cm_values.
            config_map_loop read (Suc i) sfs
              (data_map(nat_to_dec index \<mapsto> cm_values))
              (upgrade_map(filepath \<mapsto> nat_to_dec index)))
      | _ \<Rightarrow> Inl InvalidSetFileArgument)"

definition config_map_data ::
  "(string \<Rightarrow> string + string) \<Rightarrow> string list \<Rightarrow>
     set_file_error + (string \<rightharpoonup> string) \<times> (string \<rightharpoonup> string)" where
  "config_map_data read set_file_arg = config_map_loop read 0 set_file_arg Map.empty Map.empty"

definition map_set_file :: "(string \<rightharpoonup> string) option \<Rightarrow> string \<Rightarrow> set_file_error + string" where
  "map_set_file set_file_map sf =
     (case split_on CHR ''='' sf of
        [key, filepath] \<Rightarrow>
          res_bind (ok_or (Option.bind set_file_map (\<lambda>m. m filepath)) KeyNotPresent) (\<lambda>mapped_file.
            Inr (key @ ''='' @ upgrade_config_map_mount_path @ ''/'' @ mapped_file))
      | _ \<Rightarrow> Inl ParseSetFileArgument)"

definition job_set_file_args ::
  "string list \<Rightarrow> (string \<rightharpoonup> string) option \<Rightarrow> set_file_error + string option" where
  "job_set_file_args set_file_arg set_file_map =
     (if set_file_arg = [] then Inr None
      else res_bind (traverse (map_set_file set_file_map) set_file_arg) (\<lambda>helm_args_set_file.
        Inr (Some (join_with '','' helm_args_set_file))))"

text \<open>What \<^verbatim>\<open>create_upgrade_resources\<close> does with both (\<^verbatim>\<open>upgrade/mod.rs\<close>).\<close>

definition set_file_resources ::
  "(string \<Rightarrow> string + string) \<Rightarrow> string list \<Rightarrow> set_file_error + (string \<rightharpoonup> string) \<times> string" where
  "set_file_resources read args =
     res_bind (config_map_data read args) (\<lambda>cm_data.
     res_bind (job_set_file_args args (Some (snd cm_data))) (\<lambda>set_file.
     Inr (fst cm_data, unwrap_or set_file [])))"

section \<open>The loop\<close>

text \<open>A well-formed argument: exactly one equals sign, and a file that can be read.\<close>

definition set_file_arg_ok :: "(string \<Rightarrow> string + string) \<Rightarrow> string \<Rightarrow> bool" where
  "set_file_arg_ok read sf = (case split_on CHR ''='' sf of [k, p] \<Rightarrow> is_ok (read p) | _ \<Rightarrow> False)"

lemma set_file_arg_okE:
  assumes "set_file_arg_ok read sf"
  obtains k p c where "split_on CHR ''='' sf = [k, p]" and "read p = Inr c" and "sf = k @ ''='' @ p"
proof -
  from assms obtain k p where kp: "split_on CHR ''='' sf = [k, p]" and "is_ok (read p)"
    by (auto simp: set_file_arg_ok_def split: list.splits)
  moreover have "sf = k @ ''='' @ p" using join_split_on [of "CHR ''=''" sf] kp by simp
  ultimately show thesis using that by (auto simp: is_ok_iff)
qed

lemma config_map_loop_step:
  assumes "split_on CHR ''='' sf = [k, p]" and "read p = Inr c"
  shows "config_map_loop read i (sf # sfs) dm um =
    config_map_loop read (Suc i) sfs (dm(nat_to_dec (Suc i) \<mapsto> c)) (um(p \<mapsto> nat_to_dec (Suc i)))"
  using assms by simp

lemma config_map_loop_ok_iff:
  "is_ok (config_map_loop read i sfs dm um) \<longleftrightarrow> list_all (set_file_arg_ok read) sfs"
proof (induction sfs arbitrary: i dm um)
  case Nil
  then show ?case by simp
next
  case (Cons sf sfs)
  show ?case
  proof (cases "set_file_arg_ok read sf")
    case True
    then obtain k p c where "split_on CHR ''='' sf = [k, p]" "read p = Inr c"
      by (rule set_file_arg_okE)
    with True show ?thesis by (simp add: config_map_loop_step Cons.IH del: config_map_loop.simps)
  next
    case False
    then show ?thesis
      by (auto simp: set_file_arg_ok_def Let_def split: list.splits sum.splits)
        (auto simp: is_ok_iff)
  qed
qed

text \<open>
  What the maps say of the files: an index stored for a path leads to that path's contents, and
  indices are never reused.
\<close>

definition maps_agree ::
  "(string \<Rightarrow> string + string) \<Rightarrow> nat \<Rightarrow> (string \<rightharpoonup> string) \<Rightarrow> (string \<rightharpoonup> string) \<Rightarrow> bool" where
  "maps_agree read i dm um \<longleftrightarrow>
     (\<forall>p idx. um p = Some idx \<longrightarrow> (\<exists>c. dm idx = Some c \<and> read p = Inr c)) \<and>
     (\<forall>idx \<in> dom dm. \<exists>j. 0 < j \<and> j \<le> i \<and> idx = nat_to_dec j)"

lemma maps_agree_step:
  assumes "maps_agree read i dm um" and "read p = Inr c"
  shows "maps_agree read (Suc i) (dm(nat_to_dec (Suc i) \<mapsto> c)) (um(p \<mapsto> nat_to_dec (Suc i)))"
proof -
  have fresh: "nat_to_dec (Suc i) \<notin> dom dm"
    using assms(1) unfolding maps_agree_def by (metis not_less_eq_eq nat_to_dec_inj order_refl)
  have lookup: "\<exists>c'. (dm(nat_to_dec (Suc i) \<mapsto> c)) idx = Some c' \<and> read q = Inr c'"
    if "(um(p \<mapsto> nat_to_dec (Suc i))) q = Some idx" for q idx
  proof (cases "q = p")
    case True
    with that assms(2) show ?thesis by simp
  next
    case False
    with that have "um q = Some idx" by simp
    with assms(1) obtain c' where c': "dm idx = Some c'" "read q = Inr c'"
      unfolding maps_agree_def by blast
    with fresh have "idx \<noteq> nat_to_dec (Suc i)" by auto
    with c' show ?thesis by simp
  qed
  have "\<exists>j. 0 < j \<and> j \<le> Suc i \<and> idx = nat_to_dec j" if "idx \<in> dom (dm(nat_to_dec (Suc i) \<mapsto> c))" for idx
    using that assms(1) unfolding maps_agree_def
    by (metis dom_fun_upd insertE le_Suc_eq option.discI zero_less_Suc)
  with lookup show ?thesis unfolding maps_agree_def by blast
qed

definition path_of :: "string \<Rightarrow> string" where
  "path_of sf = (case split_on CHR ''='' sf of [k, p] \<Rightarrow> p | _ \<Rightarrow> [])"

lemma config_map_loop_agree:
  assumes "config_map_loop read i sfs dm um = Inr (data, umap)" and "maps_agree read i dm um"
  shows "maps_agree read (i + length sfs) data umap \<and> dom umap = dom um \<union> path_of ` set sfs"
  using assms
proof (induction sfs arbitrary: i dm um)
  case Nil
  then show ?case by simp
next
  case (Cons sf sfs)
  have "is_ok (config_map_loop read i (sf # sfs) dm um)" using Cons.prems(1) by simp
  then have "set_file_arg_ok read sf" by (simp add: config_map_loop_ok_iff del: config_map_loop.simps)
  then obtain k p c where kp: "split_on CHR ''='' sf = [k, p]" and c: "read p = Inr c"
    by (rule set_file_arg_okE)
  from Cons.prems(1) have loop: "config_map_loop read (Suc i) sfs (dm(nat_to_dec (Suc i) \<mapsto> c))
      (um(p \<mapsto> nat_to_dec (Suc i))) = Inr (data, umap)"
    by (simp only: config_map_loop_step [where read = read, OF kp c])
  have "path_of sf = p" using kp by (simp add: path_of_def)
  moreover have "dom (um(p \<mapsto> nat_to_dec (Suc i))) = insert p (dom um)" by simp
  moreover note Cons.IH [OF loop maps_agree_step [OF Cons.prems(2) c]]
  ultimately show ?case by (simp only: list.set image_insert length_Cons add_Suc_right add_Suc) blast
qed

lemma map_set_file_ok:
  assumes "set_file_arg_ok read sf" and agree: "maps_agree read n data umap"
    and "path_of sf \<in> dom umap"
  shows "\<exists>k p idx c. sf = k @ ''='' @ p \<and> read p = Inr c \<and> data idx = Some c \<and>
    map_set_file (Some umap) sf = Inr (k @ ''='' @ upgrade_config_map_mount_path @ ''/'' @ idx)"
proof -
  obtain k p c where kp: "split_on CHR ''='' sf = [k, p]" and c: "read p = Inr c"
    and sf: "sf = k @ ''='' @ p" using assms(1) by (rule set_file_arg_okE)
  then have "path_of sf = p" by (simp add: path_of_def)
  with assms(3) obtain idx where idx: "umap p = Some idx" by auto
  with agree obtain c' where "data idx = Some c'" "read p = Inr c'"
    unfolding maps_agree_def by blast
  with c idx have "data idx = Some c" by simp
  moreover have "map_set_file (Some umap) sf =
      Inr (k @ ''='' @ upgrade_config_map_mount_path @ ''/'' @ idx)"
    using kp idx by (simp add: map_set_file_def)
  ultimately show ?thesis using sf c by blast
qed

lemma traverse_pointwise:
  "(\<And>x. x \<in> set xs \<Longrightarrow> \<exists>y. f x = Inr y \<and> Q x y) \<Longrightarrow>
    \<exists>ys. traverse f xs = Inr ys \<and> list_all2 Q xs ys"
proof (induction xs)
  case Nil
  then show ?case by simp
next
  case (Cons x xs)
  then obtain y ys where "f x = Inr y" "Q x y" "traverse f xs = Inr ys" "list_all2 Q xs ys"
    by (metis list.set_intros(1) list.set_intros(2))
  then show ?case by simp
qed

section \<open>Properties\<close>

definition points_to_contents ::
  "(string \<Rightarrow> string + string) \<Rightarrow> (string \<rightharpoonup> string) \<Rightarrow> string \<Rightarrow> string \<Rightarrow> bool" where
  "points_to_contents read data arg piece \<longleftrightarrow>
     (\<exists>k p idx c. arg = k @ ''='' @ p \<and> read p = Inr c \<and> data idx = Some c \<and>
        piece = k @ ''='' @ upgrade_config_map_mount_path @ ''/'' @ idx)"

text \<open>C1: the round trip of the set-file arguments. When the files of the arguments could be read,
  preparing the arguments of the job cannot fail any more, and every rewritten argument keeps its
  key and points to a ConfigMap entry that holds exactly the contents of the file the original
  argument named, also when a file is named twice.\<close>

theorem set_file_roundtrip:
  assumes "config_map_data read args = Inr (data, umap)"
  shows "\<exists>pieces. list_all2 (points_to_contents read data) args pieces \<and>
    job_set_file_args args (Some umap) =
      Inr (if args = [] then None else Some (join_with '','' pieces))"
proof -
  have "maps_agree read 0 Map.empty Map.empty" by (simp add: maps_agree_def)
  from config_map_loop_agree [OF assms [unfolded config_map_data_def] this]
  have agree: "maps_agree read (length args) data umap"
    and dom: "dom umap = path_of ` set args"
    by auto
  have "is_ok (config_map_data read args)" using assms by simp
  then have ok: "set_file_arg_ok read a" if "a \<in> set args" for a
    using that by (simp add: config_map_data_def config_map_loop_ok_iff list_all_iff)
  have "\<exists>y. map_set_file (Some umap) a = Inr y \<and> points_to_contents read data a y" if "a \<in> set args" for a
    using map_set_file_ok [OF ok [OF that] agree] dom that unfolding points_to_contents_def by blast
  then obtain ys where "traverse (map_set_file (Some umap)) args = Inr ys"
    "list_all2 (points_to_contents read data) args ys"
    using traverse_pointwise [of args "map_set_file (Some umap)"] by blast
  then show ?thesis by (auto simp: job_set_file_args_def)
qed

theorem set_file_roundtrip_witness:
  "\<exists>pieces. list_all2 (points_to_contents (\<lambda>p. Inr (''of '' @ p))
        [''1'' \<mapsto> ''of /a'', ''2'' \<mapsto> ''of /b'', ''3'' \<mapsto> ''of /a''])
      [''x=/a'', ''y=/b'', ''z=/a''] pieces \<and>
    job_set_file_args [''x=/a'', ''y=/b'', ''z=/a''] (Some [''/a'' \<mapsto> ''1'', ''/b'' \<mapsto> ''2'', ''/a'' \<mapsto> ''3'']) =
      Inr (Some (join_with '','' pieces))"
proof -
  have "config_map_data (\<lambda>p. Inr (''of '' @ p)) [''x=/a'', ''y=/b'', ''z=/a''] =
      Inr ([''1'' \<mapsto> ''of /a'', ''2'' \<mapsto> ''of /b'', ''3'' \<mapsto> ''of /a''],
           [''/a'' \<mapsto> ''1'', ''/b'' \<mapsto> ''2'', ''/a'' \<mapsto> ''3''])"
    by (simp add: config_map_data_def nat_to_dec.simps eval_nat_numeral)
  from set_file_roundtrip [OF this] show ?thesis by simp
qed

text \<open>C2: exactly which set-file arguments an upgrade accepts: every argument must contain one equals
  sign and name a readable file. In particular the comma separated form
  \<^verbatim>\<open>key1=path1,key2=path2\<close> that the help text of the option offers is rejected.\<close>

theorem set_file_accepted_iff:
  "is_ok (config_map_data read args) \<longleftrightarrow>
    (\<forall>a \<in> set args. \<exists>k p. a = k @ ''='' @ p \<and> CHR ''='' \<notin> set k \<and> CHR ''='' \<notin> set p \<and> is_ok (read p))"
proof -
  have "set_file_arg_ok read a \<longleftrightarrow>
      (\<exists>k p. a = k @ ''='' @ p \<and> CHR ''='' \<notin> set k \<and> CHR ''='' \<notin> set p \<and> is_ok (read p))" for a
  proof
    assume ok: "set_file_arg_ok read a"
    then obtain k p c where kp: "split_on CHR ''='' a = [k, p]" "read p = Inr c" "a = k @ ''='' @ p"
      by (rule set_file_arg_okE)
    then have "CHR ''='' \<notin> set k" "CHR ''='' \<notin> set p"
      using split_on_no_sep [of _ "CHR ''=''" a] by auto
    moreover have "is_ok (read p)" using kp(2) by simp
    ultimately show "\<exists>k p. a = k @ ''='' @ p \<and> CHR ''='' \<notin> set k \<and> CHR ''='' \<notin> set p \<and> is_ok (read p)"
      using kp(3) by blast
  next
    assume "\<exists>k p. a = k @ ''='' @ p \<and> CHR ''='' \<notin> set k \<and> CHR ''='' \<notin> set p \<and> is_ok (read p)"
    then obtain k p where "a = k @ CHR ''='' # p" "CHR ''='' \<notin> set k" "CHR ''='' \<notin> set p" "is_ok (read p)"
      by auto
    then show "set_file_arg_ok read a"
      by (simp add: set_file_arg_ok_def split_on_append split_on_free)
  qed
  then show ?thesis by (simp add: config_map_data_def config_map_loop_ok_iff list_all_iff)
qed

theorem set_file_accepted_iff_witness:
  "\<not> is_ok (config_map_data (\<lambda>p. Inr p) [''a=x'', ''k1=p1,k2=p2''])"
proof
  assume "is_ok (config_map_data (\<lambda>p. Inr p :: string + string) [''a=x'', ''k1=p1,k2=p2''])"
  then obtain k p where kp: "''k1=p1,k2=p2'' = k @ CHR ''='' # p" "CHR ''='' \<notin> set k" "CHR ''='' \<notin> set p"
    unfolding set_file_accepted_iff by auto
  from split_on_append [OF kp(2), of p] kp(1) split_on_free [OF kp(3)]
  have "split_on CHR ''='' ''k1=p1,k2=p2'' = [k, p]" by metis
  then show False by simp
qed

end
