(* ===== verification/Kube.thy ===== *)
theory Kube
  imports Prelude
begin

text \<open>
  What the sources use of the Kubernetes client: object metadata, API errors, list requests in
  pages, and the loop that follows the \<open>continue\<close> token from page to page. The same loop stands in
  \<^verbatim>\<open>lvm/node/mod.rs\<close>, \<^verbatim>\<open>lvm/volume/mod.rs\<close>, \<^verbatim>\<open>zfs/node/mod.rs\<close>, \<^verbatim>\<open>zfs/volume/mod.rs\<close> and
  \<^verbatim>\<open>hostpath/volume/mod.rs\<close>. It has no bound of its own, so it is a partial function: \<open>None\<close> is
  a run that never returns. The locale \<open>paginated_api\<close> states what a server promises about its
  pages; under it the loop returns, with every object once and in order.
\<close>

section \<open>Effects that may not return\<close>

type_synonym ('c, 'e, 'a) pio = "'c list \<Rightarrow> (('e + 'a) \<times> 'c list) option"

definition pio_of :: "('c, 'e, 'a) io \<Rightarrow> ('c, 'e, 'a) pio" where
  "pio_of m = (\<lambda>h. Some (m h))"

text \<open>A computation that makes no recorded call but may run forever.\<close>

definition pio_opt :: "('e + 'a) option \<Rightarrow> ('c, 'e, 'a) pio" where
  "pio_opt m = (\<lambda>h. map_option (\<lambda>r. (r, h)) m)"

definition pio_bind :: "('c, 'e, 'a) pio \<Rightarrow> ('a \<Rightarrow> ('c, 'e, 'b) pio) \<Rightarrow> ('c, 'e, 'b) pio" where
  "pio_bind m f = (\<lambda>h. case m h of None \<Rightarrow> None
     | Some (Inl e, h') \<Rightarrow> Some (Inl e, h')
     | Some (Inr x, h') \<Rightarrow> f x h')"

definition pio_map_err :: "('e \<Rightarrow> 'f) \<Rightarrow> ('c, 'e, 'a) pio \<Rightarrow> ('c, 'f, 'a) pio" where
  "pio_map_err g m = (\<lambda>h. case m h of None \<Rightarrow> None | Some (r, h') \<Rightarrow> Some (map_err g r, h'))"

definition pio_when :: "bool \<Rightarrow> ('c, 'e, unit) pio \<Rightarrow> ('c, 'e, unit) pio" where
  "pio_when b m = (if b then m else pio_of (io_ok ()))"

lemma pio_apply [io_simps]:
  "pio_of m h = Some (m h)"
  "pio_opt r h = map_option (\<lambda>r. (r, h)) r"
  "pio_bind n f h = (case n h of None \<Rightarrow> None
     | Some (Inl e, h') \<Rightarrow> Some (Inl e, h')
     | Some (Inr x, h') \<Rightarrow> f x h')"
  "pio_map_err g n h = (case n h of None \<Rightarrow> None | Some (r', h') \<Rightarrow> Some (map_err g r', h'))"
  "pio_when b p h = (if b then p h else Some (Inr (), h))"
  by (simp_all add: pio_of_def pio_opt_def pio_bind_def pio_map_err_def pio_when_def io_ok_def)

lemma pio_bind_Inr_iff:
  "pio_bind m f h = Some (Inr y, h') \<longleftrightarrow>
     (\<exists>x h1. m h = Some (Inr x, h1) \<and> f x h1 = Some (Inr y, h'))"
  by (auto simp: pio_bind_def split: option.splits sum.splits prod.splits)

lemma pio_bind_cases:
  assumes "pio_bind m f h = Some (r, h')"
  obtains (fails) e where "m h = Some (Inl e, h')" and "r = Inl e"
  | (continues) x h1 where "m h = Some (Inr x, h1)" and "f x h1 = Some (r, h')"
  using assms by (auto simp: pio_bind_def split: option.splits sum.splits prod.splits)

text \<open>The partial counterpart of \<^const>\<open>emits\<close>.\<close>

definition pemits :: "('c \<Rightarrow> bool) \<Rightarrow> ('c, 'e, 'a) pio \<Rightarrow> bool" where
  "pemits P m \<longleftrightarrow> (\<forall>h r h'. m h = Some (r, h') \<longrightarrow> (\<exists>t. h' = h @ t \<and> list_all P t))"

lemma pemitsI: "(\<And>h r h'. m h = Some (r, h') \<Longrightarrow> \<exists>t. h' = h @ t \<and> list_all P t) \<Longrightarrow> pemits P m"
  by (auto simp: pemits_def)

lemma pemitsD: "pemits P m \<Longrightarrow> m h = Some (r, h') \<Longrightarrow> \<exists>t. h' = h @ t \<and> list_all P t"
  by (auto simp: pemits_def)

lemma pemits_of [emits_intros]: "emits P m \<Longrightarrow> pemits P (pio_of m)"
  unfolding pemits_def pio_of_def by (auto dest: emitsD)

lemma pemits_opt [emits_intros]: "pemits P (pio_opt m)"
  by (auto simp: pemits_def pio_opt_def)

lemma pemits_bind [emits_intros]:
  assumes "pemits P m" and "\<And>x. pemits P (f x)"
  shows "pemits P (pio_bind m f)"
proof (rule pemitsI)
  fix h r h'
  assume "pio_bind m f h = Some (r, h')"
  then show "\<exists>t. h' = h @ t \<and> list_all P t"
  proof (cases rule: pio_bind_cases)
    case (fails e)
    then show ?thesis using pemitsD [OF assms(1)] by blast
  next
    case (continues x h1)
    obtain t where t: "h1 = h @ t" "list_all P t" using pemitsD [OF assms(1) continues(1)] by blast
    obtain t' where "h' = h1 @ t'" "list_all P t'" using pemitsD [OF assms(2) continues(2)] by blast
    with t show ?thesis by simp
  qed
qed

lemma pemits_map_err [emits_intros]: "pemits P m \<Longrightarrow> pemits P (pio_map_err g m)"
  unfolding pemits_def pio_map_err_def by (auto split: option.splits prod.splits)

lemma pemits_when [emits_intros]: "(b \<Longrightarrow> pemits P m) \<Longrightarrow> pemits P (pio_when b m)"
  by (simp add: pio_when_def pemits_of emits_ok)

lemma pemits_if [emits_intros]:
  "(b \<Longrightarrow> pemits P m) \<Longrightarrow> (\<not> b \<Longrightarrow> pemits P n) \<Longrightarrow> pemits P (if b then m else n)"
  by simp

text \<open>\<open>returns m\<close>: a run of \<open>m\<close> ends, whatever happened before. \<open>passes m x\<close>: it ends with \<open>x\<close>.\<close>

definition returns :: "('c, 'e, 'a) pio \<Rightarrow> bool" where
  "returns m \<longleftrightarrow> (\<forall>h. m h \<noteq> None)"

definition passes :: "('c, 'e, 'a) pio \<Rightarrow> 'a \<Rightarrow> bool" where
  "passes m x \<longleftrightarrow> (\<forall>h. \<exists>h'. m h = Some (Inr x, h'))"

lemma returnsD: "returns m \<Longrightarrow> \<exists>r h'. m h = Some (r, h')"
  unfolding returns_def by (metis not_None_eq surj_pair)

lemma returns_of [returns_intros]: "returns (pio_of m)"
  by (simp add: returns_def pio_of_def)

lemma returns_bind [returns_intros]:
  "returns m \<Longrightarrow> (\<And>x. returns (f x)) \<Longrightarrow> returns (pio_bind m f)"
  unfolding returns_def pio_bind_def by (auto split: option.splits prod.splits sum.splits)

lemma returns_map_err [returns_intros]: "returns m \<Longrightarrow> returns (pio_map_err g m)"
  unfolding returns_def pio_map_err_def by (auto split: option.splits)

lemma returns_when [returns_intros]: "(b \<Longrightarrow> returns m) \<Longrightarrow> returns (pio_when b m)"
  by (simp add: pio_when_def returns_of)

lemma returns_if [returns_intros]:
  "(b \<Longrightarrow> returns m) \<Longrightarrow> (\<not> b \<Longrightarrow> returns n) \<Longrightarrow> returns (if b then m else n)"
  by simp

lemma passesD: "passes m x \<Longrightarrow> \<exists>h'. m h = Some (Inr x, h')"
  by (simp add: passes_def)

lemma passes_of [passes_intros]: "(\<And>h. \<exists>h'. m h = (Inr x, h')) \<Longrightarrow> passes (pio_of m) x"
  by (simp add: passes_def pio_of_def)

lemma passes_bind [passes_intros]: "passes m x \<Longrightarrow> passes (f x) y \<Longrightarrow> passes (pio_bind m f) y"
  unfolding passes_def pio_bind_def by (metis (no_types, lifting) option.simps(5) old.prod.case sum.simps(6))

lemma passes_then: "passes m u \<Longrightarrow> passes n y \<Longrightarrow> passes (pio_bind m (\<lambda>_. n)) y"
  by (rule passes_bind)

lemma passes_when [passes_intros]: "passes m () \<Longrightarrow> passes (pio_when b m) ()"
  by (simp add: pio_when_def passes_def pio_of_def io_ok_def)

lemma passes_returns: "passes m x \<Longrightarrow> returns m"
  unfolding passes_def returns_def by (metis option.distinct(1))

section \<open>Objects and errors\<close>

text \<open>\<^verbatim>\<open>kube::Error\<close>: an API error carries the reason and the HTTP status code.\<close>

datatype kube_error = KubeApi string nat | KubeOther string

record object_meta =
  om_name :: "string option"
  om_namespace :: "string option"
  om_labels :: "(string \<rightharpoonup> string) option"
  om_uid :: "string option"

section \<open>Lists in pages\<close>

record list_params =
  lp_limit :: nat
  lp_labels :: "string option"
  lp_fields :: "string option"
  lp_continue :: "string option"

definition list_params_default :: list_params where
  "list_params_default = \<lparr>lp_limit = 0, lp_labels = None, lp_fields = None, lp_continue = None\<rparr>"

record 'a page =
  pg_items :: "'a list"
  pg_continue :: "string option"

text \<open>The token that makes the loop go on: present and not empty.\<close>

definition next_token :: "'a page \<Rightarrow> string option" where
  "next_token pg = (case pg_continue pg of
      Some token \<Rightarrow> if token \<noteq> [] then Some token else None
    | None \<Rightarrow> None)"

partial_function (option) list_pages ::
  "(list_params \<Rightarrow> 'e + 'a page) \<Rightarrow> list_params \<Rightarrow> 'a list \<Rightarrow> ('e + 'a list) option" where
  "list_pages fetch lp acc = (case fetch lp of
      Inl e \<Rightarrow> Some (Inl e)
    | Inr pg \<Rightarrow> (case next_token pg of
          Some token \<Rightarrow> list_pages fetch (lp\<lparr>lp_continue := Some token\<rparr>) (acc @ pg_items pg)
        | None \<Rightarrow> Some (Inr (acc @ pg_items pg))))"

lemma list_pages_error: "fetch lp = Inl e \<Longrightarrow> list_pages fetch lp acc = Some (Inl e)"
  by (simp add: list_pages.simps)

lemma list_pages_last:
  "fetch lp = Inr pg \<Longrightarrow> next_token pg = None \<Longrightarrow>
     list_pages fetch lp acc = Some (Inr (acc @ pg_items pg))"
  by (simp add: list_pages.simps)

lemma list_pages_next:
  "fetch lp = Inr pg \<Longrightarrow> next_token pg = Some t \<Longrightarrow>
     list_pages fetch lp acc = list_pages fetch (lp\<lparr>lp_continue := Some t\<rparr>) (acc @ pg_items pg)"
  by (subst list_pages.simps) simp

text \<open>
  A page loop that returns has seen a last page: if every page carries a token, it never
  returns.
\<close>

definition always_more :: "(list_params \<Rightarrow> 'e + 'a page) \<Rightarrow> list_params \<Rightarrow> bool" where
  "always_more fetch lp \<longleftrightarrow>
     (\<forall>c. \<exists>pg t. fetch (lp\<lparr>lp_continue := c\<rparr>) = Inr pg \<and> next_token pg = Some t)"

lemma always_more_continue: "always_more fetch (lp\<lparr>lp_continue := c\<rparr>) = always_more fetch lp"
  by (simp add: always_more_def)

lemma always_moreD:
  assumes "always_more fetch lp"
  obtains pg t where "fetch lp = Inr pg" and "next_token pg = Some t"
  using assms unfolding always_more_def by (metis list_params.surjective list_params.update_convs(4))

lemma list_pages_returns_not_always_more:
  assumes ret: "list_pages fetch lp acc = Some r"
  shows "\<not> always_more fetch lp"
proof (rule list_pages.raw_induct [where P = "\<lambda>fetch lp acc r. \<not> always_more fetch lp", OF _ ret])
  fix f fetch acc r and lp :: list_params
  assume IH: "\<And>fetch lp acc r. f fetch lp acc = Some r \<Longrightarrow> \<not> always_more fetch lp"
    and eq: "(case fetch lp of
      Inl e \<Rightarrow> Some (Inl e)
    | Inr pg \<Rightarrow> (case next_token pg of
          Some token \<Rightarrow> f fetch (lp\<lparr>lp_continue := Some token\<rparr>) (acc @ pg_items pg)
        | None \<Rightarrow> Some (Inr (acc @ pg_items pg)))) = Some r"
  show "\<not> always_more fetch lp"
  proof
    assume more: "always_more fetch lp"
    then obtain pg t where "fetch lp = Inr pg" "next_token pg = Some t" by (rule always_moreD)
    with eq have "f fetch (lp\<lparr>lp_continue := Some t\<rparr>) (acc @ pg_items pg) = Some r" by simp
    from IH [OF this] more show False by (simp add: always_more_continue)
  qed
qed

lemma list_pages_diverges: "always_more fetch lp \<Longrightarrow> list_pages fetch lp acc = None"
  by (cases "list_pages fetch lp acc") (auto dest: list_pages_returns_not_always_more)

section \<open>The contract of a paginated list\<close>

text \<open>
  \<open>rest t\<close> are the objects of the snapshot not yet delivered when the server hands out the token
  \<open>t\<close>. A page is the next piece of it; only a page with objects may promise more.
\<close>

locale paginated_api =
  fixes fetch :: "list_params \<Rightarrow> 'e + 'a page"
    and base :: list_params
    and valid :: "string option \<Rightarrow> bool"
    and rest :: "string option \<Rightarrow> 'a list"
  assumes valid_start: "valid (lp_continue base)"
    and page_last: "valid t \<Longrightarrow> fetch (base\<lparr>lp_continue := t\<rparr>) = Inr pg \<Longrightarrow> next_token pg = None \<Longrightarrow>
          rest t = pg_items pg"
    and page_more: "valid t \<Longrightarrow> fetch (base\<lparr>lp_continue := t\<rparr>) = Inr pg \<Longrightarrow> next_token pg = Some t' \<Longrightarrow>
          valid (Some t') \<and> pg_items pg \<noteq> [] \<and> rest t = pg_items pg @ rest (Some t')"
begin

text \<open>Whatever pages fail, the loop returns: each page it goes past shortens the rest.\<close>

lemma list_pages_from:
  "valid t \<Longrightarrow>
    list_pages fetch (base\<lparr>lp_continue := t\<rparr>) acc = Some (Inr (acc @ rest t)) \<or>
    (\<exists>t' e. valid t' \<and> fetch (base\<lparr>lp_continue := t'\<rparr>) = Inl e \<and>
       list_pages fetch (base\<lparr>lp_continue := t\<rparr>) acc = Some (Inl e))"
proof (induction "length (rest t)" arbitrary: t acc rule: less_induct)
  case less
  show ?case
  proof (cases "fetch (base\<lparr>lp_continue := t\<rparr>)")
    case (Inl e)
    then show ?thesis using less.prems by (auto simp: list_pages_error)
  next
    case (Inr pg)
    show ?thesis
    proof (cases "next_token pg")
      case None
      with less.prems Inr show ?thesis by (simp add: list_pages_last page_last)
    next
      case (Some t')
      from page_more [OF less.prems Inr Some]
      have v: "valid (Some t')" and r: "rest t = pg_items pg @ rest (Some t')" and "pg_items pg \<noteq> []"
        by auto
      then have "length (rest (Some t')) < length (rest t)" by simp
      from less.hyps [OF this v, of "acc @ pg_items pg"] show ?thesis
        using list_pages_next [of fetch, OF Inr Some, of acc] r by auto
    qed
  qed
qed

lemma list_pages_returns: "\<exists>r. list_pages fetch base [] = Some r"
  using list_pages_from [OF valid_start, of "[]"] by auto

lemma list_pages_all:
  assumes "\<And>t. valid t \<Longrightarrow> is_ok (fetch (base\<lparr>lp_continue := t\<rparr>))"
  shows "list_pages fetch base [] = Some (Inr (rest (lp_continue base)))"
proof -
  have "\<not> (\<exists>t' e. valid t' \<and> fetch (base\<lparr>lp_continue := t'\<rparr>) = Inl e)"
    using assms by (metis is_ok_simps(1))
  with list_pages_from [OF valid_start, of "[]"] show ?thesis by auto
qed

lemma list_pages_sound:
  "list_pages fetch base [] = Some (Inr xs) \<Longrightarrow> xs = rest (lp_continue base)"
  using list_pages_from [OF valid_start, of "[]"] by auto

end

section \<open>A snapshot served in pages\<close>

text \<open>
  The API server's side of the contract: a snapshot of objects is served in pages of at most
  \<open>lp_limit\<close> objects, and the opaque token records how many were delivered.
\<close>

definition token_offset :: "string option \<Rightarrow> nat" where
  "token_offset t = (case t of None \<Rightarrow> 0 | Some s \<Rightarrow> length s)"

definition snapshot_server :: "'a list \<Rightarrow> list_params \<Rightarrow> 'e + 'a page" where
  "snapshot_server objs lp =
     (let off = token_offset (lp_continue lp); n = off + lp_limit lp in
      Inr \<lparr>pg_items = take (lp_limit lp) (drop off objs),
           pg_continue = (if n < length objs then Some (replicate n CHR ''x'') else None)\<rparr>)"

lemma snapshot_paginated:
  fixes objs :: "'a list"
  assumes "0 < lp_limit base" and "lp_continue base = None"
  shows "paginated_api (snapshot_server objs) base
    (\<lambda>t. token_offset t \<le> length objs) (\<lambda>t. drop (token_offset t) objs)"
proof
  show "token_offset (lp_continue base) \<le> length objs"
    by (simp add: token_offset_def assms(2))
next
  fix t and pg :: "'a page"
  assume pg: "snapshot_server objs (base\<lparr>lp_continue := t\<rparr>) = Inr pg" and "next_token pg = None"
  then have "length objs \<le> token_offset t + lp_limit base"
    using assms(1) by (auto simp: snapshot_server_def next_token_def Let_def split: if_splits)
  with pg show "drop (token_offset t) objs = pg_items pg"
    by (auto simp: snapshot_server_def Let_def)
next
  fix t t' and pg :: "'a page"
  let ?n = "lp_limit base"
  assume pg: "snapshot_server objs (base\<lparr>lp_continue := t\<rparr>) = Inr pg" and "next_token pg = Some t'"
  then have lt: "token_offset t + ?n < length objs" and t': "token_offset (Some t') = token_offset t + ?n"
    by (auto simp: snapshot_server_def next_token_def Let_def token_offset_def split: if_splits)
  have "drop (token_offset t) objs = take ?n (drop (token_offset t) objs) @ drop (token_offset t + ?n) objs"
    by (metis add.commute append_take_drop_id drop_drop)
  with pg lt t' assms(1) show "token_offset (Some t') \<le> length objs \<and> pg_items pg \<noteq> [] \<and>
      drop (token_offset t) objs = pg_items pg @ drop (token_offset (Some t')) objs"
    by (auto simp: snapshot_server_def Let_def)
qed

definition lp_500 :: list_params where
  "lp_500 = list_params_default\<lparr>lp_limit := 500\<rparr>"

interpretation snapshot: paginated_api "snapshot_server objs" lp_500
  "\<lambda>t. token_offset t \<le> length objs" "\<lambda>t. drop (token_offset t) objs"
  by (rule snapshot_paginated) (simp_all add: lp_500_def list_params_default_def)

end
