(* ===== verification/Resources.thy ===== *)
theory Resources
  imports SetFile Kube
begin

text \<open>
  The Kubernetes objects of one upgrade: service account, cluster role, binding, ConfigMap and Job
  (\<^verbatim>\<open>upgrade/k8s/resources.rs\<close>, \<^verbatim>\<open>upgrade/mod.rs\<close>). The records hold the fields the sources set; the
  remaining fields are the defaults of the Kubernetes types. Values that come from outside the
  repository (the logging label, the build's version tag, the \<^verbatim>\<open>RUST_LOG\<close> variable) are the record
  \<open>plugin_consts\<close>.
\<close>

record plugin_consts =
  pc_version_tag :: "string option"
  pc_loki_logging_key :: string
  pc_rust_log :: "string option"

record service_account =
  sa_metadata :: object_meta

record policy_rule =
  pr_api_groups :: "string list option"
  pr_resources :: "string list option"
  pr_verbs :: "string list"

record cluster_role =
  rl_metadata :: object_meta
  rl_rules :: "policy_rule list option"

record role_ref =
  rr_api_group :: string
  rr_kind :: string
  rr_name :: string

record subject =
  sj_kind :: string
  sj_name :: string
  sj_namespace :: "string option"

record cluster_role_binding =
  rb_metadata :: object_meta
  rb_role_ref :: role_ref
  rb_subjects :: "subject list option"

record config_map =
  cmap_metadata :: object_meta
  cmap_data :: "(string \<rightharpoonup> string) option"
  cmap_immutable :: "bool option"

datatype env_source = EnvValue string | EnvFieldRef string

record env_var =
  ev_name :: string
  ev_value :: env_source

record probe =
  pb_command :: "string list"
  pb_initial_delay_seconds :: nat
  pb_period_seconds :: nat

record volume_mount =
  vm_read_only :: bool
  vm_mount_path :: string
  vm_name :: string

record job_container =
  jc_args :: "string list"
  jc_image :: string
  jc_image_pull_policy :: "string option"
  jc_name :: string
  jc_env :: "env_var list"
  jc_liveness_probe :: probe
  jc_volume_mounts :: "volume_mount list"

record config_map_volume =
  cvol_name :: string
  cvol_config_map :: string

record job_pod_spec =
  jp_image_pull_secrets :: "string list option"
  jp_restart_policy :: string
  jp_containers :: "job_container list"
  jp_service_account_name :: string
  jp_volumes :: "config_map_volume list"

record job =
  job_metadata :: object_meta
  job_backoff_limit :: nat
  job_template_labels :: "string \<rightharpoonup> string"
  job_pod_spec :: job_pod_spec

definition upgrade_labels :: "plugin_consts \<Rightarrow> string \<rightharpoonup> string" where
  "upgrade_labels C = [''app'' \<mapsto> ''upgrade'', pc_loki_logging_key C \<mapsto> ''true'']"

definition upgrade_meta :: "plugin_consts \<Rightarrow> string \<Rightarrow> string option \<Rightarrow> object_meta" where
  "upgrade_meta C name namespace =
     \<lparr>om_name = Some name, om_namespace = namespace, om_labels = Some (upgrade_labels C), om_uid = None\<rparr>"

lemma upgrade_meta_simps [simp]:
  "om_name (upgrade_meta C n ns) = Some n"
  "om_namespace (upgrade_meta C n ns) = ns"
  by (simp_all add: upgrade_meta_def)

definition upgrade_job_service_account :: "plugin_consts \<Rightarrow> string option \<Rightarrow> string \<Rightarrow> service_account" where
  "upgrade_job_service_account C namespace service_account_name =
     \<lparr>sa_metadata = upgrade_meta C service_account_name namespace\<rparr>"

definition policy :: "string \<Rightarrow> string list \<Rightarrow> string list \<Rightarrow> policy_rule" where
  "policy api_group resources verbs =
     \<lparr>pr_api_groups = Some [api_group], pr_resources = Some resources, pr_verbs = verbs\<rparr>"

definition upgrade_job_cluster_role :: "plugin_consts \<Rightarrow> string option \<Rightarrow> string \<Rightarrow> cluster_role" where
  "upgrade_job_cluster_role C namespace cluster_role_name =
     \<lparr>rl_metadata = upgrade_meta C cluster_role_name namespace,
      rl_rules = Some
       [policy ''apiextensions.k8s.io'' [''customresourcedefinitions'']
          [''create'', ''list'', ''delete'', ''get'', ''patch''],
        policy ''apps'' [''controllerrevisions'', ''daemonsets'', ''replicasets'', ''statefulsets'', ''deployments'']
          [''create'', ''delete'', ''deletecollection'', ''get'', ''list'', ''patch''],
        policy '''' [''serviceaccounts'']
          [''create'', ''get'', ''list'', ''delete'', ''patch''],
        policy '''' [''pods'']
          [''create'', ''get'', ''list'', ''delete'', ''patch'', ''deletecollection''],
        policy '''' [''nodes'']
          [''get'', ''list''],
        policy '''' [''namespaces'']
          [''get''],
        policy ''events.k8s.io'' [''events'']
          [''create'', ''patch''],
        policy '''' [''secrets'', ''persistentvolumes'', ''persistentvolumeclaims'', ''services'', ''configmaps'']
          [''get'', ''list'', ''watch'', ''create'', ''delete'', ''deletecollection'', ''patch'', ''update''],
        policy ''rbac.authorization.k8s.io'' [''roles'']
          [''create'', ''list'', ''delete'', ''get'', ''patch'', ''escalate'', ''bind''],
        policy ''monitoring.coreos.com'' [''prometheusrules'', ''podmonitors'']
          [''create'', ''list'', ''delete'', ''get'', ''patch''],
        policy ''networking.k8s.io'' [''networkpolicies'']
          [''create'', ''list'', ''delete'', ''get'', ''patch''],
        policy ''batch'' [''cronjobs'', ''jobs'']
          [''create'', ''list'', ''delete'', ''get'', ''patch'', ''watch''],
        policy ''jaegertracing.io'' [''jaegers'']
          [''create'', ''list'', ''delete'', ''get'', ''patch''],
        policy ''rbac.authorization.k8s.io'' [''rolebindings'']
          [''create'', ''list'', ''delete'', ''get'', ''patch''],
        policy ''rbac.authorization.k8s.io'' [''clusterroles'']
          [''create'', ''list'', ''delete'', ''get'', ''patch'', ''escalate'', ''bind''],
        policy ''rbac.authorization.k8s.io'' [''clusterrolebindings'']
          [''create'', ''list'', ''delete'', ''get'', ''patch''],
        policy ''storage.k8s.io'' [''storageclasses'', ''csidrivers'']
          [''create'', ''list'', ''delete'', ''get'', ''patch''],
        policy ''scheduling.k8s.io'' [''priorityclasses'']
          [''create'', ''list'', ''delete'', ''get'', ''patch''],
        policy ''policy'' [''poddisruptionbudgets'']
          [''create'', ''list'', ''delete'', ''get'', ''patch''],
        policy ''security.openshift.io'' [''securitycontextconstraints'']
          [''create'', ''list'', ''delete'', ''get'', ''patch'']]\<rparr>"

definition upgrade_job_cluster_role_binding ::
  "plugin_consts \<Rightarrow> string option \<Rightarrow> string \<Rightarrow> cluster_role_binding" where
  "upgrade_job_cluster_role_binding C namespace release_name =
     (let version = upgrade_obj_suffix (pc_version_tag C) in
      \<lparr>rb_metadata = upgrade_meta C (release_name @ ''-upgrade-role-binding-'' @ version) namespace,
       rb_role_ref = \<lparr>rr_api_group = ''rbac.authorization.k8s.io'', rr_kind = ''ClusterRole'',
         rr_name = release_name @ ''-upgrade-role-'' @ version\<rparr>,
       rb_subjects = Some [\<lparr>sj_kind = ''ServiceAccount'',
         sj_name = release_name @ ''-upgrade-service-account-'' @ version,
         sj_namespace = namespace\<rparr>]\<rparr>)"

definition upgrade_configmap :: "plugin_consts \<Rightarrow> (string \<rightharpoonup> string) \<Rightarrow> string \<Rightarrow> string \<Rightarrow> config_map" where
  "upgrade_configmap C data namespace release_name =
     \<lparr>cmap_metadata = upgrade_meta C
        (release_name @ ''-upgrade-config-map-'' @ upgrade_obj_suffix (pc_version_tag C)) (Some namespace),
      cmap_data = Some data,
      cmap_immutable = Some True\<rparr>"

section \<open>The upgrade job\<close>

text \<open>The command line of the upgrade (\<^verbatim>\<open>UpgradeCommonArgs\<close>), without the connection context.\<close>

record upgrade_common_args =
  uc_namespace :: string
  uc_release_name :: "string option"
  uc_registry :: "string option"
  uc_repo_namespace :: string
  uc_allow_unstable :: bool
  uc_skip_data_plane_restart :: bool
  uc_skip_single_replica_volume_validation :: bool
  uc_skip_replica_rebuild :: bool
  uc_skip_cordoned_node_validation :: bool
  uc_skip_upgrade_path_validation_for_unsupported_version :: bool
  uc_set :: "string list"
  uc_set_file :: "string list"
  uc_helm_storage_driver :: string

text \<open>What is looked at in the pods of an installation.\<close>

record pod_container =
  ct_name :: string
  ct_image :: "string option"
  ct_image_pull_policy :: "string option"

record pod_spec =
  ps_containers :: "pod_container list"
  ps_image_pull_secrets :: "string list option"

record pod =
  pod_spec_opt :: "pod_spec option"

record image_properties =
  ip_pull_secrets :: "string list option"
  ip_registry :: string
  ip_pull_policy :: "string option"

definition hostpath_localpv_image_name :: "string \<Rightarrow> string" where
  "hostpath_localpv_image_name release_name =
     (if contains_str ''localpv-provisioner'' release_name then ''localpv-provisioner''
      else release_name @ ''-localpv-provisioner'')"

definition openebs_containers :: "string \<Rightarrow> string list" where
  "openebs_containers release_name =
     [''openebs-localpv-provisioner'', ''api-rest'', ''openebs-zfs-plugin'', ''openebs-lvm-plugin'',
      hostpath_localpv_image_name release_name]"

definition image_registry_of :: "string \<Rightarrow> string option" where
  "image_registry_of img =
     (let parts = split_on CHR ''/'' img in if length parts = 3 then Some (parts ! 0) else None)"

definition openebs_pod_selector :: string where
  "openebs_pod_selector =
     ''app in (openebs,api-rest,localpv-provisioner,openebs-zfs-controller,openebs-lvm-controller)''"

datatype image_error = ListPodsFailed string | NoOpenebsContainer "string list" | UnwrapPanic

text \<open>\<open>pods\<close> is the answer to listing the pods with \<open>openebs_pod_selector\<close>.\<close>

definition is_openebs_container :: "string \<Rightarrow> pod_container \<Rightarrow> bool" where
  "is_openebs_container release_name c \<longleftrightarrow> ct_name c \<in> set (openebs_containers release_name)"

definition new_from_helm_release ::
  "string \<Rightarrow> upgrade_common_args \<Rightarrow> string + pod list \<Rightarrow> image_error + image_properties" where
  "new_from_helm_release release_name args pods =
     res_bind (map_err ListPodsFailed pods) (\<lambda>pods.
     res_bind (ok_or
         (find (\<lambda>spec. list_ex (is_openebs_container release_name) (ps_containers spec))
            (List.map_filter pod_spec_opt pods))
         (NoOpenebsContainer (openebs_containers release_name))) (\<lambda>openebs_pod_spec.
     (case find (is_openebs_container release_name) (ps_containers openebs_pod_spec) of
        Some openebs_container \<Rightarrow> Inr
          \<lparr>ip_pull_secrets = ps_image_pull_secrets openebs_pod_spec,
           ip_registry = unwrap_or
             (case uc_registry args of
                Some r \<Rightarrow> Some r
              | None \<Rightarrow> Option.bind (ct_image openebs_container) image_registry_of)
             ''docker.io'',
           ip_pull_policy = ct_image_pull_policy openebs_container\<rparr>
      | None \<Rightarrow> Inl UnwrapPanic)))"

definition job_args :: "upgrade_common_args \<Rightarrow> string \<Rightarrow> string \<Rightarrow> string list" where
  "job_args args release_name set_file =
     [''--namespace='' @ uc_namespace args,
      ''--release-name='' @ release_name,
      ''--helm-args-set='' @ join_with '','' (uc_set args),
      ''--helm-args-set-file='' @ set_file]
     @ (if uc_skip_data_plane_restart args then [''--skip-data-plane-restart''] else [])
     @ (if uc_skip_upgrade_path_validation_for_unsupported_version args
        then [''--skip-upgrade-path-validation''] else [])"

definition upgrade_job ::
  "plugin_consts \<Rightarrow> upgrade_common_args \<Rightarrow> string \<Rightarrow> string \<Rightarrow> image_properties \<Rightarrow> job" where
  "upgrade_job C args release_name set_file props =
     (let tag = pc_version_tag C; version = upgrade_obj_suffix tag in
      \<lparr>job_metadata = upgrade_meta C (release_name @ ''-upgrade-'' @ version) (Some (uc_namespace args)),
       job_backoff_limit = 6,
       job_template_labels = upgrade_labels C,
       job_pod_spec =
        \<lparr>jp_image_pull_secrets = ip_pull_secrets props,
         jp_restart_policy = ''OnFailure'',
         jp_containers =
          [\<lparr>jc_args = job_args args release_name set_file,
            jc_image = ip_registry props @ ''/'' @ uc_repo_namespace args @ ''/openebs-upgrade-job:'' @
              get_destination_version_tag tag,
            jc_image_pull_policy = ip_pull_policy props,
            jc_name = ''openebs-upgrade-job'',
            jc_env =
             [\<lparr>ev_name = ''RUST_LOG'', ev_value = EnvValue (unwrap_or (pc_rust_log C) ''info'')\<rparr>,
              \<lparr>ev_name = ''POD_NAME'', ev_value = EnvFieldRef ''metadata.name''\<rparr>,
              \<lparr>ev_name = ''HELM_DRIVER'', ev_value = EnvValue (uc_helm_storage_driver args)\<rparr>],
            jc_liveness_probe = \<lparr>pb_command = [''pgrep'', ''upgrade-job''],
              pb_initial_delay_seconds = 10, pb_period_seconds = 60\<rparr>,
            jc_volume_mounts = [\<lparr>vm_read_only = True, vm_mount_path = ''/upgrade-config-map'',
              vm_name = ''upgrade-config-map''\<rparr>]\<rparr>],
         jp_service_account_name = release_name @ ''-upgrade-service-account-'' @ version,
         jp_volumes = [\<lparr>cvol_name = ''upgrade-config-map'',
           cvol_config_map = release_name @ ''-upgrade-config-map-'' @ version\<rparr>]\<rparr>\<rparr>)"

section \<open>Objects and their keys\<close>

datatype k8s_object =
    ObjServiceAccount service_account
  | ObjClusterRoleBinding cluster_role_binding
  | ObjClusterRole cluster_role
  | ObjConfigMap config_map
  | ObjJob job

fun object_metadata :: "k8s_object \<Rightarrow> object_meta" where
  "object_metadata (ObjServiceAccount x) = sa_metadata x"
| "object_metadata (ObjClusterRoleBinding x) = rb_metadata x"
| "object_metadata (ObjClusterRole x) = rl_metadata x"
| "object_metadata (ObjConfigMap x) = cmap_metadata x"
| "object_metadata (ObjJob x) = job_metadata x"

fun object_kind :: "k8s_object \<Rightarrow> string" where
  "object_kind (ObjServiceAccount x) = ''ServiceAccount''"
| "object_kind (ObjClusterRoleBinding x) = ''ClusterRoleBinding''"
| "object_kind (ObjClusterRole x) = ''ClusterRole''"
| "object_kind (ObjConfigMap x) = ''ConfigMap''"
| "object_kind (ObjJob x) = ''Job''"

text \<open>
  Where the server keeps an object: kind, namespace of the client (\<open>None\<close> for \<^verbatim>\<open>Api::all\<close>), name.
\<close>

type_synonym object_key = "string \<times> string option \<times> string"

definition create_target :: "string option \<Rightarrow> k8s_object \<Rightarrow> object_key" where
  "create_target client_ns obj = (object_kind obj, client_ns, unwrap_or (om_name (object_metadata obj)) [])"

section \<open>Properties of the objects\<close>

text \<open>Wiring of the objects: names and references come from two different pieces of code.\<close>

definition wired :: "plugin_consts \<Rightarrow> service_account \<Rightarrow> cluster_role \<Rightarrow> cluster_role_binding \<Rightarrow> config_map \<Rightarrow> job \<Rightarrow> bool" where
  "wired C sa role binding cm jb \<longleftrightarrow>
     om_name (rl_metadata role) = Some (rr_name (rb_role_ref binding)) \<and>
     (case rb_subjects binding of
        Some [s] \<Rightarrow> om_name (sa_metadata sa) = Some (sj_name s) \<and> om_namespace (sa_metadata sa) = sj_namespace s
      | _ \<Rightarrow> False) \<and>
     om_name (sa_metadata sa) = Some (jp_service_account_name (job_pod_spec jb)) \<and>
     om_namespace (job_metadata jb) = om_namespace (sa_metadata sa) \<and>
     (case (jp_volumes (job_pod_spec jb), jp_containers (job_pod_spec jb)) of
        ([v], [c]) \<Rightarrow>
          om_name (cmap_metadata cm) = Some (cvol_config_map v) \<and>
          om_namespace (cmap_metadata cm) = om_namespace (job_metadata jb) \<and>
          (case jc_volume_mounts c of
             [m] \<Rightarrow> vm_name m = cvol_name v \<and> vm_mount_path m = upgrade_config_map_mount_path
           | _ \<Rightarrow> False)
      | _ \<Rightarrow> False)"

text \<open>C6: the five objects of an upgrade fit together. The binding refers to the cluster role and the
  service account that are created, the job runs under that service account in the same namespace,
  its pod mounts the ConfigMap that is created, and it mounts it at the directory into which the
  set-file arguments were rewritten.\<close>

theorem upgrade_objects_wired:
  "wired C
     (upgrade_job_service_account C (Some (uc_namespace args))
        (upgrade_name_concat (pc_version_tag C) rel ''upgrade-service-account''))
     (upgrade_job_cluster_role C (Some (uc_namespace args))
        (upgrade_name_concat (pc_version_tag C) rel ''upgrade-role''))
     (upgrade_job_cluster_role_binding C (Some (uc_namespace args)) rel)
     (upgrade_configmap C data (uc_namespace args) rel)
     (upgrade_job C args rel set_file props)"
  by (simp add: wired_def upgrade_job_service_account_def upgrade_job_cluster_role_def
      upgrade_job_cluster_role_binding_def upgrade_configmap_def upgrade_job_def Let_def
      upgrade_name_concat_def upgrade_config_map_mount_path_def)

text \<open>What a role grants.\<close>

definition rule_allows :: "policy_rule \<Rightarrow> string \<Rightarrow> string \<Rightarrow> string \<Rightarrow> bool" where
  "rule_allows rule api_group resource verb \<longleftrightarrow>
     api_group \<in> set (unwrap_or (pr_api_groups rule) []) \<and>
     resource \<in> set (unwrap_or (pr_resources rule) []) \<and> verb \<in> set (pr_verbs rule)"

definition role_allows :: "cluster_role \<Rightarrow> string \<Rightarrow> string \<Rightarrow> string \<Rightarrow> bool" where
  "role_allows role api_group resource verb \<longleftrightarrow>
     list_ex (\<lambda>rule. rule_allows rule api_group resource verb) (unwrap_or (rl_rules role) [])"

lemma rule_allows_policy [simp]:
  "rule_allows (policy g rs vs) g' r v \<longleftrightarrow> g' = g \<and> r \<in> set rs \<and> v \<in> set vs"
  by (simp add: rule_allows_def policy_def)

text \<open>C7: the role of the upgrade job hands out the privilege to raise privileges only where helm needs
  it: \<^verbatim>\<open>escalate\<close> and \<^verbatim>\<open>bind\<close> on roles and cluster roles and nothing else, no wildcard group,
  resource or verb anywhere, and \<^verbatim>\<open>update\<close> only on the five core resource kinds.\<close>

theorem upgrade_job_cluster_role_privileges:
  "(role_allows (upgrade_job_cluster_role C ns name) g r ''escalate'' \<longleftrightarrow>
      g = ''rbac.authorization.k8s.io'' \<and> (r = ''roles'' \<or> r = ''clusterroles'')) \<and>
   (role_allows (upgrade_job_cluster_role C ns name) g r ''bind'' \<longleftrightarrow>
      g = ''rbac.authorization.k8s.io'' \<and> (r = ''roles'' \<or> r = ''clusterroles'')) \<and>
   (role_allows (upgrade_job_cluster_role C ns name) g r ''update'' \<longleftrightarrow>
      g = [] \<and> (r = ''secrets'' \<or> r = ''persistentvolumes'' \<or> r = ''persistentvolumeclaims'' \<or>
        r = ''services'' \<or> r = ''configmaps'')) \<and>
   \<not> role_allows (upgrade_job_cluster_role C ns name) ''*'' r v \<and>
   \<not> role_allows (upgrade_job_cluster_role C ns name) g ''*'' v \<and>
   \<not> role_allows (upgrade_job_cluster_role C ns name) g r ''*''"
  unfolding role_allows_def upgrade_job_cluster_role_def
  by (intro conjI) auto

lemma find_openebs_container:
  "find (\<lambda>spec. list_ex p (cs spec)) specs = Some spec \<Longrightarrow> \<exists>c. find p (cs spec) = Some c"
  by (metis find_None_iff find_Some_iff list_ex_iff not_Some_eq)

text \<open>C8: the registry of the job image. Deriving the image properties never panics; it fails only when
  the pods cannot be listed or none of their containers is known. Otherwise the registry is the one
  given on the command line, else the first of exactly three parts of a known container's image,
  else docker.io.\<close>

theorem image_registry_precedence:
  "(\<exists>e. new_from_helm_release rel args pods = Inl e \<and> e \<noteq> UnwrapPanic \<and>
      ((\<exists>m. pods = Inl m) \<or>
       (\<exists>ps. pods = Inr ps \<and> \<not> list_ex (\<lambda>p. case pod_spec_opt p of None \<Rightarrow> False
          | Some s \<Rightarrow> list_ex (is_openebs_container rel) (ps_containers s)) ps))) \<or>
   (\<exists>ip ps p s c. new_from_helm_release rel args pods = Inr ip \<and> pods = Inr ps \<and> p \<in> set ps \<and>
      pod_spec_opt p = Some s \<and> c \<in> set (ps_containers s) \<and> is_openebs_container rel c \<and>
      ip_registry ip =
        (case (uc_registry args, Option.bind (ct_image c) image_registry_of) of
           (Some r, _) \<Rightarrow> r
         | (None, Some r) \<Rightarrow> r
         | (None, None) \<Rightarrow> ''docker.io''))"
proof (cases pods)
  case (Inl m)
  then show ?thesis by (simp add: new_from_helm_release_def)
next
  case (Inr ps)
  let ?known = "\<lambda>spec. list_ex (is_openebs_container rel) (ps_containers spec)"
  show ?thesis
  proof (cases "find ?known (List.map_filter pod_spec_opt ps)")
    case None
    then have "\<not> list_ex (\<lambda>p. case pod_spec_opt p of None \<Rightarrow> False | Some s \<Rightarrow> ?known s) ps"
      by (auto simp: find_None_iff list_ex_iff List.map_filter_def split: option.splits)
    with None Inr show ?thesis by (simp add: new_from_helm_release_def)
  next
    case (Some spec)
    from find_openebs_container [where p = "is_openebs_container rel" and cs = ps_containers, OF this]
    obtain c where c: "find (is_openebs_container rel) (ps_containers spec) = Some c" by blast
    from Some have "spec \<in> set (List.map_filter pod_spec_opt ps)"
      by (auto simp: find_Some_iff)
    then obtain p where "p \<in> set ps" "pod_spec_opt p = Some spec"
      by (auto simp: List.map_filter_def)
    moreover from c have "c \<in> set (ps_containers spec)" "is_openebs_container rel c"
      by (auto simp: find_Some_iff)
    moreover define ip where "ip = \<lparr>ip_pull_secrets = ps_image_pull_secrets spec,
        ip_registry = unwrap_or (case uc_registry args of Some r \<Rightarrow> Some r
          | None \<Rightarrow> Option.bind (ct_image c) image_registry_of) ''docker.io'',
        ip_pull_policy = ct_image_pull_policy c\<rparr>"
    then have "new_from_helm_release rel args pods = Inr ip"
      using Some c Inr by (simp add: new_from_helm_release_def)
    moreover have "ip_registry ip = (case (uc_registry args, Option.bind (ct_image c) image_registry_of) of
        (Some r, _) \<Rightarrow> r | (None, Some r) \<Rightarrow> r | (None, None) \<Rightarrow> ''docker.io'')"
      by (simp add: ip_def split: option.splits)
    ultimately show ?thesis using Inr by blast
  qed
qed

end
