(* ===== verification/HelmValues.thy ===== *)
theory HelmValues
  imports Prelude
begin

text \<open>
  The part of a stored helm release that decides whether Mayastor is enabled
  (\<^verbatim>\<open>upgrade/helm_values.rs\<close>). The records are the structs the release is deserialized into;
  deserialization itself is the \<^verbatim>\<open>serde\<close> library's.
\<close>

record helm_config_engine_enabled =
  ce_enabled :: "bool option"

record engine_enabled =
  en_enabled :: bool

record replicated_engines =
  re_mayastor :: engine_enabled

record engines =
  eg_replicated :: replicated_engines

record helm_values =
  hv_mayastor :: "helm_config_engine_enabled option"
  hv_engines :: "engines option"

record 'v helm_chart_metadata =
  cm_version :: 'v

record 'v helm_chart =
  hc_values :: helm_values
  hc_metadata :: "'v helm_chart_metadata"

record helm_config_values_engines_replicated =
  cr_mayastor :: "helm_config_engine_enabled option"

record helm_config_values_engines =
  cg_replicated :: "helm_config_values_engines_replicated option"

record helm_config_values =
  cv_mayastor :: "helm_config_engine_enabled option"
  cv_engines :: "helm_config_values_engines option"

record 'v helm_release =
  hr_chart :: "'v helm_chart"
  hr_config :: "helm_config_values option"

definition mayastor_is_enabled :: "'v helm_release \<Rightarrow> bool" where
  "mayastor_is_enabled self =
     unwrap_or
       (Option.bind (Option.bind (Option.bind (Option.bind (hr_config self)
         cv_engines) cg_replicated) cr_mayastor) ce_enabled)
       (unwrap_or
         (Option.bind (Option.bind (hr_config self) cv_mayastor) ce_enabled)
         (unwrap_or
           (map_option (\<lambda>eng. en_enabled (re_mayastor (eg_replicated eng))) (hv_engines (hc_values (hr_chart self))))
           (unwrap_or
             (Option.bind (hv_mayastor (hc_values (hr_chart self))) ce_enabled)
             False)))"

definition release_version :: "'v helm_release \<Rightarrow> 'v" where
  "release_version self = cm_version (hc_metadata (hr_chart self))"

section \<open>The same settings as keys of a YAML tree\<close>

text \<open>
  The comment of the source names the settings by their keys. \<open>release_tree\<close> is the document a
  release is read from (an absent optional key is left out), \<open>tree_lookup\<close> follows a key path.
\<close>

datatype tree = Leaf bool | Node "(string \<times> tree) list"

fun tree_lookup :: "string list \<Rightarrow> tree \<Rightarrow> bool option" where
  "tree_lookup [] (Leaf b) = Some b"
| "tree_lookup [] (Node kids) = None"
| "tree_lookup (k # ks) (Leaf b) = None"
| "tree_lookup (k # ks) (Node kids) =
     (case map_of kids k of None \<Rightarrow> None | Some t \<Rightarrow> tree_lookup ks t)"

definition optional_key :: "string \<Rightarrow> ('a \<Rightarrow> tree) \<Rightarrow> 'a option \<Rightarrow> (string \<times> tree) list" where
  "optional_key k enc m = (case m of None \<Rightarrow> [] | Some x \<Rightarrow> [(k, enc x)])"

definition config_engine_tree :: "helm_config_engine_enabled \<Rightarrow> tree" where
  "config_engine_tree e = Node (optional_key ''enabled'' Leaf (ce_enabled e))"

definition config_tree :: "helm_config_values \<Rightarrow> tree" where
  "config_tree c = Node (
     optional_key ''mayastor'' config_engine_tree (cv_mayastor c) @
     optional_key ''engines'' (\<lambda>g. Node (
       optional_key ''replicated'' (\<lambda>r. Node (
         optional_key ''mayastor'' config_engine_tree (cr_mayastor r))) (cg_replicated g))) (cv_engines c))"

definition values_tree :: "helm_values \<Rightarrow> tree" where
  "values_tree v = Node (
     optional_key ''mayastor'' config_engine_tree (hv_mayastor v) @
     optional_key ''engines'' (\<lambda>g. Node [(''replicated'', Node [(''mayastor'',
       Node [(''enabled'', Leaf (en_enabled (re_mayastor (eg_replicated g))))])])]) (hv_engines v))"

definition release_tree :: "'v helm_release \<Rightarrow> tree" where
  "release_tree r = Node (
     (''values'', values_tree (hc_values (hr_chart r))) #
     optional_key ''config'' config_tree (hr_config r))"

fun first_set :: "'a option list \<Rightarrow> 'a option" where
  "first_set [] = None"
| "first_set (None # ms) = first_set ms"
| "first_set (Some x # ms) = Some x"

definition mayastor_key_paths :: "string list list" where
  "mayastor_key_paths =
     [[''config'', ''engines'', ''replicated'', ''mayastor'', ''enabled''],
      [''config'', ''mayastor'', ''enabled''],
      [''values'', ''engines'', ''replicated'', ''mayastor'', ''enabled''],
      [''values'', ''mayastor'', ''enabled'']]"

lemma map_of_optional_key:
  "map_of (optional_key k enc m) k' = (if k = k' then map_option enc m else None)"
  by (simp add: optional_key_def split: option.splits)

lemma tree_lookup_map_option:
  "(case map_option enc m of None \<Rightarrow> None | Some t \<Rightarrow> tree_lookup ks t) =
     Option.bind m (\<lambda>x. tree_lookup ks (enc x))"
  by (cases m) auto

lemmas tree_simps = release_tree_def config_tree_def values_tree_def config_engine_tree_def
  map_of_optional_key map_add_def tree_lookup_map_option option.case_distrib

lemma lookup_user_engines:
  "tree_lookup [''config'', ''engines'', ''replicated'', ''mayastor'', ''enabled''] (release_tree r) =
     Option.bind (Option.bind (Option.bind (Option.bind (hr_config r)
       cv_engines) cg_replicated) cr_mayastor) ce_enabled"
  by (auto simp: tree_simps split: Option.bind_splits option.splits)

lemma lookup_user_v3:
  "tree_lookup [''config'', ''mayastor'', ''enabled''] (release_tree r) =
     Option.bind (Option.bind (hr_config r) cv_mayastor) ce_enabled"
  by (auto simp: tree_simps split: Option.bind_splits option.splits)

lemma lookup_chart_engines:
  "tree_lookup [''values'', ''engines'', ''replicated'', ''mayastor'', ''enabled''] (release_tree r) =
     map_option (\<lambda>eng. en_enabled (re_mayastor (eg_replicated eng))) (hv_engines (hc_values (hr_chart r)))"
  by (auto simp: tree_simps split: option.splits)

lemma lookup_chart_v3:
  "tree_lookup [''values'', ''mayastor'', ''enabled''] (release_tree r) =
     Option.bind (hv_mayastor (hc_values (hr_chart r))) ce_enabled"
  by (auto simp: tree_simps split: Option.bind_splits option.splits)

lemmas mayastor_lookups = lookup_user_engines lookup_user_v3 lookup_chart_engines lookup_chart_v3

lemma unwrap_or_first_set: "unwrap_or m (unwrap_or (first_set ms) d) = unwrap_or (first_set (m # ms)) d"
  by (cases m) auto

text \<open>C3: whether Mayastor counts as enabled follows the documented order of the keys: the first of
  the user's \<^verbatim>\<open>engines.replicated.mayastor.enabled\<close>, the user's v3 \<^verbatim>\<open>mayastor.enabled\<close>, the chart's
  default of the one and of the other that is present in the release decides, and a release without
  any of the four keys has Mayastor disabled.\<close>

theorem mayastor_is_enabled_by_key_order:
  "mayastor_is_enabled r =
     unwrap_or (first_set (map (\<lambda>path. tree_lookup path (release_tree r)) mayastor_key_paths)) False"
  by (simp only: mayastor_is_enabled_def mayastor_key_paths_def list.map mayastor_lookups
      unwrap_or_first_set [symmetric] first_set.simps(1) unwrap_or_simps(1))

end
