(* ===== verification/HelmRelease.thy ===== *)
theory HelmRelease
  imports HelmValues Kube
begin

text \<open>
  Reading helm's release storage (\<^verbatim>\<open>upgrade/k8s/mod.rs\<close>, \<^verbatim>\<open>upgrade/helm_values.rs\<close>): which Secret or
  ConfigMap holds the release, unpacking it, and finding the name of the one openebs release of a
  namespace. The cluster lists, Base64, gzip and JSON are the fields of \<open>helm_env\<close>.
\<close>

type_synonym bytes = "8 word list"

datatype helm_error =
    ExternalError string
  | NoHelmObject string string
  | TooManyHelmObjects string string
  | NoDataInHelm string
  | NoReleaseKey string
  | UnsupportedStorageDriver string
  | NoLabels string string string
  | NoNameLabel string string string
  | MissingChart
  | TooManyOpenebsCharts string
  | NoOpenebsChart string
  | NameMissingPanic

text \<open>A Secret (\<open>'d\<close> are bytes) or a ConfigMap (\<open>'d\<close> is a string).\<close>

record 'd stored =
  st_meta :: object_meta
  st_data :: "(string \<rightharpoonup> 'd) option"

record helm_chart_release_chart_metadata =
  rc_name :: string

record helm_chart_release_chart =
  rc_metadata :: helm_chart_release_chart_metadata

record helm_chart_release =
  rc_chart :: "helm_chart_release_chart option"

record 'v helm_env =
  he_list_secrets :: "string \<Rightarrow> string option \<Rightarrow> string option \<Rightarrow> string + bytes stored list"
  he_list_configmaps :: "string \<Rightarrow> string option \<Rightarrow> string option \<Rightarrow> string + string stored list"
  he_base64_decode :: "bytes \<Rightarrow> string + bytes"
  he_gunzip :: "bytes \<Rightarrow> string + bytes"
  he_json_chart_release :: "bytes \<Rightarrow> string + helm_chart_release"
  he_json_helm_release :: "bytes \<Rightarrow> string + 'v helm_release"

definition as_bytes :: "string \<Rightarrow> bytes" where
  "as_bytes = map of_char"

definition extract_data :: "string \<Rightarrow> 'd stored \<Rightarrow> helm_error + 'd" where
  "extract_data driver source =
     res_bind (ok_or (st_data source) (NoDataInHelm driver)) (\<lambda>data.
     ok_or (data ''release'') (NoReleaseKey driver))"

definition decode_decompress_data :: "'v helm_env \<Rightarrow> bytes \<Rightarrow> helm_error + bytes" where
  "decode_decompress_data env data =
     res_bind (map_err ExternalError (he_base64_decode env data)) (\<lambda>data_compressed.
     map_err ExternalError (he_gunzip env data_compressed))"

definition is_secret_driver :: "string \<Rightarrow> bool" where
  "is_secret_driver d \<longleftrightarrow> d = [] \<or> d = ''secret'' \<or> d = ''secrets''"

definition is_configmap_driver :: "string \<Rightarrow> bool" where
  "is_configmap_driver d \<longleftrightarrow> d = ''configmap'' \<or> d = ''configmaps''"

section \<open>The data of a release\<close>

definition the_only :: "string \<Rightarrow> string \<Rightarrow> 'a list \<Rightarrow> helm_error + 'a" where
  "the_only kind release_name objs = (case objs of
      [] \<Rightarrow> Inl (NoHelmObject kind release_name)
    | [x] \<Rightarrow> Inr x
    | _ \<Rightarrow> Inl (TooManyHelmObjects kind release_name))"

definition helm_release_data :: "'v helm_env \<Rightarrow> string \<Rightarrow> string \<Rightarrow> string \<Rightarrow> helm_error + bytes" where
  "helm_release_data env helm_storage_driver release_name namespace =
     (if is_secret_driver helm_storage_driver then
        res_bind (map_err ExternalError (he_list_secrets env namespace
          (Some (''status=deployed,name='' @ release_name)) (Some ''type=helm.sh/release.v1''))) (\<lambda>secrets.
        res_bind (the_only ''secret'' release_name secrets) (\<lambda>secret.
        res_bind (extract_data ''Secret'' secret) (\<lambda>data_buf.
        decode_decompress_data env data_buf)))
      else if is_configmap_driver helm_storage_driver then
        res_bind (map_err ExternalError (he_list_configmaps env namespace
          (Some (''owner=helm,status=deployed,name='' @ release_name)) None)) (\<lambda>cms.
        res_bind (the_only ''configmap'' release_name cms) (\<lambda>cm.
        res_bind (extract_data ''ConfigMap'' cm) (\<lambda>data_buf.
        decode_decompress_data env (as_bytes data_buf))))
      else Inl (UnsupportedStorageDriver helm_storage_driver))"

definition new_from_release_data_buf :: "'v helm_env \<Rightarrow> bytes \<Rightarrow> helm_error + 'v helm_release" where
  "new_from_release_data_buf env data_buf = map_err ExternalError (he_json_helm_release env data_buf)"

definition new_from_cluster :: "'v helm_env \<Rightarrow> string \<Rightarrow> string \<Rightarrow> string \<Rightarrow> helm_error + 'v helm_release" where
  "new_from_cluster env helm_storage_driver release_name namespace =
     res_bind (helm_release_data env helm_storage_driver release_name namespace) (\<lambda>release_data_buf.
     new_from_release_data_buf env release_data_buf)"

section \<open>The name of the openebs release\<close>

text \<open>
  One iteration of the loop: the release name and the chart name of a stored object. The arguments
  of \<^verbatim>\<open>ok_or\<close> are evaluated eagerly, and they call \<^verbatim>\<open>name_unchecked\<close>, so an object without a name
  panics before its labels are looked at.
\<close>

definition stored_release ::
  "'v helm_env \<Rightarrow> string \<Rightarrow> ('d \<Rightarrow> bytes) \<Rightarrow> string \<Rightarrow> 'd stored \<Rightarrow> helm_error + string \<times> string" where
  "stored_release env kind to_bytes namespace obj =
     res_bind (ok_or (om_name (st_meta obj)) NameMissingPanic) (\<lambda>name.
     res_bind (ok_or (om_labels (st_meta obj)) (NoLabels kind name namespace)) (\<lambda>labels.
     res_bind (ok_or (labels ''name'') (NoNameLabel kind name namespace)) (\<lambda>release_name.
     res_bind (extract_data kind obj) (\<lambda>release_data_buf.
     res_bind (decode_decompress_data env (to_bytes release_data_buf)) (\<lambda>decoded_data.
     res_bind (map_err ExternalError (he_json_chart_release env decoded_data)) (\<lambda>release_data.
     res_bind (ok_or (rc_chart release_data) MissingChart) (\<lambda>chart.
     Inr (release_name, rc_name (rc_metadata chart)))))))))"

fun openebs_release_loop ::
  "('o \<Rightarrow> helm_error + string \<times> string) \<Rightarrow> string \<Rightarrow> 'o list \<Rightarrow> string option \<Rightarrow> helm_error + string" where
  "openebs_release_loop release_of namespace [] openebs_chart =
     ok_or openebs_chart (NoOpenebsChart namespace)"
| "openebs_release_loop release_of namespace (obj # objs) openebs_chart =
     res_bind (release_of obj) (\<lambda>(release_name, chart_name).
       if chart_name = ''openebs'' then
         if openebs_chart \<noteq> None then Inl (TooManyOpenebsCharts namespace)
         else openebs_release_loop release_of namespace objs (Some release_name)
       else openebs_release_loop release_of namespace objs openebs_chart)"

definition helm_release_name :: "'v helm_env \<Rightarrow> string \<Rightarrow> string \<Rightarrow> helm_error + string" where
  "helm_release_name env namespace helm_storage_driver =
     (if is_secret_driver helm_storage_driver then
        res_bind (map_err ExternalError (he_list_secrets env namespace
          (Some ''status=deployed'') (Some ''type=helm.sh/release.v1''))) (\<lambda>secrets.
        openebs_release_loop (stored_release env ''Secret'' id namespace) namespace secrets None)
      else if is_configmap_driver helm_storage_driver then
        res_bind (map_err ExternalError (he_list_configmaps env namespace
          (Some ''owner=helm,status=deployed'') None)) (\<lambda>cms.
        openebs_release_loop (stored_release env ''ConfigMap'' as_bytes namespace) namespace cms None)
      else Inl (UnsupportedStorageDriver helm_storage_driver))"

section \<open>What the name search promises\<close>

text \<open>
  Specification: all deployed releases of the namespace with their chart names, read through
  whichever driver is configured.
\<close>

definition deployed_releases ::
  "'v helm_env \<Rightarrow> string \<Rightarrow> string \<Rightarrow> helm_error + (string \<times> string) list" where
  "deployed_releases env namespace driver =
     (if is_secret_driver driver then
        res_bind (map_err ExternalError (he_list_secrets env namespace
          (Some ''status=deployed'') (Some ''type=helm.sh/release.v1'')))
          (traverse (stored_release env ''Secret'' id namespace))
      else if is_configmap_driver driver then
        res_bind (map_err ExternalError (he_list_configmaps env namespace
          (Some ''owner=helm,status=deployed'') None))
          (traverse (stored_release env ''ConfigMap'' as_bytes namespace))
      else Inl (UnsupportedStorageDriver driver))"

definition openebs_names :: "(string \<times> string) list \<Rightarrow> string list" where
  "openebs_names rs = map fst (filter (\<lambda>(_, chart). chart = ''openebs'') rs)"

lemma openebs_names_simps [simp]:
  "openebs_names [] = []"
  "openebs_names ((n, c) # rs) = (if c = ''openebs'' then n # openebs_names rs else openebs_names rs)"
  by (simp_all add: openebs_names_def)

lemma openebs_release_loop_iff:
  "openebs_release_loop f ns objs acc = Inr r \<longleftrightarrow>
     (\<exists>rs. traverse f objs = Inr rs \<and>
       (case acc of None \<Rightarrow> openebs_names rs = [r] | Some r' \<Rightarrow> r' = r \<and> openebs_names rs = []))"
proof (induction objs arbitrary: acc)
  case Nil
  show ?case by (cases acc) (auto simp: openebs_names_def)
next
  case (Cons obj objs)
  show ?case
  proof (cases "f obj")
    case (Inl e)
    then show ?thesis by simp
  next
    case (Inr x)
    obtain name chart where x: "x = (name, chart)" by fastforce
    show ?thesis
    proof (cases "chart = ''openebs''")
      case True
      with Inr x show ?thesis by (cases acc) (auto simp: Cons.IH)
    next
      case False
      with Inr x show ?thesis by (cases acc) (auto simp: Cons.IH)
    qed
  qed
qed

lemma the_only_Inr_iff: "the_only kind rel objs = Inr x \<longleftrightarrow> objs = [x]"
  by (auto simp: the_only_def split: list.splits)

lemma extract_data_Inr_iff:
  "extract_data kind obj = Inr x \<longleftrightarrow> (\<exists>data. st_data obj = Some data \<and> data ''release'' = Some x)"
  by (simp add: extract_data_def)

lemma drivers_disjoint: "is_secret_driver d \<Longrightarrow> \<not> is_configmap_driver d"
  by (auto simp: is_secret_driver_def is_configmap_driver_def)

text \<open>C4: the release name is found exactly when it is unambiguous: \<open>helm_release_name\<close> returns \<open>r\<close> if
  and only if every deployed release of the namespace can be read through the configured storage
  driver and \<open>r\<close> is the name of the only one whose chart is openebs.\<close>

theorem helm_release_name_iff:
  "helm_release_name env ns driver = Inr r \<longleftrightarrow>
     (\<exists>rs. deployed_releases env ns driver = Inr rs \<and> openebs_names rs = [r])"
  by (auto simp: helm_release_name_def deployed_releases_def openebs_release_loop_iff)

text \<open>C5: the data of a release is returned if and only if the driver is one of the five known names,
  the list of the driver's deployed objects for that release has exactly one object, and that
  object's \<^verbatim>\<open>release\<close> entry decodes.\<close>

theorem helm_release_data_iff:
  "helm_release_data env driver rel ns = Inr buf \<longleftrightarrow>
     is_secret_driver driver \<and>
       (\<exists>secret data raw. he_list_secrets env ns (Some (''status=deployed,name='' @ rel))
            (Some ''type=helm.sh/release.v1'') = Inr [secret] \<and> st_data secret = Some data \<and>
          data ''release'' = Some raw \<and> decode_decompress_data env raw = Inr buf) \<or>
     is_configmap_driver driver \<and>
       (\<exists>cm data raw. he_list_configmaps env ns (Some (''owner=helm,status=deployed,name='' @ rel))
            None = Inr [cm] \<and> st_data cm = Some data \<and>
          data ''release'' = Some raw \<and> decode_decompress_data env (as_bytes raw) = Inr buf)"
proof (cases "is_secret_driver driver")
  case True
  then show ?thesis
    by (simp add: helm_release_data_def drivers_disjoint the_only_Inr_iff extract_data_Inr_iff) blast
next
  case False
  then show ?thesis
    by (simp add: helm_release_data_def the_only_Inr_iff extract_data_Inr_iff) blast
qed

end
