(* ===== verification/Tasks.thy ===== *)
theory Tasks
  imports Prelude
begin

text \<open>
  Spawned tasks. \<^verbatim>\<open>tokio::spawn\<close> starts every task at once; \<^verbatim>\<open>try_join!\<close> waits for the handles and
  returns when all have succeeded or as soon as it sees one that failed. The other tasks are not
  cancelled: they run on until the process ends. A task is a tree of calls, each answered by the
  world as it is at that moment, so that the calls of several tasks can interleave in any order
  (\<open>sched_step\<close>). \<open>run_picks\<close> executes the interleaving a scheduler picks; every run of it is a run of
  the step relation.
\<close>

section \<open>Tasks\<close>

datatype ('c, 'e, 'a) task = Finished "'e + 'a" | Act "'c list \<Rightarrow> 'c \<times> ('c, 'e, 'a) task"

definition t_ok :: "'a \<Rightarrow> ('c, 'e, 'a) task" where
  "t_ok x = Finished (Inr x)"

definition t_err :: "'e \<Rightarrow> ('c, 'e, 'a) task" where
  "t_err e = Finished (Inl e)"

primrec t_bind :: "('c, 'e, 'a) task \<Rightarrow> ('a \<Rightarrow> ('c, 'e, 'b) task) \<Rightarrow> ('c, 'e, 'b) task" where
  "t_bind (Finished r) f = (case r of Inl e \<Rightarrow> Finished (Inl e) | Inr x \<Rightarrow> f x)"
| "t_bind (Act a) f = Act (map_prod id (\<lambda>t. t_bind t f) \<circ> a)"

lemma task_induct [case_names Finished Act, induct type: task]:
  assumes "\<And>r. P (Finished r)" and "\<And>a. (\<And>h c t. a h = (c, t) \<Longrightarrow> P t) \<Longrightarrow> P (Act a)"
  shows "P t"
proof (induction t rule: task.induct)
  case (Act a)
  have "P t" if "a h = (c, t)" for h c t
    by (rule Act [of "a h"]) (use that in \<open>simp_all add: rangeI, metis rangeI\<close>)
  then show ?case by (rule assms(2))
qed (rule assms(1))

definition t_call :: "'c \<Rightarrow> ('c list \<Rightarrow> 'e + 'a) \<Rightarrow> ('c, 'e, 'a) task" where
  "t_call c answer = Act (\<lambda>h. (c, Finished (answer h)))"

definition t_emit :: "'c \<Rightarrow> ('c, 'e, unit) task" where
  "t_emit c = t_call c (\<lambda>h. Inr ())"

definition t_res :: "'e + 'a \<Rightarrow> ('c, 'e, 'a) task" where
  "t_res r = Finished r"

text \<open>The task alone, from its first call to its result.\<close>

primrec run_task :: "('c, 'e, 'a) task \<Rightarrow> ('c, 'e, 'a) io" where
  "run_task (Finished r) = (\<lambda>h. (r, h))"
| "run_task (Act a) = (\<lambda>h. case (map_prod id run_task \<circ> a) h of (c, m) \<Rightarrow> m (h @ [c]))"

lemma run_task_Act: "a h = (c, t) \<Longrightarrow> run_task (Act a) h = run_task t (h @ [c])"
  by simp

lemma run_task_simps [simp]:
  "run_task (t_ok x) = io_ok x"
  "run_task (t_err e) = io_err e"
  "run_task (t_res r) = io_res r"
  "run_task (t_call c answer) = io_call c answer"
  "run_task (t_emit c) = io_emit c"
  by (simp_all add: t_ok_def t_err_def t_res_def t_call_def t_emit_def io_defs)

lemma run_task_bind [simp]: "run_task (t_bind t f) = io_bind (run_task t) (\<lambda>x. run_task (f x))"
proof
  fix h
  show "run_task (t_bind t f) h = io_bind (run_task t) (\<lambda>x. run_task (f x)) h"
  proof (induction t arbitrary: h)
    case (Finished r)
    then show ?case by (cases r) (simp_all add: io_bind_def)
  next
    case (Act a)
    obtain c t where a: "a h = (c, t)" by fastforce
    with Act.IH [OF a] show ?case by (simp add: io_bind_def)
  qed
qed

section \<open>Interleaving\<close>

type_synonym ('c, 'e, 'a) pool = "'c list \<times> ('c, 'e, 'a) task list"

inductive sched_step :: "('c, 'e, 'a) pool \<Rightarrow> ('c, 'e, 'a) pool \<Rightarrow> bool" where
  act: "i < length ts \<Longrightarrow> ts ! i = Act a \<Longrightarrow> a h = (c, t) \<Longrightarrow> sched_step (h, ts) (h @ [c], ts[i := t])"

inductive_cases sched_stepE [elim!]: "sched_step (h, ts) (h', ts')"

text \<open>What \<^verbatim>\<open>try_join!\<close> may return when it looks at the handles.\<close>

inductive joined :: "('c, 'e, 'a) task list \<Rightarrow> 'e + 'a list \<Rightarrow> bool" where
  failed: "Finished (Inl e) \<in> set ts \<Longrightarrow> joined ts (Inl e)"
| all_ok: "ts = map (\<lambda>x. Finished (Inr x)) xs \<Longrightarrow> joined ts (Inr xs)"

inductive_simps joined_simps: "joined ts (Inl e)" "joined ts (Inr xs)"

text \<open>
  A run of \<^verbatim>\<open>try_join!\<close> on tasks spawned after the calls \<open>h\<close>: it returns at some moment when the
  handles allow it, and the tasks still running make some more calls.
\<close>

definition try_join_runs :: "('c, 'e, 'a) task list \<Rightarrow> 'c list \<Rightarrow> 'e + 'a list \<Rightarrow> 'c list \<Rightarrow> bool" where
  "try_join_runs ts h r h' \<longleftrightarrow> (\<exists>h1 ts1 ts2. sched_step\<^sup>*\<^sup>* (h, ts) (h1, ts1) \<and> joined ts1 r \<and>
     sched_step\<^sup>*\<^sup>* (h1, ts1) (h', ts2))"

text \<open>
  How far one task, spawned after the calls \<open>h\<close>, has come in the history \<open>H\<close>: each of its calls was
  made at a moment \<open>p\<close> between the two, and was answered by the world at that moment.
\<close>

inductive task_reach :: "'c list \<Rightarrow> 'c list \<Rightarrow> ('c, 'e, 'a) task \<Rightarrow> ('c, 'e, 'a) task \<Rightarrow> bool" for h H where
  refl: "task_reach h H t t"
| step: "a (h @ p) = (c, t) \<Longrightarrow> H = h @ p @ c # q \<Longrightarrow> task_reach h H t t' \<Longrightarrow> task_reach h H (Act a) t'"

inductive_cases task_reach_ActE: "task_reach h H (Act a) t"
inductive_cases task_reach_FinishedE: "task_reach h H (Finished r) t"

lemma task_reach_mono: "task_reach h H t t' \<Longrightarrow> task_reach h (H @ u) t t'"
  by (induction rule: task_reach.induct) (auto intro: task_reach.intros)

lemma task_reach_snoc:
  "task_reach h H t (Act a) \<Longrightarrow> a (h @ p) = (c, t') \<Longrightarrow> H = h @ p @ c # q \<Longrightarrow> task_reach h H t t'"
  by (induction t "Act a" rule: task_reach.induct) (auto intro: task_reach.intros)

lemma sched_steps_reach:
  assumes "sched_step\<^sup>*\<^sup>* (h, ts) (h', ts')"
  shows "length ts' = length ts \<and> (\<exists>u. h' = h @ u) \<and> (\<forall>i < length ts. task_reach h h' (ts ! i) (ts' ! i))"
  using assms
proof (induction rule: rtranclp_induct2)
  case refl
  then show ?case by (auto intro: task_reach.refl)
next
  case (step h1 ts1 h2 ts2)
  then obtain i a c t u where i: "i < length ts1" "ts1 ! i = Act a" "a h1 = (c, t)"
    and new: "h2 = h1 @ [c]" "ts2 = ts1[i := t]" and u: "h1 = h @ u" by blast
  have "task_reach h h2 (ts ! j) (ts2 ! j)" if j: "j < length ts" for j
  proof (cases "j = i")
    case True
    with step.IH i new j have "task_reach h h2 (ts ! j) (Act a)" using task_reach_mono by metis
    from task_reach_snoc [OF this, of u c t "[]"] new i u True show ?thesis by simp
  next
    case False
    with step.IH new j show ?thesis by (simp add: task_reach_mono)
  qed
  with step.IH new u show ?case by auto
qed

text \<open>What is known when \<^verbatim>\<open>try_join!\<close> has returned.\<close>

lemma try_join_ok:
  assumes "try_join_runs ts h (Inr xs) h'"
  shows "length xs = length ts \<and> (\<forall>i < length ts. task_reach h h' (ts ! i) (Finished (Inr (xs ! i))))"
proof -
  from assms obtain h1 ts1 ts2 where run: "sched_step\<^sup>*\<^sup>* (h, ts) (h1, ts1)"
    and xs: "ts1 = map (\<lambda>x. Finished (Inr x)) xs" and rest: "sched_step\<^sup>*\<^sup>* (h1, ts1) (h', ts2)"
    by (auto simp: try_join_runs_def joined_simps)
  obtain u where u: "h' = h1 @ u" using sched_steps_reach [OF rest] by blast
  have "length ts1 = length ts" and "i < length ts \<Longrightarrow> task_reach h h1 (ts ! i) (ts1 ! i)" for i
    using sched_steps_reach [OF run] by auto
  with xs u show ?thesis by (auto intro: task_reach_mono)
qed

lemma try_join_ok_all:
  assumes "try_join_runs ts h (Inr xs) h'" and "t \<in> set ts"
  shows "\<exists>x. task_reach h h' t (Finished (Inr x))"
  using try_join_ok [OF assms(1)] assms(2) by (metis in_set_conv_nth)

lemma try_join_error:
  assumes "try_join_runs ts h (Inl e) h'"
  shows "\<exists>t \<in> set ts. task_reach h h' t (Finished (Inl e))"
proof -
  from assms obtain h1 ts1 ts2 where run: "sched_step\<^sup>*\<^sup>* (h, ts) (h1, ts1)"
    and e: "Finished (Inl e) \<in> set ts1" and rest: "sched_step\<^sup>*\<^sup>* (h1, ts1) (h', ts2)"
    by (auto simp: try_join_runs_def joined_simps)
  from e obtain i where i: "i < length ts1" "ts1 ! i = Finished (Inl e)" by (auto simp: in_set_conv_nth)
  obtain u where "h' = h1 @ u" using sched_steps_reach [OF rest] by blast
  with sched_steps_reach [OF run] i show ?thesis by (metis nth_mem task_reach_mono)
qed

text \<open>The result of a task, taken apart along its structure.\<close>

lemma task_reach_bindD:
  assumes "task_reach h H (t_bind t f) (Finished r)"
  shows "(\<exists>e. task_reach h H t (Finished (Inl e)) \<and> r = Inl e) \<or>
    (\<exists>x. task_reach h H t (Finished (Inr x)) \<and> task_reach h H (f x) (Finished r))"
  using assms
proof (induction t)
  case (Finished q)
  then show ?case
    by (cases q) (auto intro: task_reach.refl elim: task_reach_FinishedE)
next
  case (Act a)
  from Act.prems obtain p c t q where a: "a (h @ p) = (c, t)" and H: "H = h @ p @ c # q"
    and "task_reach h H (t_bind t f) (Finished r)"
    by (auto simp: map_prod_def elim!: task_reach_ActE split: prod.splits)
  have "task_reach h H (Act a) t'" if "task_reach h H t t'" for t'
    using a H that by (rule task_reach.step [where p = p])
  with Act.IH [OF a \<open>task_reach h H (t_bind t f) (Finished r)\<close>] show ?case by blast
qed

lemma task_reach_bind_Inr:
  "task_reach h H (t_bind t f) (Finished (Inr y)) \<Longrightarrow>
     \<exists>x. task_reach h H t (Finished (Inr x)) \<and> task_reach h H (f x) (Finished (Inr y))"
  by (auto dest: task_reach_bindD)

lemma task_reach_leaf:
  "task_reach h H (t_res r) (Finished r') \<longleftrightarrow> r = r'"
  "task_reach h H (t_ok x) (Finished r') \<longleftrightarrow> Inr x = r'"
  "task_reach h H (t_err e) (Finished r') \<longleftrightarrow> Inl e = r'"
  by (auto simp: t_res_def t_ok_def t_err_def intro: task_reach.refl elim: task_reach_FinishedE)

lemma task_reach_callD:
  "task_reach h H (t_call c answer) (Finished r) \<Longrightarrow> \<exists>p q. H = h @ p @ c # q \<and> answer (h @ p) = r"
  unfolding t_call_def by (auto elim!: task_reach_ActE task_reach_FinishedE)

text \<open>The calls that a task can make.\<close>

primrec task_emits :: "('c \<Rightarrow> bool) \<Rightarrow> ('c, 'e, 'a) task \<Rightarrow> bool" where
  "task_emits P (Finished r) = True"
| "task_emits P (Act a) = (\<forall>h. case (map_prod id (task_emits P) \<circ> a) h of (c, ok) \<Rightarrow> P c \<and> ok)"

lemma task_emits_ActD: "task_emits P (Act a) \<Longrightarrow> a h = (c, t) \<Longrightarrow> P c \<and> task_emits P t"
  by (metis (mono_tags, lifting) task_emits.simps(2) comp_apply map_prod_simp id_apply old.prod.case)

lemma task_emits_intros [emits_intros]:
  "task_emits P (t_ok x)"
  "task_emits P (t_err e)"
  "task_emits P (t_res r)"
  "P c \<Longrightarrow> task_emits P (t_call c answer)"
  "P c \<Longrightarrow> task_emits P (t_emit c)"
  by (simp_all add: t_ok_def t_err_def t_res_def t_call_def t_emit_def)

lemma task_emits_bind [emits_intros]:
  "task_emits P t \<Longrightarrow> (\<And>x. task_emits P (f x)) \<Longrightarrow> task_emits P (t_bind t f)"
proof (induction t)
  case (Finished r)
  then show ?case by (cases r) simp_all
next
  case (Act a)
  have "P c \<and> task_emits P (t_bind t f)" if a: "a h = (c, t)" for h c t
  proof -
    show ?thesis using Act.IH [OF a] task_emits_ActD [OF Act.prems(1) a] Act.prems(2) by blast
  qed
  then show ?case by (simp add: map_prod_def split_def) (metis prod.collapse)
qed

lemma task_emits_if [emits_intros]:
  "(b \<Longrightarrow> task_emits P m) \<Longrightarrow> (\<not> b \<Longrightarrow> task_emits P n) \<Longrightarrow> task_emits P (if b then m else n)"
  by simp

lemma sched_steps_emit:
  assumes "sched_step\<^sup>*\<^sup>* (h, ts) (h', ts')" and "\<forall>t \<in> set ts. task_emits P t"
  shows "(\<exists>u. h' = h @ u \<and> list_all P u) \<and> (\<forall>t \<in> set ts'. task_emits P t)"
  using assms
proof (induction rule: rtranclp_induct2)
  case refl
  then show ?case by simp
next
  case (step h1 ts1 h2 ts2)
  then obtain i a c t u where i: "i < length ts1" "ts1 ! i = Act a" "a h1 = (c, t)"
    and new: "h2 = h1 @ [c]" "ts2 = ts1[i := t]" and u: "h1 = h @ u" "list_all P u" by blast
  from i step have "task_emits P (Act a)" by (metis nth_mem)
  from task_emits_ActD [OF this i(3)] new u step show ?case
    by (auto dest: set_update_subset_insert [THEN subsetD])
qed

lemma try_join_emits:
  assumes "try_join_runs ts h r h'" and "\<forall>t \<in> set ts. task_emits P t"
  shows "\<exists>u. h' = h @ u \<and> list_all P u"
proof -
  from assms(1) obtain h1 ts1 ts2 where "sched_step\<^sup>*\<^sup>* (h, ts) (h1, ts1)" "sched_step\<^sup>*\<^sup>* (h1, ts1) (h', ts2)"
    by (auto simp: try_join_runs_def)
  then have "sched_step\<^sup>*\<^sup>* (h, ts) (h', ts2)" by simp
  from sched_steps_emit [OF this assms(2)] show ?thesis by blast
qed

section \<open>Execution under a scheduler\<close>

text \<open>The scheduler lets a task make its next call, or lets the joining task look at one handle.\<close>

datatype pick = RunTask nat | PollJoin nat

fun advance :: "nat \<Rightarrow> ('c, 'e, 'a) pool \<Rightarrow> ('c, 'e, 'a) pool" where
  "advance i (h, ts) =
     (if i < length ts then
        (case ts ! i of Finished r \<Rightarrow> (h, ts) | Act a \<Rightarrow> (case a h of (c, t) \<Rightarrow> (h @ [c], ts[i := t])))
      else (h, ts))"

fun detached_run :: "pick list \<Rightarrow> ('c, 'e, 'a) pool \<Rightarrow> 'c list" where
  "detached_run [] p = fst p"
| "detached_run (RunTask i # ps) p = detached_run ps (advance i p)"
| "detached_run (PollJoin i # ps) p = detached_run ps p"

text \<open>The picks are used up: the tasks that are left run in their order, each to its end.\<close>

fun finish_all :: "('c, 'e, 'a) task list \<Rightarrow> 'c list \<Rightarrow> ('e + 'a) list \<times> 'c list" where
  "finish_all [] h = ([], h)"
| "finish_all (t # ts) h =
     (case run_task t h of (r, h1) \<Rightarrow> (case finish_all ts h1 of (rs, h2) \<Rightarrow> (r # rs, h2)))"

fun run_picks :: "pick list \<Rightarrow> ('c, 'e, 'a) pool \<Rightarrow> ('e + 'a list) \<times> 'c list" where
  "run_picks [] (h, ts) = (case finish_all ts h of (rs, h') \<Rightarrow> (traverse id rs, h'))"
| "run_picks (RunTask i # ps) p = run_picks ps (advance i p)"
| "run_picks (PollJoin i # ps) (h, ts) =
     (if i < length ts then
        (case ts ! i of Finished (Inl e) \<Rightarrow> (Inl e, detached_run ps (h, ts)) | _ \<Rightarrow> run_picks ps (h, ts))
      else run_picks ps (h, ts))"

definition try_join :: "('c list \<Rightarrow> pick list) \<Rightarrow> ('c, 'e, 'a) task list \<Rightarrow> ('c, 'e, 'a list) io" where
  "try_join schedule ts = (\<lambda>h. run_picks (schedule h) (h, ts))"

lemma advance_steps: "sched_step\<^sup>*\<^sup>* p (advance i p)"
proof (cases p)
  case (Pair h ts)
  then show ?thesis
    by (auto split: task.splits prod.splits intro: sched_step.act r_into_rtranclp)
qed

lemma detached_steps: "\<exists>ts'. sched_step\<^sup>*\<^sup>* p (detached_run ps p, ts')"
proof (induction ps p rule: detached_run.induct)
  case (1 p)
  then show ?case by (cases p) auto
next
  case (2 i ps p)
  then obtain ts' where "sched_step\<^sup>*\<^sup>* (advance i p) (detached_run ps (advance i p), ts')" by blast
  from rtranclp_trans [OF advance_steps this] show ?case by auto
qed simp

lemma run_task_steps:
  "run_task t h = (r, h') \<Longrightarrow> sched_step\<^sup>*\<^sup>* (h, us @ t # vs) (h', us @ Finished r # vs)"
proof (induction t arbitrary: h)
  case (Finished r')
  then show ?case by simp
next
  case (Act a)
  obtain c t where a: "a h = (c, t)" by fastforce
  have "sched_step (h, us @ Act a # vs) (h @ [c], us @ t # vs)"
    using sched_step.act [of "length us" "us @ Act a # vs" a h c t] a by simp
  moreover from Act.prems a have "run_task t (h @ [c]) = (r, h')" by simp
  then have "sched_step\<^sup>*\<^sup>* (h @ [c], us @ t # vs) (h', us @ Finished r # vs)"
    by (rule Act.IH [OF a])
  ultimately show ?case by (rule converse_rtranclp_into_rtranclp)
qed

lemma finish_all_steps:
  "finish_all ts h = (rs, h') \<Longrightarrow> sched_step\<^sup>*\<^sup>* (h, us @ ts) (h', us @ map Finished rs)"
proof (induction ts arbitrary: us h rs)
  case Nil
  then show ?case by simp
next
  case (Cons t ts)
  obtain r h1 where t: "run_task t h = (r, h1)" by fastforce
  obtain rs1 h2 where ts: "finish_all ts h1 = (rs1, h2)" by fastforce
  from Cons.prems t ts have "rs = r # rs1" "h' = h2" by auto
  with Cons.IH [of h1 rs1 "us @ [Finished r]"] ts run_task_steps [OF t, of us ts] show ?case
    by (auto intro: rtranclp_trans)
qed

lemma joined_traverse: "joined (map Finished rs) (traverse id rs)"
proof (cases "traverse id rs")
  case (Inl e)
  then have "Inl e \<in> set rs" by (induction rs) (auto simp: res_bind_Inl_iff)
  with Inl show ?thesis by (auto intro: joined.failed)
next
  case (Inr xs)
  then have "rs = map Inr xs"
    by (auto simp: traverse_Inr_iff list_all2_conv_all_nth intro: nth_equalityI)
  with Inr show ?thesis by (auto intro: joined.all_ok)
qed

lemma run_picks_runs:
  assumes "run_picks ps p = (r, h')"
  shows "try_join_runs (snd p) (fst p) r h'"
  using assms
proof (induction ps p rule: run_picks.induct)
  case (1 h ts)
  obtain rs h1 where fin: "finish_all ts h = (rs, h1)" by fastforce
  with 1 have "r = traverse id rs" "h' = h1" by auto
  with finish_all_steps [OF fin, of "[]"] joined_traverse [of rs] show ?case
    by (auto simp: try_join_runs_def)
next
  case (2 i ps p)
  then have "try_join_runs (snd (advance i p)) (fst (advance i p)) r h'" by simp
  moreover have "sched_step\<^sup>*\<^sup>* (fst p, snd p) (fst (advance i p), snd (advance i p))"
    using advance_steps [of p i] by simp
  ultimately show ?case unfolding try_join_runs_def by (meson rtranclp_trans)
next
  case (3 i ps h ts)
  show ?case
  proof (cases "\<exists>e. i < length ts \<and> ts ! i = Finished (Inl e)")
    case True
    then obtain e where i: "i < length ts" "ts ! i = Finished (Inl e)" by blast
    with 3 have "r = Inl e" "h' = detached_run ps (h, ts)" by auto
    moreover have "joined ts (Inl e)" using i by (metis joined.failed nth_mem)
    ultimately show ?thesis
      using detached_steps [of "(h, ts)" ps] by (auto simp: try_join_runs_def)
  next
    case False
    with 3 show ?thesis by (auto split: task.splits sum.splits if_splits)
  qed
qed

lemma try_join_runs: "try_join schedule ts h = (r, h') \<Longrightarrow> try_join_runs ts h r h'"
  unfolding try_join_def using run_picks_runs [of "schedule h" "(h, ts)"] by simp

lemma emits_try_join [emits_intros]:
  assumes "\<And>t. t \<in> set ts \<Longrightarrow> task_emits P t"
  shows "emits P (try_join schedule ts)"
  unfolding emits_def
proof
  fix h
  obtain r h' where run: "try_join schedule ts h = (r, h')" by fastforce
  from try_join_emits [OF try_join_runs [OF run]] assms
  show "\<exists>t. snd (try_join schedule ts h) = h @ t \<and> list_all P t" by (simp add: run)
qed

end
