(* ===== verification/PluginEnv.thy ===== *)
theory PluginEnv
  imports Resources HelmRelease Tasks
begin

text \<open>
  The outside world of the plugin's upgrade commands: the calls they make (\<open>plugin_call\<close>), what is
  printed (\<open>notice\<close>, one constructor per message), the errors they return (one constructor per
  \<^verbatim>\<open>anyhow!\<close> message) and the answers they get (\<open>plugin_env\<close>). Every answer may depend on the calls
  made before. The REST and Kubernetes types list the fields the sources read.
\<close>

section \<open>Data of the REST API and of Kubernetes\<close>

record volume_child =
  ch_rebuild_progress :: "nat option"

record volume_target =
  vt_children :: "volume_child list"

record volume =
  vl_uuid :: string
  vl_num_replicas :: "8 word"
  vl_target :: "volume_target option"

record volumes_page =
  vp_entries :: "volume list"
  vp_next_token :: "int option"

datatype cordon_drain_state = CordonedState | DrainingState | DrainedState

record node_spec =
  nd_cordondrainstate :: "cordon_drain_state option"

record node =
  nd_id :: string
  nd_spec :: "node_spec option"

record event =
  evt_reason :: "string option"
  evt_action :: "string option"
  evt_note :: "string option"
  evt_time :: "nat option"

record upgrade_event =
  ue_from_version :: string
  ue_to_version :: string
  ue_message :: string

record job_status =
  js_succeeded :: "int option"

record job_state =
  jst_status :: "job_status option"

section \<open>Calls, notices and errors\<close>

datatype notice =
    ValidationFailedNotice string
  | UpgradeStartedNotice
  | RebuildInProgressNotice
  | UnsupportedDestinationNotice
  | StableToUnstableNotice
  | HigherToLowerNotice
  | SingleReplicaNotice string
  | CordonedNodesNotice string
  | SingleReplicaUnavailableNotice
  | NoNewSingleReplicaNotice
  | CreatedNotice string string "string option"
  | AlreadyExistsNotice string string
  | DeletedNotice string string "string option"
  | UpgradeFromNotice string
  | UpgradeToNotice string
  | UpgradeStatusNotice string
  | IncompleteJobNotice

text \<open>\<^verbatim>\<open>propagationPolicy\<close> of \<^verbatim>\<open>DeleteParams\<close>: in the foreground an object stays, marked, until its dependents are gone.\<close>

datatype propagation = Foreground | Background | Orphan

datatype plugin_call =
    Info notice
  | ErrorLog notice
  | Println notice
  | ReadHelmStorage string string
  | BuildRestConfig
  | BuildClient
  | BuildDefaultClient
  | GetVolumes nat int
  | GetNodes
  | ListPvcs
  | ListPods string string
  | ListEventsMetadata string string
  | DeleteEvents string string
  | ListEvents string string
  | GetJob string string
  | CreateObject object_key k8s_object
  | DeleteObjectWith propagation object_key
  | SleepSecs nat

abbreviation DeleteObject :: "object_key \<Rightarrow> plugin_call" where
  "DeleteObject \<equiv> DeleteObjectWith Foreground"

text \<open>
  \<open>BuildClient\<close> connects as the command line says (kubeconfig, context), \<open>BuildDefaultClient\<close> as the
  environment says.
\<close>

text \<open>The calls that change the cluster.\<close>

fun mutating :: "plugin_call \<Rightarrow> bool" where
  "mutating (CreateObject key obj) = True"
| "mutating (DeleteObjectWith prop key) = True"
| "mutating (DeleteEvents ns sel) = True"
| "mutating _ = False"

datatype plugin_error =
    HelmError helm_error
  | ClientError string
  | RestConfigError string
  | ListVolumesError string
  | RebuildInProgressError
  | ListNodesError string
  | NodeSpecNotPresent
  | NodesCordonedError
  | ListPvcsError string
  | SingleReplicaError
  | DestinationDevelopError
  | StableToUnstableError
  | HigherToLowerError
  | ImageError image_error
  | SetFileError set_file_error
  | EventsError string
  | NoUpgradeEvent
  | NoteNotPresent
  | NoMessageInEvent
  | DeserializeEventError string
  | KubeFailed kube_error
  | GetJobError string
  | JobWithoutStatus string string
  | NoJob string string

record 'v plugin_env =
  pe_consts :: plugin_consts
  pe_helm :: "plugin_call list \<Rightarrow> 'v helm_env"
  pe_rest_config :: "plugin_call list \<Rightarrow> string + unit"
  pe_client :: "plugin_call list \<Rightarrow> string + unit"
  pe_default_client :: "plugin_call list \<Rightarrow> string + unit"
  pe_get_volumes :: "plugin_call list \<Rightarrow> nat \<Rightarrow> int \<Rightarrow> string + volumes_page"
  pe_get_nodes :: "plugin_call list \<Rightarrow> string + node list"
  pe_list_pvcs :: "plugin_call list \<Rightarrow> string + object_meta list"
  pe_list_pods :: "plugin_call list \<Rightarrow> string \<Rightarrow> string \<Rightarrow> string + pod list"
  pe_list_events_metadata :: "plugin_call list \<Rightarrow> string \<Rightarrow> string \<Rightarrow> string + unit"
  pe_delete_events :: "plugin_call list \<Rightarrow> string \<Rightarrow> string \<Rightarrow> string + unit"
  pe_list_events :: "plugin_call list \<Rightarrow> string \<Rightarrow> string \<Rightarrow> string + event list"
  pe_parse_event :: "string \<Rightarrow> string + upgrade_event"
  pe_get_job :: "plugin_call list \<Rightarrow> string \<Rightarrow> string \<Rightarrow> string + job_state option"
  pe_create :: "plugin_call list \<Rightarrow> object_key \<Rightarrow> k8s_object \<Rightarrow> kube_error + unit"
  pe_delete :: "plugin_call list \<Rightarrow> object_key \<Rightarrow> kube_error + unit"
  pe_read_file :: "plugin_call list \<Rightarrow> string \<Rightarrow> string + string"
  pe_schedule :: "plugin_call list \<Rightarrow> pick list"

type_synonym 'a plugin_io = "(plugin_call, plugin_error, 'a) io"
type_synonym 'a plugin_pio = "(plugin_call, plugin_error, 'a) pio"

definition log_and_fail :: "notice \<Rightarrow> plugin_error \<Rightarrow> 'a plugin_io" where
  "log_and_fail n e = io_bind (io_emit (ErrorLog n)) (\<lambda>_. io_err e)"

lemma log_and_fail_apply [io_simps]: "log_and_fail n e h = (Inl e, h @ [ErrorLog n])"
  by (simp add: log_and_fail_def io_simps)

lemma emits_log_and_fail [emits_intros]: "P (ErrorLog n) \<Longrightarrow> emits P (log_and_fail n e)"
  unfolding log_and_fail_def by (intro emits_intros)

definition http_data_page_size :: nat where
  "http_data_page_size = 500"

section \<open>A healthy cluster\<close>

text \<open>
  A concrete environment for the examples of the later theories: one Secret with the given helm
  release, every call succeeds, no nodes, no claims, no pods and no events.
\<close>

definition healthy_secret :: "bytes stored" where
  "healthy_secret =
     \<lparr>st_meta = \<lparr>om_name = Some ''sh.helm.release.v1.openebs.v1'', om_namespace = Some ''openebs'',
        om_labels = Some [''name'' \<mapsto> ''openebs''], om_uid = None\<rparr>,
      st_data = Some [''release'' \<mapsto> []]\<rparr>"

definition healthy_helm_env :: "'v helm_release \<Rightarrow> 'v helm_env" where
  "healthy_helm_env release =
     \<lparr>he_list_secrets = (\<lambda>ns labels fields. Inr [healthy_secret]),
      he_list_configmaps = (\<lambda>ns labels fields. Inr []),
      he_base64_decode = Inr,
      he_gunzip = Inr,
      he_json_chart_release = (\<lambda>buf. Inr \<lparr>rc_chart = Some \<lparr>rc_metadata = \<lparr>rc_name = ''openebs''\<rparr>\<rparr>\<rparr>),
      he_json_helm_release = (\<lambda>buf. Inr release)\<rparr>"

definition healthy_env :: "string option \<Rightarrow> 'v helm_release \<Rightarrow> 'v plugin_env" where
  "healthy_env tag release =
     \<lparr>pe_consts = \<lparr>pc_version_tag = tag, pc_loki_logging_key = ''openebs.io/logging'', pc_rust_log = None\<rparr>,
      pe_helm = (\<lambda>h. healthy_helm_env release),
      pe_rest_config = (\<lambda>h. Inr ()),
      pe_client = (\<lambda>h. Inr ()),
      pe_default_client = (\<lambda>h. Inr ()),
      pe_get_volumes = (\<lambda>h n t. Inr \<lparr>vp_entries = [], vp_next_token = None\<rparr>),
      pe_get_nodes = (\<lambda>h. Inr []),
      pe_list_pvcs = (\<lambda>h. Inr []),
      pe_list_pods = (\<lambda>h ns sel. Inr []),
      pe_list_events_metadata = (\<lambda>h ns sel. Inr ()),
      pe_delete_events = (\<lambda>h ns sel. Inr ()),
      pe_list_events = (\<lambda>h ns sel. Inr []),
      pe_parse_event = (\<lambda>s. Inr \<lparr>ue_from_version = [], ue_to_version = [], ue_message = s\<rparr>),
      pe_get_job = (\<lambda>h ns name. Inr None),
      pe_create = (\<lambda>h key obj. Inr ()),
      pe_delete = (\<lambda>h key. Inr ()),
      pe_read_file = (\<lambda>h path. Inr []),
      pe_schedule = (\<lambda>h. [])\<rparr>"

definition v4_release :: "bool \<Rightarrow> 'v \<Rightarrow> 'v helm_release" where
  "v4_release enabled version =
     \<lparr>hr_chart = \<lparr>hc_values = \<lparr>hv_mayastor = None, hv_engines = Some
          \<lparr>eg_replicated = \<lparr>re_mayastor = \<lparr>en_enabled = enabled\<rparr>\<rparr>\<rparr>\<rparr>,
        hc_metadata = \<lparr>cm_version = version\<rparr>\<rparr>,
      hr_config = None\<rparr>"

definition default_args :: upgrade_common_args where
  "default_args =
     \<lparr>uc_namespace = ''openebs'', uc_release_name = Some ''openebs'', uc_registry = None,
      uc_repo_namespace = ''openebs'', uc_allow_unstable = False, uc_skip_data_plane_restart = False,
      uc_skip_single_replica_volume_validation = False, uc_skip_replica_rebuild = False,
      uc_skip_cordoned_node_validation = False,
      uc_skip_upgrade_path_validation_for_unsupported_version = False,
      uc_set = [], uc_set_file = [], uc_helm_storage_driver = []\<rparr>"

lemma healthy_new_from_cluster [simp]:
  "new_from_cluster (healthy_helm_env release) [] rel ns = Inr release"
  by (simp add: new_from_cluster_def helm_release_data_def is_secret_driver_def healthy_helm_env_def
      the_only_def extract_data_def healthy_secret_def decode_decompress_data_def
      new_from_release_data_buf_def)

lemma v4_release_simps [simp]:
  "mayastor_is_enabled (v4_release enabled version) = enabled"
  "release_version (v4_release enabled version) = version"
  by (simp_all add: v4_release_def mayastor_is_enabled_def release_version_def)

end
