(* ===== verification/Semver.thy ===== *)
theory Semver
  imports Prelude "HOL-Library.Product_Lexorder" "HOL-Library.List_Lexorder" "HOL-Library.Char_ord"
begin

text \<open>
  Versions. The \<^verbatim>\<open>semver\<close> crate is not part of the repository: a version type is any linear
  order (\<^verbatim>\<open>Version: Ord\<close>), and what the sources call on it is the record \<open>semver\<close>. The locale
  \<open>semver_api\<close> states what they rely on. The second half gives semantic versions with their
  documented precedence as an instance of \<open>linorder\<close>, on which the locale is interpreted.
\<close>

section \<open>The interface\<close>

record 'v semver =
  ver_new :: "nat \<Rightarrow> nat \<Rightarrow> nat \<Rightarrow> 'v"
  ver_parse :: "string \<Rightarrow> 'v option"
  ver_pre_is_empty :: "'v \<Rightarrow> bool"
  ver_to_string :: "'v \<Rightarrow> string"

text \<open>The version constants of \<^verbatim>\<open>openebs-upgrade/src/constants.rs\<close>.\<close>

definition umbrella_chart_version_lowerbound :: "'v semver \<Rightarrow> 'v" where
  "umbrella_chart_version_lowerbound S = ver_new S 3 0 0"

definition partial_rebuild_disable_extents :: "'v semver \<Rightarrow> 'v \<times> 'v" where
  "partial_rebuild_disable_extents S = (ver_new S 3 7 0, ver_new S 3 10 0)"

definition four_dot_o :: "'v semver \<Rightarrow> 'v" where
  "four_dot_o S = ver_new S 4 0 0"

definition three_dot_four_dot_one :: "'v semver \<Rightarrow> 'v" where
  "three_dot_four_dot_one S = ver_new S 3 4 1"

definition four_dot_three :: "'v semver \<Rightarrow> 'v" where
  "four_dot_three S = ver_new S 4 3 0"

lemmas version_constants = umbrella_chart_version_lowerbound_def partial_rebuild_disable_extents_def
  four_dot_o_def three_dot_four_dot_one_def four_dot_three_def

definition triple_le :: "nat \<times> nat \<times> nat \<Rightarrow> nat \<times> nat \<times> nat \<Rightarrow> bool" where
  "triple_le x y = (x \<le> y)"

locale semver_api =
  fixes S :: "('v :: linorder) semver"
  assumes new_le: "ver_new S a b c \<le> ver_new S a' b' c' \<longleftrightarrow> triple_le (a, b, c) (a', b', c')"
    and new_stable: "ver_pre_is_empty S (ver_new S a b c)"
begin

lemma new_less: "ver_new S a b c < ver_new S a' b' c' \<longleftrightarrow> \<not> triple_le (a', b', c') (a, b, c)"
  by (simp add: new_le [symmetric] not_le)

text \<open>
  The thresholds of the upgrade: every version for which partial rebuild has to be off, and every
  version of the v3 chart that is upgraded at all, lies in the right range.
\<close>

lemma thresholds:
  "umbrella_chart_version_lowerbound S \<le> three_dot_four_dot_one S"
  "three_dot_four_dot_one S < fst (partial_rebuild_disable_extents S)"
  "fst (partial_rebuild_disable_extents S) \<le> snd (partial_rebuild_disable_extents S)"
  "snd (partial_rebuild_disable_extents S) < four_dot_o S"
  "four_dot_o S < four_dot_three S"
  by (simp_all add: version_constants new_le new_less triple_le_def)

lemma partial_rebuild_range_is_v3:
  "v \<le> snd (partial_rebuild_disable_extents S) \<Longrightarrow> v < four_dot_o S"
  using thresholds(4) by simp

end

section \<open>Semantic versions\<close>

datatype pre_ident = NumId nat | AlnumId string

datatype release = Release nat nat nat "pre_ident list"

fun pre_key :: "pre_ident \<Rightarrow> nat \<times> nat \<times> string" where
  "pre_key (NumId n) = (0, n, [])"
| "pre_key (AlnumId s) = (1, 0, s)"

text \<open>A version without a pre-release comes after every pre-release of it.\<close>

fun release_key :: "release \<Rightarrow> nat \<times> nat \<times> nat \<times> nat \<times> (nat \<times> nat \<times> string) list" where
  "release_key (Release a b c ps) = (a, b, c, if ps = [] then 1 else 0, map pre_key ps)"

lemma pre_key_inj: "pre_key p = pre_key q \<longleftrightarrow> p = q"
  by (cases p; cases q) auto

lemma release_key_inj: "release_key r = release_key s \<longleftrightarrow> r = s"
proof -
  have "inj pre_key" by (simp add: inj_def pre_key_inj)
  then show ?thesis by (cases r; cases s) (auto dest: inj_map_eq_map [THEN iffD1])
qed

instantiation release :: linorder
begin

definition less_eq_release :: "release \<Rightarrow> release \<Rightarrow> bool" where
  "less_eq_release r s = (release_key r \<le> release_key s)"

definition less_release :: "release \<Rightarrow> release \<Rightarrow> bool" where
  "less_release r s = (release_key r < release_key s)"

instance
proof
  fix x y z :: release
  show "x < y \<longleftrightarrow> x \<le> y \<and> \<not> y \<le> x"
    by (simp add: less_eq_release_def less_release_def less_le_not_le)
  show "x \<le> x" by (simp add: less_eq_release_def)
  show "x \<le> y \<Longrightarrow> y \<le> z \<Longrightarrow> x \<le> z" unfolding less_eq_release_def by (rule order_trans)
  show "x \<le> y \<Longrightarrow> y \<le> x \<Longrightarrow> x = y"
    unfolding less_eq_release_def using release_key_inj by (metis antisym)
  show "x \<le> y \<or> y \<le> x" by (simp add: less_eq_release_def linear)
qed

end

definition numeric_ident :: "string \<Rightarrow> nat option" where
  "numeric_ident s =
     (if s \<noteq> [] \<and> list_all (\<lambda>c. to_digit c \<noteq> None) s \<and> (hd s = CHR ''0'' \<longrightarrow> length s = 1)
      then Some (dec_value 0 (map (\<lambda>c. the (to_digit c)) s)) else None)"

definition pre_ident_of :: "string \<Rightarrow> pre_ident option" where
  "pre_ident_of s =
     (if s = [] then None
      else if list_all (\<lambda>c. to_digit c \<noteq> None) s then map_option NumId (numeric_ident s)
      else Some (AlnumId s))"

fun options :: "'a option list \<Rightarrow> 'a list option" where
  "options [] = Some []"
| "options (None # ms) = None"
| "options (Some x # ms) = map_option ((#) x) (options ms)"

definition release_parse :: "string \<Rightarrow> release option" where
  "release_parse s =
     (let core = takeWhile (\<lambda>c. c \<noteq> CHR ''-'') s; pre = drop (length core) s in
      case (options (map numeric_ident (split_on CHR ''.'' core)),
            if pre = [] then Some [] else options (map pre_ident_of (split_on CHR ''.'' (tl pre)))) of
        (Some [a, b, c], Some ps) \<Rightarrow> Some (Release a b c ps)
      | _ \<Rightarrow> None)"

fun pre_ident_string :: "pre_ident \<Rightarrow> string" where
  "pre_ident_string (NumId n) = nat_to_dec n"
| "pre_ident_string (AlnumId s) = s"

fun release_string :: "release \<Rightarrow> string" where
  "release_string (Release a b c ps) =
     join_with ''.'' [nat_to_dec a, nat_to_dec b, nat_to_dec c] @
     (if ps = [] then [] else ''-'' @ join_with ''.'' (map pre_ident_string ps))"

fun release_pre_is_empty :: "release \<Rightarrow> bool" where
  "release_pre_is_empty (Release a b c ps) = (ps = [])"

definition release_semver :: "release semver" where
  "release_semver = \<lparr>ver_new = (\<lambda>a b c. Release a b c []), ver_parse = release_parse,
     ver_pre_is_empty = release_pre_is_empty, ver_to_string = release_string\<rparr>"

interpretation release: semver_api release_semver
  by unfold_locales
    (auto simp: release_semver_def less_eq_release_def triple_le_def less_eq_prod_def less_le)

lemma release_semver_simps [simp]:
  "ver_new release_semver a b c = Release a b c []"
  "ver_parse release_semver = release_parse"
  "ver_pre_is_empty release_semver = release_pre_is_empty"
  "ver_to_string release_semver = release_string"
  by (simp_all add: release_semver_def)

text \<open>Comparisons of concrete versions evaluate by the simplifier.\<close>

lemma release_order [simp]:
  "r \<le> s \<longleftrightarrow> release_key r \<le> release_key s"
  "r < s \<longleftrightarrow> release_key r < release_key s"
  by (simp_all add: less_eq_release_def less_release_def)

lemma release_parse_examples:
  "release_parse ''3.14.0'' = Some (Release 3 14 0 [])"
  "release_parse ''4.0.0-rc.1'' = Some (Release 4 0 0 [AlnumId ''rc'', NumId 1])"
  "release_parse ''develop'' = None"
  by (simp_all add: release_parse_def numeric_ident_def pre_ident_of_def to_digit_def dec_value_def)

lemma release_order_examples:
  "Release 4 0 0 [AlnumId ''rc'', NumId 1] < Release 4 0 0 []"
  "Release 3 10 0 [] \<le> Release 4 0 0 [AlnumId ''rc'', NumId 1]"
  "\<not> Release 3 4 1 [] \<le> Release 3 4 0 []"
  by simp_all

end
