(* ===== verification/UpgradePath.thy ===== *)
theory UpgradePath
  imports PluginEnv Semver
begin

text \<open>
  Which upgrade paths the plugin lets through (\<^verbatim>\<open>upgrade_path_validation\<close> in \<^verbatim>\<open>upgrade/mod.rs\<close>). \<open>tag\<close>
  is the version tag of this build; the destination is that tag or \<^verbatim>\<open>develop\<close>.
\<close>

definition parse_self_version :: "'v semver \<Rightarrow> string option \<Rightarrow> 'v option" where
  "parse_self_version S version_tag = (case version_tag of
      None \<Rightarrow> None
    | Some tag \<Rightarrow>
        if tag \<noteq> [] then ver_parse S (unwrap_or (strip_prefix_char CHR ''v'' tag) tag) else None)"

definition upgrade_path_validation ::
  "('v :: linorder) semver \<Rightarrow> string option \<Rightarrow> bool \<Rightarrow> 'v \<Rightarrow> unit plugin_io" where
  "upgrade_path_validation S tag allow_unstable source_version =
     (let destination_version = get_destination_version_tag tag;
          self_version = parse_self_version S tag;
          self_is_stable = (case self_version of Some v \<Rightarrow> ver_pre_is_empty S v | None \<Rightarrow> False) in
      if contains_str ''develop'' destination_version
      then log_and_fail UnsupportedDestinationNotice DestinationDevelopError
      else if \<not> allow_unstable \<and> ver_pre_is_empty S source_version \<and> \<not> self_is_stable
      then log_and_fail StableToUnstableNotice StableToUnstableError
      else (case self_version of
          Some v \<Rightarrow> if v < source_version then log_and_fail HigherToLowerNotice HigherToLowerError
                     else io_ok ()
        | None \<Rightarrow> io_ok ()))"

lemma emits_upgrade_path_validation [emits_intros]:
  "(\<And>n. P (ErrorLog n)) \<Longrightarrow> emits P (upgrade_path_validation S tag au v)"
  unfolding upgrade_path_validation_def Let_def by (intro emits_intros) auto

definition upgrade_path_ok :: "('v :: linorder) semver \<Rightarrow> string option \<Rightarrow> bool \<Rightarrow> 'v \<Rightarrow> bool" where
  "upgrade_path_ok S tag allow_unstable source \<longleftrightarrow>
     (\<exists>t. tag = Some t \<and> \<not> contains_str ''develop'' t) \<and>
     (case parse_self_version S tag of
        Some v \<Rightarrow> source \<le> v \<and> (allow_unstable \<or> (ver_pre_is_empty S source \<longrightarrow> ver_pre_is_empty S v))
      | None \<Rightarrow> allow_unstable \<or> \<not> ver_pre_is_empty S source)"

lemma upgrade_path_validation_result:
  "fst (upgrade_path_validation S tag allow_unstable source h) = Inr () \<longleftrightarrow>
     upgrade_path_ok S tag allow_unstable source"
proof (cases tag)
  case None
  have "contains_str ''develop'' (get_destination_version_tag None)"
    by (simp add: get_destination_version_tag_def upgrade_job_image_tag_def)
  with None show ?thesis
    by (simp add: upgrade_path_validation_def Let_def io_simps upgrade_path_ok_def)
next
  case (Some t)
  then have dest: "get_destination_version_tag tag = t" by (simp add: get_destination_version_tag_def)
  show ?thesis
  proof (cases "contains_str ''develop'' t")
    case True
    with Some dest show ?thesis
      by (simp add: upgrade_path_validation_def Let_def io_simps upgrade_path_ok_def)
  next
    case False
    with Some dest show ?thesis
      by (cases "parse_self_version S tag")
        (auto simp: upgrade_path_validation_def Let_def io_simps not_less upgrade_path_ok_def)
  qed
qed

lemma upgrade_path_validation_silent:
  "upgrade_path_validation S tag au source h = (Inr (), h') \<Longrightarrow> h' = h"
  by (auto simp: upgrade_path_validation_def Let_def io_simps split: if_splits option.splits)

text \<open>C9: the upgrade paths that pass the validation. A build whose tag is missing or contains develop
  never passes; a stable release is never replaced by a pre-release or by a build whose tag is no
  version unless that was asked for; and when the tag is a version, it is at least the source
  version. A successful validation logs nothing.\<close>

theorem upgrade_path_validation_iff:
  "upgrade_path_validation S tag allow_unstable source h = (Inr (), h) \<longleftrightarrow>
     (\<exists>t. tag = Some t \<and> \<not> contains_str ''develop'' t) \<and>
     (case parse_self_version S tag of
        Some v \<Rightarrow> source \<le> v \<and> (allow_unstable \<or> (ver_pre_is_empty S source \<longrightarrow> ver_pre_is_empty S v))
      | None \<Rightarrow> allow_unstable \<or> \<not> ver_pre_is_empty S source)"
  using upgrade_path_validation_result [of S tag allow_unstable source h]
    upgrade_path_validation_silent [of S tag allow_unstable source h]
  by (cases "upgrade_path_validation S tag allow_unstable source h")
    (auto simp only: fst_conv upgrade_path_ok_def [symmetric] prod.inject)

theorem upgrade_path_validation_witness:
  "upgrade_path_validation release_semver (Some ''v4.3.0'') False (Release 4 2 0 []) [] = (Inr (), [])"
proof -
  have "\<not> contains_str ''develop'' ''v4.3.0''" by simp
  moreover have "parse_self_version release_semver (Some ''v4.3.0'') = Some (Release 4 3 0 [])"
    by (simp add: parse_self_version_def strip_prefix_char_def release_parse_def numeric_ident_def
        to_digit_def dec_value_def)
  ultimately show ?thesis
    unfolding upgrade_path_validation_iff by simp
qed

end
