(* ===== verification/Preflight.thy ===== *)
theory Preflight
  imports UpgradePath
begin

text \<open>
  The checks before an upgrade is started (\<^verbatim>\<open>upgrade/mod.rs\<close>): no rebuild in progress, no cordoned
  node, no volume with a single replica, a sane upgrade path. The two loops over the volumes follow
  the REST server's page tokens and have no bound, so they are partial functions. The locale
  \<open>volume_pages\<close> is the contract of that list.
\<close>

section \<open>Rebuilds\<close>

definition rebuilding :: "volume \<Rightarrow> bool" where
  "rebuilding v = (case vl_target v of
      Some target \<Rightarrow> list_ex (\<lambda>child. ch_rebuild_progress child \<noteq> None) (vt_children target)
    | None \<Rightarrow> False)"

partial_function (option) rebuild_loop :: "'v plugin_env \<Rightarrow> int option \<Rightarrow> bool plugin_pio" where
  "rebuild_loop env starting_token h = (case starting_token of
      None \<Rightarrow> Some (Inr False, h)
    | Some token \<Rightarrow>
        (let h' = h @ [GetVolumes http_data_page_size token] in
         case pe_get_volumes env h http_data_page_size token of
           Inl e \<Rightarrow> Some (Inl (ListVolumesError e), h')
         | Inr volumes \<Rightarrow>
             if list_ex rebuilding (vp_entries volumes) then Some (Inr True, h')
             else rebuild_loop env (vp_next_token volumes) h'))"

definition rebuild_in_progress :: "'v plugin_env \<Rightarrow> bool plugin_pio" where
  "rebuild_in_progress env = rebuild_loop env (Some 0)"

definition rebuild_in_progress_validation :: "'v plugin_env \<Rightarrow> unit plugin_pio" where
  "rebuild_in_progress_validation env =
     pio_bind (rebuild_in_progress env) (\<lambda>b.
       pio_of (if b then log_and_fail RebuildInProgressNotice RebuildInProgressError else io_ok ()))"

section \<open>Cordoned nodes\<close>

fun cordoned_nodes :: "node list \<Rightarrow> string list \<Rightarrow> plugin_error + string list" where
  "cordoned_nodes [] cordoned_nodes_list = Inr cordoned_nodes_list"
| "cordoned_nodes (n # ns) cordoned_nodes_list =
     res_bind (ok_or (nd_spec n) NodeSpecNotPresent) (\<lambda>spec.
       cordoned_nodes ns
         (if nd_cordondrainstate spec = Some CordonedState then cordoned_nodes_list @ [nd_id n]
          else cordoned_nodes_list))"

definition already_cordoned_nodes_validation :: "'v plugin_env \<Rightarrow> unit plugin_io" where
  "already_cordoned_nodes_validation env =
     io_bind (io_map_err ListNodesError (io_call GetNodes (pe_get_nodes env))) (\<lambda>nodelist.
     io_bind (io_res (cordoned_nodes nodelist [])) (\<lambda>cordoned_nodes_list.
       if cordoned_nodes_list \<noteq> []
       then log_and_fail (CordonedNodesNotice (join_with [CHR 0x0A] cordoned_nodes_list)) NodesCordonedError
       else io_ok ()))"

section \<open>Volumes with one replica\<close>

partial_function (option) single_replica_loop ::
  "'v plugin_env \<Rightarrow> int option \<Rightarrow> string list \<Rightarrow> string list plugin_pio" where
  "single_replica_loop env starting_token volumes h = (case starting_token of
      None \<Rightarrow> Some (Inr volumes, h)
    | Some token \<Rightarrow>
        (let h' = h @ [GetVolumes http_data_page_size token] in
         case pe_get_volumes env h http_data_page_size token of
           Inl e \<Rightarrow> Some (Inl (ListVolumesError e), h')
         | Inr v \<Rightarrow> single_replica_loop env (vp_next_token v)
             (volumes @ map vl_uuid (filter (\<lambda>volume. vl_num_replicas volume = 1) (vp_entries v))) h'))"

fun pvc_names_of :: "string list \<Rightarrow> object_meta list \<Rightarrow> string list" where
  "pvc_names_of uuid_list [] = []"
| "pvc_names_of uuid_list (pvc # pvcs) =
     (case om_uid pvc of
        Some uuid \<Rightarrow> if uuid \<in> set uuid_list
          then (case om_name pvc of Some pvc_name \<Rightarrow> [pvc_name] | None \<Rightarrow> []) @ pvc_names_of uuid_list pvcs
          else pvc_names_of uuid_list pvcs
      | None \<Rightarrow> pvc_names_of uuid_list pvcs)"

definition get_pvc_from_uuid :: "'v plugin_env \<Rightarrow> string list \<Rightarrow> string list plugin_io" where
  "get_pvc_from_uuid env uuid_list =
     io_bind (io_map_err ListPvcsError (io_call ListPvcs (pe_list_pvcs env))) (\<lambda>pvc_list.
       io_ok (pvc_names_of uuid_list pvc_list))"

definition single_volume_replica_validation :: "'v plugin_env \<Rightarrow> unit plugin_pio" where
  "single_volume_replica_validation env =
     pio_bind (single_replica_loop env (Some 0) []) (\<lambda>volumes.
       pio_of (if volumes \<noteq> [] then
           io_bind (get_pvc_from_uuid env volumes) (\<lambda>pvc_list.
             log_and_fail (SingleReplicaNotice (join_with [CHR 0x0A] pvc_list)) SingleReplicaError)
         else io_ok ()))"

section \<open>All checks\<close>

definition mayastor_checks ::
  "('v :: linorder) semver \<Rightarrow> 'v plugin_env \<Rightarrow> upgrade_common_args \<Rightarrow> 'v helm_release \<Rightarrow> unit plugin_pio" where
  "mayastor_checks S env args helm_release =
     pio_bind (pio_of (io_bind (io_emit (Info SingleReplicaUnavailableNotice)) (\<lambda>_.
                       io_bind (io_emit (Info NoNewSingleReplicaNotice)) (\<lambda>_.
                       io_map_err RestConfigError (io_call BuildRestConfig (pe_rest_config env)))))) (\<lambda>_.
     pio_bind (pio_when (\<not> uc_skip_upgrade_path_validation_for_unsupported_version args)
       (pio_of (upgrade_path_validation S (pc_version_tag (pe_consts env)) (uc_allow_unstable args)
          (release_version helm_release)))) (\<lambda>_.
     pio_bind (pio_when (\<not> uc_skip_replica_rebuild args) (rebuild_in_progress_validation env)) (\<lambda>_.
     pio_bind (pio_when (\<not> uc_skip_cordoned_node_validation args)
       (pio_of (already_cordoned_nodes_validation env))) (\<lambda>_.
     pio_when (\<not> uc_skip_single_replica_volume_validation args)
       (pio_bind (pio_of (io_map_err ClientError (io_call BuildClient (pe_client env)))) (\<lambda>_.
          single_volume_replica_validation env))))))"

definition upgrade_preflight_check ::
  "('v :: linorder) semver \<Rightarrow> 'v plugin_env \<Rightarrow> upgrade_common_args \<Rightarrow> string \<Rightarrow> unit plugin_pio" where
  "upgrade_preflight_check S env args release_name =
     pio_bind (pio_of (io_map_err HelmError (io_call (ReadHelmStorage (uc_namespace args) release_name)
         (\<lambda>h. new_from_cluster (pe_helm env h) (uc_helm_storage_driver args) release_name (uc_namespace args)))))
       (\<lambda>helm_release.
     pio_when (mayastor_is_enabled helm_release) (mayastor_checks S env args helm_release))"

section \<open>The contract of the volume list\<close>

text \<open>
  \<open>volumes_from t\<close> are the volumes from token \<open>t\<close> on, whatever was called before. A page is the next
  piece of them, the last page has no token, and the number of pages still to come (\<open>pages_left\<close>)
  goes down.
\<close>

locale volume_pages =
  fixes env :: "'v plugin_env"
    and valid :: "int \<Rightarrow> bool"
    and volumes_from :: "int \<Rightarrow> volume list"
    and pages_left :: "int \<Rightarrow> nat"
  assumes valid_start: "valid 0"
    and page: "valid t \<Longrightarrow> \<exists>pg. pe_get_volumes env h http_data_page_size t = Inr pg \<and>
      (case vp_next_token pg of
         None \<Rightarrow> volumes_from t = vp_entries pg
       | Some t' \<Rightarrow> valid t' \<and> pages_left t' < pages_left t \<and>
           volumes_from t = vp_entries pg @ volumes_from t')"
begin

lemma rebuild_loop_from:
  "valid t \<Longrightarrow> \<exists>h'. rebuild_loop env (Some t) h = Some (Inr (list_ex rebuilding (volumes_from t)), h')"
proof (induction "pages_left t" arbitrary: t h rule: less_induct)
  case less
  obtain pg where pg: "pe_get_volumes env h http_data_page_size t = Inr pg"
    and nxt: "case vp_next_token pg of None \<Rightarrow> volumes_from t = vp_entries pg
      | Some t' \<Rightarrow> valid t' \<and> pages_left t' < pages_left t \<and> volumes_from t = vp_entries pg @ volumes_from t'"
    using page [OF less.prems] by blast
  show ?case
  proof (cases "list_ex rebuilding (vp_entries pg)")
    case True
    with pg nxt show ?thesis
      by (auto simp: rebuild_loop.simps [of env "Some t"] Let_def split: option.splits)
  next
    case False
    show ?thesis
    proof (cases "vp_next_token pg")
      case None
      with pg nxt False show ?thesis
        by (simp add: rebuild_loop.simps [of env "Some t"] rebuild_loop.simps [of env None] Let_def)
    next
      case (Some t')
      with nxt have "pages_left t' < pages_left t" "valid t'" by auto
      from less.hyps [OF this] obtain h'
        where "rebuild_loop env (Some t') (h @ [GetVolumes http_data_page_size t]) =
          Some (Inr (list_ex rebuilding (volumes_from t')), h')" by blast
      with pg nxt False Some show ?thesis
        by (simp add: rebuild_loop.simps [of env "Some t"] Let_def)
    qed
  qed
qed

lemma rebuild_in_progress_correct:
  "\<exists>h'. rebuild_in_progress env h = Some (Inr (list_ex rebuilding (volumes_from 0)), h')"
  unfolding rebuild_in_progress_def by (rule rebuild_loop_from [OF valid_start])

lemma single_replica_loop_from:
  "valid t \<Longrightarrow> \<exists>h'. single_replica_loop env (Some t) acc h =
     Some (Inr (acc @ map vl_uuid (filter (\<lambda>v. vl_num_replicas v = 1) (volumes_from t))), h')"
proof (induction "pages_left t" arbitrary: t acc h rule: less_induct)
  case less
  obtain pg where pg: "pe_get_volumes env h http_data_page_size t = Inr pg"
    and nxt: "case vp_next_token pg of None \<Rightarrow> volumes_from t = vp_entries pg
      | Some t' \<Rightarrow> valid t' \<and> pages_left t' < pages_left t \<and> volumes_from t = vp_entries pg @ volumes_from t'"
    using page [OF less.prems] by blast
  show ?case
  proof (cases "vp_next_token pg")
    case None
    with pg nxt show ?thesis
      by (simp add: single_replica_loop.simps [of env "Some t"] single_replica_loop.simps [of env None] Let_def)
  next
    case (Some t')
    with nxt have "pages_left t' < pages_left t" "valid t'" by auto
    from less.hyps [OF this, of "acc @ map vl_uuid (filter (\<lambda>v. vl_num_replicas v = 1) (vp_entries pg))"]
    obtain h' where "single_replica_loop env (Some t')
        (acc @ map vl_uuid (filter (\<lambda>v. vl_num_replicas v = 1) (vp_entries pg)))
        (h @ [GetVolumes http_data_page_size t]) =
      Some (Inr ((acc @ map vl_uuid (filter (\<lambda>v. vl_num_replicas v = 1) (vp_entries pg))) @
        map vl_uuid (filter (\<lambda>v. vl_num_replicas v = 1) (volumes_from t'))), h')" by blast
    with pg nxt Some show ?thesis
      by (simp add: single_replica_loop.simps [of env "Some t"] Let_def)
  qed
qed

end

section \<open>A server with a given list of volumes\<close>

definition serve_volumes :: "'v plugin_env \<Rightarrow> volume list \<Rightarrow> 'v plugin_env" where
  "serve_volumes env vols = env\<lparr>pe_get_volumes := (\<lambda>h n t.
     Inr \<lparr>vp_entries = take n (drop (nat t) vols),
          vp_next_token = (if nat t + n < length vols then Some (t + int n) else None)\<rparr>)\<rparr>"

interpretation served: volume_pages "serve_volumes env vols" "\<lambda>t. 0 \<le> t"
  "\<lambda>t. drop (nat t) vols" "\<lambda>t. length vols - nat t"
proof
  show "(0 :: int) \<le> 0" by simp
next
  fix t :: int and h
  assume "0 \<le> t"
  let ?pg = "\<lparr>vp_entries = take 500 (drop (nat t) vols),
    vp_next_token = (if nat t + 500 < length vols then Some (t + 500) else None)\<rparr>"
  have "drop (nat t) vols = take 500 (drop (nat t) vols) @ drop (nat (t + 500)) vols"
    using \<open>0 \<le> t\<close> by (metis append_take_drop_id drop_drop add.commute nat_add_distrib nat_numeral zero_le_numeral)
  then have "case vp_next_token ?pg of None \<Rightarrow> drop (nat t) vols = vp_entries ?pg
      | Some t' \<Rightarrow> 0 \<le> t' \<and> length vols - nat t' < length vols - nat t \<and>
          drop (nat t) vols = vp_entries ?pg @ drop (nat t') vols"
    using \<open>0 \<le> t\<close> by (auto simp: nat_add_distrib)
  then show "\<exists>pg. pe_get_volumes (serve_volumes env vols) h http_data_page_size t = Inr pg \<and>
      (case vp_next_token pg of None \<Rightarrow> drop (nat t) vols = vp_entries pg
       | Some t' \<Rightarrow> 0 \<le> t' \<and> length vols - nat t' < length vols - nat t \<and>
           drop (nat t) vols = vp_entries pg @ drop (nat t') vols)"
    by (intro exI [of _ ?pg]) (simp add: serve_volumes_def http_data_page_size_def)
qed

section \<open>Properties\<close>

text \<open>C10: the search for running rebuilds looks at every page. On a REST server with any list of
  volumes it returns, without an error, and its answer is whether some volume has a target with a
  child that reports a rebuild.\<close>

theorem rebuild_in_progress_complete:
  "\<exists>h'. rebuild_in_progress (serve_volumes env vols) h = Some (Inr (list_ex rebuilding vols), h')"
  using served.rebuild_in_progress_correct [of env vols h] by simp

lemma rebuild_validation_ok:
  assumes "rebuild_in_progress_validation (serve_volumes env vols) h = Some (Inr (), h')"
  shows "\<not> list_ex rebuilding vols"
proof -
  obtain h1 where "rebuild_in_progress (serve_volumes env vols) h = Some (Inr (list_ex rebuilding vols), h1)"
    using served.rebuild_in_progress_correct [of env vols h] by auto
  with assms show ?thesis
    by (auto simp: rebuild_in_progress_validation_def io_simps split: if_splits)
qed

lemma single_replica_loop_served:
  "\<exists>h'. single_replica_loop (serve_volumes env vols) (Some 0) [] h =
     Some (Inr (map vl_uuid (filter (\<lambda>v. vl_num_replicas v = 1) vols)), h')"
  using served.single_replica_loop_from [of 0 env vols "[]" h] by simp

lemma single_replica_validation_ok:
  assumes "single_volume_replica_validation (serve_volumes env vols) h = Some (Inr (), h')"
  shows "\<forall>v \<in> set vols. vl_num_replicas v \<noteq> 1"
proof -
  obtain h1 where "single_replica_loop (serve_volumes env vols) (Some 0) [] h =
      Some (Inr (map vl_uuid (filter (\<lambda>v. vl_num_replicas v = 1) vols)), h1)"
    using single_replica_loop_served by blast
  with assms have "filter (\<lambda>v. vl_num_replicas v = 1) vols = []"
    by (auto simp: single_volume_replica_validation_def io_simps split: if_splits sum.splits prod.splits)
  then show ?thesis by (simp add: filter_empty_conv)
qed

lemma cordoned_nodes_correct:
  "cordoned_nodes ns acc = Inr ids \<longleftrightarrow>
     (\<forall>n \<in> set ns. nd_spec n \<noteq> None) \<and>
     ids = acc @ map nd_id (filter (\<lambda>n. map_option nd_cordondrainstate (nd_spec n) = Some (Some CordonedState)) ns)"
proof (induction ns arbitrary: acc)
  case Nil
  then show ?case by auto
next
  case (Cons n ns)
  then show ?case by (cases "nd_spec n") auto
qed

definition node_uncordoned :: "node \<Rightarrow> bool" where
  "node_uncordoned n \<longleftrightarrow> (\<exists>spec. nd_spec n = Some spec \<and> nd_cordondrainstate spec \<noteq> Some CordonedState)"

lemma cordoned_validation_ok:
  assumes "already_cordoned_nodes_validation env h = (Inr (), h')"
  shows "\<exists>nodes. pe_get_nodes env h = Inr nodes \<and> (\<forall>n \<in> set nodes. node_uncordoned n)"
proof -
  from assms obtain nodes where nodes: "pe_get_nodes env h = Inr nodes"
    by (cases "pe_get_nodes env h")
      (auto simp: already_cordoned_nodes_validation_def io_simps split: sum.splits)
  with assms have "cordoned_nodes nodes [] = Inr []"
    by (auto simp: already_cordoned_nodes_validation_def io_simps split: sum.splits if_splits)
  with nodes show ?thesis
    by (auto simp: cordoned_nodes_correct filter_empty_conv node_uncordoned_def)
qed

text \<open>What a passed preflight check means for an installation with Mayastor.\<close>

definition preflight_safe ::
  "('v :: linorder) semver \<Rightarrow> 'v plugin_env \<Rightarrow> volume list \<Rightarrow> upgrade_common_args \<Rightarrow> 'v helm_release \<Rightarrow> bool" where
  "preflight_safe S env vols args release \<longleftrightarrow>
     (uc_skip_upgrade_path_validation_for_unsupported_version args \<or>
        upgrade_path_ok S (pc_version_tag (pe_consts env)) (uc_allow_unstable args) (release_version release)) \<and>
     (uc_skip_replica_rebuild args \<or> \<not> list_ex rebuilding vols) \<and>
     (uc_skip_cordoned_node_validation args \<or>
        (\<exists>h1 nodes. pe_get_nodes env h1 = Inr nodes \<and> (\<forall>n \<in> set nodes. node_uncordoned n))) \<and>
     (uc_skip_single_replica_volume_validation args \<or> (\<forall>v \<in> set vols. vl_num_replicas v \<noteq> 1))"

lemma serve_volumes_simps [simp]:
  "pe_helm (serve_volumes env vols) = pe_helm env"
  "pe_consts (serve_volumes env vols) = pe_consts env"
  "pe_get_nodes (serve_volumes env vols) = pe_get_nodes env"
  by (simp_all add: serve_volumes_def)

lemma pio_when_Inr_iff: "pio_when b m h = Some (Inr (), h') \<longleftrightarrow>
    (if b then m h = Some (Inr (), h') else h' = h)"
  by (auto simp: io_simps)

lemma mayastor_checks_safe:
  assumes "mayastor_checks S (serve_volumes env vols) args release h = Some (Inr (), h')"
  shows "preflight_safe S env vols args release"
proof -
  let ?env = "serve_volumes env vols"
  from assms obtain h1 h2 h3 h4 where
    path: "pio_when (\<not> uc_skip_upgrade_path_validation_for_unsupported_version args)
      (pio_of (upgrade_path_validation S (pc_version_tag (pe_consts ?env)) (uc_allow_unstable args)
        (release_version release))) h1 = Some (Inr (), h2)" and
    rebuild: "pio_when (\<not> uc_skip_replica_rebuild args) (rebuild_in_progress_validation ?env) h2
      = Some (Inr (), h3)" and
    cordon: "pio_when (\<not> uc_skip_cordoned_node_validation args)
      (pio_of (already_cordoned_nodes_validation ?env)) h3 = Some (Inr (), h4)" and
    single: "pio_when (\<not> uc_skip_single_replica_volume_validation args)
      (pio_bind (pio_of (io_map_err ClientError (io_call BuildClient (pe_client ?env))))
        (\<lambda>_. single_volume_replica_validation ?env)) h4 = Some (Inr (), h')"
    unfolding mayastor_checks_def pio_bind_Inr_iff by (auto simp: unit_all_eq1)
  have "uc_skip_upgrade_path_validation_for_unsupported_version args \<or>
      upgrade_path_ok S (pc_version_tag (pe_consts env)) (uc_allow_unstable args) (release_version release)"
    using path upgrade_path_validation_result [of S "pc_version_tag (pe_consts env)"
        "uc_allow_unstable args" "release_version release" h1]
    by (auto simp: pio_when_Inr_iff pio_of_def split: if_splits)
  moreover have "uc_skip_replica_rebuild args \<or> \<not> list_ex rebuilding vols"
    using rebuild rebuild_validation_ok by (auto simp: pio_when_Inr_iff split: if_splits)
  moreover have "uc_skip_cordoned_node_validation args \<or>
      (\<exists>h1 nodes. pe_get_nodes env h1 = Inr nodes \<and> (\<forall>n \<in> set nodes. node_uncordoned n))"
    using cordon cordoned_validation_ok [of ?env h3 h4]
    by (auto simp: pio_when_Inr_iff pio_of_def split: if_splits)
  moreover have "uc_skip_single_replica_volume_validation args \<or> (\<forall>v \<in> set vols. vl_num_replicas v \<noteq> 1)"
    using single
    by (auto simp: pio_when_Inr_iff pio_bind_Inr_iff split: if_splits dest!: single_replica_validation_ok)
  ultimately show ?thesis by (simp add: preflight_safe_def)
qed

lemma preflight_success:
  assumes "upgrade_preflight_check S (serve_volumes env vols) args rel h = Some (Inr (), h')"
  shows "\<exists>release. new_from_cluster (pe_helm env h) (uc_helm_storage_driver args) rel (uc_namespace args)
      = Inr release \<and> (mayastor_is_enabled release \<longrightarrow> preflight_safe S env vols args release)"
proof (cases "new_from_cluster (pe_helm env h) (uc_helm_storage_driver args) rel (uc_namespace args)")
  case (Inl e)
  with assms show ?thesis by (simp add: upgrade_preflight_check_def io_simps)
next
  case (Inr release)
  with assms have "mayastor_is_enabled release \<Longrightarrow> preflight_safe S env vols args release"
    by (auto simp: upgrade_preflight_check_def pio_bind_Inr_iff pio_when_Inr_iff io_simps
        dest: mayastor_checks_safe)
  with Inr show ?thesis by blast
qed

text \<open>C11: what the preflight check guarantees. If it succeeds on a cluster with the volumes \<open>vols\<close>, then
  the helm release could be read, and if Mayastor is enabled in it, the upgrade path is allowed, no
  volume is rebuilding, no listed node is cordoned and no volume has a single replica, each unless
  its check was skipped on the command line.\<close>

theorem preflight_guarantees:
  assumes "upgrade_preflight_check S (serve_volumes env vols) args rel h = Some (Inr (), h')"
  shows "\<exists>release. new_from_cluster (pe_helm env h) (uc_helm_storage_driver args) rel (uc_namespace args)
      = Inr release \<and> (mayastor_is_enabled release \<longrightarrow> preflight_safe S env vols args release)"
  using assms by (rule preflight_success)

lemma default_args_simps:
  "uc_skip_replica_rebuild default_args = False" "uc_skip_cordoned_node_validation default_args = False"
  "uc_skip_single_replica_volume_validation default_args = False"
  "uc_skip_upgrade_path_validation_for_unsupported_version default_args = False"
  "uc_allow_unstable default_args = False" "uc_helm_storage_driver default_args = []"
  "uc_namespace default_args = ''openebs''"
  by (simp_all add: default_args_def)

lemma healthy_tag: "pc_version_tag (pe_consts (healthy_env tag release)) = tag"
  and healthy_helm: "pe_helm (healthy_env tag release) = (\<lambda>h. healthy_helm_env release)"
  by (simp_all add: healthy_env_def)

definition healthy_volume :: volume where
  "healthy_volume = \<lparr>vl_uuid = ''v1'', vl_num_replicas = 3,
     vl_target = Some \<lparr>vt_children = [\<lparr>ch_rebuild_progress = None\<rparr>]\<rparr>\<rparr>"

lemma healthy_path_ok:
  "upgrade_path_ok release_semver (Some ''v4.3.0'') False (Release 4 2 0 [])"
proof -
  have "parse_self_version release_semver (Some ''v4.3.0'') = Some (Release 4 3 0 [])"
    by (simp add: parse_self_version_def strip_prefix_char_def release_parse_def numeric_ident_def
        to_digit_def dec_value_def)
  then show ?thesis by (simp add: upgrade_path_ok_def)
qed

lemma healthy_passes:
  "passes (upgrade_preflight_check release_semver
     (serve_volumes (healthy_env (Some ''v4.3.0'') (v4_release True (Release 4 2 0 []))) [healthy_volume])
     default_args ''openebs'') ()"
proof -
  let ?base = "healthy_env (Some ''v4.3.0'') (v4_release True (Release 4 2 0 []))"
  let ?env = "serve_volumes ?base [healthy_volume]"
  have release: "passes (pio_of (io_map_err HelmError (io_call (ReadHelmStorage ns rel)
      (\<lambda>h. new_from_cluster (pe_helm ?env h) [] rel ns)))) (v4_release True (Release 4 2 0 []))" for ns rel
    by (rule passes_of) (simp add: io_simps healthy_env_def)
  have start: "passes (pio_of (io_bind (io_emit (Info SingleReplicaUnavailableNotice)) (\<lambda>_.
      io_bind (io_emit (Info NoNewSingleReplicaNotice)) (\<lambda>_.
      io_map_err RestConfigError (io_call BuildRestConfig (pe_rest_config ?env)))))) ()"
    by (rule passes_of) (simp add: io_simps serve_volumes_def healthy_env_def)
  have path: "passes (pio_of (upgrade_path_validation release_semver (pc_version_tag (pe_consts ?env)) False
      (Release 4 2 0 []))) ()"
    by (rule passes_of) (metis upgrade_path_validation_result healthy_path_ok prod.collapse
        serve_volumes_simps(2) healthy_tag)
  have rebuild: "passes (rebuild_in_progress_validation ?env) ()"
    unfolding passes_def
  proof
    fix h
    show "\<exists>h'. rebuild_in_progress_validation ?env h = Some (Inr (), h')"
      using served.rebuild_in_progress_correct [of ?base "[healthy_volume]" h]
      by (auto simp: rebuild_in_progress_validation_def io_simps healthy_volume_def rebuilding_def)
  qed
  have cordon: "passes (pio_of (already_cordoned_nodes_validation ?env)) ()"
    by (rule passes_of) (simp add: already_cordoned_nodes_validation_def io_simps healthy_env_def)
  have client: "passes (pio_of (io_map_err ClientError (io_call BuildClient (pe_client ?env)))) ()"
    by (rule passes_of) (simp add: io_simps serve_volumes_def healthy_env_def)
  have single: "passes (single_volume_replica_validation ?env) ()"
    unfolding passes_def
  proof
    fix h
    show "\<exists>h'. single_volume_replica_validation ?env h = Some (Inr (), h')"
      using single_replica_loop_served [of ?base "[healthy_volume]" h]
      by (auto simp: single_volume_replica_validation_def io_simps healthy_volume_def)
  qed
  have checks: "passes (mayastor_checks release_semver ?env default_args (v4_release True (Release 4 2 0 []))) ()"
    unfolding mayastor_checks_def default_args_simps v4_release_simps
    by (rule passes_then [OF start passes_then [OF passes_when [OF path]
      passes_then [OF passes_when [OF rebuild] passes_then [OF passes_when [OF cordon]
        passes_when [OF passes_then [OF client single]]]]]])
  show ?thesis
    unfolding upgrade_preflight_check_def default_args_simps
    by (rule passes_bind [OF release]) (rule passes_when [OF checks])
qed

theorem preflight_guarantees_witness:
  "preflight_safe release_semver (healthy_env (Some ''v4.3.0'') (v4_release True (Release 4 2 0 [])))
     [healthy_volume] default_args (v4_release True (Release 4 2 0 []))"
proof -
  obtain h' where "upgrade_preflight_check release_semver
      (serve_volumes (healthy_env (Some ''v4.3.0'') (v4_release True (Release 4 2 0 []))) [healthy_volume])
      default_args ''openebs'' [] = Some (Inr (), h')"
    using passesD [OF healthy_passes] by blast
  from preflight_guarantees [OF this] show ?thesis by (simp add: healthy_helm default_args_simps)
qed

text \<open>The checks only read: whatever the cluster answers, no object is created or deleted.\<close>

lemma rebuild_loop_emits:
  assumes run: "rebuild_loop env t h = Some rh"
  shows "\<exists>u. snd rh = h @ u \<and> list_all (\<lambda>c. \<not> mutating c) u"
proof (rule rebuild_loop.raw_induct [where
      P = "\<lambda>env t h rh. \<exists>u. snd rh = h @ u \<and> list_all (\<lambda>c. \<not> mutating c) u", OF _ run])
  fix f env t h rh
  assume IH: "\<And>env t h rh. f env t h = Some rh \<Longrightarrow> \<exists>u. snd rh = h @ u \<and> list_all (\<lambda>c. \<not> mutating c) u"
    and eq: "(case t of None \<Rightarrow> Some (Inr False, h)
      | Some token \<Rightarrow>
        (let h' = h @ [GetVolumes http_data_page_size token] in
         case pe_get_volumes env h http_data_page_size token of
           Inl e \<Rightarrow> Some (Inl (ListVolumesError e), h')
         | Inr volumes \<Rightarrow>
             if list_ex rebuilding (vp_entries volumes) then Some (Inr True, h')
             else f env (vp_next_token volumes) h')) = Some rh"
  from eq consider "snd rh = h" | token where "snd rh = h @ [GetVolumes http_data_page_size token]"
    | token t' where "f env t' (h @ [GetVolumes http_data_page_size token]) = Some rh"
    by (auto simp: Let_def split: option.splits sum.splits if_splits)
  then show "\<exists>u. snd rh = h @ u \<and> list_all (\<lambda>c. \<not> mutating c) u"
    by cases (auto dest: IH)
qed

lemma single_replica_loop_emits:
  assumes run: "single_replica_loop env t acc h = Some rh"
  shows "\<exists>u. snd rh = h @ u \<and> list_all (\<lambda>c. \<not> mutating c) u"
proof (rule single_replica_loop.raw_induct [where
      P = "\<lambda>env t acc h rh. \<exists>u. snd rh = h @ u \<and> list_all (\<lambda>c. \<not> mutating c) u", OF _ run])
  fix f env t acc h rh
  assume IH: "\<And>env t acc h rh. f env t acc h = Some rh \<Longrightarrow> \<exists>u. snd rh = h @ u \<and> list_all (\<lambda>c. \<not> mutating c) u"
    and eq: "(case t of None \<Rightarrow> Some (Inr acc, h)
      | Some token \<Rightarrow>
        (let h' = h @ [GetVolumes http_data_page_size token] in
         case pe_get_volumes env h http_data_page_size token of
           Inl e \<Rightarrow> Some (Inl (ListVolumesError e), h')
         | Inr v \<Rightarrow> f env (vp_next_token v)
             (acc @ map vl_uuid (filter (\<lambda>volume. vl_num_replicas volume = 1) (vp_entries v))) h')) = Some rh"
  from eq consider "snd rh = h" | token where "snd rh = h @ [GetVolumes http_data_page_size token]"
    | token t' acc' where "f env t' acc' (h @ [GetVolumes http_data_page_size token]) = Some rh"
    by (auto simp: Let_def split: option.splits sum.splits if_splits)
  then show "\<exists>u. snd rh = h @ u \<and> list_all (\<lambda>c. \<not> mutating c) u"
    by cases (auto dest: IH)
qed

lemma pemits_volume_loops [emits_intros]:
  "pemits (\<lambda>c. \<not> mutating c) (rebuild_loop env t)"
  "pemits (\<lambda>c. \<not> mutating c) (single_replica_loop env t acc)"
  using rebuild_loop_emits single_replica_loop_emits by (fastforce simp: pemits_def)+

lemma pemits_validations [emits_intros]:
  "pemits (\<lambda>c. \<not> mutating c) (rebuild_in_progress_validation env)"
  "emits (\<lambda>c. \<not> mutating c) (already_cordoned_nodes_validation env)"
  "pemits (\<lambda>c. \<not> mutating c) (single_volume_replica_validation env)"
  unfolding rebuild_in_progress_validation_def rebuild_in_progress_def already_cordoned_nodes_validation_def
    single_volume_replica_validation_def get_pvc_from_uuid_def
  by (intro emits_intros; simp)+

lemma pemits_mayastor_checks [emits_intros]:
  "pemits (\<lambda>c. \<not> mutating c) (mayastor_checks S env args release)"
  unfolding mayastor_checks_def by (intro emits_intros) simp_all

text \<open>C12: the preflight check is read-only. Whatever the cluster holds and answers, and whether the check
  passes or not, it creates, deletes and changes no object.\<close>

theorem preflight_read_only:
  "pemits (\<lambda>c. \<not> mutating c) (upgrade_preflight_check S env args rel)"
  unfolding upgrade_preflight_check_def by (intro emits_intros) simp_all

text \<open>C13: the preflight check terminates on every REST server with a finite list of volumes.\<close>

theorem preflight_returns:
  "\<exists>r h'. upgrade_preflight_check S (serve_volumes env vols) args rel h = Some (r, h')"
proof (rule returnsD)
  have rebuild: "returns (rebuild_in_progress (serve_volumes env vols))"
    using served.rebuild_in_progress_correct [of env vols] by (auto simp: returns_def) (metis option.distinct(1))
  have single: "returns (single_replica_loop (serve_volumes env vols) (Some 0) [])"
    using single_replica_loop_served [of env vols] by (auto simp: returns_def) (metis option.distinct(1))
  show "returns (upgrade_preflight_check S (serve_volumes env vols) args rel)"
    unfolding upgrade_preflight_check_def mayastor_checks_def rebuild_in_progress_validation_def
      single_volume_replica_validation_def
    by (intro returns_intros rebuild single)
qed

end
