(* ===== verification/Lifecycle.thy ===== *)
theory Lifecycle
  imports PluginEnv
begin

text \<open>
  Creating and deleting the objects of an upgrade (the second half of \<^verbatim>\<open>upgrade/mod.rs\<close>). Each object
  is one spawned task: a request and the line it prints; that a spawned task itself is aborted or panics
  (a \<^verbatim>\<open>JoinError\<close>, which \<^verbatim>\<open>joined_flatten\<close> would pass on) is not modelled. The locale \<open>object_store\<close> is the
  part of the API server's contract that makes the two operations idempotent.
\<close>

section \<open>One object\<close>

type_synonym plugin_task = "(plugin_call, plugin_error, unit) task"

definition t_print :: "notice option \<Rightarrow> plugin_task" where
  "t_print log = (case log of Some log_line \<Rightarrow> t_emit (Println log_line) | None \<Rightarrow> t_ok ())"

text \<open>The answer to the request is looked at by the task itself, so it is never the task's error.\<close>

definition t_request :: "plugin_call \<Rightarrow> (plugin_call list \<Rightarrow> kube_error + unit) \<Rightarrow>
    (plugin_call, plugin_error, kube_error + unit) task" where
  "t_request c answer = t_call c (\<lambda>h. Inr (answer h))"

definition idempotent_create_resource ::
  "'v plugin_env \<Rightarrow> string option \<Rightarrow> k8s_object \<Rightarrow> notice option \<Rightarrow> plugin_task" where
  "idempotent_create_resource env client_ns resource log =
     (let key = create_target client_ns resource in
      t_bind (t_request (CreateObject key resource) (\<lambda>h. pe_create env h key resource)) (\<lambda>answer.
        case answer of
          Inr _ \<Rightarrow> t_print log
        | Inl err \<Rightarrow> (case err of
              KubeApi reason code \<Rightarrow>
                if reason = ''AlreadyExists''
                then t_emit (Println (AlreadyExistsNotice (object_kind resource)
                       (unwrap_or (om_name (object_metadata resource)) [])))
                else t_err (KubeFailed err)
            | KubeOther m \<Rightarrow> t_err (KubeFailed err))))"

definition delete_params :: propagation where
  "delete_params = Foreground"

definition idempotent_delete_resource :: "'v plugin_env \<Rightarrow> object_key \<Rightarrow> notice option \<Rightarrow> plugin_task" where
  "idempotent_delete_resource env key log =
     t_bind (t_request (DeleteObjectWith delete_params key) (\<lambda>h. pe_delete env h key)) (\<lambda>answer.
       case answer of
         Inr _ \<Rightarrow> t_print log
       | Inl err \<Rightarrow> (case err of
             KubeApi reason code \<Rightarrow> if reason = ''NotFound'' then t_ok () else t_err (KubeFailed err)
           | KubeOther m \<Rightarrow> t_err (KubeFailed err)))"

section \<open>All objects\<close>

text \<open>The objects of an upgrade with the namespace of the client that creates each.\<close>

definition upgrade_objects ::
  "plugin_consts \<Rightarrow> upgrade_common_args \<Rightarrow> string \<Rightarrow> (string \<rightharpoonup> string) \<Rightarrow> job \<Rightarrow> (string option \<times> k8s_object) list" where
  "upgrade_objects C args release_name cm_data jb =
     (let ns = uc_namespace args; tag = pc_version_tag C in
      [(Some ns, ObjServiceAccount (upgrade_job_service_account C (Some ns)
          (upgrade_name_concat tag release_name ''upgrade-service-account''))),
       (None, ObjClusterRoleBinding (upgrade_job_cluster_role_binding C (Some ns) release_name)),
       (None, ObjClusterRole (upgrade_job_cluster_role C (Some ns)
          (upgrade_name_concat tag release_name ''upgrade-role''))),
       (Some ns, ObjConfigMap (upgrade_configmap C cm_data ns release_name)),
       (Some ns, ObjJob jb)])"

text \<open>The lines printed name the object and, for a namespaced client, the namespace in its metadata.\<close>

definition creation_log :: "string option \<Rightarrow> k8s_object \<Rightarrow> notice" where
  "creation_log client_ns obj = CreatedNotice (object_kind obj) (unwrap_or (om_name (object_metadata obj)) [])
     (case client_ns of None \<Rightarrow> None | Some _ \<Rightarrow> om_namespace (object_metadata obj))"

definition create_tasks :: "'v plugin_env \<Rightarrow> (string option \<times> k8s_object) list \<Rightarrow> plugin_task list" where
  "create_tasks env objs = map (\<lambda>(client_ns, obj).
     idempotent_create_resource env client_ns obj (Some (creation_log client_ns obj))) objs"

text \<open>A computation on files: it makes no recorded call, but reads what is there at that moment.\<close>

definition io_local :: "('c list \<Rightarrow> 'e + 'a) \<Rightarrow> ('c, 'e, 'a) io" where
  "io_local f = (\<lambda>h. (f h, h))"

lemma io_local_apply [io_simps]: "io_local f h = (f h, h)"
  by (simp add: io_local_def)

lemma emits_local [emits_intros]: "emits P (io_local f)"
  by (simp add: emits_def io_local_def)

definition upgrade_job_of ::
  "'v plugin_env \<Rightarrow> upgrade_common_args \<Rightarrow> string \<Rightarrow> string \<Rightarrow> job plugin_io" where
  "upgrade_job_of env args release_name set_file =
     io_bind (io_try (io_call (ListPods (uc_namespace args) openebs_pod_selector)
         (\<lambda>h. pe_list_pods env h (uc_namespace args) openebs_pod_selector))) (\<lambda>pods.
     io_bind (io_res (map_err ImageError (new_from_helm_release release_name args pods))) (\<lambda>image_properties.
     io_ok (upgrade_job (pe_consts env) args release_name set_file image_properties)))"

definition create_upgrade_resources ::
  "'v plugin_env \<Rightarrow> upgrade_common_args \<Rightarrow> string \<Rightarrow> unit plugin_io" where
  "create_upgrade_resources env args release_name =
     io_bind (io_local (\<lambda>h. map_err SetFileError (set_file_resources (pe_read_file env h) (uc_set_file args))))
       (\<lambda>cm_data.
     io_bind (upgrade_job_of env args release_name (snd cm_data)) (\<lambda>jb.
     io_bind (try_join (pe_schedule env) (create_tasks env
         (upgrade_objects (pe_consts env) args release_name (fst cm_data) jb))) (\<lambda>_.
     io_ok ())))"

definition delete_keys :: "plugin_consts \<Rightarrow> string \<Rightarrow> string \<Rightarrow> object_key list" where
  "delete_keys C release_name ns =
     (let tag = pc_version_tag C; version = upgrade_obj_suffix tag in
      [(''Job'', Some ns, release_name @ ''-upgrade-'' @ version),
       (''ConfigMap'', Some ns, release_name @ ''-upgrade-config-map-'' @ version),
       (''ClusterRole'', None, upgrade_name_concat tag release_name ''upgrade-role''),
       (''ClusterRoleBinding'', None, release_name @ ''-upgrade-role-binding-'' @ version),
       (''ServiceAccount'', Some ns, upgrade_name_concat tag release_name ''upgrade-service-account'')])"

definition deletion_log :: "object_key \<Rightarrow> notice" where
  "deletion_log key = (case key of (kind, ns, name) \<Rightarrow> DeletedNotice kind name ns)"

definition delete_tasks :: "'v plugin_env \<Rightarrow> object_key list \<Rightarrow> plugin_task list" where
  "delete_tasks env keys = map (\<lambda>key. idempotent_delete_resource env key (Some (deletion_log key))) keys"

definition delete_upgrade_resources :: "'v plugin_env \<Rightarrow> string \<Rightarrow> string \<Rightarrow> unit plugin_io" where
  "delete_upgrade_resources env release_name ns =
     io_bind (try_join (pe_schedule env) (delete_tasks env (delete_keys (pe_consts env) release_name ns)))
       (\<lambda>_. io_ok ())"

section \<open>What one task does\<close>

fun api_reason :: "kube_error \<Rightarrow> string option" where
  "api_reason (KubeApi reason code) = Some reason"
| "api_reason (KubeOther m) = None"

text \<open>The result of a task whose request got the answer \<open>ans\<close>, with one tolerated error.\<close>

definition tolerate :: "string \<Rightarrow> kube_error + unit \<Rightarrow> plugin_error + unit" where
  "tolerate reason ans = (case ans of
      Inr _ \<Rightarrow> Inr ()
    | Inl e \<Rightarrow> if api_reason e = Some reason then Inr () else Inl (KubeFailed e))"

lemma tolerate_simps [simp]:
  "tolerate reason (Inr u) = Inr ()"
  "tolerate reason (Inl e) = (if api_reason e = Some reason then Inr () else Inl (KubeFailed e))"
  by (simp_all add: tolerate_def)

lemma task_reach_call:
  "task_reach h H (t_bind (t_request c answer) f) (Finished r) \<Longrightarrow>
     \<exists>p q. H = h @ p @ c # q \<and> task_reach h H (f (answer (h @ p))) (Finished r)"
  by (auto simp: t_request_def t_call_def elim!: task_reach_ActE) blast

lemma task_reach_printed:
  "task_reach h H (t_print log) (Finished r) \<Longrightarrow> r = Inr ()"
  "task_reach h H (t_emit c) (Finished r') \<Longrightarrow> r' = Inr ()"
  "task_reach h H (Finished q) (Finished r'') \<Longrightarrow> r'' = q"
  by (auto simp: t_print_def t_emit_def t_call_def t_ok_def split: option.splits
      elim!: task_reach_ActE task_reach_FinishedE)

lemma create_task_result:
  assumes "task_reach h H (idempotent_create_resource env ns obj log) (Finished r)"
  shows "\<exists>p q. H = h @ p @ CreateObject (create_target ns obj) obj # q \<and>
     r = tolerate ''AlreadyExists'' (pe_create env (h @ p) (create_target ns obj) obj)"
proof -
  let ?key = "create_target ns obj"
  from task_reach_call [OF assms [unfolded idempotent_create_resource_def Let_def]]
  obtain p q where H: "H = h @ p @ CreateObject ?key obj # q"
    and reach: "task_reach h H (case pe_create env (h @ p) ?key obj of
      Inr _ \<Rightarrow> t_print log
    | Inl err \<Rightarrow> (case err of
        KubeApi reason code \<Rightarrow> if reason = ''AlreadyExists''
          then t_emit (Println (AlreadyExistsNotice (object_kind obj) (unwrap_or (om_name (object_metadata obj)) [])))
          else t_err (KubeFailed err)
      | KubeOther m \<Rightarrow> t_err (KubeFailed err))) (Finished r)" by blast
  have "r = tolerate ''AlreadyExists'' (pe_create env (h @ p) ?key obj)"
    using reach by (auto simp: t_err_def split: sum.splits kube_error.splits if_splits
        dest: task_reach_printed)
  with H show ?thesis by blast
qed

lemma delete_task_result:
  assumes "task_reach h H (idempotent_delete_resource env key log) (Finished r)"
  shows "\<exists>p q. H = h @ p @ DeleteObject key # q \<and> r = tolerate ''NotFound'' (pe_delete env (h @ p) key)"
proof -
  from task_reach_call [OF assms [unfolded idempotent_delete_resource_def delete_params_def]]
  obtain p q where H: "H = h @ p @ DeleteObject key # q"
    and reach: "task_reach h H (case pe_delete env (h @ p) key of
      Inr _ \<Rightarrow> t_print log
    | Inl err \<Rightarrow> (case err of
        KubeApi reason code \<Rightarrow> if reason = ''NotFound'' then t_ok () else t_err (KubeFailed err)
      | KubeOther m \<Rightarrow> t_err (KubeFailed err))) (Finished r)" by blast
  have "r = tolerate ''NotFound'' (pe_delete env (h @ p) key)"
    using reach by (auto simp: t_err_def t_ok_def split: sum.splits kube_error.splits if_splits
        dest: task_reach_printed)
  with H show ?thesis by blast
qed

text \<open>The calls of the tasks.\<close>

lemma create_tasks_emit:
  assumes "t \<in> set (create_tasks env objs)"
    and "\<And>ns obj. (ns, obj) \<in> set objs \<Longrightarrow> P (CreateObject (create_target ns obj) obj)" and "\<And>n. P (Println n)"
  shows "task_emits P t"
proof -
  from assms(1) obtain ns obj where obj: "(ns, obj) \<in> set objs"
    and t: "t = idempotent_create_resource env ns obj (Some (creation_log ns obj))"
    by (auto simp: create_tasks_def)
  show ?thesis
    unfolding t idempotent_create_resource_def t_print_def t_request_def Let_def
    using assms(2) [OF obj] assms(3)
    by (intro emits_intros) (auto split: sum.splits kube_error.splits intro: emits_intros)
qed

lemma delete_tasks_emit:
  assumes "t \<in> set (delete_tasks env keys)"
    and "\<And>key. key \<in> set keys \<Longrightarrow> P (DeleteObject key)" and "\<And>n. P (Println n)"
  shows "task_emits P t"
proof -
  from assms(1) obtain key where key: "key \<in> set keys"
    and t: "t = idempotent_delete_resource env key (Some (deletion_log key))"
    by (auto simp: delete_tasks_def)
  show ?thesis
    unfolding t idempotent_delete_resource_def delete_params_def t_print_def t_request_def
    using assms(2) [OF key] assms(3)
    by (intro emits_intros) (auto split: sum.splits kube_error.splits intro: emits_intros)
qed

section \<open>The outcome of both operations\<close>

text \<open>The object \<open>obj\<close> was sent to the server at a moment between \<open>h\<close> and \<open>h'\<close> and is there now or was before.\<close>

definition create_accepted :: "'v plugin_env \<Rightarrow> plugin_call list \<Rightarrow> plugin_call list \<Rightarrow> string option \<Rightarrow> k8s_object \<Rightarrow> bool" where
  "create_accepted env h h' ns obj \<longleftrightarrow> (\<exists>p q. h' = h @ p @ CreateObject (create_target ns obj) obj # q \<and>
     (case pe_create env (h @ p) (create_target ns obj) obj of
        Inr _ \<Rightarrow> True | Inl e \<Rightarrow> api_reason e = Some ''AlreadyExists''))"

definition create_refused :: "'v plugin_env \<Rightarrow> plugin_call list \<Rightarrow> plugin_call list \<Rightarrow> string option \<Rightarrow> k8s_object \<Rightarrow> kube_error \<Rightarrow> bool" where
  "create_refused env h h' ns obj e \<longleftrightarrow> (\<exists>p q. h' = h @ p @ CreateObject (create_target ns obj) obj # q \<and>
     pe_create env (h @ p) (create_target ns obj) obj = Inl e \<and> api_reason e \<noteq> Some ''AlreadyExists'')"

lemma tolerate_Inr_iff: "tolerate reason ans = Inr u \<longleftrightarrow>
    (case ans of Inr _ \<Rightarrow> True | Inl e \<Rightarrow> api_reason e = Some reason)"
  by (cases ans) auto

lemma tolerate_Inl_iff: "tolerate reason ans = Inl err \<longleftrightarrow>
    (\<exists>e. ans = Inl e \<and> api_reason e \<noteq> Some reason \<and> err = KubeFailed e)"
  by (cases ans) auto

lemma create_tasks_joined:
  assumes "try_join_runs (create_tasks env objs) h r h'"
  shows "(\<forall>xs. r = Inr xs \<longrightarrow> (\<forall>(ns, obj) \<in> set objs. create_accepted env h h' ns obj)) \<and>
    (\<forall>err. r = Inl err \<longrightarrow> (\<exists>(ns, obj) \<in> set objs. \<exists>e. err = KubeFailed e \<and> create_refused env h h' ns obj e))"
proof (intro conjI allI impI)
  fix xs
  assume r: "r = Inr xs"
  show "\<forall>(ns, obj) \<in> set objs. create_accepted env h h' ns obj"
  proof (clarify)
    fix ns obj
    assume "(ns, obj) \<in> set objs"
    then have "idempotent_create_resource env ns obj (Some (creation_log ns obj)) \<in> set (create_tasks env objs)"
      by (force simp: create_tasks_def)
    from try_join_ok_all [OF assms [unfolded r] this] obtain u where
      "task_reach h h' (idempotent_create_resource env ns obj (Some (creation_log ns obj))) (Finished (Inr u))" ..
    from create_task_result [OF this] show "create_accepted env h h' ns obj"
      unfolding create_accepted_def tolerate_Inr_iff [of _ _ u, symmetric] by (elim exE conjE) (intro exI conjI, assumption, rule sym)
  qed
next
  fix err
  assume r: "r = Inl err"
  from try_join_error [OF assms [unfolded r]] obtain ns obj where obj: "(ns, obj) \<in> set objs"
    and "task_reach h h' (idempotent_create_resource env ns obj (Some (creation_log ns obj))) (Finished (Inl err))"
    by (auto simp: create_tasks_def)
  from create_task_result [OF this(2)] obtain p q where
    h': "h' = h @ p @ CreateObject (create_target ns obj) obj # q" and
    "tolerate ''AlreadyExists'' (pe_create env (h @ p) (create_target ns obj) obj) = Inl err" by metis
  then have "\<exists>e. err = KubeFailed e \<and> create_refused env h h' ns obj e"
    unfolding create_refused_def tolerate_Inl_iff by blast
  with obj show "\<exists>(ns, obj) \<in> set objs. \<exists>e. err = KubeFailed e \<and> create_refused env h h' ns obj e" by blast
qed

definition delete_accepted :: "'v plugin_env \<Rightarrow> plugin_call list \<Rightarrow> plugin_call list \<Rightarrow> object_key \<Rightarrow> bool" where
  "delete_accepted env h h' key \<longleftrightarrow> (\<exists>p q. h' = h @ p @ DeleteObject key # q \<and>
     (case pe_delete env (h @ p) key of Inr _ \<Rightarrow> True | Inl e \<Rightarrow> api_reason e = Some ''NotFound''))"

definition delete_refused :: "'v plugin_env \<Rightarrow> plugin_call list \<Rightarrow> plugin_call list \<Rightarrow> object_key \<Rightarrow> kube_error \<Rightarrow> bool" where
  "delete_refused env h h' key e \<longleftrightarrow> (\<exists>p q. h' = h @ p @ DeleteObject key # q \<and>
     pe_delete env (h @ p) key = Inl e \<and> api_reason e \<noteq> Some ''NotFound'')"

lemma delete_tasks_joined:
  assumes "try_join_runs (delete_tasks env keys) h r h'"
  shows "(\<forall>xs. r = Inr xs \<longrightarrow> (\<forall>key \<in> set keys. delete_accepted env h h' key)) \<and>
    (\<forall>err. r = Inl err \<longrightarrow> (\<exists>key \<in> set keys. \<exists>e. err = KubeFailed e \<and> delete_refused env h h' key e))"
proof (intro conjI allI impI ballI)
  fix xs key
  assume r: "r = Inr xs" and "key \<in> set keys"
  then have "idempotent_delete_resource env key (Some (deletion_log key)) \<in> set (delete_tasks env keys)"
    by (simp add: delete_tasks_def)
  from try_join_ok_all [OF assms [unfolded r] this] obtain u where
    "task_reach h h' (idempotent_delete_resource env key (Some (deletion_log key))) (Finished (Inr u))" ..
  from delete_task_result [OF this] show "delete_accepted env h h' key"
    unfolding delete_accepted_def tolerate_Inr_iff [of _ _ u, symmetric] by (elim exE conjE) (intro exI conjI, assumption, rule sym)
next
  fix err
  assume r: "r = Inl err"
  from try_join_error [OF assms [unfolded r]] obtain key where key: "key \<in> set keys"
    and "task_reach h h' (idempotent_delete_resource env key (Some (deletion_log key))) (Finished (Inl err))"
    by (auto simp: delete_tasks_def)
  from delete_task_result [OF this(2)] obtain p q where
    h': "h' = h @ p @ DeleteObject key # q" and
    "tolerate ''NotFound'' (pe_delete env (h @ p) key) = Inl err" by metis
  then have "\<exists>e. err = KubeFailed e \<and> delete_refused env h h' key e"
    unfolding delete_refused_def tolerate_Inl_iff by blast
  with key show "\<exists>key \<in> set keys. \<exists>e. err = KubeFailed e \<and> delete_refused env h h' key e" by blast
qed

lemma accepted_earlier:
  "create_accepted env (h @ u) h' ns obj \<Longrightarrow> create_accepted env h h' ns obj"
  "create_refused env (h @ u) h' ns obj e \<Longrightarrow> create_refused env h h' ns obj e"
  unfolding create_accepted_def create_refused_def by (metis append.assoc)+

text \<open>A run of the whole function: the pods are looked at once, then the tasks run.\<close>

lemma create_upgrade_resources_cases:
  assumes "create_upgrade_resources env args rel h = (r, h')"
  obtains (prepare) err where "r = Inl err" "h' = h \<or> h' = h @ [ListPods (uc_namespace args) openebs_pod_selector]"
      "err \<in> range SetFileError \<union> range ImageError"
  | (tasks) data set_file props js where
      "set_file_resources (pe_read_file env h) (uc_set_file args) = Inr (data, set_file)"
      "new_from_helm_release rel args (pe_list_pods env h (uc_namespace args) openebs_pod_selector) = Inr props"
      "try_join_runs (create_tasks env (upgrade_objects (pe_consts env) args rel data
         (upgrade_job (pe_consts env) args rel set_file props)))
         (h @ [ListPods (uc_namespace args) openebs_pod_selector]) js h'"
      "r = map_sum id (\<lambda>_. ()) js"
proof (cases "set_file_resources (pe_read_file env h) (uc_set_file args)")
  case (Inl e)
  with assms have "r = Inl (SetFileError e)" "h' = h"
    by (auto simp: create_upgrade_resources_def io_simps)
  then show thesis by (intro prepare) auto
next
  case sf: (Inr df)
  show thesis
  proof (cases "new_from_helm_release rel args (pe_list_pods env h (uc_namespace args) openebs_pod_selector)")
    case (Inl e)
    with assms sf have "r = Inl (ImageError e)" "h' = h @ [ListPods (uc_namespace args) openebs_pod_selector]"
      by (auto simp: create_upgrade_resources_def upgrade_job_of_def io_simps)
    then show thesis by (intro prepare) auto
  next
    case (Inr props)
    obtain js h1 where join: "try_join (pe_schedule env) (create_tasks env
        (upgrade_objects (pe_consts env) args rel (fst df) (upgrade_job (pe_consts env) args rel (snd df) props)))
        (h @ [ListPods (uc_namespace args) openebs_pod_selector]) = (js, h1)" by fastforce
    with assms sf Inr have "r = map_sum id (\<lambda>_. ()) js" "h' = h1"
      by (auto simp: create_upgrade_resources_def upgrade_job_of_def io_simps split: sum.splits)
    with tasks [of "fst df" "snd df" props js] sf Inr try_join_runs [OF join] show thesis by simp
  qed
qed

lemma create_upgrade_resources_result:
  "case create_upgrade_resources env args rel h of
     (Inr _, h') \<Rightarrow> \<exists>data set_file props.
       set_file_resources (pe_read_file env h) (uc_set_file args) = Inr (data, set_file) \<and>
       new_from_helm_release rel args (pe_list_pods env h (uc_namespace args) openebs_pod_selector) = Inr props \<and>
       list_all (\<lambda>(ns, obj). create_accepted env h h' ns obj)
         (upgrade_objects (pe_consts env) args rel data (upgrade_job (pe_consts env) args rel set_file props))
   | (Inl err, h') \<Rightarrow> (\<exists>ns obj e. err = KubeFailed e \<and> create_refused env h h' ns obj e) \<or>
       (\<exists>u. h' = h @ u \<and> filter mutating u = [])"
proof -
  obtain r h' where run: "create_upgrade_resources env args rel h = (r, h')" by fastforce
  from run show ?thesis
  proof (cases rule: create_upgrade_resources_cases)
    case (prepare err)
    with run show ?thesis by auto
  next
    case (tasks data set_file props js)
    let ?objs = "upgrade_objects (pe_consts env) args rel data (upgrade_job (pe_consts env) args rel set_file props)"
    show ?thesis
    proof (cases js)
      case (Inl err)
      with create_tasks_joined [OF tasks(3)] accepted_earlier(2) have
        "\<exists>ns obj e. err = KubeFailed e \<and> create_refused env h h' ns obj e" by fast
      with run tasks(4) Inl show ?thesis by simp
    next
      case (Inr xs)
      with create_tasks_joined [OF tasks(3)] accepted_earlier(1) have
        "list_all (\<lambda>(ns, obj). create_accepted env h h' ns obj) ?objs"
        unfolding list_all_iff by fast
      with run tasks Inr show ?thesis by auto
    qed
  qed
qed

text \<open>C14: the outcome of creating an upgrade, under every interleaving of the five tasks. Success
  means that each of the five objects was sent and either created or found to exist already. An
  error is the error of one of these requests, or it came before any request, when nothing in the
  cluster had been changed.\<close>

theorem create_upgrade_resources_outcome:
  "case create_upgrade_resources env args rel h of
     (Inr _, h') \<Rightarrow> \<exists>data set_file props.
       set_file_resources (pe_read_file env h) (uc_set_file args) = Inr (data, set_file) \<and>
       new_from_helm_release rel args (pe_list_pods env h (uc_namespace args) openebs_pod_selector) = Inr props \<and>
       list_all (\<lambda>(ns, obj). create_accepted env h h' ns obj)
         (upgrade_objects (pe_consts env) args rel data (upgrade_job (pe_consts env) args rel set_file props))
   | (Inl err, h') \<Rightarrow> (\<exists>ns obj e. err = KubeFailed e \<and> create_refused env h h' ns obj e) \<or>
       (\<exists>u. h' = h @ u \<and> filter mutating u = [])"
  by (rule create_upgrade_resources_result)

lemma delete_upgrade_resources_run:
  assumes "delete_upgrade_resources env rel ns h = (r, h')"
  obtains js where "try_join_runs (delete_tasks env (delete_keys (pe_consts env) rel ns)) h js h'"
    "r = map_sum id (\<lambda>_. ()) js"
proof -
  obtain js h1 where join: "try_join (pe_schedule env) (delete_tasks env (delete_keys (pe_consts env) rel ns)) h = (js, h1)"
    by fastforce
  with assms have "r = map_sum id (\<lambda>_. ()) js" "h' = h1"
    by (auto simp: delete_upgrade_resources_def io_simps split: sum.splits)
  with that try_join_runs [OF join] show thesis by blast
qed

text \<open>C15: the outcome of deleting an upgrade, under every interleaving. Success means that the deletion
  of each of the five objects was requested and either accepted or answered with not found; an error
  is the error of one of these requests.\<close>

theorem delete_upgrade_resources_outcome:
  "case delete_upgrade_resources env rel ns h of
     (Inr _, h') \<Rightarrow> list_all (delete_accepted env h h') (delete_keys (pe_consts env) rel ns)
   | (Inl err, h') \<Rightarrow> list_ex (\<lambda>key. \<exists>e. err = KubeFailed e \<and> delete_refused env h h' key e)
       (delete_keys (pe_consts env) rel ns)"
proof -
  obtain r h' where run: "delete_upgrade_resources env rel ns h = (r, h')" by fastforce
  then obtain js where "try_join_runs (delete_tasks env (delete_keys (pe_consts env) rel ns)) h js h'"
    and js: "r = map_sum id (\<lambda>_. ()) js" by (rule delete_upgrade_resources_run)
  from delete_tasks_joined [OF this(1)] run js show ?thesis
    by (cases js) (simp_all add: list_all_iff list_ex_iff)
qed

lemma delete_accepted_calls:
  assumes "delete_upgrade_resources env rel ns h = (Inr (), h')"
  shows "DeleteObject ` set (delete_keys (pe_consts env) rel ns) \<subseteq> set h'"
proof -
  from assms obtain js where "try_join_runs (delete_tasks env (delete_keys (pe_consts env) rel ns)) h js h'"
    and js: "Inr () = map_sum id (\<lambda>_. ()) js" by (rule delete_upgrade_resources_run)
  from delete_tasks_joined [OF this(1)] js show ?thesis
    by (cases js) (auto simp: delete_accepted_def)
qed

definition created_keys :: "(string option \<times> k8s_object) list \<Rightarrow> object_key list" where
  "created_keys objs = map (\<lambda>(ns, obj). create_target ns obj) objs"

lemma delete_keys_set:
  "set (created_keys (upgrade_objects C args rel data (upgrade_job C args rel set_file props))) =
   set (delete_keys C rel (uc_namespace args))"
  by (auto simp: created_keys_def delete_keys_def upgrade_objects_def Let_def create_target_def
      upgrade_job_service_account_def upgrade_job_cluster_role_binding_def upgrade_job_cluster_role_def
      upgrade_configmap_def upgrade_job_def upgrade_name_concat_def)

section \<open>The contract of the API server\<close>

text \<open>
  \<open>stored h\<close> are the keys of the objects in the cluster after the calls \<open>h\<close>, \<open>terminating h\<close> those of them
  that are marked for deletion; the others are live. An object that exists, marked or not, is not created
  again, one that does not exist is not deleted, and both are told to the client by the reason of the
  error. A deletion in the foreground marks the object; the server removes marked objects when it likes.
\<close>

locale object_store =
  fixes env :: "'v plugin_env"
    and stored :: "plugin_call list \<Rightarrow> object_key set"
    and terminating :: "plugin_call list \<Rightarrow> object_key set"
  assumes create_new: "key \<notin> stored h \<Longrightarrow> pe_create env h key obj = Inr ()"
    and create_present: "key \<in> stored h \<Longrightarrow> \<exists>e. pe_create env h key obj = Inl e \<and> api_reason e = Some ''AlreadyExists''"
    and delete_present: "key \<in> stored h \<Longrightarrow> pe_delete env h key = Inr ()"
    and delete_absent: "key \<notin> stored h \<Longrightarrow> \<exists>e. pe_delete env h key = Inl e \<and> api_reason e = Some ''NotFound''"
    and live_create: "stored (h @ [CreateObject key obj]) - terminating (h @ [CreateObject key obj]) =
      (if key \<in> stored h then stored h - terminating h else insert key (stored h - terminating h))"
    and live_delete: "stored (h @ [DeleteObject key]) - terminating (h @ [DeleteObject key]) = stored h - terminating h - {key}"
    and live_other: "\<not> mutating c \<Longrightarrow> stored (h @ [c]) - terminating (h @ [c]) = stored h - terminating h"
    and marked_delete: "terminating (h @ [DeleteObject key]) \<subseteq> insert key (terminating h)"
    and marked_create: "terminating (h @ [CreateObject key obj]) \<subseteq> terminating h"
    and marked_other: "\<not> mutating c \<Longrightarrow> terminating (h @ [c]) \<subseteq> terminating h"
begin

lemma create_not_refused: "\<not> create_refused env h h' ns obj e"
  unfolding create_refused_def using create_new create_present by (metis sum.inject(1) sum.distinct(1))

lemma delete_not_refused: "\<not> delete_refused env h h' key e"
  unfolding delete_refused_def using delete_present delete_absent by (metis sum.inject(1) sum.distinct(1))

text \<open>A history in which objects of \<open>K\<close> are created and nothing is deleted.\<close>

lemma after_creates:
  assumes "list_all (\<lambda>c. \<not> mutating c \<or> (\<exists>key obj. c = CreateObject key obj \<and> key \<in> K)) u"
  shows "terminating (h @ u) \<subseteq> terminating h \<and>
    stored h - terminating h \<subseteq> stored (h @ u) - terminating (h @ u) \<and>
    stored (h @ u) - terminating (h @ u) \<subseteq> (stored h - terminating h) \<union> K \<and>
    {key. \<exists>obj. CreateObject key obj \<in> set u} - terminating h \<subseteq> stored (h @ u) - terminating (h @ u)"
  using assms
proof (induction u rule: rev_induct)
  case Nil
  then show ?case by simp
next
  case (snoc c u)
  from snoc.prems consider "\<not> mutating c" | key obj where "c = CreateObject key obj" "key \<in> K" by auto
  then show ?case
  proof cases
    case 1
    then have "c \<noteq> CreateObject key obj" for key obj by auto
    with 1 snoc live_other [OF 1, of "h @ u"] marked_other [OF 1, of "h @ u"] show ?thesis by auto
  next
    case 2
    with snoc live_create [of "h @ u" key obj] marked_create [of "h @ u" key obj] show ?thesis
      by (auto split: if_splits)
  qed
qed

lemma create_all:
  assumes run: "try_join_runs (create_tasks env objs) h r h'"
  shows "is_ok r \<and> terminating h' \<subseteq> terminating h \<and>
    (stored h - terminating h) \<union> (set (created_keys objs) - terminating h) \<subseteq> stored h' - terminating h' \<and>
    stored h' - terminating h' \<subseteq> (stored h - terminating h) \<union> set (created_keys objs)"
proof -
  let ?P = "\<lambda>c. \<not> mutating c \<or> (\<exists>key obj. c = CreateObject key obj \<and> key \<in> set (created_keys objs))"
  have ok: "is_ok r"
    using create_tasks_joined [OF run] create_not_refused by (cases r) auto
  have "\<forall>t \<in> set (create_tasks env objs). task_emits ?P t"
    by (intro ballI, erule create_tasks_emit) (force simp: created_keys_def)+
  from try_join_emits [OF run this] obtain u where u: "h' = h @ u" and calls: "list_all ?P u" by blast
  have "set (created_keys objs) \<subseteq> {key. \<exists>obj. CreateObject key obj \<in> set u}"
  proof
    fix key
    assume "key \<in> set (created_keys objs)"
    then obtain ns obj where obj: "(ns, obj) \<in> set objs" "key = create_target ns obj"
      by (auto simp: created_keys_def)
    from ok obtain xs where "r = Inr xs" by (auto simp: is_ok_iff)
    with create_tasks_joined [OF run] obj(1) have "create_accepted env h h' ns obj" by blast
    with obj(2) u show "key \<in> {key. \<exists>obj. CreateObject key obj \<in> set u}" by (auto simp: create_accepted_def)
  qed
  with ok after_creates [OF calls, of h] u show ?thesis by blast
qed

text \<open>A history in which objects of \<open>K\<close> are deleted and nothing is created.\<close>

lemma after_deletes:
  assumes "list_all (\<lambda>c. \<not> mutating c \<or> (\<exists>key. c = DeleteObject key \<and> key \<in> K)) u"
  shows "terminating (h @ u) \<subseteq> terminating h \<union> K \<and>
    stored (h @ u) - terminating (h @ u) = stored h - terminating h - {key. DeleteObject key \<in> set u}"
  using assms
proof (induction u rule: rev_induct)
  case Nil
  then show ?case by simp
next
  case (snoc c u)
  from snoc.prems consider "\<not> mutating c" | key where "c = DeleteObject key" "key \<in> K" by auto
  then show ?case
  proof cases
    case 1
    then have "c \<noteq> DeleteObject key" for key by auto
    with 1 snoc live_other [OF 1, of "h @ u"] marked_other [OF 1, of "h @ u"] show ?thesis by auto
  next
    case 2
    with snoc live_delete [of "h @ u" key] marked_delete [of "h @ u" key] show ?thesis by auto
  qed
qed

lemma delete_all:
  assumes run: "try_join_runs (delete_tasks env keys) h r h'"
  shows "is_ok r \<and> terminating h' \<subseteq> terminating h \<union> set keys \<and>
    stored h' - terminating h' = stored h - terminating h - set keys"
proof -
  let ?P = "\<lambda>c. \<not> mutating c \<or> (\<exists>key. c = DeleteObject key \<and> key \<in> set keys)"
  have ok: "is_ok r"
    using delete_tasks_joined [OF run] delete_not_refused by (cases r) auto
  then obtain xs where xs: "r = Inr xs" by (auto simp: is_ok_iff)
  have "\<forall>t \<in> set (delete_tasks env keys). task_emits ?P t"
    by (intro ballI, erule delete_tasks_emit) auto
  from try_join_emits [OF run this] obtain u where u: "h' = h @ u" and calls: "list_all ?P u" by blast
  have "{key. DeleteObject key \<in> set u} = set keys"
    using delete_tasks_joined [OF run] xs u calls by (fastforce simp: delete_accepted_def list_all_iff)
  with ok after_deletes [OF calls, of h] u show ?thesis by simp
qed

end

section \<open>A cluster with a store\<close>

text \<open>
  The state of a cluster: the objects that are stored and those of them that are marked for deletion. The
  objects of \<open>gone h\<close> that are marked are removed for good right after the last call of \<open>h\<close>; \<open>gone\<close> is
  any function, so nothing is said of how long a deletion takes.
\<close>

type_synonym cluster = "object_key set \<times> object_key set"

fun cluster_call :: "plugin_call \<Rightarrow> cluster \<Rightarrow> cluster" where
  "cluster_call (CreateObject key obj) (P, T) = (insert key P, T)"
| "cluster_call (DeleteObjectWith prop key) (P, T) =
     (if prop = Foreground then (P, if key \<in> P then insert key T else T) else (P - {key}, T - {key}))"
| "cluster_call _ C = C"

fun collect_marked :: "object_key set \<Rightarrow> cluster \<Rightarrow> cluster" where
  "collect_marked F (P, T) = (P - (T \<inter> F), T - F)"

fun cluster_run :: "(plugin_call list \<Rightarrow> object_key set) \<Rightarrow> plugin_call list \<Rightarrow> plugin_call list \<Rightarrow> cluster \<Rightarrow> cluster" where
  "cluster_run gone past [] C = C"
| "cluster_run gone past (c # cs) C =
     cluster_run gone (past @ [c]) cs (collect_marked (gone (past @ [c])) (cluster_call c C))"

lemma cluster_run_append:
  "cluster_run gone past (u @ v) C = cluster_run gone (past @ u) v (cluster_run gone past u C)"
  by (induction u arbitrary: past C) auto

text \<open>The cluster starts with the objects \<open>K\<close>, none of them marked.\<close>

definition present :: "(plugin_call list \<Rightarrow> object_key set) \<Rightarrow> object_key set \<Rightarrow> plugin_call list \<Rightarrow> object_key set" where
  "present gone K h = fst (cluster_run gone [] h (K, {}))"

definition terminating :: "(plugin_call list \<Rightarrow> object_key set) \<Rightarrow> object_key set \<Rightarrow> plugin_call list \<Rightarrow> object_key set" where
  "terminating gone K h = snd (cluster_run gone [] h (K, {}))"

definition live :: "(plugin_call list \<Rightarrow> object_key set) \<Rightarrow> object_key set \<Rightarrow> plugin_call list \<Rightarrow> object_key set" where
  "live gone K h = present gone K h - terminating gone K h"

definition store_env :: "'v plugin_env \<Rightarrow> (plugin_call list \<Rightarrow> object_key set) \<Rightarrow> object_key set \<Rightarrow> 'v plugin_env" where
  "store_env env gone K = env
     \<lparr>pe_create := (\<lambda>h key obj. if key \<in> present gone K h then Inl (KubeApi ''AlreadyExists'' 409) else Inr ()),
      pe_delete := (\<lambda>h key. if key \<in> present gone K h then Inr () else Inl (KubeApi ''NotFound'' 404))\<rparr>"

lemma cluster_snoc:
  "(present gone K (h @ [c]), terminating gone K (h @ [c])) =
     collect_marked (gone (h @ [c])) (cluster_call c (present gone K h, terminating gone K h))"
  by (simp add: present_def terminating_def cluster_run_append)

lemma marked_call: "T \<subseteq> P \<Longrightarrow> snd (cluster_call c (P, T)) \<subseteq> fst (cluster_call c (P, T))"
  by (cases c) auto

lemma terminating_present: "terminating gone K h \<subseteq> present gone K h"
proof (induction h rule: rev_induct)
  case Nil
  then show ?case by (simp add: present_def terminating_def)
next
  case (snoc c h)
  obtain P T where call: "cluster_call c (present gone K h, terminating gone K h) = (P, T)" by fastforce
  with marked_call [OF snoc, of c] have "T \<subseteq> P" by simp
  with cluster_snoc [of gone K h c] call show ?case by auto
qed

lemma quiet_call: "\<not> mutating c \<Longrightarrow> cluster_call c C = C"
  by (cases C; cases c) auto

interpretation cluster: object_store "store_env env gone K" "present gone K" "terminating gone K"
proof unfold_locales
  fix h key obj c
  note marked = terminating_present [of gone K h]
  show "present gone K (h @ [CreateObject key obj]) - terminating gone K (h @ [CreateObject key obj]) =
      (if key \<in> present gone K h then present gone K h - terminating gone K h
       else insert key (present gone K h - terminating gone K h))"
    "terminating gone K (h @ [CreateObject key obj]) \<subseteq> terminating gone K h"
    using cluster_snoc [of gone K h "CreateObject key obj"] marked by auto
  show "present gone K (h @ [DeleteObject key]) - terminating gone K (h @ [DeleteObject key]) =
      present gone K h - terminating gone K h - {key}"
    "terminating gone K (h @ [DeleteObject key]) \<subseteq> insert key (terminating gone K h)"
    using cluster_snoc [of gone K h "DeleteObject key"] marked by (auto split: if_splits)
  assume "\<not> mutating c"
  with cluster_snoc [of gone K h c] show "present gone K (h @ [c]) - terminating gone K (h @ [c]) =
      present gone K h - terminating gone K h"
    "terminating gone K (h @ [c]) \<subseteq> terminating gone K h"
    by (auto simp: quiet_call)
qed (auto simp: store_env_def)

lemma store_env_consts [simp]: "pe_consts (store_env env gone K) = pe_consts env"
  by (simp add: store_env_def)

text \<open>What creating does to the store, in the terms of the keys that deleting looks for.\<close>

lemma create_stored:
  "case create_upgrade_resources (store_env env gone K) args rel h of
     (Inr _, h') \<Rightarrow>
       live gone K h \<union> (set (delete_keys (pe_consts env) rel (uc_namespace args)) - terminating gone K h) \<subseteq> live gone K h' \<and>
       live gone K h' \<subseteq> live gone K h \<union> set (delete_keys (pe_consts env) rel (uc_namespace args)) \<and>
       terminating gone K h' \<subseteq> terminating gone K h
   | (Inl err, h') \<Rightarrow> err \<in> range SetFileError \<union> range ImageError \<and> live gone K h' = live gone K h \<and>
       terminating gone K h' \<subseteq> terminating gone K h"
proof -
  let ?pods = "ListPods (uc_namespace args) openebs_pod_selector"
  have pods: "live gone K (h @ [?pods]) = live gone K h" "terminating gone K (h @ [?pods]) \<subseteq> terminating gone K h"
    using cluster.live_other [of ?pods gone K h] cluster.marked_other [of ?pods gone K h] by (simp_all add: live_def)
  obtain r h' where run: "create_upgrade_resources (store_env env gone K) args rel h = (r, h')" by fastforce
  from run show ?thesis
  proof (cases rule: create_upgrade_resources_cases)
    case (prepare err)
    with run pods show ?thesis by auto
  next
    case (tasks data set_file props js)
    note created = cluster.create_all [OF tasks(3), unfolded store_env_consts delete_keys_set, folded live_def]
    from created tasks(4) have "r = Inr ()" by (auto simp: is_ok_iff)
    with run created pods show ?thesis by auto
  qed
qed

text \<open>C17: creating is idempotent. On a server that answers AlreadyExists for what is there, whatever
  objects exist beforehand and under every interleaving, no request of an upgrade fails. Either it
  succeeds, and then all five objects of the release and version are live, except those that were
  already being deleted when it started, no other object has appeared and none has been deleted; or the
  set-file arguments or the image are at fault, and then nothing has been created or deleted.\<close>

theorem create_upgrade_resources_idempotent:
  "case create_upgrade_resources (store_env env gone K) args rel h of
     (Inr _, h') \<Rightarrow>
       live gone K h \<union> (set (delete_keys (pe_consts env) rel (uc_namespace args)) - terminating gone K h) \<subseteq> live gone K h' \<and>
       live gone K h' \<subseteq> live gone K h \<union> set (delete_keys (pe_consts env) rel (uc_namespace args)) \<and>
       terminating gone K h' \<subseteq> terminating gone K h
   | (Inl err, h') \<Rightarrow> err \<in> range SetFileError \<union> range ImageError \<and> live gone K h' = live gone K h \<and>
       terminating gone K h' \<subseteq> terminating gone K h"
  by (rule create_stored)

lemma delete_stored:
  assumes "delete_upgrade_resources (store_env env gone K) rel ns h = (r, h')"
  shows "r = Inr () \<and> live gone K h' = live gone K h - set (delete_keys (pe_consts env) rel ns) \<and>
    terminating gone K h' \<subseteq> terminating gone K h \<union> set (delete_keys (pe_consts env) rel ns)"
proof -
  from assms obtain js where "try_join_runs (delete_tasks (store_env env gone K)
      (delete_keys (pe_consts (store_env env gone K)) rel ns)) h js h'"
    and r: "r = map_sum id (\<lambda>_. ()) js" by (rule delete_upgrade_resources_run)
  from cluster.delete_all [OF this(1), unfolded store_env_consts, folded live_def] r show ?thesis
    by (auto simp: is_ok_iff)
qed

text \<open>C18: deleting an upgrade undoes creating it, on a server that deletes in the foreground and takes any time
  for it, when none of the five objects is still being deleted at the start. Both succeed. In between all
  five objects are live; afterwards the live objects are those from before except for the five keys,
  each of the five that is still there is marked for deletion, and no other object has been marked.\<close>

theorem create_delete_roundtrip:
  assumes "create_upgrade_resources (store_env env gone K) args rel h = (Inr (), h1)"
    and "delete_upgrade_resources (store_env env gone K) rel (uc_namespace args) h1 = (r, h2)"
    and "set (delete_keys (pe_consts env) rel (uc_namespace args)) \<inter> terminating gone K h = {}"
  shows "r = Inr () \<and>
    live gone K h1 = live gone K h \<union> set (delete_keys (pe_consts env) rel (uc_namespace args)) \<and>
    live gone K h2 = live gone K h - set (delete_keys (pe_consts env) rel (uc_namespace args)) \<and>
    present gone K h2 \<inter> set (delete_keys (pe_consts env) rel (uc_namespace args)) \<subseteq> terminating gone K h2 \<and>
    terminating gone K h2 \<subseteq> terminating gone K h \<union> set (delete_keys (pe_consts env) rel (uc_namespace args))"
proof -
  let ?keys = "set (delete_keys (pe_consts env) rel (uc_namespace args))"
  from create_stored [where env = env and gone = gone and K = K and args = args and rel = rel and h = h] assms(1,3)
  have created: "live gone K h1 = live gone K h \<union> ?keys" "terminating gone K h1 \<subseteq> terminating gone K h" by auto
  with delete_stored [OF assms(2)] have r: "r = Inr ()" and gone: "live gone K h2 = live gone K h - ?keys" and
    marked: "terminating gone K h2 \<subseteq> terminating gone K h \<union> ?keys" by auto
  from gone have "present gone K h2 \<inter> ?keys \<subseteq> terminating gone K h2" unfolding live_def by blast
  with r created gone marked show ?thesis by blast
qed

lemma create_succeeds:
  assumes "set_file_resources (pe_read_file (store_env env gone K) h) (uc_set_file args) = Inr cm_data"
    and "\<exists>props. new_from_helm_release rel args
      (pe_list_pods (store_env env gone K) h (uc_namespace args) openebs_pod_selector) = Inr props"
  shows "\<exists>h'. create_upgrade_resources (store_env env gone K) args rel h = (Inr (), h')"
proof -
  from assms(2) obtain props where props: "new_from_helm_release rel args
      (pe_list_pods (store_env env gone K) h (uc_namespace args) openebs_pod_selector) = Inr props" ..
  let ?tasks = "create_tasks (store_env env gone K) (upgrade_objects (pe_consts env) args rel (fst cm_data)
      (upgrade_job (pe_consts env) args rel (snd cm_data) props))"
  obtain js h' where join: "try_join (pe_schedule (store_env env gone K)) ?tasks
      (h @ [ListPods (uc_namespace args) openebs_pod_selector]) = (js, h')" by fastforce
  from cluster.create_all [OF try_join_runs [OF join]] obtain xs where "js = Inr xs" by (auto simp: is_ok_iff)
  with join assms(1) props show ?thesis
    by (simp add: create_upgrade_resources_def upgrade_job_of_def io_simps)
qed

definition provisioner_pods :: "pod list" where
  "provisioner_pods = [\<lparr>pod_spec_opt = Some \<lparr>ps_containers = [\<lparr>ct_name = ''api-rest'',
     ct_image = Some ''quay.io/openebs/api-rest:v4'', ct_image_pull_policy = None\<rparr>],
     ps_image_pull_secrets = None\<rparr>\<rparr>]"

definition cluster_env :: "string option \<Rightarrow> 'v helm_release \<Rightarrow> 'v plugin_env" where
  "cluster_env tag release =
     store_env ((healthy_env tag release)\<lparr>pe_list_pods := (\<lambda>h ns sel. Inr provisioner_pods)\<rparr>) (\<lambda>h. {}) {}"

lemma cluster_create_succeeds:
  "\<exists>h'. create_upgrade_resources (cluster_env tag release) default_args ''openebs'' h = (Inr (), h')"
proof -
  have "set_file_resources read (uc_set_file default_args) = Inr (Map.empty, [])" for read
    by (simp add: default_args_def set_file_resources_def config_map_data_def job_set_file_args_def)
  moreover have "\<exists>props. new_from_helm_release ''openebs'' default_args
      (pe_list_pods (cluster_env tag release) h ns sel) = Inr props" for h ns sel
    by (simp add: cluster_env_def store_env_def provisioner_pods_def new_from_helm_release_def
        is_openebs_container_def openebs_containers_def List.map_filter_def)
  ultimately show ?thesis
    unfolding cluster_env_def by (rule create_succeeds)
qed

text \<open>A server on which a deletion in the foreground never ends: the objects stay, all of them marked.\<close>

theorem create_delete_roundtrip_witness:
  "\<exists>h1 h2. create_upgrade_resources (cluster_env (Some ''v4.3.0'') (v4_release True ())) default_args ''openebs'' []
       = (Inr (), h1) \<and>
     delete_upgrade_resources (cluster_env (Some ''v4.3.0'') (v4_release True ())) ''openebs'' ''openebs'' h1 = (Inr (), h2) \<and>
     (''Job'', Some ''openebs'', ''openebs-upgrade-v4-3-0'') \<in> live (\<lambda>h. {}) {} h1 \<and> live (\<lambda>h. {}) {} h2 = {}"
proof -
  let ?env = "(healthy_env (Some ''v4.3.0'') (v4_release True ()))\<lparr>pe_list_pods := (\<lambda>h ns sel. Inr provisioner_pods)\<rparr>"
  have ns: "uc_namespace default_args = ''openebs''" by (simp add: default_args_def)
  obtain h1 where create: "create_upgrade_resources (store_env ?env (\<lambda>h. {}) {}) default_args ''openebs'' [] = (Inr (), h1)"
    using cluster_create_succeeds unfolding cluster_env_def by blast
  obtain r h2 where delete: "delete_upgrade_resources (store_env ?env (\<lambda>h. {}) {}) ''openebs'' (uc_namespace default_args) h1 = (r, h2)"
    by fastforce
  have "pc_version_tag (pe_consts ?env) = Some ''v4.3.0''" by (simp add: healthy_env_def)
  then have "(''Job'', Some ''openebs'', ''openebs-upgrade-v4-3-0'') \<in>
      set (delete_keys (pe_consts ?env) ''openebs'' (uc_namespace default_args))"
    by (simp add: delete_keys_def Let_def ns upgrade_obj_suffix_def get_destination_version_tag_def replace_char_def)
  moreover have "live (\<lambda>h. {}) {} [] = {}" "terminating (\<lambda>h. {}) {} [] = {}"
    by (simp_all add: live_def present_def terminating_def)
  ultimately show ?thesis
    using create delete create_delete_roundtrip [OF create delete] unfolding cluster_env_def ns by auto
qed

end
