(* ===== verification/UpgradeCli.thy ===== *)
theory UpgradeCli
  imports Preflight Lifecycle "HOL-Library.Option_ord"
begin

text \<open>
  The upgrade commands of the plugin: the events of the upgrade job, starting an upgrade and waiting
  for its first event (\<^verbatim>\<open>upgrade/mod.rs\<close>, \<^verbatim>\<open>upgrade/k8s/mod.rs\<close>), the status
  (\<^verbatim>\<open>upgrade/k8s/upgrade_status.rs\<close>), deleting an upgrade, and the dispatch (\<^verbatim>\<open>upgrade/cli.rs\<close>).
\<close>

section \<open>Events\<close>

text \<open>\<^verbatim>\<open>Iterator::max_by_key\<close>: the last of the largest elements.\<close>

definition max_by_key :: "('a \<Rightarrow> 'k :: linorder) \<Rightarrow> 'a list \<Rightarrow> 'a option" where
  "max_by_key key xs = (case xs of
      [] \<Rightarrow> None
    | y # ys \<Rightarrow> Some (foldl (\<lambda>best x. if key x < key best then best else x) y ys))"

definition list_events :: "'v plugin_env \<Rightarrow> string \<Rightarrow> string \<Rightarrow> event list plugin_io" where
  "list_events env namespace field_selector =
     io_bind (io_map_err ClientError (io_call BuildDefaultClient (pe_default_client env))) (\<lambda>_.
     io_map_err EventsError (io_call (ListEvents namespace field_selector)
       (\<lambda>h. pe_list_events env h namespace field_selector)))"

definition is_upgrade_event :: "event \<Rightarrow> bool" where
  "is_upgrade_event e \<longleftrightarrow> evt_reason e = Some ''OpenebsUpgrade''"

definition get_latest_upgrade_event :: "'v plugin_env \<Rightarrow> string \<Rightarrow> string \<Rightarrow> event plugin_io" where
  "get_latest_upgrade_event env namespace selector =
     io_bind (list_events env namespace selector) (\<lambda>events.
       io_res (ok_or (max_by_key evt_time (filter is_upgrade_event events)) NoUpgradeEvent))"

definition handle_upgrade_event ::
  "'v plugin_env \<Rightarrow> event \<Rightarrow> string \<Rightarrow> string \<Rightarrow> unit plugin_io" where
  "handle_upgrade_event env latest_event release_name namespace =
     (case evt_action latest_event of
        None \<Rightarrow> io_ok ()
      | Some action \<Rightarrow>
          if action = ''Validation Failed'' then
            (case evt_note latest_event of
               Some data \<Rightarrow>
                 io_bind (io_res (map_err DeserializeEventError (pe_parse_event env data))) (\<lambda>ev.
                 io_bind (io_emit (ErrorLog (ValidationFailedNotice (ue_message ev)))) (\<lambda>_.
                 delete_upgrade_resources env release_name namespace))
             | None \<Rightarrow> io_err NoteNotPresent)
          else io_emit (Info UpgradeStartedNotice))"

definition delete_older_upgrade_events :: "'v plugin_env \<Rightarrow> string \<Rightarrow> string \<Rightarrow> unit plugin_io" where
  "delete_older_upgrade_events env namespace selector =
     io_bind (io_map_err EventsError (io_call (ListEventsMetadata namespace selector)
       (\<lambda>h. pe_list_events_metadata env h namespace selector))) (\<lambda>_.
     io_map_err EventsError (io_call (DeleteEvents namespace selector)
       (\<lambda>h. pe_delete_events env h namespace selector)))"

section \<open>Starting an upgrade\<close>

text \<open>The loop that waits for an event: at most \<open>n\<close> more rounds of ten seconds.\<close>

fun await_upgrade_event :: "'v plugin_env \<Rightarrow> string \<Rightarrow> string \<Rightarrow> string \<Rightarrow> nat \<Rightarrow> unit plugin_io" where
  "await_upgrade_event env release_name namespace selector 0 = io_ok ()"
| "await_upgrade_event env release_name namespace selector (Suc n) =
     io_bind (io_emit (SleepSecs 10)) (\<lambda>_.
     io_bind (io_try (get_latest_upgrade_event env namespace selector)) (\<lambda>latest.
       case latest of
         Inr latest_event \<Rightarrow> handle_upgrade_event env latest_event release_name namespace
       | Inl _ \<Rightarrow> await_upgrade_event env release_name namespace selector n))"

definition apply_upgrade :: "'v plugin_env \<Rightarrow> upgrade_common_args \<Rightarrow> string \<Rightarrow> unit plugin_io" where
  "apply_upgrade env args release_name =
     (let ns = uc_namespace args;
          selector = upgrade_events_field_selector (pc_version_tag (pe_consts env)) release_name in
     io_bind (io_map_err ClientError (io_call BuildClient (pe_client env))) (\<lambda>_.
     io_bind (delete_older_upgrade_events env ns selector) (\<lambda>_.
     io_bind (create_upgrade_resources env args release_name) (\<lambda>_.
     await_upgrade_event env release_name ns selector 6))))"

section \<open>Status\<close>

definition release_name_of :: "'v plugin_env \<Rightarrow> upgrade_common_args \<Rightarrow> string plugin_io" where
  "release_name_of env args = (case uc_release_name args of
      Some name \<Rightarrow> io_ok name
    | None \<Rightarrow> io_map_err HelmError (io_call (ReadHelmStorage (uc_namespace args) [])
        (\<lambda>h. helm_release_name (pe_helm env h) (uc_namespace args) (uc_helm_storage_driver args))))"

definition get_upgrade_status :: "'v plugin_env \<Rightarrow> upgrade_common_args \<Rightarrow> unit plugin_io" where
  "get_upgrade_status env args =
     io_bind (release_name_of env args) (\<lambda>release_name.
     io_bind (get_latest_upgrade_event env (uc_namespace args)
       (upgrade_events_field_selector (pc_version_tag (pe_consts env)) release_name)) (\<lambda>event.
     case evt_note event of
       Some data \<Rightarrow>
         io_bind (io_res (map_err DeserializeEventError (pe_parse_event env data))) (\<lambda>e.
         io_bind (io_emit (Println (UpgradeFromNotice (ue_from_version e)))) (\<lambda>_.
         io_bind (io_emit (Println (UpgradeToNotice (ue_to_version e)))) (\<lambda>_.
         io_emit (Println (UpgradeStatusNotice (ue_message e))))))
     | None \<Rightarrow> io_err NoMessageInEvent))"

section \<open>Deleting an upgrade\<close>

definition upgrade_job_completed :: "'v plugin_env \<Rightarrow> string \<Rightarrow> string \<Rightarrow> bool plugin_io" where
  "upgrade_job_completed env ns job_name =
     io_bind (io_map_err ClientError (io_call BuildDefaultClient (pe_default_client env))) (\<lambda>_.
     io_bind (io_map_err GetJobError (io_call (GetJob ns job_name) (\<lambda>h. pe_get_job env h ns job_name))) (\<lambda>maybe_job.
     case maybe_job of
       Some jb \<Rightarrow> io_bind (io_res (ok_or (jst_status jb) (JobWithoutStatus job_name ns))) (\<lambda>status.
         io_ok (case js_succeeded status of None \<Rightarrow> False | Some count \<Rightarrow> count = 1))
     | None \<Rightarrow> io_err (NoJob job_name ns)))"

definition execute_delete :: "'v plugin_env \<Rightarrow> upgrade_common_args \<Rightarrow> bool \<Rightarrow> unit plugin_io" where
  "execute_delete env args force =
     io_bind (release_name_of env args) (\<lambda>release_name.
     io_bind (upgrade_job_completed env (uc_namespace args)
       (upgrade_name_concat (pc_version_tag (pe_consts env)) release_name ''upgrade'')) (\<lambda>completed.
     if completed \<or> force then
       io_bind (io_map_err ClientError (io_call BuildDefaultClient (pe_default_client env))) (\<lambda>_.
       delete_upgrade_resources env release_name (uc_namespace args))
     else io_emit (ErrorLog IncompleteJobNotice)))"

section \<open>Dispatch\<close>

datatype upgrade_subcommand = Status | Delete bool

fun execute_subcommand :: "'v plugin_env \<Rightarrow> upgrade_subcommand \<Rightarrow> upgrade_common_args \<Rightarrow> unit plugin_io" where
  "execute_subcommand env Status args = get_upgrade_status env args"
| "execute_subcommand env (Delete force) args = execute_delete env args force"

definition upgrade_execute ::
  "('v :: linorder) semver \<Rightarrow> 'v plugin_env \<Rightarrow> upgrade_common_args \<Rightarrow> upgrade_subcommand option \<Rightarrow> unit plugin_pio" where
  "upgrade_execute S env args subcommand = (case subcommand of
      Some sub \<Rightarrow> pio_of (execute_subcommand env sub args)
    | None \<Rightarrow>
        pio_bind (pio_of (release_name_of env args)) (\<lambda>release_name.
        pio_bind (upgrade_preflight_check S env args release_name) (\<lambda>_.
        pio_of (apply_upgrade env args release_name))))"

section \<open>The latest event\<close>

lemma foldl_best:
  fixes key :: "'a \<Rightarrow> 'k :: linorder"
  shows "\<exists>xs ys. y # zs = xs @ foldl (\<lambda>best x. if key x < key best then best else x) y zs # ys \<and>
     (\<forall>x \<in> set xs. key x \<le> key (foldl (\<lambda>best x. if key x < key best then best else x) y zs)) \<and>
     (\<forall>x \<in> set ys. key x < key (foldl (\<lambda>best x. if key x < key best then best else x) y zs))"
proof (induction zs rule: rev_induct)
  case Nil
  show ?case by (intro exI [of _ "[]"]) simp
next
  case (snoc z zs)
  let ?best = "foldl (\<lambda>best x. if key x < key best then best else x) y zs"
  from snoc.IH obtain xs ys where split: "y # zs = xs @ ?best # ys"
    and le: "\<forall>x \<in> set xs. key x \<le> key ?best" and lt: "\<forall>x \<in> set ys. key x < key ?best" by blast
  show ?case
  proof (cases "key z < key ?best")
    case True
    with split le lt show ?thesis by (intro exI [of _ xs] exI [of _ "ys @ [z]"]) auto
  next
    case False
    have "\<forall>x \<in> set (y # zs). key x \<le> key z"
      unfolding split using le lt False by (auto intro: order_trans)
    with False show ?thesis by (intro exI [of _ "y # zs"] exI [of _ "[]"]) simp
  qed
qed

lemma max_by_key_Some:
  assumes "max_by_key key xs = Some m"
  shows "\<exists>us vs. xs = us @ m # vs \<and> (\<forall>x \<in> set us. key x \<le> key m) \<and> (\<forall>x \<in> set vs. key x < key m)"
proof (cases xs)
  case Nil
  with assms show ?thesis by (simp add: max_by_key_def)
next
  case (Cons y ys)
  with assms foldl_best [of y ys key] show ?thesis by (simp add: max_by_key_def)
qed

lemma max_by_key_Nil [simp]: "max_by_key key [] = None"
  by (simp add: max_by_key_def)

lemma max_by_key_None [simp]: "max_by_key key xs = None \<longleftrightarrow> xs = []"
  by (simp add: max_by_key_def split: list.splits)

text \<open>C19: the event that stands for the state of an upgrade. If listing the events succeeds, the result is
  the last one, in list order, of those with the largest time among the events with the reason of
  the upgrade job, and an event without a time counts as older than every other; it is an error
  exactly when there is no such event.\<close>

theorem get_latest_upgrade_event_correct:
  assumes "list_events env ns sel h = (Inr events, h1)"
  shows "case get_latest_upgrade_event env ns sel h of
      (Inr ev, h') \<Rightarrow> h' = h1 \<and> (\<exists>us vs. filter is_upgrade_event events = us @ ev # vs \<and>
         (\<forall>e \<in> set us. evt_time e \<le> evt_time ev) \<and> (\<forall>e \<in> set vs. evt_time e < evt_time ev))
    | (Inl err, h') \<Rightarrow> h' = h1 \<and> err = NoUpgradeEvent \<and> filter is_upgrade_event events = []"
proof (cases "max_by_key evt_time (filter is_upgrade_event events)")
  case None
  with assms show ?thesis by (simp add: get_latest_upgrade_event_def io_simps)
next
  case (Some ev)
  with assms max_by_key_Some [OF Some] show ?thesis by (simp add: get_latest_upgrade_event_def io_simps)
qed

definition upgrade_event_at :: "nat option \<Rightarrow> event" where
  "upgrade_event_at t = \<lparr>evt_reason = Some ''OpenebsUpgrade'', evt_action = None, evt_note = None, evt_time = t\<rparr>"

theorem get_latest_upgrade_event_correct_witness:
  "case get_latest_upgrade_event ((healthy_env None (v4_release True ()))
       \<lparr>pe_list_events := (\<lambda>h ns sel. Inr [upgrade_event_at None, upgrade_event_at (Some 3), upgrade_event_at (Some 2)])\<rparr>)
       ''openebs'' [] [] of
      (Inr ev, h') \<Rightarrow> evt_time ev = Some 3 | (Inl err, h') \<Rightarrow> False"
proof -
  let ?env = "(healthy_env None (v4_release True ()))
    \<lparr>pe_list_events := (\<lambda>h ns sel. Inr [upgrade_event_at None, upgrade_event_at (Some 3), upgrade_event_at (Some 2)])\<rparr>"
  let ?events = "[upgrade_event_at None, upgrade_event_at (Some 3), upgrade_event_at (Some 2)]"
  have "list_events ?env ''openebs'' [] [] =
      (Inr ?events, [BuildDefaultClient, ListEvents ''openebs'' []])"
    by (simp add: list_events_def io_simps healthy_env_def)
  from get_latest_upgrade_event_correct [OF this]
  show ?thesis
    by (simp add: is_upgrade_event_def upgrade_event_at_def split: prod.splits sum.splits)
       (auto simp: Cons_eq_append_conv)
qed

section \<open>What the commands may call\<close>

lemma emits_release_name_of [emits_intros]:
  "(\<And>ns rel. P (ReadHelmStorage ns rel)) \<Longrightarrow> emits P (release_name_of env args)"
  unfolding release_name_of_def by (intro emits_intros) auto

lemma emits_get_latest_upgrade_event [emits_intros]:
  "P BuildDefaultClient \<Longrightarrow> (\<And>ns sel. P (ListEvents ns sel)) \<Longrightarrow> emits P (get_latest_upgrade_event env ns sel)"
  unfolding get_latest_upgrade_event_def list_events_def by (intro emits_intros) auto

lemma emits_upgrade_job_completed [emits_intros]:
  "P BuildDefaultClient \<Longrightarrow> (\<And>ns name. P (GetJob ns name)) \<Longrightarrow> emits P (upgrade_job_completed env ns name)"
  unfolding upgrade_job_completed_def by (intro emits_intros) auto

lemma emits_delete_upgrade_resources [emits_intros]:
  assumes "\<And>key. key \<in> set (delete_keys (pe_consts env) rel ns) \<Longrightarrow> P (DeleteObject key)" and "\<And>n. P (Println n)"
  shows "emits P (delete_upgrade_resources env rel ns)"
  unfolding delete_upgrade_resources_def
  by (intro emits_intros delete_tasks_emit) (use assms in auto)

lemma emits_create_upgrade_resources [emits_intros]:
  assumes "\<And>key obj. P (CreateObject key obj)" and "\<And>n. P (Println n)" and "\<And>ns sel. P (ListPods ns sel)"
  shows "emits P (create_upgrade_resources env args rel)"
  unfolding create_upgrade_resources_def upgrade_job_of_def
  by (intro emits_intros create_tasks_emit) (use assms in auto)

lemma emits_handle_upgrade_event [emits_intros]:
  assumes "\<And>key. P (DeleteObject key)" and "\<And>n. P (Println n)" and "\<And>n. P (ErrorLog n)" and "\<And>n. P (Info n)"
  shows "emits P (handle_upgrade_event env ev rel ns)"
  unfolding handle_upgrade_event_def by (intro emits_intros) (use assms in auto)

section \<open>Starting an upgrade\<close>

definition sleep_secs :: "plugin_call list \<Rightarrow> nat" where
  "sleep_secs u = sum_list (map (\<lambda>c. case c of SleepSecs n \<Rightarrow> n | _ \<Rightarrow> 0) u)"

lemma sleep_secs_simps [simp]:
  "sleep_secs [] = 0"
  "sleep_secs (u @ v) = sleep_secs u + sleep_secs v"
  "sleep_secs (SleepSecs n # u) = n + sleep_secs u"
  by (simp_all add: sleep_secs_def)

definition no_sleep :: "plugin_call \<Rightarrow> bool" where
  "no_sleep c = (case c of SleepSecs n \<Rightarrow> False | _ \<Rightarrow> True)"

lemma no_sleep_simps [simp]:
  "no_sleep (CreateObject key obj)" "no_sleep (DeleteObject key)" "no_sleep (Println n)" "no_sleep (Info n)"
  "no_sleep (ErrorLog n)" "no_sleep (ListEvents ns sel)" "no_sleep BuildDefaultClient" "no_sleep BuildClient"
  "no_sleep (ListPods ns sel)" "no_sleep (ListEventsMetadata ns sel)" "no_sleep (DeleteEvents ns sel)"
  by (simp_all add: no_sleep_def)

lemma sleep_secs_none: "list_all no_sleep u \<Longrightarrow> sleep_secs u = 0"
  by (induction u) (auto simp: sleep_secs_def no_sleep_def split: plugin_call.splits)

definition sleeps :: "plugin_call list \<Rightarrow> plugin_call list" where
  "sleeps u = filter (\<lambda>c. \<not> no_sleep c) u"

lemma sleeps_simps [simp]:
  "sleeps [] = []" "sleeps (u @ v) = sleeps u @ sleeps v" "sleeps (SleepSecs n # u) = SleepSecs n # sleeps u"
  by (simp_all add: sleeps_def no_sleep_def)

lemma sleeps_none: "list_all no_sleep u \<Longrightarrow> sleeps u = []"
  by (simp add: sleeps_def list_all_iff)

lemma sleep_secs_sleeps: "sleep_secs u = sleep_secs (sleeps u)"
  by (induction u) (auto simp: sleep_secs_def sleeps_def no_sleep_def split: plugin_call.splits)

lemma sleep_secs_tens: "sleeps u = replicate k (SleepSecs 10) \<Longrightarrow> sleep_secs u = 10 * k"
proof -
  have "sleep_secs (replicate k (SleepSecs 10)) = 10 * k" by (induction k) simp_all
  then show "sleeps u = replicate k (SleepSecs 10) \<Longrightarrow> sleep_secs u = 10 * k"
    by (simp add: sleep_secs_sleeps [of u])
qed

lemma get_latest_no_sleep: "emits no_sleep (get_latest_upgrade_event env ns sel)"
  by (intro emits_intros) simp_all

lemma handle_no_sleep: "emits no_sleep (handle_upgrade_event env ev rel ns)"
  by (intro emits_intros) simp_all

lemma await_upgrade_event_calls:
  "\<exists>u k. snd (await_upgrade_event env rel ns sel n h) = h @ u \<and> k \<le> n \<and> sleeps u = replicate k (SleepSecs 10)"
proof (induction n arbitrary: h)
  case 0
  then show ?case by (simp add: io_simps)
next
  case (Suc n)
  obtain r h1 where latest: "get_latest_upgrade_event env ns sel (h @ [SleepSecs 10]) = (r, h1)" by fastforce
  from emitsD [OF get_latest_no_sleep latest] obtain v where v: "h1 = h @ SleepSecs 10 # v" "sleeps v = []"
    using sleeps_none by auto
  show ?case
  proof (cases r)
    case (Inl e)
    from Suc.IH [of h1] obtain u k where "snd (await_upgrade_event env rel ns sel n h1) = h1 @ u" "k \<le> n"
      "sleeps u = replicate k (SleepSecs 10)" by blast
    with latest Inl v show ?thesis
      by (intro exI [of _ "SleepSecs 10 # v @ u"] exI [of _ "Suc k"]) (simp add: io_simps)
  next
    case (Inr ev)
    obtain u where "snd (handle_upgrade_event env ev rel ns h1) = h1 @ u" "list_all no_sleep u"
      using handle_no_sleep unfolding emits_def by blast
    with latest Inr v sleeps_none [of u] show ?thesis
      by (intro exI [of _ "SleepSecs 10 # v @ u"] exI [of _ 1]) (simp add: io_simps)
  qed
qed

text \<open>
  A wait that ends with success, after the calls \<open>H\<close>: each of at most \<open>n\<close> rounds sleeps ten seconds and then
  asks for the latest event. Either an event was found in one of them, none in the rounds before, and it
  was handled; or no round of the \<open>n\<close> found one.
\<close>

definition polls_failed :: "'v plugin_env \<Rightarrow> string \<Rightarrow> string \<Rightarrow> plugin_call list \<Rightarrow> plugin_call list \<Rightarrow> bool" where
  "polls_failed env ns sel H w \<longleftrightarrow> (\<forall>p q. w = p @ SleepSecs 10 # q \<longrightarrow>
     (\<exists>e. fst (get_latest_upgrade_event env ns sel (H @ p @ [SleepSecs 10])) = Inl e))"

definition waited :: "'v plugin_env \<Rightarrow> string \<Rightarrow> string \<Rightarrow> string \<Rightarrow> nat \<Rightarrow> plugin_call list \<Rightarrow> plugin_call list \<Rightarrow> bool" where
  "waited env rel ns sel n H w \<longleftrightarrow>
     sleeps w = replicate n (SleepSecs 10) \<and> polls_failed env ns sel H w \<or>
     (\<exists>p q ev h2. w = p @ SleepSecs 10 # q \<and> polls_failed env ns sel H p \<and>
        get_latest_upgrade_event env ns sel (H @ p @ [SleepSecs 10]) = (Inr ev, h2) \<and>
        handle_upgrade_event env ev rel ns h2 = (Inr (), H @ w) \<and>
        sleeps q = [] \<and> (\<exists>k < n. sleeps p = replicate k (SleepSecs 10)))"

lemma sleep_split:
  assumes "v @ w = p @ SleepSecs 10 # q" and "sleeps v = []"
  obtains p' where "p = v @ p'" "w = p' @ SleepSecs 10 # q"
proof -
  from assms(1) consider us where "p = v @ us" "w = us @ SleepSecs 10 # q" | us where "v = p @ us" "us @ w = SleepSecs 10 # q"
    by (auto simp: append_eq_append_conv2)
  then show thesis
  proof cases
    case 1
    then show ?thesis by (rule that)
  next
    case 2
    with assms(2) show ?thesis by (cases us) (auto intro: that [of "[]"])
  qed
qed

lemma polls_failed_step:
  assumes "fst (get_latest_upgrade_event env ns sel (H @ [SleepSecs 10])) = Inl e" and "sleeps v = []"
    and "polls_failed env ns sel (H @ SleepSecs 10 # v) w"
  shows "polls_failed env ns sel H (SleepSecs 10 # v @ w)"
  unfolding polls_failed_def
proof (intro allI impI)
  fix p q
  assume split: "SleepSecs 10 # v @ w = p @ SleepSecs 10 # q"
  show "\<exists>e. fst (get_latest_upgrade_event env ns sel (H @ p @ [SleepSecs 10])) = Inl e"
  proof (cases p)
    case Nil
    with assms(1) show ?thesis by simp
  next
    case (Cons c p1)
    with split have "v @ w = p1 @ SleepSecs 10 # q" and c: "c = SleepSecs 10" by auto
    from sleep_split [OF this(1) assms(2)] obtain p' where "p1 = v @ p'" "w = p' @ SleepSecs 10 # q" by blast
    with assms(3) Cons c show ?thesis by (auto simp: polls_failed_def)
  qed
qed

lemma await_waited:
  "await_upgrade_event env rel ns sel n H = (Inr (), H') \<Longrightarrow> \<exists>w. H' = H @ w \<and> waited env rel ns sel n H w"
proof (induction n arbitrary: H)
  case 0
  then show ?case by (simp add: io_simps waited_def polls_failed_def)
next
  case (Suc n)
  obtain r h1 where latest: "get_latest_upgrade_event env ns sel (H @ [SleepSecs 10]) = (r, h1)" by fastforce
  from emitsD [OF get_latest_no_sleep latest] obtain v where v: "h1 = H @ SleepSecs 10 # v" "sleeps v = []"
    using sleeps_none by auto
  show ?case
  proof (cases r)
    case (Inl e)
    with Suc.prems latest have "await_upgrade_event env rel ns sel n h1 = (Inr (), H')" by (simp add: io_simps)
    from Suc.IH [OF this] obtain w where w: "H' = h1 @ w" "waited env rel ns sel n h1 w" by blast
    from latest Inl have first: "fst (get_latest_upgrade_event env ns sel (H @ [SleepSecs 10])) = Inl e" by simp
    have failed: "polls_failed env ns sel h1 x \<Longrightarrow> polls_failed env ns sel H (SleepSecs 10 # v @ x)" for x
      unfolding v(1) by (rule polls_failed_step [OF first v(2)])
    from w(2) have "waited env rel ns sel (Suc n) H (SleepSecs 10 # v @ w)"
      unfolding waited_def [of _ _ _ _ n]
    proof (elim disjE exE conjE)
      fix p q ev h2 k
      assume "w = p @ SleepSecs 10 # q" "polls_failed env ns sel h1 p"
        "get_latest_upgrade_event env ns sel (h1 @ p @ [SleepSecs 10]) = (Inr ev, h2)"
        "handle_upgrade_event env ev rel ns h2 = (Inr (), h1 @ w)" "sleeps q = []" "k < n" "sleeps p = replicate k (SleepSecs 10)"
      with v failed [of p] show ?thesis
        unfolding waited_def
        by (intro disjI2 exI [of _ "SleepSecs 10 # v @ p"] exI [of _ q] exI [of _ ev] exI [of _ h2])
          (auto intro: exI [of _ "Suc k"])
    qed (use v failed [of w] in \<open>simp add: waited_def\<close>)
    with w v show ?thesis by (intro exI [of _ "SleepSecs 10 # v @ w"]) simp
  next
    case (Inr ev)
    with Suc.prems latest have handled: "handle_upgrade_event env ev rel ns h1 = (Inr (), H')" by (simp add: io_simps)
    from emitsD [OF handle_no_sleep this] obtain u where u: "H' = h1 @ u" "sleeps u = []"
      using sleeps_none by auto
    have "polls_failed env ns sel H []" by (simp add: polls_failed_def)
    with latest Inr v handled u have "waited env rel ns sel (Suc n) H (SleepSecs 10 # v @ u)"
      unfolding waited_def
      by (intro disjI2 exI [of _ "[]"] exI [of _ "v @ u"] exI [of _ ev] exI [of _ h1]) (auto intro: exI [of _ 0])
    with u v show ?thesis by (intro exI [of _ "SleepSecs 10 # v @ u"]) simp
  qed
qed

lemma apply_upgrade_cases:
  assumes "apply_upgrade env args rel h = (r, h')"
  obtains (fails) err u where "r = Inl err" "h' = h @ u" "list_all no_sleep u"
  | (waits) u v w where "h' = h @ u @ v @ w" "list_all no_sleep (u @ v)"
      "u = [BuildClient, ListEventsMetadata (uc_namespace args) (upgrade_events_field_selector (pc_version_tag (pe_consts env)) rel),
            DeleteEvents (uc_namespace args) (upgrade_events_field_selector (pc_version_tag (pe_consts env)) rel)]"
      "pe_delete_events env (h @ butlast u) (uc_namespace args)
         (upgrade_events_field_selector (pc_version_tag (pe_consts env)) rel) = Inr ()"
      "create_upgrade_resources env args rel (h @ u) = (Inr (), h @ u @ v)"
      "await_upgrade_event env rel (uc_namespace args)
         (upgrade_events_field_selector (pc_version_tag (pe_consts env)) rel) 6 (h @ u @ v) = (r, h @ u @ v @ w)"
proof -
  let ?ns = "uc_namespace args"
  let ?sel = "upgrade_events_field_selector (pc_version_tag (pe_consts env)) rel"
  let ?u = "[BuildClient, ListEventsMetadata ?ns ?sel, DeleteEvents ?ns ?sel]"
  show thesis
  proof (cases "pe_client env h")
    case (Inl e)
    with assms show thesis by (intro fails [of _ "[BuildClient]"]) (auto simp: apply_upgrade_def Let_def io_simps)
  next
    case client: (Inr x)
    show thesis
    proof (cases "pe_list_events_metadata env (h @ [BuildClient]) ?ns ?sel")
      case (Inl e)
      with assms client show thesis
        by (intro fails [of _ "[BuildClient, ListEventsMetadata ?ns ?sel]"])
          (auto simp: apply_upgrade_def delete_older_upgrade_events_def Let_def io_simps)
    next
      case meta: (Inr x)
      show thesis
      proof (cases "pe_delete_events env (h @ [BuildClient, ListEventsMetadata ?ns ?sel]) ?ns ?sel")
        case (Inl e)
        with assms client meta show thesis
          by (intro fails [of _ ?u]) (auto simp: apply_upgrade_def delete_older_upgrade_events_def Let_def io_simps)
      next
        case (Inr x)
        obtain cr h2 where create: "create_upgrade_resources env args rel (h @ ?u) = (cr, h2)" by fastforce
        have "emits no_sleep (create_upgrade_resources env args rel)" by (intro emits_intros) simp_all
        from emitsD [OF this create] obtain v where v: "h2 = h @ ?u @ v" "list_all no_sleep v" by auto
        have run: "apply_upgrade env args rel h = (case cr of Inl e \<Rightarrow> (Inl e, h2)
          | Inr _ \<Rightarrow> await_upgrade_event env rel ?ns ?sel 6 h2)"
          using client meta Inr create
          by (simp add: apply_upgrade_def delete_older_upgrade_events_def Let_def io_simps del: await_upgrade_event.simps)
        show thesis
        proof (cases cr)
          case (Inl e)
          with assms run v show thesis by (intro fails [of _ "?u @ v"]) auto
        next
          case ok: (Inr y)
          obtain w where "snd (await_upgrade_event env rel ?ns ?sel 6 h2) = h2 @ w"
            using await_upgrade_event_calls by blast
          with assms run ok have "await_upgrade_event env rel ?ns ?sel 6 h2 = (r, h2 @ w)" "h' = h2 @ w"
            by (metis (no_types, lifting) old.sum.simps(6) prod.collapse snd_conv)+
          with create ok v Inr show thesis by (intro waits [of ?u v w]) auto
        qed
      qed
    qed
  qed
qed

text \<open>C20: starting an upgrade waits at most a minute, in steps of ten seconds. Whatever the cluster answers, the
  function ends, all its sleeps are of ten seconds, and there are at most six of them.\<close>

theorem apply_upgrade_waits_at_most_a_minute:
  "\<exists>u k. snd (apply_upgrade env args rel h) = h @ u \<and> k \<le> 6 \<and> sleeps u = replicate k (SleepSecs 10) \<and>
     sleep_secs u = 10 * k"
proof -
  obtain r h' where run: "apply_upgrade env args rel h = (r, h')" by fastforce
  from run show ?thesis
  proof (cases rule: apply_upgrade_cases)
    case (fails err u)
    with run sleeps_none [of u] sleep_secs_none [of u] show ?thesis
      by (intro exI [of _ u] exI [of _ 0]) simp
  next
    case (waits u v w)
    from await_upgrade_event_calls [of env rel "uc_namespace args"
        "upgrade_events_field_selector (pc_version_tag (pe_consts env)) rel" 6 "h @ u @ v"] waits(6)
    obtain k where "k \<le> 6" "sleeps w = replicate k (SleepSecs 10)" by auto
    moreover have "sleeps (u @ v) = []" using waits(2) by (rule sleeps_none)
    ultimately have "k \<le> 6" "sleeps (u @ v @ w) = replicate k (SleepSecs 10)" by auto
    with run waits(1) sleep_secs_tens [OF this(2)] show ?thesis by auto
  qed
qed

lemma apply_upgrade_result:
  assumes "apply_upgrade env args rel h = (Inr (), h')"
  shows "\<exists>u v w data set_file props. h' = h @ u @ v @ w \<and>
    last u = DeleteEvents (uc_namespace args) (upgrade_events_field_selector (pc_version_tag (pe_consts env)) rel) \<and>
    pe_delete_events env (h @ butlast u) (uc_namespace args)
      (upgrade_events_field_selector (pc_version_tag (pe_consts env)) rel) = Inr () \<and>
    list_all (\<lambda>(ns, obj). create_accepted env (h @ u) (h @ u @ v) ns obj)
      (upgrade_objects (pe_consts env) args rel data (upgrade_job (pe_consts env) args rel set_file props)) \<and>
    sleeps (u @ v) = [] \<and>
    waited env rel (uc_namespace args) (upgrade_events_field_selector (pc_version_tag (pe_consts env)) rel) 6 (h @ u @ v) w"
  using assms
proof (cases rule: apply_upgrade_cases)
  case (waits u v w)
  from create_upgrade_resources_result [where env = env and args = args and rel = rel and h = "h @ u"] waits(5)
  obtain data set_file props where "list_all (\<lambda>(ns, obj). create_accepted env (h @ u) (h @ u @ v) ns obj)
      (upgrade_objects (pe_consts env) args rel data (upgrade_job (pe_consts env) args rel set_file props))"
    by auto
  moreover have "sleeps (u @ v) = []" using waits(2) by (rule sleeps_none)
  moreover have "waited env rel (uc_namespace args) (upgrade_events_field_selector (pc_version_tag (pe_consts env)) rel) 6 (h @ u @ v) w"
    using await_waited [OF waits(6)] by auto
  ultimately show ?thesis using waits(1,3,4) by (intro exI [of _ u] exI [of _ v] exI [of _ w]) auto
qed simp

text \<open>C21: what a successful start has done, and in which order: the events of earlier attempts are deleted
  first, then all five objects are requested and accepted, and only after that it waits. So the
  first event it looks at cannot be a left-over. It waits in rounds of ten seconds, each followed by a
  look at the events: until the first event is found, which is then handled with success, or, if none
  of six rounds finds one, for all six.\<close>

theorem apply_upgrade_success:
  assumes "apply_upgrade env args rel h = (Inr (), h')"
  shows "\<exists>u v w data set_file props. h' = h @ u @ v @ w \<and>
    last u = DeleteEvents (uc_namespace args) (upgrade_events_field_selector (pc_version_tag (pe_consts env)) rel) \<and>
    pe_delete_events env (h @ butlast u) (uc_namespace args)
      (upgrade_events_field_selector (pc_version_tag (pe_consts env)) rel) = Inr () \<and>
    list_all (\<lambda>(ns, obj). create_accepted env (h @ u) (h @ u @ v) ns obj)
      (upgrade_objects (pe_consts env) args rel data (upgrade_job (pe_consts env) args rel set_file props)) \<and>
    sleeps (u @ v) = [] \<and>
    waited env rel (uc_namespace args) (upgrade_events_field_selector (pc_version_tag (pe_consts env)) rel) 6 (h @ u @ v) w"
  using assms by (rule apply_upgrade_result)

lemma default_args_release: "uc_release_name default_args = Some ''openebs''"
  by (simp add: default_args_def)

lemma cluster_apply_succeeds:
  "\<exists>h'. apply_upgrade (cluster_env tag release) default_args ''openebs'' h = (Inr (), h')"
proof -
  let ?env = "cluster_env tag release"
  let ?sel = "upgrade_events_field_selector (pc_version_tag (pe_consts ?env)) ''openebs''"
  have simps: "pe_client ?env = (\<lambda>h. Inr ())" "pe_default_client ?env = (\<lambda>h. Inr ())"
    "pe_list_events ?env = (\<lambda>h ns sel. Inr [])" "pe_list_events_metadata ?env = (\<lambda>h ns sel. Inr ())"
    "pe_delete_events ?env = (\<lambda>h ns sel. Inr ())"
    by (simp_all add: cluster_env_def store_env_def healthy_env_def)
  have "\<exists>h'. await_upgrade_event ?env rel ns sel n h = (Inr (), h')" for rel ns sel n h
    by (induction n arbitrary: h) (simp_all add: io_simps get_latest_upgrade_event_def list_events_def simps)
  moreover obtain h1 where "create_upgrade_resources ?env default_args ''openebs''
      (h @ [BuildClient, ListEventsMetadata (uc_namespace default_args) ?sel, DeleteEvents (uc_namespace default_args) ?sel])
      = (Inr (), h1)"
    using cluster_create_succeeds by blast
  ultimately show ?thesis
    by (simp add: apply_upgrade_def delete_older_upgrade_events_def Let_def io_simps simps del: await_upgrade_event.simps)
qed

theorem apply_upgrade_success_witness:
  "\<exists>h' u v w data set_file props.
    apply_upgrade (cluster_env (Some ''v4.3.0'') (v4_release True ())) default_args ''openebs'' [] = (Inr (), h') \<and>
    h' = u @ v @ w \<and> list_all (\<lambda>(ns, obj). create_accepted (cluster_env (Some ''v4.3.0'') (v4_release True ())) u (u @ v) ns obj)
      (upgrade_objects (pe_consts (cluster_env (Some ''v4.3.0'') (v4_release True ()))) default_args ''openebs'' data
        (upgrade_job (pe_consts (cluster_env (Some ''v4.3.0'') (v4_release True ()))) default_args ''openebs'' set_file props))"
proof -
  let ?env = "cluster_env (Some ''v4.3.0'') (v4_release True ())"
  obtain h' where run: "apply_upgrade ?env default_args ''openebs'' [] = (Inr (), h')"
    using cluster_apply_succeeds by blast
  from apply_upgrade_success [OF run] obtain u v w data set_file props where "h' = u @ v @ w" and
    "list_all (\<lambda>(ns, obj). create_accepted ?env u (u @ v) ns obj)
      (upgrade_objects (pe_consts ?env) default_args ''openebs'' data
        (upgrade_job (pe_consts ?env) default_args ''openebs'' set_file props))"
    by auto
  with run show ?thesis
    by (intro exI [of _ h'] exI [of _ u] exI [of _ v] exI [of _ w] exI [of _ data] exI [of _ set_file]
        exI [of _ props] conjI)
qed

section \<open>Safety of the commands\<close>

lemma filter_none: "list_all (\<lambda>c. \<not> P c) u \<Longrightarrow> filter P u = []"
  by (induction u) auto

lemma preflight_emits: "pemits (\<lambda>c. \<not> mutating c) (upgrade_preflight_check S env args rel)"
  unfolding upgrade_preflight_check_def by (intro emits_intros) simp_all

lemma apply_upgrade_calls: "\<exists>w. snd (apply_upgrade env args rel h) = h @ w"
proof -
  obtain r h' where run: "apply_upgrade env args rel h = (r, h')" by fastforce
  from run show ?thesis by (cases rule: apply_upgrade_cases) (use run in auto)
qed

text \<open>C22: the upgrade command changes nothing in the cluster before its checks have passed. If a run makes
  a mutating call, then the release name was found, the preflight check ended with success, and
  everything up to that point was read-only.\<close>

theorem upgrade_execute_guarded:
  assumes "upgrade_execute S env args None h = Some (r, h @ u)" and "filter mutating u \<noteq> []"
  shows "\<exists>rel h1 v w. release_name_of env args h = (Inr rel, h1) \<and>
    upgrade_preflight_check S env args rel h1 = Some (Inr (), h @ v) \<and> filter mutating v = [] \<and> u = v @ w"
proof -
  obtain nr h1 where name: "release_name_of env args h = (nr, h1)" by fastforce
  have "emits (\<lambda>c. \<not> mutating c) (release_name_of env args)" by (intro emits_intros) simp
  from emitsD [OF this name] obtain v1 where v1: "h1 = h @ v1" "list_all (\<lambda>c. \<not> mutating c) v1" by blast
  from assms(1) have run: "pio_bind (pio_of (release_name_of env args)) (\<lambda>release_name.
      pio_bind (upgrade_preflight_check S env args release_name) (\<lambda>_.
        pio_of (apply_upgrade env args release_name))) h = Some (r, h @ u)"
    by (simp add: upgrade_execute_def)
  show ?thesis
  proof (cases nr)
    case (Inl e)
    with run name v1 have "u = v1" by (simp add: io_simps)
    with v1(2) assms(2) filter_none show ?thesis by blast
  next
    case (Inr rel)
    with run name have rest: "pio_bind (upgrade_preflight_check S env args rel) (\<lambda>_.
        pio_of (apply_upgrade env args rel)) h1 = Some (r, h @ u)"
      by (simp add: io_simps)
    then show ?thesis
    proof (cases rule: pio_bind_cases)
      case (fails e)
      from pemitsD [OF preflight_emits fails(1)] v1 have "list_all (\<lambda>c. \<not> mutating c) u" by auto
      with assms(2) filter_none show ?thesis by blast
    next
      case (continues x h2)
      from pemitsD [OF preflight_emits continues(1)] v1
      obtain v where v: "h2 = h @ v" "list_all (\<lambda>c. \<not> mutating c) v" by auto
      obtain w where "snd (apply_upgrade env args rel h2) = h2 @ w"
        using apply_upgrade_calls by blast
      with continues(2) v(1) have "u = v @ w" by (auto simp: pio_of_def)
      with name Inr continues(1) v filter_none [OF v(2)] show ?thesis by auto
    qed
  qed
qed

lemma guarded:
  assumes "execute_delete env args force h = (r, h @ u)" and "filter mutating u \<noteq> []"
  shows "\<exists>rel h1 h2 jb status. release_name_of env args h = (Inr rel, h1) \<and>
    pe_get_job env h2 (uc_namespace args) (upgrade_name_concat (pc_version_tag (pe_consts env)) rel ''upgrade'') = Inr (Some jb) \<and>
    jst_status jb = Some status \<and> (force \<or> js_succeeded status = Some 1) \<and>
    set (filter mutating u) \<subseteq> DeleteObject ` set (delete_keys (pe_consts env) rel (uc_namespace args))"
proof -
  let ?quiet = "\<lambda>c. \<not> mutating c"
  obtain nr h1 where name: "release_name_of env args h = (nr, h1)" by fastforce
  have "emits ?quiet (release_name_of env args)" by (intro emits_intros) simp
  from emitsD [OF this name] obtain v1 where v1: "h1 = h @ v1" "list_all ?quiet v1" by blast
  show ?thesis
  proof (cases nr)
    case (Inl e)
    with assms(1) name v1 have "u = v1" by (simp add: execute_delete_def io_simps)
    with v1(2) assms(2) filter_none show ?thesis by blast
  next
    case (Inr rel)
    let ?jn = "upgrade_name_concat (pc_version_tag (pe_consts env)) rel ''upgrade''"
    obtain cr h3 where comp: "upgrade_job_completed env (uc_namespace args) ?jn h1 = (cr, h3)" by fastforce
    have "emits ?quiet (upgrade_job_completed env (uc_namespace args) ?jn)" by (intro emits_intros) simp_all
    from emitsD [OF this comp] v1 obtain v2 where v2: "h3 = h @ v2" "list_all ?quiet v2" by auto
    show ?thesis
    proof (cases cr)
      case (Inl e)
      with assms(1) name Inr comp v2 have "u = v2" by (simp add: execute_delete_def io_simps)
      with v2(2) assms(2) filter_none show ?thesis by blast
    next
      case answered: (Inr completed)
      let ?tail = "io_bind (io_map_err ClientError (io_call BuildDefaultClient (pe_default_client env)))
        (\<lambda>_. delete_upgrade_resources env rel (uc_namespace args))"
      show ?thesis
      proof (cases "completed \<or> force")
        case False
        with assms(1) name Inr comp answered v2 have "u = v2 @ [ErrorLog IncompleteJobNotice]"
          by (auto simp: execute_delete_def io_simps)
        with v2(2) assms(2) filter_none [of mutating v2] show ?thesis by simp
      next
        case True
        let ?P = "\<lambda>c. mutating c \<longrightarrow> c \<in> DeleteObject ` set (delete_keys (pe_consts env) rel (uc_namespace args))"
        have "emits ?P ?tail" by (intro emits_intros) auto
        moreover from True assms(1) name Inr comp answered v2 have "?tail h3 = (r, h @ u)"
          by (auto simp: execute_delete_def io_bind_def)
        ultimately obtain w where w: "u = v2 @ w" "list_all ?P w" using v2(1) by (auto dest: emitsD)
        then have "set (filter mutating u) \<subseteq> DeleteObject ` set (delete_keys (pe_consts env) rel (uc_namespace args))"
          using filter_none [OF v2(2)] by (auto simp: list_all_iff)
        moreover from comp answered obtain jb status where
          "pe_get_job env (h1 @ [BuildDefaultClient]) (uc_namespace args) ?jn = Inr (Some jb)" "jst_status jb = Some status"
          "completed \<longleftrightarrow> js_succeeded status = Some 1"
          by (auto simp: upgrade_job_completed_def io_simps split: sum.splits option.splits)
        ultimately show ?thesis using True name Inr by blast
      qed
    qed
  qed
qed

lemma disabled_execute:
  "\<exists>u. upgrade_execute release_semver (cluster_env (Some ''v4.3.0'') (v4_release False (Release 4 2 0 [])))
     default_args None [] = Some (Inr (), u) \<and> filter mutating u \<noteq> []"
proof -
  let ?env = "cluster_env (Some ''v4.3.0'') (v4_release False (Release 4 2 0 []))"
  have "upgrade_preflight_check release_semver ?env default_args ''openebs'' [] =
      Some (Inr (), [ReadHelmStorage ''openebs'' ''openebs''])"
    by (simp add: upgrade_preflight_check_def io_simps default_args_simps cluster_env_def store_env_def healthy_env_def)
  moreover obtain h' where start: "apply_upgrade ?env default_args ''openebs'' [ReadHelmStorage ''openebs'' ''openebs''] = (Inr (), h')"
    using cluster_apply_succeeds by blast
  moreover have "release_name_of ?env default_args [] = (Inr ''openebs'', [])"
    by (simp add: release_name_of_def default_args_release io_simps)
  ultimately have "upgrade_execute release_semver ?env default_args None [] = Some (Inr (), h')"
    by (simp add: upgrade_execute_def io_simps)
  moreover from start have "filter mutating h' \<noteq> []"
    by (cases rule: apply_upgrade_cases) auto
  ultimately show ?thesis by blast
qed

theorem upgrade_execute_guarded_witness:
  "\<exists>v. upgrade_preflight_check release_semver (cluster_env (Some ''v4.3.0'') (v4_release False (Release 4 2 0 [])))
     default_args ''openebs'' [] = Some (Inr (), v) \<and> filter mutating v = []"
proof -
  obtain u where "upgrade_execute release_semver (cluster_env (Some ''v4.3.0'') (v4_release False (Release 4 2 0 [])))
      default_args None [] = Some (Inr (), [] @ u)" and "filter mutating u \<noteq> []"
    using disabled_execute by auto
  from upgrade_execute_guarded [OF this] show ?thesis
    by (auto simp: release_name_of_def default_args_release io_simps)
qed

text \<open>C23: deleting an upgrade is guarded by its job. Any change made by the delete command is the deletion
  of one of the five objects of this release and version, and it is made only if the job exists,
  has a status, and either has succeeded once or the deletion was forced.\<close>

theorem execute_delete_guarded:
  assumes "execute_delete env args force h = (r, h @ u)" and "filter mutating u \<noteq> []"
  shows "\<exists>rel h1 h2 jb status. release_name_of env args h = (Inr rel, h1) \<and>
    pe_get_job env h2 (uc_namespace args) (upgrade_name_concat (pc_version_tag (pe_consts env)) rel ''upgrade'') = Inr (Some jb) \<and>
    jst_status jb = Some status \<and> (force \<or> js_succeeded status = Some 1) \<and>
    set (filter mutating u) \<subseteq> DeleteObject ` set (delete_keys (pe_consts env) rel (uc_namespace args))"
  using assms by (rule guarded)

theorem execute_delete_guarded_witness:
  "\<exists>u. execute_delete ((cluster_env None (v4_release True ()))\<lparr>pe_get_job := (\<lambda>h ns name.
         Inr (Some \<lparr>jst_status = Some \<lparr>js_succeeded = Some 1\<rparr>\<rparr>))\<rparr>) default_args False [] = (Inr (), u) \<and>
     set (filter mutating u) \<subseteq> DeleteObject ` set (delete_keys
       (pe_consts (cluster_env None (v4_release True ()))) ''openebs'' ''openebs'')"
proof -
  let ?jobs = "\<lambda>h ns name. Inr (Some \<lparr>jst_status = Some \<lparr>js_succeeded = Some 1\<rparr>\<rparr>)"
  let ?env = "(cluster_env None (v4_release True ()))\<lparr>pe_get_job := ?jobs\<rparr>"
  let ?h = "[BuildDefaultClient, GetJob ''openebs'' ''openebs-upgrade-develop'', BuildDefaultClient]"
  have simps: "pe_default_client ?env = (\<lambda>h. Inr ())" "pe_get_job ?env = ?jobs" "pc_version_tag (pe_consts (cluster_env None (v4_release True ()))) = None"
    "uc_namespace default_args = ''openebs''"
    by (simp_all add: cluster_env_def store_env_def healthy_env_def default_args_def)
  have env: "?env = store_env ((healthy_env None (v4_release True ()))
      \<lparr>pe_list_pods := (\<lambda>h ns sel. Inr provisioner_pods), pe_get_job := ?jobs\<rparr>) (\<lambda>h. {}) {}"
    by (simp add: cluster_env_def store_env_def)
  obtain r u where del: "delete_upgrade_resources ?env ''openebs'' ''openebs'' ?h = (r, u)" by fastforce
  from delete_stored [OF del [unfolded env]] have r: "r = Inr ()" by simp
  have run: "execute_delete ?env default_args False [] = (Inr (), [] @ u)"
    using del r by (simp add: execute_delete_def release_name_of_def default_args_release upgrade_job_completed_def
        io_simps simps upgrade_name_concat_def upgrade_obj_suffix_def get_destination_version_tag_def
        upgrade_job_image_tag_def replace_char_def)
  have "DeleteObject (''ClusterRole'', None, upgrade_name_concat None ''openebs'' ''upgrade-role'') \<in> set u"
    using delete_accepted_calls [OF del [unfolded r]] by (simp add: delete_keys_def Let_def simps)
  then have "filter mutating u \<noteq> []" unfolding filter_empty_conv by (metis mutating.simps(2))
  from execute_delete_guarded [OF run this] run show ?thesis
    by (auto simp: release_name_of_def default_args_release io_simps simps)
qed

text \<open>C24: forcing does not help when the job is gone. If no job of that name exists, or it has no status, the
  delete command fails without deleting anything, forced or not, whatever else is left of the upgrade.\<close>

theorem forced_delete_needs_job:
  assumes "\<And>h' rel. pe_get_job env h' (uc_namespace args) (upgrade_name_concat (pc_version_tag (pe_consts env)) rel ''upgrade'')
      \<in> {Inr None, Inr (Some \<lparr>jst_status = None\<rparr>)}"
  shows "\<exists>e u. execute_delete env args True h = (Inl e, h @ u) \<and> filter mutating u = []"
proof -
  obtain r h' where run: "execute_delete env args True h = (r, h')" by fastforce
  have "emits (\<lambda>c. True) (execute_delete env args True)"
    unfolding execute_delete_def by (intro emits_intros) simp_all
  from emitsD [OF this run] obtain u where u: "h' = h @ u" by blast
  have "\<exists>e h2. upgrade_job_completed env (uc_namespace args)
      (upgrade_name_concat (pc_version_tag (pe_consts env)) rel ''upgrade'') h1 = (Inl e, h2)" for rel h1
    using assms [of "h1 @ [BuildDefaultClient]" rel]
    by (auto simp: upgrade_job_completed_def io_simps split: sum.splits)
  moreover obtain nr h1 where name: "release_name_of env args h = (nr, h1)" by fastforce
  ultimately have "r \<noteq> Inr ()"
    using run by (cases nr) (auto simp: execute_delete_def io_bind_def split: sum.splits prod.splits, metis prod.inject sum.distinct(1))
  moreover have "filter mutating u = []"
  proof (rule ccontr)
    assume "filter mutating u \<noteq> []"
    from guarded [OF run [unfolded u] this] obtain rel h2 jb status where
      "pe_get_job env h2 (uc_namespace args)
        (upgrade_name_concat (pc_version_tag (pe_consts env)) rel ''upgrade'') = Inr (Some jb)"
      "jst_status jb = Some status" by blast
    with assms [of h2 rel] show False by auto
  qed
  ultimately show ?thesis using run u by (cases r) auto
qed

theorem forced_delete_needs_job_witness:
  "\<exists>e u. execute_delete (healthy_env None (v4_release True ())) default_args True [] = (Inl e, [] @ u) \<and>
     filter mutating u = []"
  by (rule forced_delete_needs_job) (simp add: healthy_env_def)

end
