(* ===== verification/LocalPv.thy ===== *)
theory LocalPv
  imports Kube
begin

text \<open>
  What the three LocalPV engines share (\<^verbatim>\<open>cli_utils/localpv\<close>): the context of the command line, the
  PersistentVolume as far as it is read, lists in pages with a label selector, and the loop that
  joins the volumes of an engine with the PersistentVolumes of the cluster. The loop stands in
  \<^verbatim>\<open>lvm/volume/mod.rs\<close> and in \<^verbatim>\<open>zfs/volume/mod.rs\<close>; the locale \<open>pv_conversion\<close> states what a conversion
  to a table row promises, and each engine interprets it with its own.
\<close>

section \<open>Context of the command line\<close>

text \<open>The configuration of a client: which cluster, and the namespace requests go to by default.\<close>

record kube_config =
  kc_cluster :: string
  kc_default_namespace :: string

record k8s_ctx_args =
  cx_namespace :: "string option"
  cx_kubeconfig :: "string option"
  cx_context :: "string option"

record kube_conf_env =
  kf_config_from_kubeconfig :: "string option \<Rightarrow> string option \<Rightarrow> string + kube_config"
  kf_client_try_from :: "kube_config \<Rightarrow> string + unit"

definition ctx_client :: "kube_conf_env \<Rightarrow> k8s_ctx_args \<Rightarrow> string + kube_config" where
  "ctx_client F ctx =
     res_bind (kf_config_from_kubeconfig F (cx_kubeconfig ctx) (cx_context ctx)) (\<lambda>config.
     (let config' = (case cx_namespace ctx of
          Some ns \<Rightarrow> config\<lparr>kc_default_namespace := ns\<rparr>
        | None \<Rightarrow> config) in
     res_bind (kf_client_try_from F config') (\<lambda>_. Inr config')))"

definition ctx_namespace :: "kube_conf_env \<Rightarrow> k8s_ctx_args \<Rightarrow> string + string" where
  "ctx_namespace F ctx = (case cx_namespace ctx of
      Some ns \<Rightarrow> Inr ns
    | None \<Rightarrow> res_bind (ctx_client F ctx) (\<lambda>client. Inr (kc_default_namespace client)))"

lemma ctx_namespace_of_client:
  "ctx_client F ctx = Inr client \<Longrightarrow> ctx_namespace F ctx = Inr (kc_default_namespace client)"
  by (cases "cx_namespace ctx") (auto simp: ctx_namespace_def ctx_client_def Let_def)

section \<open>Persistent volumes\<close>

record node_selector_requirement =
  nr_values :: "string list option"

record node_selector_term =
  nt_match_expressions :: "node_selector_requirement list option"

record node_selector =
  ns_node_selector_terms :: "node_selector_term list"

record volume_node_affinity =
  na_required :: "node_selector option"

record object_reference =
  or_name :: "string option"

record persistent_volume_spec =
  vs_access_modes :: "string list option"
  vs_capacity :: "(string \<rightharpoonup> string) option"
  vs_claim_ref :: "object_reference option"
  vs_local_path :: "string option"
  vs_node_affinity :: "volume_node_affinity option"
  vs_storage_class_name :: "string option"
  vs_volume_mode :: "string option"

record persistent_volume_status =
  vt_phase :: "string option"

record persistent_volume =
  pv_meta :: object_meta
  pv_spec :: "persistent_volume_spec option"
  pv_status :: "persistent_volume_status option"

section \<open>Errors and output\<close>

text \<open>The error types of the three engines have the same two variants; a panic ends the program.\<close>

datatype lpv_error = LpvGeneric string | LpvKube kube_error | LpvPanic

text \<open>
  \<^verbatim>\<open>print_table\<close> comes from Mayastor's plugin: it gets the output format and the record. Its
  format is not looked at here.
\<close>

datatype 'r lpv_call = PrintTable string 'r | NoPvFor string

definition name_unchecked :: "object_meta \<Rightarrow> lpv_error + string" where
  "name_unchecked meta = ok_or (om_name meta) LpvPanic"

text \<open>\<^verbatim>\<open>to_string\<close> of the error of \<^verbatim>\<open>parse::<u128>\<close>.\<close>

fun parse_int_message :: "parse_int_error \<Rightarrow> string" where
  "parse_int_message Empty = ''cannot parse integer from empty string''"
| "parse_int_message InvalidDigit = ''invalid digit found in string''"
| "parse_int_message PosOverflow = ''number too large to fit in target type''"

text \<open>
  \<^verbatim>\<open>adjust_bytes\<close> is a call of the \<^verbatim>\<open>byte_unit\<close> crate and a format: \<open>unit_of\<close> picks the unit, \<open>show\<close>
  prints the value in it with two decimals.
\<close>

record 'u byte_unit_api =
  bu_appropriate_unit :: "128 word \<Rightarrow> 'u"
  bu_format_2 :: "'u \<Rightarrow> string"

definition adjust_bytes :: "'u byte_unit_api \<Rightarrow> 128 word \<Rightarrow> string" where
  "adjust_bytes B bytes = bu_format_2 B (bu_appropriate_unit B bytes)"

section \<open>Lists\<close>

text \<open>
  A list request of 500 objects per page, with the label of a node if one is given
  (\<^verbatim>\<open>lvm_volumes\<close>, \<^verbatim>\<open>zfs_volumes\<close>).
\<close>

definition node_label :: "string \<Rightarrow> string" where
  "node_label node_id = ''kubernetes.io/nodename='' @ node_id"

definition node_list_params :: "string option option \<Rightarrow> list_params" where
  "node_list_params volumes_arg = (case volumes_arg of
      Some (Some node_id) \<Rightarrow> lp_500\<lparr>lp_labels := Some (node_label node_id)\<rparr>
    | _ \<Rightarrow> lp_500)"

text \<open>A server that filters a snapshot by the label selector of the request.\<close>

definition selecting_server :: "(string option \<Rightarrow> 'a \<Rightarrow> bool) \<Rightarrow> 'a list \<Rightarrow> list_params \<Rightarrow> 'e + 'a page" where
  "selecting_server selects objs lp = snapshot_server (filter (selects (lp_labels lp)) objs) lp"

interpretation selected: paginated_api "selecting_server selects objs" "lp_500\<lparr>lp_labels := l\<rparr>"
  "\<lambda>t. token_offset t \<le> length (filter (selects l) objs)" "\<lambda>t. drop (token_offset t) (filter (selects l) objs)"
proof
  have same: "selecting_server selects objs (lp_500\<lparr>lp_labels := l, lp_continue := t\<rparr>) =
      snapshot_server (filter (selects l) objs) (lp_500\<lparr>lp_continue := t\<rparr>)" for t
    by (simp add: selecting_server_def snapshot_server_def)
  show "token_offset (lp_continue (lp_500\<lparr>lp_labels := l\<rparr>)) \<le> length (filter (selects l) objs)"
    by (simp add: token_offset_def lp_500_def list_params_default_def)
  fix t and pg :: "'a page"
  assume "token_offset t \<le> length (filter (selects l) objs)"
    and "selecting_server selects objs (lp_500\<lparr>lp_labels := l, lp_continue := t\<rparr>) = Inr pg"
  note pg = this(1) this(2) [unfolded same]
  show "next_token pg = None \<Longrightarrow> drop (token_offset t) (filter (selects l) objs) = pg_items pg"
    by (rule snapshot.page_last [OF pg])
  fix t'
  show "next_token pg = Some t' \<Longrightarrow> token_offset (Some t') \<le> length (filter (selects l) objs) \<and>
      pg_items pg \<noteq> [] \<and>
      drop (token_offset t) (filter (selects l) objs) = pg_items pg @ drop (token_offset (Some t')) (filter (selects l) objs)"
    by (rule snapshot.page_more [OF pg])
qed

lemma list_pages_selected:
  "list_pages (selecting_server selects objs) (lp_500\<lparr>lp_labels := l\<rparr>) [] =
     Some (Inr (filter (selects l) objs))"
  using selected.list_pages_all [where selects = selects and objs = objs and l = l]
  by (simp add: selecting_server_def snapshot_server_def Let_def token_offset_def lp_500_def list_params_default_def)

definition label_of_node :: "string option option \<Rightarrow> string option" where
  "label_of_node volumes_arg = map_option node_label (Option.bind volumes_arg id)"

lemma node_list_params_selected:
  "list_pages (selecting_server selects objs) (node_list_params arg) [] =
     Some (Inr (filter (selects (label_of_node arg)) objs))"
proof -
  have "node_list_params arg = lp_500\<lparr>lp_labels := label_of_node arg\<rparr>"
    by (simp add: node_list_params_def label_of_node_def lp_500_def list_params_default_def split: option.splits)
  then show ?thesis by (simp add: list_pages_selected)
qed

text \<open>All PersistentVolumes of the cluster.\<close>

definition list_pv :: "(list_params \<Rightarrow> kube_error + persistent_volume page) \<Rightarrow>
    (lpv_error + persistent_volume list) option" where
  "list_pv fetch = map_option (map_err LpvKube) (list_pages fetch lp_500 [])"

lemma list_pv_snapshot: "list_pv (snapshot_server pvs) = Some (Inr pvs)"
  using snapshot.list_pages_all [of pvs]
  by (simp add: list_pv_def snapshot_server_def Let_def token_offset_def lp_500_def list_params_default_def)

section \<open>Volumes with their persistent volume\<close>

text \<open>\<^verbatim>\<open>find\<close> goes through the list until a name matches, and panics at an object without a name.\<close>

fun find_pv :: "string \<Rightarrow> persistent_volume list \<Rightarrow> lpv_error + persistent_volume option" where
  "find_pv name [] = Inr None"
| "find_pv name (pv # pvs) =
     res_bind (name_unchecked (pv_meta pv)) (\<lambda>n. if n = name then Inr (Some pv) else find_pv name pvs)"

fun join_pvs :: "('v \<Rightarrow> object_meta) \<Rightarrow> ('v \<Rightarrow> persistent_volume \<Rightarrow> lpv_error + 'o) \<Rightarrow> persistent_volume list \<Rightarrow>
    'v list \<Rightarrow> ('r lpv_call, lpv_error, 'o list) io" where
  "join_pvs meta convert pvs [] = io_ok []"
| "join_pvs meta convert pvs (vol # vols) =
     io_bind (io_res (name_unchecked (meta vol))) (\<lambda>name.
     io_bind (io_res (find_pv name pvs)) (\<lambda>found.
     case found of
       Some pv \<Rightarrow> io_bind (io_res (convert vol pv)) (\<lambda>obj.
         io_bind (join_pvs meta convert pvs vols) (\<lambda>objs. io_ok (obj # objs)))
     | None \<Rightarrow> io_bind (io_emit (NoPvFor name)) (\<lambda>_. join_pvs meta convert pvs vols)))"

text \<open>The specification: the volumes paired with the first volume of their name, and those without one.\<close>

definition pv_named :: "persistent_volume list \<Rightarrow> string \<Rightarrow> persistent_volume option" where
  "pv_named pvs name = List.find (\<lambda>pv. om_name (pv_meta pv) = Some name) pvs"

definition paired :: "('v \<Rightarrow> object_meta) \<Rightarrow> persistent_volume list \<Rightarrow> 'v list \<Rightarrow> ('v \<times> persistent_volume) list" where
  "paired meta pvs vols =
     List.map_filter (\<lambda>v. map_option (Pair v) (pv_named pvs (the (om_name (meta v))))) vols"

definition unpaired :: "('v \<Rightarrow> object_meta) \<Rightarrow> persistent_volume list \<Rightarrow> 'v list \<Rightarrow> string list" where
  "unpaired meta pvs vols =
     filter (\<lambda>name. pv_named pvs name = None) (map (\<lambda>v. the (om_name (meta v))) vols)"

definition all_named :: "object_meta list \<Rightarrow> bool" where
  "all_named metas = list_all (\<lambda>meta. om_name meta \<noteq> None) metas"

lemma all_named_simps [simp]:
  "all_named []" "all_named (meta # metas) \<longleftrightarrow> (\<exists>n. om_name meta = Some n) \<and> all_named metas"
  by (auto simp: all_named_def)

lemma find_pv_named: "all_named (map pv_meta pvs) \<Longrightarrow> find_pv name pvs = Inr (pv_named pvs name)"
  by (induction pvs) (auto simp: pv_named_def name_unchecked_def)

lemma paired_simps [simp]:
  "paired meta pvs [] = []"
  "paired meta pvs (v # vols) = (case pv_named pvs (the (om_name (meta v))) of
      Some pv \<Rightarrow> (v, pv) # paired meta pvs vols | None \<Rightarrow> paired meta pvs vols)"
  by (auto simp: paired_def map_filter_simps split: option.splits)

lemma unpaired_simps [simp]:
  "unpaired meta pvs [] = []"
  "unpaired meta pvs (v # vols) = (case pv_named pvs (the (om_name (meta v))) of
      Some pv \<Rightarrow> unpaired meta pvs vols | None \<Rightarrow> the (om_name (meta v)) # unpaired meta pvs vols)"
  by (auto simp: unpaired_def split: option.splits)

lemma join_pvs_Inr_iff:
  assumes "all_named (map meta vols)" and "all_named (map pv_meta pvs)"
  shows "join_pvs meta convert pvs vols h = (Inr objs, h') \<longleftrightarrow>
     traverse (\<lambda>(v, pv). convert v pv) (paired meta pvs vols) = Inr objs \<and>
     h' = h @ map NoPvFor (unpaired meta pvs vols)"
  using assms
proof (induction vols arbitrary: h objs)
  case Nil
  then show ?case by (auto simp: io_success)
next
  case (Cons v vols)
  then obtain n where n: "om_name (meta v) = Some n" by auto
  with Cons show ?case
    by (cases "pv_named pvs n") (auto simp: io_success name_unchecked_def find_pv_named)
qed

lemma join_pvs_Inl:
  assumes "all_named (map meta vols)" and "all_named (map pv_meta pvs)"
    and "join_pvs meta convert pvs vols h = (Inl e, h')"
  shows "traverse (\<lambda>(v, pv). convert v pv) (paired meta pvs vols) = Inl e"
  using assms
proof (induction vols arbitrary: h)
  case Nil
  then show ?case by (simp add: io_simps)
next
  case (Cons v vols)
  then obtain n where n: "om_name (meta v) = Some n" by auto
  with Cons show ?case
    by (cases "pv_named pvs n")
      (auto simp: io_bind_Inl_iff io_apply name_unchecked_def find_pv_named res_bind_Inl_iff)
qed

lemma join_pvs_result:
  assumes "all_named (map meta vols)" and "all_named (map pv_meta pvs)"
  shows "fst (join_pvs meta convert pvs vols h) = traverse (\<lambda>(v, pv). convert v pv) (paired meta pvs vols)"
proof -
  obtain r h' where run: "join_pvs meta convert pvs vols h = (r, h')" by fastforce
  show ?thesis
  proof (cases r)
    case (Inl e)
    with join_pvs_Inl [OF assms run [unfolded Inl]] run show ?thesis by simp
  next
    case (Inr objs)
    with run have "traverse (\<lambda>(v, pv). convert v pv) (paired meta pvs vols) = Inr objs"
      using join_pvs_Inr_iff [OF assms, of convert h objs h'] by blast
    with run Inr show ?thesis by simp
  qed
qed

section \<open>The contract of a conversion\<close>

text \<open>
  A conversion keeps the name of the volume. Then a table lists exactly the volumes that have a
  persistent volume, in their order, and none twice.
\<close>

locale pv_conversion =
  fixes meta :: "'v \<Rightarrow> object_meta"
    and convert :: "'v \<Rightarrow> persistent_volume \<Rightarrow> lpv_error + 'o"
    and shown_name :: "'o \<Rightarrow> string"
  assumes convert_name: "convert v pv = Inr obj \<Longrightarrow> om_name (meta v) = Some (shown_name obj)"
begin

lemma converted_names:
  assumes "traverse (\<lambda>(v, pv). convert v pv) (paired meta pvs vols) = Inr objs"
  shows "map shown_name objs =
     filter (\<lambda>name. pv_named pvs name \<noteq> None) (map (\<lambda>v. the (om_name (meta v))) vols)"
  using assms
proof (induction vols arbitrary: objs)
  case (Cons v vols)
  then show ?case
    by (cases "pv_named pvs (the (om_name (meta v)))") (auto dest: convert_name)
qed simp

lemma shown_or_reported:
  assumes "traverse (\<lambda>(v, pv). convert v pv) (paired meta pvs vols) = Inr objs"
  shows "set (map shown_name objs) \<union> set (unpaired meta pvs vols) = (\<lambda>v. the (om_name (meta v))) ` set vols"
  unfolding converted_names [OF assms] unpaired_def by auto

end

section \<open>What a conversion needs of the persistent volume\<close>

text \<open>The checks that the LVM and the ZFS conversion share, in the order of the code.\<close>

definition pv_spec_of :: "persistent_volume \<Rightarrow> string \<Rightarrow> lpv_error + persistent_volume_spec" where
  "pv_spec_of pv pv_name = ok_or (pv_spec pv) (LpvGeneric (''PersistentVolume spec missing for '' @ pv_name))"

definition claim_name :: "persistent_volume_spec \<Rightarrow> string \<Rightarrow> lpv_error + string" where
  "claim_name spec pv_name =
     res_bind (ok_or (vs_claim_ref spec) (LpvGeneric (''PV claimRef missing for '' @ pv_name))) (\<lambda>ref.
     Inr (unwrap_or (or_name ref) []))"

definition access_mode_of :: "persistent_volume_spec \<Rightarrow> string \<Rightarrow> lpv_error + string list" where
  "access_mode_of spec pv_name =
     ok_or (vs_access_modes spec) (LpvGeneric (''PV accessmode missing for '' @ pv_name))"

definition sc_name_of :: "persistent_volume_spec \<Rightarrow> string \<Rightarrow> lpv_error + string" where
  "sc_name_of spec pv_name =
     ok_or (vs_storage_class_name spec) (LpvGeneric (''PV sc name missing for '' @ pv_name))"

definition volume_mode_of :: "persistent_volume_spec \<Rightarrow> string \<Rightarrow> lpv_error + string" where
  "volume_mode_of spec pv_name =
     ok_or (vs_volume_mode spec) (LpvGeneric (''PV vol mode missing for '' @ pv_name))"

lemmas pv_field_defs = pv_spec_of_def claim_name_def access_mode_of_def sc_name_of_def volume_mode_of_def
  name_unchecked_def

end
