(* ===== verification/Lvm.thy ===== *)
theory Lvm
  imports LocalPv
begin

text \<open>
  The data of LocalPV-LVM and its conversion to table rows: the custom resources \<^verbatim>\<open>LVMNode\<close> and
  \<^verbatim>\<open>LVMVolume\<close> (\<^verbatim>\<open>lvm/node/types.rs\<close>, \<^verbatim>\<open>lvm/volume/types.rs\<close>), their lists (\<^verbatim>\<open>lvm/node/mod.rs\<close>,
  \<^verbatim>\<open>lvm/volume/mod.rs\<close>), and the join with the persistent volumes.
\<close>

section \<open>Volume groups\<close>

record volume_group =
  vg_allocation_policy :: "32 word"
  vg_free :: string
  vg_lv_count :: "32 word"
  vg_max_lv :: "32 word"
  vg_max_pv :: "32 word"
  vg_metadata_count :: "32 word"
  vg_metadata_free :: string
  vg_metadata_size :: string
  vg_metadata_used_count :: "32 word"
  vg_missing_pv_count :: "32 word"
  vg_name :: string
  vg_permissions :: "32 word"
  vg_pv_count :: "32 word"
  vg_size :: string
  vg_snap_count :: "32 word"
  vg_uuid :: string

record lvm_node =
  ln_api_version :: string
  ln_kind :: string
  ln_metadata :: object_meta
  ln_volume_groups :: "volume_group list"

record lvm_volume_group =
  lg_name :: string
  lg_node :: string
  lg_uuid :: string
  lg_total_size :: string
  lg_free_size :: string
  lg_max_lv :: string
  lg_max_pv :: string
  lg_lv_count :: string
  lg_pv_count :: string
  lg_snap_count :: string
  lg_missing_pv_count :: string

definition lvm_volume_group_from :: "volume_group \<Rightarrow> string \<Rightarrow> lvm_volume_group" where
  "lvm_volume_group_from vg node =
     \<lparr>lg_name = vg_name vg, lg_node = node, lg_uuid = vg_uuid vg,
      lg_total_size = vg_size vg, lg_free_size = vg_free vg,
      lg_max_lv = i32_to_string (vg_max_lv vg), lg_max_pv = i32_to_string (vg_max_pv vg),
      lg_lv_count = i32_to_string (vg_lv_count vg), lg_pv_count = i32_to_string (vg_pv_count vg),
      lg_snap_count = i32_to_string (vg_snap_count vg),
      lg_missing_pv_count = i32_to_string (vg_missing_pv_count vg)\<rparr>"

text \<open>The name of a node is looked up for every one of its groups, so a node without groups may be nameless.\<close>

fun volume_group_record_from :: "lvm_node list \<Rightarrow> lpv_error + lvm_volume_group list" where
  "volume_group_record_from [] = Inr []"
| "volume_group_record_from (node # nodes) =
     res_bind (traverse (\<lambda>vg. res_bind (name_unchecked (ln_metadata node)) (\<lambda>name.
         Inr (lvm_volume_group_from vg name))) (ln_volume_groups node)) (\<lambda>groups.
     res_bind (volume_group_record_from nodes) (\<lambda>rest. Inr (groups @ rest)))"

definition volume_group_header :: "string list" where
  "volume_group_header = [''NAME'', ''NODE'', ''UUID'', ''TOTAL-SIZE'', ''FREE-SIZE'', ''LV-COUNT'', ''PV-COUNT'', ''SNAP-COUNT'']"

definition volume_group_rows :: "lvm_volume_group list \<Rightarrow> string list list" where
  "volume_group_rows = map (\<lambda>vg. [lg_name vg, lg_node vg, lg_uuid vg, lg_total_size vg, lg_free_size vg,
     lg_lv_count vg, lg_pv_count vg, lg_snap_count vg])"

definition lvm_nodes :: "(list_params \<Rightarrow> kube_error + lvm_node page) \<Rightarrow> (kube_error + lvm_node list) option" where
  "lvm_nodes fetch = list_pages fetch lp_500 []"

section \<open>Volumes\<close>

record lvm_volume_error =
  le_code :: string
  le_message :: string

record lvm_vol_status =
  ls_state :: string
  ls_error :: "lvm_volume_error option"

record lvm_vol_spec =
  lv_capacity :: string
  lv_owner_node_id :: string
  lv_shared :: string
  lv_thin_provision :: string
  lv_vg_pattern :: string
  lv_vol_group :: string

record lvm_volume =
  lvm_api_version :: string
  lvm_kind :: string
  lvm_metadata :: object_meta
  lvm_spec :: lvm_vol_spec
  lvm_status :: lvm_vol_status

record lvm_volume_object =
  lo_name :: string
  lo_namespace :: string
  lo_status :: string
  lo_node :: string
  lo_thin :: string
  lo_capacity :: string
  lo_shared :: string
  lo_vol_group :: string
  lo_vg_pattern :: string
  lo_pvc_name :: string
  lo_access_mode :: "string list"
  lo_sc_name :: string
  lo_volume_mode :: string

definition lvm_volume_object_of ::
  "'u byte_unit_api \<Rightarrow> lvm_volume \<Rightarrow> persistent_volume \<Rightarrow> lpv_error + lvm_volume_object" where
  "lvm_volume_object_of B vol pv =
     res_bind (name_unchecked (pv_meta pv)) (\<lambda>pv_name.
     res_bind (name_unchecked (lvm_metadata vol)) (\<lambda>lvmvol_name.
     res_bind (pv_spec_of pv pv_name) (\<lambda>spec.
     res_bind (ok_or (om_namespace (lvm_metadata vol))
       (LpvGeneric (''LvmVolume namespace missing for '' @ lvmvol_name))) (\<lambda>namespace.
     res_bind (map_err (\<lambda>e. LpvGeneric (''Failed to parse used bytes for lvm_volume '' @ lvmvol_name @
         '', error: '' @ parse_int_message e)) (parse_u128 (lv_capacity (lvm_spec vol)))) (\<lambda>bytes.
     res_bind (claim_name spec pv_name) (\<lambda>pvc_name.
     res_bind (access_mode_of spec pv_name) (\<lambda>access_mode.
     res_bind (sc_name_of spec pv_name) (\<lambda>sc_name.
     res_bind (volume_mode_of spec pv_name) (\<lambda>volume_mode.
     Inr \<lparr>lo_name = lvmvol_name, lo_namespace = namespace, lo_status = ls_state (lvm_status vol),
        lo_node = lv_owner_node_id (lvm_spec vol), lo_thin = lv_thin_provision (lvm_spec vol),
        lo_capacity = adjust_bytes B bytes, lo_shared = lv_shared (lvm_spec vol),
        lo_vol_group = lv_vol_group (lvm_spec vol), lo_vg_pattern = lv_vg_pattern (lvm_spec vol),
        lo_pvc_name = pvc_name, lo_access_mode = access_mode, lo_sc_name = sc_name,
        lo_volume_mode = volume_mode\<rparr>)))))))))"

definition lvm_volume_header :: "string list" where
  "lvm_volume_header = [''NAME'', ''NODE'', ''STATUS'', ''CAPACITY'', ''VOLGROUP'', ''PVC-NAME'', ''SC-NAME'']"

definition lvm_volume_rows :: "lvm_volume_object list \<Rightarrow> string list list" where
  "lvm_volume_rows = map (\<lambda>vol. [lo_name vol, lo_node vol, lo_status vol, lo_capacity vol, lo_vol_group vol,
     lo_pvc_name vol, lo_sc_name vol])"

text \<open>All volumes, or those with the label of a node.\<close>

definition lvm_volumes :: "(list_params \<Rightarrow> kube_error + lvm_volume page) \<Rightarrow> string option option \<Rightarrow>
    (kube_error + lvm_volume list) option" where
  "lvm_volumes fetch volumes_arg = list_pages fetch (node_list_params volumes_arg) []"

definition get_lvm_vol_output :: "'u byte_unit_api \<Rightarrow> (list_params \<Rightarrow> kube_error + persistent_volume page) \<Rightarrow>
    lvm_volume list \<Rightarrow> ('r lpv_call, lpv_error, lvm_volume_object list) pio" where
  "get_lvm_vol_output B fetch vols =
     pio_bind (pio_opt (list_pv fetch)) (\<lambda>pvs.
     pio_of (join_pvs lvm_metadata (lvm_volume_object_of B) pvs vols))"

section \<open>Properties of the conversion\<close>

interpretation lvm_row: pv_conversion lvm_metadata "lvm_volume_object_of B" lo_name
  by unfold_locales (auto simp: lvm_volume_object_of_def name_unchecked_def)

lemma lvm_volume_object_of_Inr_iff:
  "lvm_volume_object_of B vol pv = Inr obj \<longleftrightarrow>
     (\<exists>pv_name spec bytes ref. om_name (pv_meta pv) = Some pv_name \<and>
        om_name (lvm_metadata vol) = Some (lo_name obj) \<and> pv_spec pv = Some spec \<and>
        om_namespace (lvm_metadata vol) = Some (lo_namespace obj) \<and>
        parse_u128 (lv_capacity (lvm_spec vol)) = Inr bytes \<and> lo_capacity obj = adjust_bytes B bytes \<and>
        vs_claim_ref spec = Some ref \<and> lo_pvc_name obj = unwrap_or (or_name ref) [] \<and>
        vs_access_modes spec = Some (lo_access_mode obj) \<and>
        vs_storage_class_name spec = Some (lo_sc_name obj) \<and> vs_volume_mode spec = Some (lo_volume_mode obj) \<and>
        lo_status obj = ls_state (lvm_status vol) \<and> lo_node obj = lv_owner_node_id (lvm_spec vol) \<and>
        lo_thin obj = lv_thin_provision (lvm_spec vol) \<and> lo_shared obj = lv_shared (lvm_spec vol) \<and>
        lo_vol_group obj = lv_vol_group (lvm_spec vol) \<and> lo_vg_pattern obj = lv_vg_pattern (lvm_spec vol))"
  by (cases obj) (auto simp: lvm_volume_object_of_def pv_field_defs)

lemma volume_group_record_from_named:
  "all_named (map ln_metadata nodes) \<Longrightarrow> volume_group_record_from nodes =
     Inr (concat (map (\<lambda>node. map (\<lambda>vg. lvm_volume_group_from vg (the (om_name (ln_metadata node))))
       (ln_volume_groups node)) nodes))"
  by (induction nodes) (auto simp: name_unchecked_def traverse_total)

end
