(* ===== verification/Zfs.thy ===== *)
theory Zfs
  imports LocalPv
begin

text \<open>
  The data of LocalPV-ZFS and its conversion to table rows: the custom resources \<^verbatim>\<open>ZFSNode\<close> and
  \<^verbatim>\<open>ZFSVolume\<close> (\<^verbatim>\<open>zfs/node/types.rs\<close>, \<^verbatim>\<open>zfs/volume/types.rs\<close>), their lists (\<^verbatim>\<open>zfs/node/mod.rs\<close>,
  \<^verbatim>\<open>zfs/volume/mod.rs\<close>), and the join with the persistent volumes.
\<close>

section \<open>Pools\<close>

record pool =
  po_free :: string
  po_name :: string
  po_used :: string
  po_uuid :: string

record zfs_node =
  zn_api_version :: string
  zn_kind :: string
  zn_metadata :: object_meta
  zn_pools :: "pool list"

record zfs_pool =
  zp_name :: string
  zp_node :: string
  zp_uuid :: string
  zp_free :: string
  zp_used :: string

definition zfs_pool_of :: "pool \<Rightarrow> string \<Rightarrow> lpv_error + zfs_pool" where
  "zfs_pool_of p node = Inr \<lparr>zp_name = po_name p, zp_node = node, zp_uuid = po_uuid p,
     zp_free = po_free p, zp_used = po_used p\<rparr>"

fun zfs_pool_record_of :: "zfs_node list \<Rightarrow> lpv_error + zfs_pool list" where
  "zfs_pool_record_of [] = Inr []"
| "zfs_pool_record_of (node # nodes) =
     res_bind (traverse (\<lambda>p. res_bind (name_unchecked (zn_metadata node)) (\<lambda>name. zfs_pool_of p name))
       (zn_pools node)) (\<lambda>pools.
     res_bind (zfs_pool_record_of nodes) (\<lambda>rest. Inr (pools @ rest)))"

definition zpool_header :: "string list" where
  "zpool_header = [''NAME'', ''NODE'', ''UUID'', ''FREE'', ''USED'']"

definition zpool_rows :: "zfs_pool list \<Rightarrow> string list list" where
  "zpool_rows = map (\<lambda>p. [zp_name p, zp_node p, zp_uuid p, zp_free p, zp_used p])"

definition zfs_nodes :: "(list_params \<Rightarrow> kube_error + zfs_node page) \<Rightarrow> (kube_error + zfs_node list) option" where
  "zfs_nodes fetch = list_pages fetch lp_500 []"

section \<open>Volumes\<close>

record zfs_vol_spec =
  zs_capacity :: string
  zs_compression :: string
  zs_dedup :: string
  zs_encryption :: "string option"
  zs_fs_type :: string
  zs_keyformat :: "string option"
  zs_keylocation :: "string option"
  zs_owner_node_id :: string
  zs_pool_name :: string
  zs_recordsize :: string
  zs_snapname :: "string option"
  zs_thin_provision :: "string option"
  zs_vol_block_size :: "string option"
  zs_vol_type :: string

record zfs_vol_status =
  zt_state :: string

record zfs_volume =
  zfs_api_version :: string
  zfs_kind :: string
  zfs_metadata :: object_meta
  zfs_spec :: zfs_vol_spec
  zfs_status :: zfs_vol_status

record zfs_volume_object =
  zo_name :: string
  zo_namespace :: string
  zo_node :: string
  zo_capacity :: string
  zo_compression :: string
  zo_dedup :: string
  zo_encryption :: string
  zo_fs_type :: string
  zo_keyformat :: string
  zo_keylocation :: string
  zo_pool_name :: string
  zo_recordsize :: string
  zo_snapname :: string
  zo_thin_provision :: string
  zo_vol_block_size :: string
  zo_vol_type :: string
  zo_pvc_name :: string
  zo_sc_name :: string
  zo_volume_mode :: string
  zo_access_mode :: "string list"
  zo_status :: string

definition zfs_volume_object_of ::
  "'u byte_unit_api \<Rightarrow> zfs_volume \<Rightarrow> persistent_volume \<Rightarrow> lpv_error + zfs_volume_object" where
  "zfs_volume_object_of B vol pv =
     res_bind (name_unchecked (pv_meta pv)) (\<lambda>pv_name.
     res_bind (pv_spec_of pv pv_name) (\<lambda>spec.
     res_bind (name_unchecked (zfs_metadata vol)) (\<lambda>name.
     res_bind (ok_or (om_namespace (zfs_metadata vol))
       (LpvGeneric (''Zfsvolume namespace missing for '' @ name))) (\<lambda>namespace.
     res_bind (map_err (\<lambda>e. LpvGeneric (''Failed to parse used bytes for zfs_volume '' @ name @
         '', error: '' @ parse_int_message e)) (parse_u128 (zs_capacity (zfs_spec vol)))) (\<lambda>bytes.
     res_bind (claim_name spec pv_name) (\<lambda>pvc_name.
     res_bind (access_mode_of spec pv_name) (\<lambda>access_mode.
     res_bind (sc_name_of spec pv_name) (\<lambda>sc_name.
     res_bind (volume_mode_of spec pv_name) (\<lambda>volume_mode.
     Inr \<lparr>zo_name = name, zo_namespace = namespace, zo_node = zs_owner_node_id (zfs_spec vol),
        zo_capacity = adjust_bytes B bytes, zo_compression = zs_compression (zfs_spec vol),
        zo_dedup = zs_dedup (zfs_spec vol), zo_encryption = unwrap_or (zs_encryption (zfs_spec vol)) [],
        zo_fs_type = zs_fs_type (zfs_spec vol), zo_keyformat = unwrap_or (zs_keyformat (zfs_spec vol)) [],
        zo_keylocation = unwrap_or (zs_keylocation (zfs_spec vol)) [], zo_pool_name = zs_pool_name (zfs_spec vol),
        zo_recordsize = zs_recordsize (zfs_spec vol), zo_snapname = unwrap_or (zs_snapname (zfs_spec vol)) [],
        zo_thin_provision = unwrap_or (zs_thin_provision (zfs_spec vol)) [],
        zo_vol_block_size = unwrap_or (zs_vol_block_size (zfs_spec vol)) [],
        zo_vol_type = zs_vol_type (zfs_spec vol), zo_pvc_name = pvc_name, zo_sc_name = sc_name,
        zo_volume_mode = volume_mode, zo_access_mode = access_mode, zo_status = zt_state (zfs_status vol)\<rparr>)))))))))"

definition zfs_volume_header :: "string list" where
  "zfs_volume_header = [''NAME'', ''NODE'', ''STATUS'', ''CAPACITY'', ''POOL'', ''PVC-NAME'', ''SC-NAME'']"

definition zfs_volume_rows :: "zfs_volume_object list \<Rightarrow> string list list" where
  "zfs_volume_rows = map (\<lambda>vol. [zo_name vol, zo_node vol, zo_status vol, zo_capacity vol, zo_pool_name vol,
     zo_pvc_name vol, zo_sc_name vol])"

definition zfs_volumes :: "(list_params \<Rightarrow> kube_error + zfs_volume page) \<Rightarrow> string option option \<Rightarrow>
    (kube_error + zfs_volume list) option" where
  "zfs_volumes fetch volumes_arg = list_pages fetch (node_list_params volumes_arg) []"

definition get_zfs_vol_record :: "'u byte_unit_api \<Rightarrow> (list_params \<Rightarrow> kube_error + persistent_volume page) \<Rightarrow>
    zfs_volume list \<Rightarrow> ('r lpv_call, lpv_error, zfs_volume_object list) pio" where
  "get_zfs_vol_record B fetch vols =
     pio_bind (pio_opt (list_pv fetch)) (\<lambda>pvs.
     pio_of (join_pvs zfs_metadata (zfs_volume_object_of B) pvs vols))"

section \<open>Properties of the conversion\<close>

interpretation zfs_row: pv_conversion zfs_metadata "zfs_volume_object_of B" zo_name
  by unfold_locales (auto simp: zfs_volume_object_of_def name_unchecked_def)

lemma zfs_pool_record_of_named:
  "all_named (map zn_metadata nodes) \<Longrightarrow> zfs_pool_record_of nodes =
     Inr (concat (map (\<lambda>node. map (\<lambda>p. \<lparr>zp_name = po_name p, zp_node = the (om_name (zn_metadata node)),
       zp_uuid = po_uuid p, zp_free = po_free p, zp_used = po_used p\<rparr>) (zn_pools node)) nodes))"
  by (induction nodes) (auto simp: name_unchecked_def zfs_pool_of_def traverse_total)

end
