(* ===== verification/Hostpath.thy ===== *)
theory Hostpath
  imports LocalPv
begin

text \<open>
  The data of LocalPV-Hostpath (\<^verbatim>\<open>hostpath/volume/types.rs\<close>, \<^verbatim>\<open>hostpath/volume/mod.rs\<close>): a hostpath volume
  is nothing but a persistent volume with the right label, so a row is read off the persistent volume
  alone, the node included.
\<close>

record host_path_volume =
  hp_name :: string
  hp_status :: string
  hp_node :: string
  hp_path :: string
  hp_pvc_name :: string
  hp_access_mode :: "string list"
  hp_sc_name :: string
  hp_volume_mode :: string
  hp_capacity :: string

definition first_of :: "'a list \<Rightarrow> 'a option" where
  "first_of xs = (case xs of [] \<Rightarrow> None | x # _ \<Rightarrow> Some x)"

lemma first_of_Some [simp]: "first_of xs = Some x \<longleftrightarrow> (\<exists>ys. xs = x # ys)"
  by (auto simp: first_of_def split: list.splits)

definition affinity_node :: "persistent_volume_spec \<Rightarrow> lpv_error + string" where
  "affinity_node spec =
     res_bind (ok_or (vs_node_affinity spec) (LpvGeneric ''PV node affinity not found'')) (\<lambda>affinity.
     res_bind (ok_or (na_required affinity) (LpvGeneric ''Node selector not found'')) (\<lambda>selector.
     res_bind (ok_or (first_of (ns_node_selector_terms selector))
       (LpvGeneric ''PV node selector not found'')) (\<lambda>sel_term.
     res_bind (ok_or (nt_match_expressions sel_term)
       (LpvGeneric ''PV node affinity match expression not found'')) (\<lambda>expressions.
     res_bind (ok_or (first_of expressions)
       (LpvGeneric ''PV node affinity match expression element not found'')) (\<lambda>expression.
     res_bind (ok_or (nr_values expression)
       (LpvGeneric ''PV node affinity string array not found'')) (\<lambda>vals.
     ok_or (first_of vals) (LpvGeneric ''PV node affinity string element not found'')))))))"

definition host_path_volume_of :: "persistent_volume \<Rightarrow> lpv_error + host_path_volume" where
  "host_path_volume_of pv =
     res_bind (ok_or (pv_spec pv) (LpvGeneric ''PV node affinity not found'')) (\<lambda>spec.
     res_bind (name_unchecked (pv_meta pv)) (\<lambda>name.
     res_bind (ok_or (pv_status pv) (LpvGeneric ''PV status not present'')) (\<lambda>status.
     res_bind (affinity_node spec) (\<lambda>node.
     res_bind (ok_or (vs_local_path spec) (LpvGeneric ''Local path entry not found for the PV'')) (\<lambda>path.
     res_bind (ok_or (vs_claim_ref spec) (LpvGeneric ''Claimref not found for the PV'')) (\<lambda>ref.
     res_bind (ok_or (vs_storage_class_name spec) (LpvGeneric ''Storage class not present for the PV'')) (\<lambda>sc_name.
     res_bind (ok_or (vs_capacity spec) (LpvGeneric ''Capacity not found for the PV'')) (\<lambda>capacity.
     res_bind (ok_or (capacity ''storage'') (LpvGeneric ''Capacity key not found in the Map'')) (\<lambda>storage.
     Inr \<lparr>hp_name = name, hp_status = unwrap_or (vt_phase status) [], hp_node = node, hp_path = path,
       hp_pvc_name = unwrap_or (or_name ref) [], hp_access_mode = unwrap_or (vs_access_modes spec) [],
       hp_sc_name = sc_name, hp_volume_mode = unwrap_or (vs_volume_mode spec) [], hp_capacity = storage\<rparr>)))))))))"

definition hostpath_volume_header :: "string list" where
  "hostpath_volume_header = [''NAME'', ''NODE'', ''STATUS'', ''CAPACITY'', ''PATH'', ''PVC-NAME'', ''SC-NAME'']"

definition hostpath_volume_rows :: "host_path_volume list \<Rightarrow> string list list" where
  "hostpath_volume_rows = map (\<lambda>vol. [hp_name vol, hp_node vol, hp_status vol, hp_capacity vol, hp_path vol,
     hp_pvc_name vol, hp_sc_name vol])"

section \<open>Reading the cluster\<close>

definition cas_type_label :: string where
  "cas_type_label = ''openebs.io/cas-type''"

definition hostpath_cas_type :: string where
  "hostpath_cas_type = ''local-hostpath''"

definition get_pv :: "(string \<Rightarrow> kube_error + persistent_volume) \<Rightarrow> string \<Rightarrow> lpv_error + persistent_volume" where
  "get_pv get volume =
     res_bind (map_err LpvKube (get volume)) (\<lambda>pv.
     case om_labels (pv_meta pv) of
       Some labels \<Rightarrow> if labels cas_type_label \<noteq> Some hostpath_cas_type
         then Inl (LpvGeneric ''Volume is not a hostpath volume'') else Inr pv
     | None \<Rightarrow> Inl (LpvGeneric ''Volume doesn't have a label. Not a hostpath volume.''))"

definition hostpath_selector :: string where
  "hostpath_selector = cas_type_label @ ''='' @ hostpath_cas_type"

definition list_hostpath_pv :: "(list_params \<Rightarrow> kube_error + persistent_volume page) \<Rightarrow>
    (lpv_error + persistent_volume list) option" where
  "list_hostpath_pv fetch =
     map_option (map_err LpvKube) (list_pages fetch (lp_500\<lparr>lp_labels := Some hostpath_selector\<rparr>) [])"

text \<open>Every volume is converted before the node is looked at, so a volume of another node can fail the list.\<close>

fun get_hostpath_volume :: "persistent_volume list \<Rightarrow> string option \<Rightarrow> lpv_error + host_path_volume list" where
  "get_hostpath_volume [] node_id = Inr []"
| "get_hostpath_volume (pv # pvs) node_id =
     res_bind (host_path_volume_of pv) (\<lambda>vol.
     res_bind (get_hostpath_volume pvs node_id) (\<lambda>vols.
     case node_id of
       Some node \<Rightarrow> if node = hp_node vol then Inr (vol # vols) else Inr vols
     | None \<Rightarrow> Inr (vol # vols)))"

section \<open>Properties\<close>

definition on_node :: "string option \<Rightarrow> host_path_volume \<Rightarrow> bool" where
  "on_node node_id vol \<longleftrightarrow> node_id = None \<or> node_id = Some (hp_node vol)"

lemma get_hostpath_volume_filter:
  "get_hostpath_volume pvs node_id =
     res_bind (traverse host_path_volume_of pvs) (\<lambda>vols. Inr (filter (on_node node_id) vols))"
proof (induction pvs)
  case (Cons pv pvs)
  then show ?case
    by (cases "host_path_volume_of pv"; cases "traverse host_path_volume_of pvs"; cases node_id)
      (auto simp: on_node_def)
qed simp

lemma list_hostpath_pv_selected:
  "list_hostpath_pv (selecting_server selects pvs) = Some (Inr (filter (selects (Some hostpath_selector)) pvs))"
  by (simp add: list_hostpath_pv_def list_pages_selected)

lemma get_pv_Inr_iff:
  "get_pv get volume = Inr pv \<longleftrightarrow> get volume = Inr pv \<and>
     (\<exists>labels. om_labels (pv_meta pv) = Some labels \<and> labels cas_type_label = Some hostpath_cas_type)"
  by (auto simp: get_pv_def split: option.splits if_splits)

text \<open>The node of a volume is the first value of the first expression of the first term.\<close>

lemma affinity_node_Inr_iff:
  "affinity_node spec = Inr node \<longleftrightarrow>
     (\<exists>affinity selector sel_term terms expression expressions vals.
        vs_node_affinity spec = Some affinity \<and> na_required affinity = Some selector \<and>
        ns_node_selector_terms selector = sel_term # terms \<and>
        nt_match_expressions sel_term = Some (expression # expressions) \<and>
        nr_values expression = Some (node # vals))"
  by (simp add: affinity_node_def) blast

end
