(* ===== verification/LocalPvCli.thy ===== *)
theory LocalPvCli
  imports Lvm Zfs Hostpath
begin

text \<open>
  The \<^verbatim>\<open>get\<close> commands of the three LocalPV engines (\<^verbatim>\<open>lvm/mod.rs\<close>, \<^verbatim>\<open>zfs/mod.rs\<close>, \<^verbatim>\<open>hostpath/mod.rs\<close> and the
  handlers in their \<^verbatim>\<open>node\<close> and \<^verbatim>\<open>volume\<close> modules): build the client, read the objects, print a table.
  The answers of the API server are functions of the client and the request.
\<close>

datatype lpv_record =
    VolumeGroupRecord "lvm_volume_group list"
  | LvmVolRecord "lvm_volume_object list"
  | ZfsPoolRecord "zfs_pool list"
  | ZfsVolRecord "zfs_volume_object list"
  | HostPathVolumeRecord "host_path_volume list"

fun get_header_row :: "lpv_record \<Rightarrow> string list" where
  "get_header_row (VolumeGroupRecord vgs) = volume_group_header"
| "get_header_row (LvmVolRecord vols) = lvm_volume_header"
| "get_header_row (ZfsPoolRecord pools) = zpool_header"
| "get_header_row (ZfsVolRecord vols) = zfs_volume_header"
| "get_header_row (HostPathVolumeRecord vols) = hostpath_volume_header"

fun create_rows :: "lpv_record \<Rightarrow> string list list" where
  "create_rows (VolumeGroupRecord vgs) = volume_group_rows vgs"
| "create_rows (LvmVolRecord vols) = lvm_volume_rows vols"
| "create_rows (ZfsPoolRecord pools) = zpool_rows pools"
| "create_rows (ZfsVolRecord vols) = zfs_volume_rows vols"
| "create_rows (HostPathVolumeRecord vols) = hostpath_volume_rows vols"

record localpv_cli_args =
  la_output :: string
  la_ctx :: k8s_ctx_args

record 'u lpv_env =
  lx_conf :: kube_conf_env
  lx_bytes :: "'u byte_unit_api"
  lx_get_lvm_node :: "kube_config \<Rightarrow> string \<Rightarrow> kube_error + lvm_node"
  lx_list_lvm_nodes :: "kube_config \<Rightarrow> list_params \<Rightarrow> kube_error + lvm_node page"
  lx_get_lvm_volume :: "kube_config \<Rightarrow> string \<Rightarrow> kube_error + lvm_volume"
  lx_list_lvm_volumes :: "kube_config \<Rightarrow> list_params \<Rightarrow> kube_error + lvm_volume page"
  lx_get_zfs_node :: "kube_config \<Rightarrow> string \<Rightarrow> kube_error + zfs_node"
  lx_list_zfs_nodes :: "kube_config \<Rightarrow> list_params \<Rightarrow> kube_error + zfs_node page"
  lx_get_zfs_volume :: "kube_config \<Rightarrow> string \<Rightarrow> kube_error + zfs_volume"
  lx_list_zfs_volumes :: "kube_config \<Rightarrow> list_params \<Rightarrow> kube_error + zfs_volume page"
  lx_get_pv :: "kube_config \<Rightarrow> string \<Rightarrow> kube_error + persistent_volume"
  lx_list_pvs :: "kube_config \<Rightarrow> list_params \<Rightarrow> kube_error + persistent_volume page"

type_synonym 'a lpv_pio = "(lpv_record lpv_call, lpv_error, 'a) pio"

definition print_table :: "localpv_cli_args \<Rightarrow> lpv_record \<Rightarrow> unit lpv_pio" where
  "print_table args rec = pio_of (io_emit (PrintTable (la_output args) rec))"

definition kube_answer :: "(kube_error + 'a) option \<Rightarrow> 'a lpv_pio" where
  "kube_answer answer = pio_opt (map_option (map_err LpvKube) answer)"

section \<open>LVM\<close>

definition lvm_volume_groups_cmd :: "'u lpv_env \<Rightarrow> localpv_cli_args \<Rightarrow> string option \<Rightarrow> kube_config \<Rightarrow> unit lpv_pio" where
  "lvm_volume_groups_cmd env args node_id client =
     pio_bind (case node_id of
         Some node \<Rightarrow> kube_answer (Some (map_sum id (\<lambda>n. [n]) (lx_get_lvm_node env client node)))
       | None \<Rightarrow> kube_answer (lvm_nodes (lx_list_lvm_nodes env client))) (\<lambda>nodes.
     pio_bind (pio_of (io_res (volume_group_record_from nodes))) (\<lambda>records.
     print_table args (VolumeGroupRecord records)))"

definition lvm_volume_cmd :: "'u lpv_env \<Rightarrow> localpv_cli_args \<Rightarrow> string \<Rightarrow> kube_config \<Rightarrow> unit lpv_pio" where
  "lvm_volume_cmd env args volume client =
     pio_bind (kube_answer (Some (lx_get_lvm_volume env client volume))) (\<lambda>vol.
     pio_bind (get_lvm_vol_output (lx_bytes env) (lx_list_pvs env client) [vol]) (\<lambda>record.
     print_table args (LvmVolRecord record)))"

definition lvm_volumes_cmd :: "'u lpv_env \<Rightarrow> localpv_cli_args \<Rightarrow> string option \<Rightarrow> kube_config \<Rightarrow> unit lpv_pio" where
  "lvm_volumes_cmd env args node_id client =
     pio_bind (kube_answer (lvm_volumes (lx_list_lvm_volumes env client) (Some node_id))) (\<lambda>vols.
     pio_bind (get_lvm_vol_output (lx_bytes env) (lx_list_pvs env client) vols) (\<lambda>record.
     print_table args (LvmVolRecord record)))"

datatype lvm_get = LvmVolume string | LvmVolumes "string option" | LvmVolumeGroups "string option"

definition lvm_execute :: "'u lpv_env \<Rightarrow> lvm_get \<Rightarrow> localpv_cli_args \<Rightarrow> unit lpv_pio" where
  "lvm_execute env cmd args =
     pio_bind (pio_of (io_res (map_err LpvGeneric (ctx_client (lx_conf env) (la_ctx args))))) (\<lambda>client.
     case cmd of
       LvmVolume volume \<Rightarrow> lvm_volume_cmd env args volume client
     | LvmVolumes node_id \<Rightarrow> lvm_volumes_cmd env args node_id client
     | LvmVolumeGroups node_id \<Rightarrow> lvm_volume_groups_cmd env args node_id client)"

section \<open>ZFS\<close>

definition zpools_cmd :: "'u lpv_env \<Rightarrow> localpv_cli_args \<Rightarrow> string option \<Rightarrow> kube_config \<Rightarrow> unit lpv_pio" where
  "zpools_cmd env args node_id client =
     pio_bind (case node_id of
         Some node \<Rightarrow> kube_answer (Some (map_sum id (\<lambda>n. [n]) (lx_get_zfs_node env client node)))
       | None \<Rightarrow> kube_answer (zfs_nodes (lx_list_zfs_nodes env client))) (\<lambda>nodes.
     pio_bind (pio_of (io_res (zfs_pool_record_of nodes))) (\<lambda>records.
     print_table args (ZfsPoolRecord records)))"

definition zfs_volume_cmd :: "'u lpv_env \<Rightarrow> localpv_cli_args \<Rightarrow> string \<Rightarrow> kube_config \<Rightarrow> unit lpv_pio" where
  "zfs_volume_cmd env args volume client =
     pio_bind (kube_answer (Some (lx_get_zfs_volume env client volume))) (\<lambda>vol.
     pio_bind (get_zfs_vol_record (lx_bytes env) (lx_list_pvs env client) [vol]) (\<lambda>record.
     print_table args (ZfsVolRecord record)))"

definition zfs_volumes_cmd :: "'u lpv_env \<Rightarrow> localpv_cli_args \<Rightarrow> string option \<Rightarrow> kube_config \<Rightarrow> unit lpv_pio" where
  "zfs_volumes_cmd env args node_id client =
     pio_bind (kube_answer (zfs_volumes (lx_list_zfs_volumes env client) (Some node_id))) (\<lambda>vols.
     pio_bind (get_zfs_vol_record (lx_bytes env) (lx_list_pvs env client) vols) (\<lambda>record.
     print_table args (ZfsVolRecord record)))"

datatype zfs_get = ZfsVolume string | ZfsVolumes "string option" | Zpools "string option"

definition zfs_execute :: "'u lpv_env \<Rightarrow> zfs_get \<Rightarrow> localpv_cli_args \<Rightarrow> unit lpv_pio" where
  "zfs_execute env cmd args =
     pio_bind (pio_of (io_res (map_err LpvGeneric (ctx_client (lx_conf env) (la_ctx args))))) (\<lambda>client.
     case cmd of
       ZfsVolume volume \<Rightarrow> zfs_volume_cmd env args volume client
     | ZfsVolumes node_id \<Rightarrow> zfs_volumes_cmd env args node_id client
     | Zpools node_id \<Rightarrow> zpools_cmd env args node_id client)"

section \<open>Hostpath\<close>

definition hostpath_volume_cmd :: "'u lpv_env \<Rightarrow> localpv_cli_args \<Rightarrow> string \<Rightarrow> kube_config \<Rightarrow> unit lpv_pio" where
  "hostpath_volume_cmd env args volume client =
     pio_bind (pio_of (io_res (get_pv (lx_get_pv env client) volume))) (\<lambda>pv.
     pio_bind (pio_of (io_res (get_hostpath_volume [pv] None))) (\<lambda>record.
     print_table args (HostPathVolumeRecord record)))"

definition hostpath_volumes_cmd :: "'u lpv_env \<Rightarrow> localpv_cli_args \<Rightarrow> string option \<Rightarrow> kube_config \<Rightarrow> unit lpv_pio" where
  "hostpath_volumes_cmd env args node_id client =
     pio_bind (pio_opt (list_hostpath_pv (lx_list_pvs env client))) (\<lambda>pvs.
     pio_bind (pio_of (io_res (get_hostpath_volume pvs node_id))) (\<lambda>record.
     print_table args (HostPathVolumeRecord record)))"

datatype hostpath_get = HostpathVolume string | HostpathVolumes "string option"

definition hostpath_execute :: "'u lpv_env \<Rightarrow> hostpath_get \<Rightarrow> localpv_cli_args \<Rightarrow> unit lpv_pio" where
  "hostpath_execute env cmd args =
     pio_bind (pio_of (io_res (map_err LpvGeneric (ctx_client (lx_conf env) (la_ctx args))))) (\<lambda>client.
     case cmd of
       HostpathVolume volume \<Rightarrow> hostpath_volume_cmd env args volume client
     | HostpathVolumes node_id \<Rightarrow> hostpath_volumes_cmd env args node_id client)"

section \<open>A cluster with a snapshot of its objects\<close>

text \<open>
  A client whose requests are answered from fixed lists of objects, in pages, and filtered by the
  label selector of the request; \<open>selects\<close> is the server's reading of a selector.
\<close>

definition by_selector :: "(string \<Rightarrow> object_meta \<Rightarrow> bool) \<Rightarrow> ('a \<Rightarrow> object_meta) \<Rightarrow> string option \<Rightarrow> 'a \<Rightarrow> bool" where
  "by_selector selects meta l x = (case l of None \<Rightarrow> True | Some selector \<Rightarrow> selects selector (meta x))"

definition serves :: "'u lpv_env \<Rightarrow> kube_config \<Rightarrow> (string \<Rightarrow> object_meta \<Rightarrow> bool) \<Rightarrow> lvm_volume list \<Rightarrow>
    zfs_volume list \<Rightarrow> persistent_volume list \<Rightarrow> 'u lpv_env" where
  "serves env client selects lvms zfss pvs = env\<lparr>
     lx_list_lvm_volumes := (lx_list_lvm_volumes env)(client := selecting_server (by_selector selects lvm_metadata) lvms),
     lx_list_zfs_volumes := (lx_list_zfs_volumes env)(client := selecting_server (by_selector selects zfs_metadata) zfss),
     lx_list_pvs := (lx_list_pvs env)(client := selecting_server (by_selector selects pv_meta) pvs)\<rparr>"

lemma serves_simps [simp]:
  "lx_list_lvm_volumes (serves env client selects lvms zfss pvs) client =
     selecting_server (by_selector selects lvm_metadata) lvms"
  "lx_list_zfs_volumes (serves env client selects lvms zfss pvs) client =
     selecting_server (by_selector selects zfs_metadata) zfss"
  "lx_list_pvs (serves env client selects lvms zfss pvs) client =
     selecting_server (by_selector selects pv_meta) pvs"
  "lx_bytes (serves env client selects lvms zfss pvs) = lx_bytes env"
  by (simp_all add: serves_def)

lemma by_selector_None [simp]: "by_selector selects meta None = (\<lambda>x. True)"
  by (rule ext) (simp add: by_selector_def)

lemma by_selector_Some [simp]: "by_selector selects meta (Some l) = (\<lambda>x. selects l (meta x))"
  by (rule ext) (simp add: by_selector_def)

lemma list_pv_served [simp]: "list_pv (selecting_server (by_selector selects pv_meta) pvs) = Some (Inr pvs)"
  using list_pages_selected [of "by_selector selects pv_meta" pvs None]
  by (simp add: list_pv_def lp_500_def list_params_default_def)

definition labelled :: "(string \<Rightarrow> object_meta \<Rightarrow> bool) \<Rightarrow> ('a \<Rightarrow> object_meta) \<Rightarrow> string option \<Rightarrow> 'a list \<Rightarrow> 'a list" where
  "labelled selects meta node_id objs =
     filter (\<lambda>x. case node_id of None \<Rightarrow> True | Some node \<Rightarrow> selects (node_label node) (meta x)) objs"

lemma list_nodes_volumes_served:
  "list_pages (selecting_server (by_selector selects meta) objs) (node_list_params (Some node_id)) [] =
     Some (Inr (labelled selects meta node_id objs))"
  by (cases node_id) (simp_all add: node_list_params_selected labelled_def label_of_node_def)

section \<open>What the commands show\<close>

definition no_pv :: "'r lpv_call \<Rightarrow> bool" where
  "no_pv c \<longleftrightarrow> (\<exists>name. c = NoPvFor name)"

lemma emits_join_pvs: "emits no_pv (join_pvs meta convert pvs vols)"
proof (induction vols)
  case Nil
  show ?case by (simp add: emits_ok)
next
  case (Cons v vols)
  then show ?case by (auto intro!: emits_intros simp: no_pv_def)
qed

text \<open>The table of a join: its result, and what is printed.\<close>

definition shows_join :: "('v \<Rightarrow> object_meta) \<Rightarrow> ('v \<Rightarrow> persistent_volume \<Rightarrow> lpv_error + 'o) \<Rightarrow> ('o \<Rightarrow> string) \<Rightarrow>
    persistent_volume list \<Rightarrow> 'v list \<Rightarrow> ('o list \<Rightarrow> 'r lpv_call) \<Rightarrow> (lpv_error + unit) \<Rightarrow> 'r lpv_call list \<Rightarrow> bool" where
  "shows_join meta convert shown_name pvs vols table r printed \<longleftrightarrow>
     (case traverse (\<lambda>(v, pv). convert v pv) (paired meta pvs vols) of
        Inr objs \<Rightarrow> r = Inr () \<and> printed = map NoPvFor (unpaired meta pvs vols) @ [table objs] \<and>
          map shown_name objs = filter (\<lambda>name. pv_named pvs name \<noteq> None) (map (\<lambda>v. the (om_name (meta v))) vols)
      | Inl e \<Rightarrow> r = Inl e \<and> list_all no_pv printed)"

lemma join_then_print:
  fixes meta :: "'v \<Rightarrow> object_meta" and convert :: "'v \<Rightarrow> persistent_volume \<Rightarrow> lpv_error + 'o"
  assumes "pv_conversion meta convert shown_name"
    and named: "all_named (map meta vols)" "all_named (map pv_meta pvs)"
  shows "\<exists>r u. pio_bind (pio_of (join_pvs meta convert pvs vols)) (\<lambda>objs. print_table args (tab objs)) h =
       Some (r, h @ u) \<and> shows_join meta convert shown_name pvs vols (\<lambda>objs. PrintTable (la_output args) (tab objs)) r u"
proof -
  let ?T = "traverse (\<lambda>(v, pv). convert v pv) (paired meta pvs vols)"
  let ?j = "join_pvs meta convert pvs vols :: (lpv_record lpv_call, lpv_error, 'o list) io"
  show ?thesis
  proof (cases ?T)
    case (Inr objs)
    have "?j h = (Inr objs, h @ map NoPvFor (unpaired meta pvs vols))"
      using Inr join_pvs_Inr_iff [OF named] by blast
    with Inr pv_conversion.converted_names [OF assms(1) Inr] show ?thesis
      by (simp add: io_simps print_table_def shows_join_def)
  next
    case (Inl e)
    then obtain h' where run: "?j h = (Inl e, h')"
      using join_pvs_result [OF named, of convert h] by (metis prod.collapse)
    then obtain u where "h' = h @ u" "list_all no_pv u" using emitsD [OF emits_join_pvs run] by blast
    with Inl run show ?thesis by (simp add: io_simps shows_join_def)
  qed
qed

lemma all_named_labelled: "all_named (map meta objs) \<Longrightarrow> all_named (map meta (labelled selects meta node_id objs))"
  by (auto simp: all_named_def labelled_def list_all_iff)

text \<open>C35: what \<^verbatim>\<open>get volumes\<close> shows for LVM and for ZFS, on a cluster with any lists of named objects. The
  command returns. It considers all volumes of all pages, or those with the label of the node; if the
  conversions succeed it reports every volume without a persistent volume and prints one table with one
  row per volume that has one, in the order of the cluster; otherwise it returns the first error and
  prints no table.\<close>

theorem localpv_volumes_shown:
  assumes "all_named (map lvm_metadata lvms)" and "all_named (map zfs_metadata zfss)"
    and "all_named (map pv_meta pvs)"
  shows "(\<exists>r u. lvm_volumes_cmd (serves env client selects lvms zfss pvs) args node_id client h = Some (r, h @ u) \<and>
      shows_join lvm_metadata (lvm_volume_object_of (lx_bytes env)) lo_name pvs
        (labelled selects lvm_metadata node_id lvms) (\<lambda>objs. PrintTable (la_output args) (LvmVolRecord objs)) r u) \<and>
    (\<exists>r u. zfs_volumes_cmd (serves env client selects lvms zfss pvs) args node_id client h = Some (r, h @ u) \<and>
      shows_join zfs_metadata (zfs_volume_object_of (lx_bytes env)) zo_name pvs
        (labelled selects zfs_metadata node_id zfss) (\<lambda>objs. PrintTable (la_output args) (ZfsVolRecord objs)) r u)"
proof
  note named = assms [THEN all_named_labelled] 
  have "lvm_volumes_cmd (serves env client selects lvms zfss pvs) args node_id client h =
      pio_bind (pio_of (join_pvs lvm_metadata (lvm_volume_object_of (lx_bytes env)) pvs
        (labelled selects lvm_metadata node_id lvms))) (\<lambda>objs. print_table args (LvmVolRecord objs)) h"
    by (simp add: lvm_volumes_cmd_def lvm_volumes_def get_lvm_vol_output_def kube_answer_def
        list_nodes_volumes_served io_simps)
  then show "\<exists>r u. lvm_volumes_cmd (serves env client selects lvms zfss pvs) args node_id client h = Some (r, h @ u) \<and>
      shows_join lvm_metadata (lvm_volume_object_of (lx_bytes env)) lo_name pvs
        (labelled selects lvm_metadata node_id lvms) (\<lambda>objs. PrintTable (la_output args) (LvmVolRecord objs)) r u"
    using join_then_print [OF lvm_row.pv_conversion_axioms named(1) assms(3)] by simp
  have "zfs_volumes_cmd (serves env client selects lvms zfss pvs) args node_id client h =
      pio_bind (pio_of (join_pvs zfs_metadata (zfs_volume_object_of (lx_bytes env)) pvs
        (labelled selects zfs_metadata node_id zfss))) (\<lambda>objs. print_table args (ZfsVolRecord objs)) h"
    by (simp add: zfs_volumes_cmd_def zfs_volumes_def get_zfs_vol_record_def kube_answer_def
        list_nodes_volumes_served io_simps)
  then show "\<exists>r u. zfs_volumes_cmd (serves env client selects lvms zfss pvs) args node_id client h = Some (r, h @ u) \<and>
      shows_join zfs_metadata (zfs_volume_object_of (lx_bytes env)) zo_name pvs
        (labelled selects zfs_metadata node_id zfss) (\<lambda>objs. PrintTable (la_output args) (ZfsVolRecord objs)) r u"
    using join_then_print [OF zfs_row.pv_conversion_axioms named(2) assms(3)] by simp
qed

section \<open>The tables of all commands\<close>

text \<open>
  \<open>prints_one K args m\<close>: a run of the command \<open>m\<close> first reports volumes without a persistent volume, and
  nothing else; if it fails, that is all; if it succeeds, it then prints one well-formed table, in the
  requested format. \<open>K\<close> relates the names that were reported and the table.
\<close>

fun record_names :: "lpv_record \<Rightarrow> string list" where
  "record_names (VolumeGroupRecord vgs) = map lg_name vgs"
| "record_names (LvmVolRecord vols) = map lo_name vols"
| "record_names (ZfsPoolRecord pools) = map zp_name pools"
| "record_names (ZfsVolRecord vols) = map zo_name vols"
| "record_names (HostPathVolumeRecord vols) = map hp_name vols"

definition table_wf :: "lpv_record \<Rightarrow> bool" where
  "table_wf rec \<longleftrightarrow> list_all (\<lambda>row. length row = length (get_header_row rec)) (create_rows rec) \<and>
     map hd (create_rows rec) = record_names rec"

definition prints_one :: "(string list \<Rightarrow> lpv_record \<Rightarrow> bool) \<Rightarrow> localpv_cli_args \<Rightarrow> unit lpv_pio \<Rightarrow> bool" where
  "prints_one K args m \<longleftrightarrow> (\<forall>h r h'. m h = Some (r, h') \<longrightarrow>
     (\<exists>missing. case r of
         Inl e \<Rightarrow> h' = h @ map NoPvFor missing
       | Inr _ \<Rightarrow> \<exists>rec. h' = h @ map NoPvFor missing @ [PrintTable (la_output args) rec] \<and>
           K missing rec \<and> table_wf rec))"

lemma all_tables_wf: "table_wf rec"
  by (cases rec) (simp_all add: table_wf_def list_all_iff volume_group_rows_def volume_group_header_def
      lvm_volume_rows_def lvm_volume_header_def zpool_rows_def zpool_header_def zfs_volume_rows_def
      zfs_volume_header_def hostpath_volume_rows_def hostpath_volume_header_def)

lemma no_pv_names: "list_all no_pv u \<Longrightarrow> \<exists>missing. u = map NoPvFor missing"
proof (induction u)
  case (Cons c u)
  then obtain name missing where "c = NoPvFor name" "u = map NoPvFor missing" by (auto simp: no_pv_def)
  then show ?case by (intro exI [of _ "name # missing"]) simp
qed simp

lemma prints_print: "K [] rec \<Longrightarrow> prints_one K args (print_table args rec)"
  by (auto simp: prints_one_def print_table_def io_simps all_tables_wf intro: exI [of _ "[]"])

lemma prints_bind:
  assumes "pemits no_pv m"
    and "\<And>x h u. m h = Some (Inr x, h @ map NoPvFor u) \<Longrightarrow> prints_one (\<lambda>missing. K (u @ missing)) args (f x)"
  shows "prints_one K args (pio_bind m f)"
  unfolding prints_one_def
proof (intro allI impI)
  fix h r h'
  assume "pio_bind m f h = Some (r, h')"
  then show "\<exists>missing. case r of Inl e \<Rightarrow> h' = h @ map NoPvFor missing
      | Inr _ \<Rightarrow> \<exists>rec. h' = h @ map NoPvFor missing @ [PrintTable (la_output args) rec] \<and> K missing rec \<and> table_wf rec"
  proof (cases rule: pio_bind_cases)
    case (fails e)
    with pemitsD [OF assms(1) fails(1)] show ?thesis by (auto dest!: no_pv_names)
  next
    case (continues x h1)
    obtain u where u: "h1 = h @ map NoPvFor u"
      using pemitsD [OF assms(1) continues(1)] no_pv_names by blast
    obtain v where "case r of Inl e \<Rightarrow> h' = h1 @ map NoPvFor v
        | Inr _ \<Rightarrow> \<exists>rec. h' = h1 @ map NoPvFor v @ [PrintTable (la_output args) rec] \<and> K (u @ v) rec \<and> table_wf rec"
      using assms(2) [OF continues(1) [unfolded u]] continues(2) unfolding prints_one_def by blast
    with u show ?thesis by (intro exI [of _ "u @ v"]) (auto split: sum.splits)
  qed
qed

text \<open>A step that only reads the cluster reports no volume.\<close>

lemma prints_read:
  assumes "\<And>x. answer = Some (Inr x) \<Longrightarrow> prints_one K args (f x)"
  shows "prints_one K args (pio_bind (pio_opt answer) f)"
  using assms by (intro prints_bind emits_intros) (auto simp: pio_apply)

lemma prints_checked:
  assumes "\<And>x. r = Inr x \<Longrightarrow> prints_one K args (f x)"
  shows "prints_one K args (pio_bind (pio_of (io_res r)) f)"
  using assms by (intro prints_bind emits_intros) (auto simp: io_simps)

lemma kube_answer_read: "kube_answer answer = pio_opt (map_option (map_err LpvKube) answer)"
  by (simp add: kube_answer_def)

lemma find_pv_Inr: "find_pv name pvs = Inr found \<Longrightarrow> found = pv_named pvs name"
  by (induction pvs) (auto simp: pv_named_def name_unchecked_def split: if_splits)

lemma join_pvs_success:
  "join_pvs meta convert pvs vols h = (Inr objs, h') \<Longrightarrow>
     traverse (\<lambda>(v, pv). convert v pv) (paired meta pvs vols) = Inr objs \<and>
     h' = h @ map NoPvFor (unpaired meta pvs vols)"
proof (induction vols arbitrary: h objs)
  case Nil
  then show ?case by (simp add: io_success)
next
  case (Cons v vols)
  from Cons.prems show ?case
    by (cases "pv_named pvs (the (om_name (meta v)))")
      (auto simp: io_success name_unchecked_def dest!: find_pv_Inr Cons.IH)
qed

text \<open>
  What was asked for. \<open>shows_volumes\<close>: the rows are the conversions of the given volumes with the
  persistent volume of their name, out of all the pages of the cluster, and the volumes without one are
  missing.
\<close>

definition shows_volumes :: "('v \<Rightarrow> object_meta) \<Rightarrow> ('v \<Rightarrow> persistent_volume \<Rightarrow> lpv_error + 'o) \<Rightarrow>
    (list_params \<Rightarrow> kube_error + persistent_volume page) \<Rightarrow> 'v list \<Rightarrow> string list \<Rightarrow> 'o list \<Rightarrow> bool" where
  "shows_volumes meta convert list_pvs vols missing objs \<longleftrightarrow>
     (\<exists>pvs. list_pages list_pvs lp_500 [] = Some (Inr pvs) \<and> missing = unpaired meta pvs vols \<and>
        traverse (\<lambda>(v, pv). convert v pv) (paired meta pvs vols) = Inr objs)"

text \<open>The volumes of a node, or of all nodes; one node, or all nodes.\<close>

definition lists_all :: "(list_params \<Rightarrow> kube_error + 'a page) \<Rightarrow> string option \<Rightarrow> 'a list \<Rightarrow> bool" where
  "lists_all fetch labels objs \<longleftrightarrow> list_pages fetch (lp_500\<lparr>lp_labels := labels\<rparr>) [] = Some (Inr objs)"

definition asked_nodes :: "(string \<Rightarrow> kube_error + 'a) \<Rightarrow> (list_params \<Rightarrow> kube_error + 'a page) \<Rightarrow> string option \<Rightarrow>
    'a list \<Rightarrow> bool" where
  "asked_nodes get fetch node_id nodes \<longleftrightarrow> (case node_id of
      Some node \<Rightarrow> (\<exists>x. get node = Inr x \<and> nodes = [x])
    | None \<Rightarrow> lists_all fetch None nodes)"

fun lvm_table :: "'u lpv_env \<Rightarrow> kube_config \<Rightarrow> lvm_get \<Rightarrow> string list \<Rightarrow> lpv_record \<Rightarrow> bool" where
  "lvm_table env client (LvmVolume v) missing (LvmVolRecord objs) \<longleftrightarrow>
     (\<exists>vol. lx_get_lvm_volume env client v = Inr vol \<and>
        shows_volumes lvm_metadata (lvm_volume_object_of (lx_bytes env)) (lx_list_pvs env client) [vol] missing objs)"
| "lvm_table env client (LvmVolumes n) missing (LvmVolRecord objs) \<longleftrightarrow>
     (\<exists>vols. lists_all (lx_list_lvm_volumes env client) (map_option node_label n) vols \<and>
        shows_volumes lvm_metadata (lvm_volume_object_of (lx_bytes env)) (lx_list_pvs env client) vols missing objs)"
| "lvm_table env client (LvmVolumeGroups n) missing (VolumeGroupRecord vgs) \<longleftrightarrow> missing = [] \<and>
     (\<exists>nodes. asked_nodes (lx_get_lvm_node env client) (lx_list_lvm_nodes env client) n nodes \<and>
        vgs = concat (map (\<lambda>node. map (\<lambda>vg. lvm_volume_group_from vg (the (om_name (ln_metadata node))))
          (ln_volume_groups node)) nodes))"
| "lvm_table _ _ _ _ _ \<longleftrightarrow> False"

fun zfs_table :: "'u lpv_env \<Rightarrow> kube_config \<Rightarrow> zfs_get \<Rightarrow> string list \<Rightarrow> lpv_record \<Rightarrow> bool" where
  "zfs_table env client (ZfsVolume v) missing (ZfsVolRecord objs) \<longleftrightarrow>
     (\<exists>vol. lx_get_zfs_volume env client v = Inr vol \<and>
        shows_volumes zfs_metadata (zfs_volume_object_of (lx_bytes env)) (lx_list_pvs env client) [vol] missing objs)"
| "zfs_table env client (ZfsVolumes n) missing (ZfsVolRecord objs) \<longleftrightarrow>
     (\<exists>vols. lists_all (lx_list_zfs_volumes env client) (map_option node_label n) vols \<and>
        shows_volumes zfs_metadata (zfs_volume_object_of (lx_bytes env)) (lx_list_pvs env client) vols missing objs)"
| "zfs_table env client (Zpools n) missing (ZfsPoolRecord pools) \<longleftrightarrow> missing = [] \<and>
     (\<exists>nodes. asked_nodes (lx_get_zfs_node env client) (lx_list_zfs_nodes env client) n nodes \<and>
        pools = concat (map (\<lambda>node. map (\<lambda>p. \<lparr>zp_name = po_name p, zp_node = the (om_name (zn_metadata node)),
          zp_uuid = po_uuid p, zp_free = po_free p, zp_used = po_used p\<rparr>) (zn_pools node)) nodes))"
| "zfs_table _ _ _ _ _ \<longleftrightarrow> False"

text \<open>For hostpath a volume is the persistent volume itself, which must have the label of the engine.\<close>

fun hostpath_table :: "'u lpv_env \<Rightarrow> kube_config \<Rightarrow> hostpath_get \<Rightarrow> string list \<Rightarrow> lpv_record \<Rightarrow> bool" where
  "hostpath_table env client (HostpathVolume v) missing (HostPathVolumeRecord vols) \<longleftrightarrow> missing = [] \<and>
     (\<exists>pv labels vol. lx_get_pv env client v = Inr pv \<and> om_labels (pv_meta pv) = Some labels \<and>
        labels cas_type_label = Some hostpath_cas_type \<and> host_path_volume_of pv = Inr vol \<and> vols = [vol])"
| "hostpath_table env client (HostpathVolumes n) missing (HostPathVolumeRecord vols) \<longleftrightarrow> missing = [] \<and>
     (\<exists>pvs objs. lists_all (lx_list_pvs env client) (Some hostpath_selector) pvs \<and>
        traverse host_path_volume_of pvs = Inr objs \<and>
        vols = filter (\<lambda>vol. n = None \<or> n = Some (hp_node vol)) objs)"
| "hostpath_table _ _ _ _ _ \<longleftrightarrow> False"

lemma prints_volumes:
  assumes "\<And>missing objs. shows_volumes meta convert fetch vols missing objs \<Longrightarrow> K missing (tab objs)"
  shows "prints_one K args (pio_bind (pio_bind (pio_opt (list_pv fetch)) (\<lambda>pvs. pio_of (join_pvs meta convert pvs vols)))
    (\<lambda>objs. print_table args (tab objs)))"
proof (rule prints_bind)
  show "pemits no_pv (pio_bind (pio_opt (list_pv fetch)) (\<lambda>pvs. pio_of (join_pvs meta convert pvs vols)))"
    by (intro emits_intros emits_join_pvs)
next
  fix objs h u
  assume "pio_bind (pio_opt (list_pv fetch)) (\<lambda>pvs. pio_of (join_pvs meta convert pvs vols)) h =
    Some (Inr objs, h @ map NoPvFor u)"
  then obtain pvs where pvs: "list_pages fetch lp_500 [] = Some (Inr pvs)"
    and run: "join_pvs meta convert pvs vols h = (Inr objs, h @ map NoPvFor u)"
    by (auto simp: pio_bind_Inr_iff pio_apply(1,2) list_pv_def)
  have "inj (NoPvFor :: string \<Rightarrow> 'c lpv_call)" by (rule injI) simp
  with join_pvs_success [OF run] pvs have "shows_volumes meta convert fetch vols u objs"
    unfolding shows_volumes_def by (auto simp: inj_map_eq_map)
  then show "prints_one (\<lambda>missing. K (u @ missing)) args (print_table args (tab objs))"
    by (intro prints_print) (simp add: assms)
qed

lemma volume_groups_shown:
  "volume_group_record_from nodes = Inr vgs \<Longrightarrow> vgs = concat (map (\<lambda>node.
     map (\<lambda>vg. lvm_volume_group_from vg (the (om_name (ln_metadata node)))) (ln_volume_groups node)) nodes)"
proof (induction nodes arbitrary: vgs)
  case (Cons node nodes)
  then show ?case
    by (cases "om_name (ln_metadata node)"; cases "ln_volume_groups node")
      (auto simp: name_unchecked_def traverse_total)
qed simp

lemma zpools_shown:
  "zfs_pool_record_of nodes = Inr pools \<Longrightarrow> pools = concat (map (\<lambda>node. map (\<lambda>p.
     \<lparr>zp_name = po_name p, zp_node = the (om_name (zn_metadata node)), zp_uuid = po_uuid p,
      zp_free = po_free p, zp_used = po_used p\<rparr>) (zn_pools node)) nodes)"
proof (induction nodes arbitrary: pools)
  case (Cons node nodes)
  then show ?case
    by (cases "om_name (zn_metadata node)"; cases "zn_pools node")
      (auto simp: name_unchecked_def zfs_pool_of_def traverse_total)
qed simp

lemma lists_all_nodes: "lists_all fetch None = (\<lambda>objs. list_pages fetch lp_500 [] = Some (Inr objs))"
  by (rule ext) (simp add: lists_all_def lp_500_def list_params_default_def)

lemma lists_all_labelled:
  "lists_all fetch (map_option node_label n) objs \<longleftrightarrow> list_pages fetch (node_list_params (Some n)) [] = Some (Inr objs)"
  by (cases n) (simp_all add: lists_all_def node_list_params_def lp_500_def list_params_default_def)

lemma prints_nodes:
  assumes "\<And>nodes. asked_nodes get fetch n nodes \<Longrightarrow> prints_one K args (f nodes)"
  shows "prints_one K args (pio_bind (case n of
      Some node \<Rightarrow> kube_answer (Some (map_sum id (\<lambda>x. [x]) (get node)))
    | None \<Rightarrow> kube_answer (list_pages fetch lp_500 [])) f)"
proof (cases n)
  case (Some node)
  show ?thesis
    unfolding Some option.case kube_answer_read
    by (rule prints_read) (cases "get node"; auto intro!: assms simp: asked_nodes_def Some)
qed (auto intro!: prints_read assms simp: kube_answer_read asked_nodes_def lists_all_nodes)

lemma get_volume_tables:
  "prints_one (lvm_table env client (LvmVolume v)) args (lvm_volume_cmd env args v client)"
  "prints_one (zfs_table env client (ZfsVolume v)) args (zfs_volume_cmd env args v client)"
  "prints_one (hostpath_table env client (HostpathVolume v)) args (hostpath_volume_cmd env args v client)"
  unfolding lvm_volume_cmd_def zfs_volume_cmd_def hostpath_volume_cmd_def kube_answer_read
    get_lvm_vol_output_def get_zfs_vol_record_def
  by (auto intro!: prints_read prints_checked prints_print prints_volumes
      simp: get_pv_Inr_iff get_hostpath_volume_filter on_node_def [abs_def] simp del: join_pvs.simps)

lemma get_volumes_tables:
  "prints_one (lvm_table env client (LvmVolumes n)) args (lvm_volumes_cmd env args n client)"
  "prints_one (zfs_table env client (ZfsVolumes n)) args (zfs_volumes_cmd env args n client)"
  "prints_one (hostpath_table env client (HostpathVolumes n)) args (hostpath_volumes_cmd env args n client)"
  unfolding lvm_volumes_cmd_def zfs_volumes_cmd_def hostpath_volumes_cmd_def kube_answer_read
    get_lvm_vol_output_def get_zfs_vol_record_def lvm_volumes_def zfs_volumes_def list_hostpath_pv_def
  by (auto intro!: prints_read prints_checked prints_print prints_volumes
      simp: lists_all_labelled get_hostpath_volume_filter lists_all_def [of _ "Some hostpath_selector"] on_node_def [abs_def])

lemma get_pools_tables:
  "prints_one (lvm_table env client (LvmVolumeGroups n)) args (lvm_volume_groups_cmd env args n client)"
  "prints_one (zfs_table env client (Zpools n)) args (zpools_cmd env args n client)"
  unfolding lvm_volume_groups_cmd_def zpools_cmd_def lvm_nodes_def zfs_nodes_def
  by (auto intro!: prints_nodes prints_checked prints_print dest!: volume_groups_shown zpools_shown)

definition with_client :: "'u lpv_env \<Rightarrow> localpv_cli_args \<Rightarrow> (kube_config \<Rightarrow> string list \<Rightarrow> lpv_record \<Rightarrow> bool) \<Rightarrow>
    string list \<Rightarrow> lpv_record \<Rightarrow> bool" where
  "with_client env args K missing rec \<longleftrightarrow>
     (\<exists>client. ctx_client (lx_conf env) (la_ctx args) = Inr client \<and> K client missing rec)"

lemma prints_with_client:
  assumes "\<And>client. prints_one (K client) args (f client)"
  shows "prints_one (with_client env args K) args
    (pio_bind (pio_of (io_res (map_err LpvGeneric (ctx_client (lx_conf env) (la_ctx args))))) f)"
proof (rule prints_checked)
  fix client
  assume "map_err LpvGeneric (ctx_client (lx_conf env) (la_ctx args)) = Inr client"
  with assms [of client] show "prints_one (with_client env args K) args (f client)"
    unfolding prints_one_def with_client_def by (fastforce split: sum.splits)
qed

text \<open>C16: what any \<^verbatim>\<open>get\<close> command of the local engines prints, whatever the cluster answers. A run that
  fails prints no table. One that succeeds prints exactly one, as its last call, in the requested format,
  and before it only the names of the volumes without a persistent volume. The table shows what was asked
  for, read with the client of the command line: the volume of that name, the volumes with the label of
  the node or all of them, the groups or pools of the node or of all nodes, the hostpath volume of that
  name or all those with the hostpath label, filtered by node. Volumes of LVM and ZFS are joined with all
  persistent volumes of the cluster. Every row has one cell per column of the header, and its first cell
  is the name of the object.\<close>

theorem get_prints_one_table:
  "prints_one (with_client env args (\<lambda>client. lvm_table env client lcmd)) args (lvm_execute env lcmd args) \<and>
   prints_one (with_client env args (\<lambda>client. zfs_table env client zcmd)) args (zfs_execute env zcmd args) \<and>
   prints_one (with_client env args (\<lambda>client. hostpath_table env client hcmd)) args (hostpath_execute env hcmd args)"
  unfolding lvm_execute_def zfs_execute_def hostpath_execute_def
  by (intro conjI; rule prints_with_client; cases lcmd; cases zcmd; cases hcmd;
     simp add: get_volume_tables get_volumes_tables get_pools_tables)

section \<open>Both conversions\<close>

definition pv_complete :: "persistent_volume \<Rightarrow> bool" where
  "pv_complete pv \<longleftrightarrow> om_name (pv_meta pv) \<noteq> None \<and> (case pv_spec pv of
      None \<Rightarrow> False
    | Some spec \<Rightarrow> vs_claim_ref spec \<noteq> None \<and> vs_access_modes spec \<noteq> None \<and>
        vs_storage_class_name spec \<noteq> None \<and> vs_volume_mode spec \<noteq> None)"

text \<open>The cells that both engines take from the persistent volume.\<close>

definition shown_claim :: "persistent_volume \<Rightarrow> string" where
  "shown_claim pv = unwrap_or (or_name (the (vs_claim_ref (the (pv_spec pv))))) []"

definition shown_class :: "persistent_volume \<Rightarrow> string" where
  "shown_class pv = the (vs_storage_class_name (the (pv_spec pv)))"

text \<open>C36: the conversions of LVM and ZFS volumes make the same demands and fill the common columns alike. For
  a capacity written in decimal digits, each succeeds exactly if the number fits in 128 bits, the volume
  has a name and a namespace, and the persistent volume has a name, a claim, access modes, a storage
  class and a volume mode. The row then shows the name of the volume, its owner node, its state, that
  number in its appropriate unit, its volume group or pool, the name of the claim and the storage class;
  and the namespace, access modes and volume mode of the two objects are the same.\<close>

theorem conversions_agree:
  assumes "lvm_metadata v = meta" and "zfs_metadata z = meta"
    and "lv_capacity (lvm_spec v) = nat_to_dec n" and "zs_capacity (zfs_spec z) = nat_to_dec n"
  shows "(is_ok (lvm_volume_object_of B v pv) \<longleftrightarrow>
      n < 2 ^ 128 \<and> om_name meta \<noteq> None \<and> om_namespace meta \<noteq> None \<and> pv_complete pv) \<and>
    (is_ok (zfs_volume_object_of B z pv) \<longleftrightarrow> is_ok (lvm_volume_object_of B v pv)) \<and>
    (\<forall>lo zo. lvm_volume_object_of B v pv = Inr lo \<and> zfs_volume_object_of B z pv = Inr zo \<longrightarrow>
      create_rows (LvmVolRecord [lo]) = [[the (om_name meta), lv_owner_node_id (lvm_spec v), ls_state (lvm_status v),
        adjust_bytes B (word_of_nat n), lv_vol_group (lvm_spec v), shown_claim pv, shown_class pv]] \<and>
      create_rows (ZfsVolRecord [zo]) = [[the (om_name meta), zs_owner_node_id (zfs_spec z), zt_state (zfs_status z),
        adjust_bytes B (word_of_nat n), zs_pool_name (zfs_spec z), shown_claim pv, shown_class pv]] \<and>
      lo_capacity lo = adjust_bytes B (word_of_nat n) \<and> zo_capacity zo = lo_capacity lo \<and>
      zo_name zo = lo_name lo \<and> zo_namespace zo = lo_namespace lo \<and> zo_pvc_name zo = lo_pvc_name lo \<and>
      zo_access_mode zo = lo_access_mode lo \<and> zo_sc_name zo = lo_sc_name lo \<and> zo_volume_mode zo = lo_volume_mode lo)"
  using assms
  by (cases "pv_spec pv"; cases "om_name meta"; cases "om_namespace meta"; cases "om_name (pv_meta pv)";
      cases "n < 2 ^ 128")
    (auto simp: lvm_volume_object_of_def zfs_volume_object_of_def pv_field_defs pv_complete_def
      lvm_volume_rows_def zfs_volume_rows_def shown_claim_def shown_class_def
      parse_u128_nat_to_dec is_ok_iff)

section \<open>Hostpath volumes\<close>

text \<open>C37: what \<^verbatim>\<open>get volumes\<close> shows for hostpath. On a cluster with any list of persistent volumes it
  prints the volumes that have the hostpath label and, if a node is given, whose node affinity names that
  node, in their order and over all pages; but if any volume with the label cannot be converted, also one
  of another node, it fails with the first such error and prints nothing.\<close>

theorem hostpath_volumes_shown:
  "hostpath_volumes_cmd (serves env client selects lvms zfss pvs) args node_id client h = Some
     (case traverse host_path_volume_of (filter (\<lambda>pv. selects hostpath_selector (pv_meta pv)) pvs) of
        Inr vols \<Rightarrow> (Inr (), h @ [PrintTable (la_output args) (HostPathVolumeRecord
          (filter (\<lambda>vol. node_id = None \<or> node_id = Some (hp_node vol)) vols))])
      | Inl e \<Rightarrow> (Inl e, h))"
  by (cases "traverse host_path_volume_of (filter (\<lambda>pv. selects hostpath_selector (pv_meta pv)) pvs)")
    (simp_all add: hostpath_volumes_cmd_def list_hostpath_pv_selected get_hostpath_volume_filter
      on_node_def [abs_def] print_table_def io_simps)

section \<open>An example cluster\<close>

text \<open>A failed volume as in the test of \<^verbatim>\<open>lvm/volume/types.rs\<close>, and one that has no persistent volume.\<close>

definition example_meta :: "string \<Rightarrow> object_meta" where
  "example_meta name = \<lparr>om_name = Some name, om_namespace = Some ''openebs'', om_labels = None, om_uid = None\<rparr>"

definition example_lvm_volume :: "string \<Rightarrow> lvm_volume" where
  "example_lvm_volume name =
     \<lparr>lvm_api_version = ''local.openebs.io/v1alpha1'', lvm_kind = ''LVMVolume'', lvm_metadata = example_meta name,
      lvm_spec = \<lparr>lv_capacity = ''1024'', lv_owner_node_id = ''worker-1'', lv_shared = ''no'',
        lv_thin_provision = ''no'', lv_vg_pattern = [], lv_vol_group = ''vg0''\<rparr>,
      lvm_status = \<lparr>ls_state = ''Failed'', ls_error = Some \<lparr>le_code = ''InsufficientCapacity'',
        le_message = ''insufficient free space''\<rparr>\<rparr>\<rparr>"

definition example_zfs_volume :: "string \<Rightarrow> zfs_volume" where
  "example_zfs_volume name =
     \<lparr>zfs_api_version = ''zfs.openebs.io/v1'', zfs_kind = ''ZFSVolume'', zfs_metadata = example_meta name,
      zfs_spec = \<lparr>zs_capacity = ''1024'', zs_compression = ''off'', zs_dedup = ''off'', zs_encryption = None,
        zs_fs_type = ''zfs'', zs_keyformat = None, zs_keylocation = None, zs_owner_node_id = ''worker-1'',
        zs_pool_name = ''zpool'', zs_recordsize = ''128k'', zs_snapname = None, zs_thin_provision = None,
        zs_vol_block_size = None, zs_vol_type = ''DATASET''\<rparr>,
      zfs_status = \<lparr>zt_state = ''Ready''\<rparr>\<rparr>"

definition example_pv :: "string \<Rightarrow> persistent_volume" where
  "example_pv name =
     \<lparr>pv_meta = example_meta name,
      pv_spec = Some \<lparr>vs_access_modes = Some [''ReadWriteOnce''], vs_capacity = Some [''storage'' \<mapsto> ''1Ki''],
        vs_claim_ref = Some \<lparr>or_name = Some ''claim''\<rparr>, vs_local_path = None, vs_node_affinity = None,
        vs_storage_class_name = Some ''openebs-lvm'', vs_volume_mode = Some ''Filesystem''\<rparr>,
      pv_status = Some \<lparr>vt_phase = Some ''Bound''\<rparr>\<rparr>"

definition in_bytes :: "128 word byte_unit_api" where
  "in_bytes = \<lparr>bu_appropriate_unit = id, bu_format_2 = \<lambda>w. nat_to_dec (unat w) @ '' B''\<rparr>"

definition example_cli_args :: localpv_cli_args where
  "example_cli_args = \<lparr>la_output = ''none'', la_ctx = \<lparr>cx_namespace = Some ''openebs'', cx_kubeconfig = None, cx_context = None\<rparr>\<rparr>"

definition example_client :: kube_config where
  "example_client = \<lparr>kc_cluster = ''kind'', kc_default_namespace = ''openebs''\<rparr>"

definition empty_env :: "128 word lpv_env" where
  "empty_env =
     \<lparr>lx_conf = \<lparr>kf_config_from_kubeconfig = \<lambda>path context. Inr example_client, kf_client_try_from = \<lambda>config. Inr ()\<rparr>,
       lx_bytes = in_bytes,
       lx_get_lvm_node = (\<lambda>client name. Inl (KubeApi ''NotFound'' 404)), lx_list_lvm_nodes = (\<lambda>client lp. Inr \<lparr>pg_items = [], pg_continue = None\<rparr>),
       lx_get_lvm_volume = (\<lambda>client name. Inl (KubeApi ''NotFound'' 404)), lx_list_lvm_volumes = (\<lambda>client lp. Inr \<lparr>pg_items = [], pg_continue = None\<rparr>),
       lx_get_zfs_node = (\<lambda>client name. Inl (KubeApi ''NotFound'' 404)), lx_list_zfs_nodes = (\<lambda>client lp. Inr \<lparr>pg_items = [], pg_continue = None\<rparr>),
       lx_get_zfs_volume = (\<lambda>client name. Inl (KubeApi ''NotFound'' 404)), lx_list_zfs_volumes = (\<lambda>client lp. Inr \<lparr>pg_items = [], pg_continue = None\<rparr>),
       lx_get_pv = (\<lambda>client name. Inl (KubeApi ''NotFound'' 404)), lx_list_pvs = (\<lambda>client lp. Inr \<lparr>pg_items = [], pg_continue = None\<rparr>)\<rparr>"

lemma example_names [simp]:
  "om_name (example_meta name) = Some name" "om_namespace (example_meta name) = Some ''openebs''"
  "lvm_metadata (example_lvm_volume name) = example_meta name"
  "zfs_metadata (example_zfs_volume name) = example_meta name"
  "pv_meta (example_pv name) = example_meta name"
  by (simp_all add: example_meta_def example_lvm_volume_def example_zfs_volume_def example_pv_def)

lemma capacity_1024: "''1024'' = nat_to_dec 1024"
  by code_simp

lemma example_capacities:
  "lv_capacity (lvm_spec (example_lvm_volume name)) = nat_to_dec 1024"
  "zs_capacity (zfs_spec (example_zfs_volume name)) = nat_to_dec 1024"
  by (simp_all add: example_lvm_volume_def example_zfs_volume_def capacity_1024 [symmetric])

definition example_row :: lvm_volume_object where
  "example_row = \<lparr>lo_name = ''pvc-1'', lo_namespace = ''openebs'', lo_status = ''Failed'', lo_node = ''worker-1'',
     lo_thin = ''no'', lo_capacity = ''1024 B'', lo_shared = ''no'', lo_vol_group = ''vg0'', lo_vg_pattern = [],
     lo_pvc_name = ''claim'', lo_access_mode = [''ReadWriteOnce''], lo_sc_name = ''openebs-lvm'',
     lo_volume_mode = ''Filesystem''\<rparr>"

lemma example_converted: "lvm_volume_object_of in_bytes (example_lvm_volume ''pvc-1'') (example_pv ''pvc-1'') = Inr example_row"
proof -
  have "parse_u128 (lv_capacity (lvm_spec (example_lvm_volume ''pvc-1''))) = Inr 1024"
    by (simp add: example_capacities parse_u128_nat_to_dec)
  moreover have "adjust_bytes in_bytes 1024 = ''1024 B''"
    by (simp add: adjust_bytes_def in_bytes_def capacity_1024 [symmetric])
  ultimately show ?thesis
    by (simp add: lvm_volume_object_of_def pv_field_defs example_pv_def example_meta_def example_lvm_volume_def example_row_def)
qed

theorem localpv_volumes_shown_witness:
  "lvm_volumes_cmd (serves empty_env example_client (\<lambda>l m. True)
      [example_lvm_volume ''pvc-1'', example_lvm_volume ''pvc-2''] [example_zfs_volume ''pvc-3''] [example_pv ''pvc-1''])
    example_cli_args None example_client [] =
   Some (Inr (), [NoPvFor ''pvc-2'', PrintTable ''none'' (LvmVolRecord [example_row])])"
proof -
  have "lx_bytes empty_env = in_bytes" by (simp add: empty_env_def)
  moreover have "la_output example_cli_args = ''none''" by (simp add: example_cli_args_def)
  ultimately show ?thesis
    using localpv_volumes_shown [where env = empty_env and client = example_client and selects = "\<lambda>l m. True"
      and lvms = "[example_lvm_volume ''pvc-1'', example_lvm_volume ''pvc-2'']"
      and zfss = "[example_zfs_volume ''pvc-3'']" and pvs = "[example_pv ''pvc-1'']"
      and args = example_cli_args and node_id = None and h = "[]"]
    by (simp add: shows_join_def labelled_def pv_named_def example_converted)
qed

theorem conversions_agree_witness:
  "is_ok (lvm_volume_object_of in_bytes (example_lvm_volume ''pvc-1'') (example_pv ''pvc-1'')) \<and>
   is_ok (zfs_volume_object_of in_bytes (example_zfs_volume ''pvc-1'') (example_pv ''pvc-1''))"
  using conversions_agree [where v = "example_lvm_volume ''pvc-1''" and z = "example_zfs_volume ''pvc-1''"
      and meta = "example_meta ''pvc-1''" and n = 1024 and B = in_bytes and pv = "example_pv ''pvc-1''"]
  by (simp add: example_capacities pv_complete_def example_pv_def)

end
