(* ===== verification/Dump.thy ===== *)
theory Dump
  imports LocalPvCli
begin

text \<open>
  The \<^verbatim>\<open>dump system\<close> command (\<^verbatim>\<open>supportability/cli.rs\<close>, \<^verbatim>\<open>supportability/dump.rs\<close>, \<^verbatim>\<open>supportability/mod.rs\<close>,
  \<^verbatim>\<open>lvm/supportability.rs\<close>, \<^verbatim>\<open>zfs/supportability.rs\<close>). The system dumper, the directory and file functions
  and the snapshot classes come from Mayastor's \<^verbatim>\<open>supportability\<close> crate: they are calls of the history.
  A part that fails is remembered and the next one is tried; the command fails at the end if any did. A
  failed list request of a dynamic kind is no failure of its part: it is logged, and the objects of the
  pages before it are written.
\<close>

section \<open>Errors and calls\<close>

datatype k8s_resource_error = ClientError kube_error | OtherResourceError string

datatype dumper_error =
    K8sResourceError k8s_resource_error
  | YamlSerializationError string
  | DumperIOError string
  | OtherDumperError string
  | DumperMultipleErrors "dumper_error list"

datatype dump_error =
    K8sResourceDumperError dumper_error
  | MultipleErrors "dump_error list"
  | OtherDumpError string
  | DumperPanic

datatype log_line = LogText string | LogListError string kube_error | LogArchiveError dump_error

text \<open>The settings handed to the system dumper; durations and REST security are opaque.\<close>

record support_args =
  sa_timeout :: string
  sa_since :: string
  sa_loki_endpoint :: "string option"
  sa_etcd_endpoint :: "string option"
  sa_output_directory_path :: string
  sa_namespace :: string
  sa_kubeconfig_path :: "string option"
  sa_kubeconfig_context :: "string option"
  sa_rest_security :: string
  sa_tenant_id :: string
  sa_logging_label_selectors :: string

record dump_config =
  dc_output_directory :: string
  dc_namespace :: string
  dc_loki_uri :: "string option"
  dc_etcd_uri :: "string option"
  dc_since :: string
  dc_kubeconfig_path :: "string option"
  dc_kubeconfig_context :: "string option"
  dc_timeout :: string
  dc_tar :: bool
  dc_tenant_id :: string
  dc_logging_label_selectors :: string
  dc_rest_security :: string

datatype dump_call =
    NewSystemDumper dump_config string
  | CollectLoki
  | DumpCommonK8s
  | DumpMayastor
  | FillArchive
  | CreateDir string
  | WriteFile string string string
  | VsClasses string string
  | VsContents string string
  | Log log_line
  | Println string

record 'd dump_env =
  de_namespace :: string
  de_dir_path :: string
  de_new_dumper :: "dump_call list \<Rightarrow> dump_config \<Rightarrow> string \<Rightarrow> bool"
  de_loki :: "dump_call list \<Rightarrow> dump_error + unit"
  de_common :: "dump_call list \<Rightarrow> dump_error + unit"
  de_mayastor :: "dump_call list \<Rightarrow> dump_error + unit"
  de_fill_archive :: "dump_call list \<Rightarrow> dump_error + unit"
  de_create_dir :: "dump_call list \<Rightarrow> string \<Rightarrow> dump_error + unit"
  de_write :: "dump_call list \<Rightarrow> string \<Rightarrow> string \<Rightarrow> string \<Rightarrow> string + unit"
  de_vs_classes :: "dump_call list \<Rightarrow> string \<Rightarrow> string \<Rightarrow> dumper_error + unit"
  de_vs_contents :: "dump_call list \<Rightarrow> string \<Rightarrow> string \<Rightarrow> dumper_error + unit"
  de_dynamic_api :: "string \<Rightarrow> string \<Rightarrow> string \<Rightarrow> string \<Rightarrow>
    k8s_resource_error + (list_params \<Rightarrow> kube_error + 'd page) option"
  de_list_lvm_nodes :: "string \<Rightarrow> list_params \<Rightarrow> kube_error + lvm_node page"
  de_list_lvm_volumes :: "string \<Rightarrow> list_params \<Rightarrow> kube_error + lvm_volume page"
  de_list_zfs_nodes :: "string \<Rightarrow> list_params \<Rightarrow> kube_error + zfs_node page"
  de_list_zfs_volumes :: "string \<Rightarrow> list_params \<Rightarrow> kube_error + zfs_volume page"
  de_yaml_dynamic :: "'d list \<Rightarrow> string + string"
  de_yaml_lvm_nodes :: "lvm_node list \<Rightarrow> string + string"
  de_yaml_lvm_volumes :: "lvm_volume list \<Rightarrow> string + string"
  de_yaml_zfs_nodes :: "zfs_node list \<Rightarrow> string + string"
  de_yaml_zfs_volumes :: "zfs_volume list \<Rightarrow> string + string"

type_synonym 'a dump_io = "(dump_call, dump_error, 'a) io"
type_synonym dump_pio = "(dump_call, dump_error, unit) pio"

definition log_text :: "string \<Rightarrow> unit dump_io" where
  "log_text s = io_emit (Log (LogText s))"

lemma log_text_apply [io_simps]: "log_text s h = (Inr (), h @ [Log (LogText s)])"
  by (simp add: log_text_def io_simps)

section \<open>Collecting errors\<close>

text \<open>
  The steps of a dump one after the other: a step that returns an error adds it to \<open>errors\<close>, and the
  next step runs all the same.
\<close>

fun collect_errors :: "('c, 'e, unit) pio list \<Rightarrow> 'e list \<Rightarrow> ('c, 'f, 'e list) pio" where
  "collect_errors [] errors = pio_of (io_ok errors)"
| "collect_errors (step # steps) errors = (\<lambda>h. case step h of
      None \<Rightarrow> None
    | Some (Inl e, h') \<Rightarrow> collect_errors steps (errors @ [e]) h'
    | Some (Inr _, h') \<Rightarrow> collect_errors steps errors h')"

declare collect_errors.simps [simp del]

definition fail_with :: "string \<Rightarrow> dump_error list \<Rightarrow> dump_pio" where
  "fail_with msg errors =
     (if errors \<noteq> [] then pio_bind (pio_of (log_text msg)) (\<lambda>_. pio_of (io_err (MultipleErrors errors)))
      else pio_of (io_ok ()))"

section \<open>Writing lists of objects\<close>

definition write_yaml :: "'d dump_env \<Rightarrow> string \<Rightarrow> string \<Rightarrow> string + string \<Rightarrow> unit dump_io" where
  "write_yaml env root_dir file_name yaml =
     io_bind (io_res (map_err (\<lambda>e. K8sResourceDumperError (YamlSerializationError e)) yaml)) (\<lambda>contents.
     io_map_err (\<lambda>e. K8sResourceDumperError (DumperIOError e))
       (io_call (WriteFile root_dir file_name contents) (\<lambda>h. de_write env h root_dir file_name contents)))"

text \<open>
  Items of all pages up to the first failing request; the error, if there was one, is returned with
  them.
\<close>

partial_function (option) collect_items ::
  "(list_params \<Rightarrow> 'e + 'a page) \<Rightarrow> list_params \<Rightarrow> 'a list \<Rightarrow> ('e option \<times> 'a list) option" where
  "collect_items fetch lp acc = (case fetch lp of
      Inl e \<Rightarrow> Some (Some e, acc)
    | Inr pg \<Rightarrow> (case next_token pg of
          Some token \<Rightarrow> collect_items fetch (lp\<lparr>lp_continue := Some token\<rparr>) (acc @ pg_items pg)
        | None \<Rightarrow> Some (None, acc @ pg_items pg)))"

definition lp_100 :: list_params where
  "lp_100 = list_params_default\<lparr>lp_limit := 100\<rparr>"

definition dump_dynamic_resource ::
  "'d dump_env \<Rightarrow> string \<Rightarrow> string \<Rightarrow> string \<Rightarrow> string \<Rightarrow> string \<Rightarrow> dump_pio" where
  "dump_dynamic_resource env root_dir api_group version kind file_name =
     pio_bind (pio_of (log_text (CHR 0x09 # '' Collecting '' @ kind @ '' resources''))) (\<lambda>_.
     case de_dynamic_api env (de_namespace env) api_group version kind of
       Inl error \<Rightarrow> pio_of (io_err (K8sResourceDumperError (K8sResourceError error)))
     | Inr None \<Rightarrow> pio_of (io_ok ())
     | Inr (Some api) \<Rightarrow>
         pio_bind (pio_opt (map_option Inr (collect_items api lp_100 []))) (\<lambda>(error, all_items).
         pio_bind (pio_of (case error of
             Some e \<Rightarrow> io_emit (Log (LogListError kind e)) | None \<Rightarrow> io_ok ())) (\<lambda>_.
         pio_of (io_when (all_items \<noteq> [])
           (write_yaml env root_dir file_name (de_yaml_dynamic env all_items))))))"

text \<open>The four dumps of typed objects have the same body: a missing API (404) is no error.\<close>

definition dump_typed_resource ::
  "'d dump_env \<Rightarrow> string \<Rightarrow> (kube_error + 'a list) option \<Rightarrow> string \<Rightarrow> string \<Rightarrow> ('a list \<Rightarrow> string + string) \<Rightarrow> dump_pio" where
  "dump_typed_resource env log listed root_dir file_name to_yaml =
     pio_bind (pio_of (log_text log)) (\<lambda>_.
     pio_bind (pio_opt (map_option Inr listed)) (\<lambda>answer.
     pio_of (case answer of
         Inl e \<Rightarrow> if (\<exists>reason. e = KubeApi reason 404) then io_ok ()
           else io_err (K8sResourceDumperError (K8sResourceError (ClientError e)))
       | Inr objs \<Rightarrow> io_when (objs \<noteq> []) (write_yaml env root_dir file_name (to_yaml objs)))))"

definition dump_vscont_and_vs_class :: "'d dump_env \<Rightarrow> string \<Rightarrow> string \<Rightarrow> dump_pio" where
  "dump_vscont_and_vs_class env driver root_path =
     pio_bind (pio_of (io_call (CreateDir root_path) (\<lambda>h. de_create_dir env h root_path))) (\<lambda>_.
     pio_bind (collect_errors
       [pio_of (io_call (VsClasses root_path driver) (\<lambda>h. de_vs_classes env h root_path driver)),
        pio_of (io_call (VsContents root_path driver) (\<lambda>h. de_vs_contents env h root_path driver))] []) (\<lambda>errors.
     pio_of (if errors \<noteq> [] then io_err (K8sResourceDumperError (DumperMultipleErrors errors)) else io_ok ())))"

definition push_path :: "string \<Rightarrow> string \<Rightarrow> string" where
  "push_path dir name = dir @ ''/'' @ name"

section \<open>LVM\<close>

definition dump_typed_lvm_nodes :: "'d dump_env \<Rightarrow> string \<Rightarrow> dump_pio" where
  "dump_typed_lvm_nodes env root_dir = dump_typed_resource env (CHR 0x09 # '' Collecting LVM Node Resources...'')
     (lvm_nodes (de_list_lvm_nodes env (de_namespace env))) root_dir ''lvm_nodes.yaml'' (de_yaml_lvm_nodes env)"

definition dump_typed_lvm_volumes :: "'d dump_env \<Rightarrow> string \<Rightarrow> dump_pio" where
  "dump_typed_lvm_volumes env root_dir = dump_typed_resource env (CHR 0x09 # '' Collecting LVM Volume Resources'')
     (lvm_volumes (de_list_lvm_volumes env (de_namespace env)) None) root_dir ''lvm_volumes.yaml'' (de_yaml_lvm_volumes env)"

definition dump_lvm_vscont_and_vs_class :: "'d dump_env \<Rightarrow> string \<Rightarrow> dump_pio" where
  "dump_lvm_vscont_and_vs_class env = dump_vscont_and_vs_class env ''local.csi.openebs.io''"

definition lvm_dump :: "'d dump_env \<Rightarrow> string \<Rightarrow> dump_pio" where
  "lvm_dump env dir =
     pio_bind (pio_of (log_text ''Collecting LVM LocalPV Specific Resources...'')) (\<lambda>_.
     (let root_dir = push_path dir ''lvm'' in
     pio_bind (pio_of (io_call (CreateDir root_dir) (\<lambda>h. de_create_dir env h root_dir))) (\<lambda>_.
     pio_bind (collect_errors
       [dump_typed_lvm_nodes env root_dir,
        dump_typed_lvm_volumes env root_dir,
        dump_dynamic_resource env root_dir ''local.openebs.io'' ''v1alpha1'' ''LVMSnapshot'' ''lvm_snaps.yaml'',
        dump_lvm_vscont_and_vs_class env root_dir] []) (\<lambda>errors.
     pio_bind (fail_with ''Failed to dump LVM resources'' errors) (\<lambda>_.
     pio_of (log_text ''Completed collection of LVM LocalPV Specific Resources''))))))"

section \<open>ZFS\<close>

definition dump_typed_zfs_nodes :: "'d dump_env \<Rightarrow> string \<Rightarrow> dump_pio" where
  "dump_typed_zfs_nodes env root_dir = dump_typed_resource env (CHR 0x09 # '' Collecting ZFS Node Resources'')
     (zfs_nodes (de_list_zfs_nodes env (de_namespace env))) root_dir ''zfs_nodes.yaml'' (de_yaml_zfs_nodes env)"

definition dump_typed_zfs_volumes :: "'d dump_env \<Rightarrow> string \<Rightarrow> dump_pio" where
  "dump_typed_zfs_volumes env root_dir = dump_typed_resource env (CHR 0x09 # '' Collecting ZFS Volume Resources'')
     (zfs_volumes (de_list_zfs_volumes env (de_namespace env)) None) root_dir ''zfs_volumes.yaml'' (de_yaml_zfs_volumes env)"

definition dump_zfs_vscont_and_vs_class :: "'d dump_env \<Rightarrow> string \<Rightarrow> dump_pio" where
  "dump_zfs_vscont_and_vs_class env = dump_vscont_and_vs_class env ''zfs.csi.openebs.io''"

definition zfs_dynamic_resources :: "(string \<times> string \<times> string) list" where
  "zfs_dynamic_resources =
     [(''ZFSSnapshot'', ''v1'', ''zfs_snaps.yaml''),
      (''ZFSRestore'', ''v1'', ''zfs_restores.yaml''),
      (''ZFSBackup'', ''v1'', ''zfs_backups.yaml'')]"

definition zfs_dump :: "'d dump_env \<Rightarrow> string \<Rightarrow> dump_pio" where
  "zfs_dump env dir =
     pio_bind (pio_of (log_text ''Collecting ZFS LocalPV Specific Resources...'')) (\<lambda>_.
     (let root_dir = push_path dir ''zfs'' in
     pio_bind (pio_of (io_call (CreateDir root_dir) (\<lambda>h. de_create_dir env h root_dir))) (\<lambda>_.
     pio_bind (collect_errors
       ([dump_typed_zfs_nodes env root_dir, dump_typed_zfs_volumes env root_dir] @
        map (\<lambda>(resource, zfs_version, filename).
          dump_dynamic_resource env root_dir ''zfs.openebs.io'' zfs_version resource filename) zfs_dynamic_resources @
        [dump_zfs_vscont_and_vs_class env root_dir]) []) (\<lambda>errors.
     pio_bind (fail_with ''Failed to dump ZFS resources'' errors) (\<lambda>_.
     pio_of (log_text ''Completed collection of ZFS LocalPV Specific Resources''))))))"

section \<open>The whole system\<close>

definition openebs_system_dump :: "'d dump_env \<Rightarrow> bool \<Rightarrow> dump_pio" where
  "openebs_system_dump env disable_log_collection =
     pio_bind (collect_errors
       ((if \<not> disable_log_collection then [pio_of (io_call CollectLoki (de_loki env))] else []) @
        [pio_of (io_call DumpCommonK8s (de_common env)),
         pio_of (io_call DumpMayastor (de_mayastor env)),
         zfs_dump env (de_dir_path env),
         lvm_dump env (de_dir_path env)]) []) (\<lambda>errors.
     fail_with ''Failed to dump system state'' errors)"

text \<open>An error of the archive is logged and kept.\<close>

definition fill_archive :: "'d dump_env \<Rightarrow> dump_pio" where
  "fill_archive env = pio_of (io_or_else (io_call FillArchive (de_fill_archive env)) (\<lambda>e.
     io_bind (io_emit (Log (LogArchiveError e))) (\<lambda>_. io_err e)))"

definition archive_prefix :: string where
  "archive_prefix = ''openebs''"

definition dump_config_of :: "support_args \<Rightarrow> dump_config" where
  "dump_config_of A =
     \<lparr>dc_output_directory = sa_output_directory_path A, dc_namespace = sa_namespace A,
      dc_loki_uri = sa_loki_endpoint A, dc_etcd_uri = sa_etcd_endpoint A, dc_since = sa_since A,
      dc_kubeconfig_path = sa_kubeconfig_path A, dc_kubeconfig_context = sa_kubeconfig_context A,
      dc_timeout = sa_timeout A, dc_tar = True, dc_tenant_id = sa_tenant_id A,
      dc_logging_label_selectors = sa_logging_label_selectors A, dc_rest_security = sa_rest_security A\<rparr>"

text \<open>The only resource is \<^verbatim>\<open>System\<close>; its argument is whether log collection is disabled.\<close>

datatype dump_resource = System bool

definition execute_resource_dump :: "'d dump_env \<Rightarrow> support_args \<Rightarrow> dump_resource \<Rightarrow> dump_pio" where
  "execute_resource_dump env A resource = (case resource of System disable_log_collection \<Rightarrow>
     pio_bind (pio_of (io_call (NewSystemDumper (dump_config_of A) archive_prefix)
       (\<lambda>h. ensure (de_new_dumper env h (dump_config_of A) archive_prefix) DumperPanic))) (\<lambda>_.
     pio_bind (collect_errors [openebs_system_dump env disable_log_collection, fill_archive env] []) (\<lambda>errors.
     pio_bind (fail_with ''Failed to dump system state'' errors) (\<lambda>_.
     pio_of (io_emit (Println ''Completed collection of dump !!''))))))"

section \<open>Every run returns\<close>

text \<open>
  On a server that keeps the contract of its pages, the loop returns, and what it has collected is a
  beginning of the objects: all of them unless a request failed.
\<close>

context paginated_api begin

lemma collect_items_from:
  "valid t \<Longrightarrow> \<exists>error xs ys. collect_items fetch (base\<lparr>lp_continue := t\<rparr>) acc = Some (error, acc @ xs) \<and>
     rest t = xs @ ys \<and> (error = None \<longrightarrow> ys = [])"
proof (induction "length (rest t)" arbitrary: t acc rule: less_induct)
  case less
  show ?case
  proof (cases "fetch (base\<lparr>lp_continue := t\<rparr>)")
    case (Inl e)
    then show ?thesis by (simp add: collect_items.simps)
  next
    case (Inr pg)
    show ?thesis
    proof (cases "next_token pg")
      case None
      with less.prems Inr show ?thesis by (simp add: collect_items.simps page_last)
    next
      case (Some t')
      from page_more [OF less.prems Inr Some]
      have v: "valid (Some t')" and r: "rest t = pg_items pg @ rest (Some t')" and "pg_items pg \<noteq> []" by auto
      then have "length (rest (Some t')) < length (rest t)" by simp
      from less.hyps [OF this v, of "acc @ pg_items pg"] obtain error xs ys where
        "collect_items fetch (base\<lparr>lp_continue := Some t'\<rparr>) (acc @ pg_items pg) = Some (error, acc @ pg_items pg @ xs)"
        "rest (Some t') = xs @ ys" "error = None \<longrightarrow> ys = []" by auto
      with Inr Some r show ?thesis
        by (intro exI [of _ error] exI [of _ "pg_items pg @ xs"] exI [of _ ys])
          (subst collect_items.simps, simp)
    qed
  qed
qed

lemma collect_items_returns: "collect_items fetch base [] \<noteq> None"
  using collect_items_from [OF valid_start, of "[]"] by auto

end

interpretation snapshot_100: paginated_api "snapshot_server objs" lp_100
  "\<lambda>t. token_offset t \<le> length objs" "\<lambda>t. drop (token_offset t) objs"
  by (rule snapshot_paginated) (simp_all add: lp_100_def list_params_default_def)

text \<open>The lists of the cluster end: no request sequence goes from page to page forever.\<close>

definition lists_end :: "'d dump_env \<Rightarrow> bool" where
  "lists_end env \<longleftrightarrow>
     lvm_nodes (de_list_lvm_nodes env (de_namespace env)) \<noteq> None \<and>
     lvm_volumes (de_list_lvm_volumes env (de_namespace env)) None \<noteq> None \<and>
     zfs_nodes (de_list_zfs_nodes env (de_namespace env)) \<noteq> None \<and>
     zfs_volumes (de_list_zfs_volumes env (de_namespace env)) None \<noteq> None \<and>
     (\<forall>api_group version kind api. de_dynamic_api env (de_namespace env) api_group version kind = Inr (Some api) \<longrightarrow>
       collect_items api lp_100 [] \<noteq> None)"

lemma returns_collect_errors [returns_intros]:
  "(\<And>step. step \<in> set steps \<Longrightarrow> returns step) \<Longrightarrow> returns (collect_errors steps errors :: ('c, 'f, 'e list) pio)"
proof (induction steps arbitrary: errors)
  case Nil
  show ?case by (simp add: collect_errors.simps returns_of)
next
  case (Cons step steps)
  have "returns step" and "returns (collect_errors steps errors :: ('c, 'f, 'e list) pio)" for errors
    using Cons.prems Cons.IH by simp_all
  then show ?case unfolding returns_def collect_errors.simps by (auto split: option.splits sum.splits)
qed

lemma returns_opt: "m \<noteq> None \<Longrightarrow> returns (pio_opt m)"
  by (auto simp: returns_def pio_opt_def)

lemma returns_fail_with [returns_intros]: "returns (fail_with msg errors)"
  unfolding fail_with_def by (intro returns_intros)

lemma returns_typed: "listed \<noteq> None \<Longrightarrow> returns (dump_typed_resource env log listed root file to_yaml)"
  unfolding dump_typed_resource_def by (intro returns_intros returns_opt) auto

lemma returns_dynamic: "lists_end env \<Longrightarrow> returns (dump_dynamic_resource env root api_group version kind file)"
  unfolding dump_dynamic_resource_def
  by (cases "de_dynamic_api env (de_namespace env) api_group version kind")
    (auto intro!: returns_intros returns_opt simp: lists_end_def split: option.splits)

lemma returns_vscont: "returns (dump_vscont_and_vs_class env driver root)"
  unfolding dump_vscont_and_vs_class_def by (intro returns_intros) (auto intro: returns_of)

lemma returns_lvm_dump: "lists_end env \<Longrightarrow> returns (lvm_dump env dir)"
  unfolding lvm_dump_def Let_def dump_typed_lvm_nodes_def dump_typed_lvm_volumes_def dump_lvm_vscont_and_vs_class_def
  by (intro returns_intros) (auto intro: returns_typed returns_dynamic returns_vscont simp: lists_end_def)

lemma returns_zfs_dump: "lists_end env \<Longrightarrow> returns (zfs_dump env dir)"
  unfolding zfs_dump_def Let_def dump_typed_zfs_nodes_def dump_typed_zfs_volumes_def dump_zfs_vscont_and_vs_class_def
  by (intro returns_intros) (auto intro: returns_typed returns_dynamic returns_vscont simp: lists_end_def)

lemma returns_system_dump: "lists_end env \<Longrightarrow> returns (openebs_system_dump env disable)"
  unfolding openebs_system_dump_def
  by (intro returns_bind returns_collect_errors returns_fail_with)
    (auto intro: returns_of returns_lvm_dump returns_zfs_dump split: if_splits)

lemma returns_execute:
  assumes "lists_end env"
  shows "returns (execute_resource_dump env A (System disable))"
  unfolding execute_resource_dump_def dump_resource.case fill_archive_def
  by (intro returns_bind returns_collect_errors returns_fail_with returns_of)
    (auto intro: returns_of returns_system_dump [OF assms])

section \<open>What a dump collects\<close>

text \<open>The calls whose failure has to be reported, and whether one of them was answered with success.\<close>

fun answered_ok :: "'d dump_env \<Rightarrow> dump_call list \<Rightarrow> dump_call \<Rightarrow> bool" where
  "answered_ok env h CollectLoki = is_ok (de_loki env h)"
| "answered_ok env h DumpCommonK8s = is_ok (de_common env h)"
| "answered_ok env h DumpMayastor = is_ok (de_mayastor env h)"
| "answered_ok env h FillArchive = is_ok (de_fill_archive env h)"
| "answered_ok env h (CreateDir path) = is_ok (de_create_dir env h path)"
| "answered_ok env h (WriteFile root file contents) = is_ok (de_write env h root file contents)"
| "answered_ok env h (VsClasses root driver) = is_ok (de_vs_classes env h root driver)"
| "answered_ok env h (VsContents root driver) = is_ok (de_vs_contents env h root driver)"
| "answered_ok env h _ = True"

fun all_ok :: "'d dump_env \<Rightarrow> dump_call list \<Rightarrow> dump_call list \<Rightarrow> bool" where
  "all_ok env h [] = True"
| "all_ok env h (c # cs) \<longleftrightarrow> answered_ok env h c \<and> all_ok env (h @ [c]) cs"

lemma all_ok_append [simp]: "all_ok env h (u @ v) \<longleftrightarrow> all_ok env h u \<and> all_ok env (h @ u) v"
  by (induction u arbitrary: h) auto

text \<open>
  The marks of a dump, the parts of the system dump and the archive, and its effects, the calls that
  collect or write something.
\<close>

fun mark :: "dump_call \<Rightarrow> bool" where
  "mark CollectLoki = True"
| "mark DumpCommonK8s = True"
| "mark DumpMayastor = True"
| "mark FillArchive = True"
| "mark (Log line) = (line = LogText ''Collecting ZFS LocalPV Specific Resources...'' \<or>
     line = LogText ''Collecting LVM LocalPV Specific Resources...'')"
| "mark _ = False"

fun collects :: "dump_call \<Rightarrow> bool" where
  "collects (NewSystemDumper config prefix) = False"
| "collects (Log line) = False"
| "collects (Println s) = False"
| "collects _ = True"

text \<open>
  The specification of a part: the effects of a run that succeeds, or \<^const>\<open>None\<close> if the part has to fail
  whatever its calls are answered, because a list or a conversion has failed.
\<close>

type_synonym part = "dump_call list option"

definition both_parts :: "part \<Rightarrow> part \<Rightarrow> part" where
  "both_parts X Y = Option.bind X (\<lambda>E. map_option ((@) E) Y)"

fun all_parts :: "part list \<Rightarrow> part" where
  "all_parts [] = Some []"
| "all_parts (X # Xs) = both_parts X (all_parts Xs)"

lemma both_parts_simps [simp]:
  "both_parts (Some []) Y = Y" "both_parts X (Some []) = X" "both_parts None Y = None" "both_parts X None = None"
  "both_parts (Some E) (Some F) = Some (E @ F)"
  "both_parts X Y = Some G \<longleftrightarrow> (\<exists>E F. X = Some E \<and> Y = Some F \<and> G = E @ F)"
  by (auto simp: both_parts_def bind_eq_Some_conv option.map_ident cong: option.map_cong split: bind_splits)

text \<open>
  \<open>parts env L X m\<close>: a run of \<open>m\<close> goes through the marks \<open>L\<close> whatever fails; it succeeds exactly if all its
  calls do and \<open>X\<close> allows it, and then its effects are those of \<open>X\<close>.
\<close>

definition parts :: "'d dump_env \<Rightarrow> dump_call list \<Rightarrow> part \<Rightarrow> (dump_call, 'e, 'a) pio \<Rightarrow> bool" where
  "parts env L X m \<longleftrightarrow> (\<forall>h r h'. m h = Some (r, h') \<longrightarrow>
     (\<exists>u. h' = h @ u \<and> filter mark u = L \<and> (is_ok r \<longleftrightarrow> all_ok env h u \<and> X \<noteq> None) \<and>
        (is_ok r \<longrightarrow> X = Some (filter collects u))))"

lemma partsD:
  "parts env L X m \<Longrightarrow> m h = Some (r, h') \<Longrightarrow>
     \<exists>u. h' = h @ u \<and> filter mark u = L \<and> (is_ok r \<longleftrightarrow> all_ok env h u \<and> X \<noteq> None) \<and>
        (is_ok r \<longrightarrow> X = Some (filter collects u))"
  by (auto simp: parts_def)

lemma parts_call:
  "(\<And>h. is_ok (answer h) \<longleftrightarrow> answered_ok env h c) \<Longrightarrow> collects c \<Longrightarrow>
     parts env (filter mark [c]) (Some [c]) (pio_of (io_call c answer))"
  by (auto simp: parts_def io_simps)

lemma parts_log: "parts env (filter mark [Log line]) (Some []) (pio_of (io_emit (Log line)))"
  by (auto simp: parts_def io_simps is_ok_iff)

lemma parts_bind:
  assumes "parts env L X m" and "\<And>x. parts env [] Y (f x)"
  shows "parts env L (both_parts X Y) (pio_bind m f)"
  unfolding parts_def
proof (intro allI impI)
  fix h r h'
  assume "pio_bind m f h = Some (r, h')"
  then show "\<exists>u. h' = h @ u \<and> filter mark u = L \<and> (is_ok r \<longleftrightarrow> all_ok env h u \<and> both_parts X Y \<noteq> None) \<and>
      (is_ok r \<longrightarrow> both_parts X Y = Some (filter collects u))"
  proof (cases rule: pio_bind_cases)
    case (fails e)
    with partsD [OF assms(1) fails(1)] show ?thesis by (cases X) auto
  next
    case (continues x h1)
    from partsD [OF assms(1) continues(1)] obtain u where
      u: "h1 = h @ u" "filter mark u = L" "all_ok env h u" "X = Some (filter collects u)" by auto
    from partsD [OF assms(2) continues(2)] obtain v where
      v: "h' = h1 @ v" "filter mark v = []" "is_ok r \<longleftrightarrow> all_ok env h1 v \<and> Y \<noteq> None"
        "is_ok r \<longrightarrow> Y = Some (filter collects v)" by auto
    from u v show ?thesis by (intro exI [of _ "u @ v"]) (cases Y; auto)
  qed
qed

text \<open>A log line that is always written, and then the rest.\<close>

lemma parts_log_then:
  assumes "parts env L X (f ())"
  shows "parts env (filter mark [Log line] @ L) X (pio_bind (pio_of (io_emit (Log line))) f)"
  unfolding parts_def
proof (intro allI impI)
  fix h r h'
  assume "pio_bind (pio_of (io_emit (Log line))) f h = Some (r, h')"
  then have "f () (h @ [Log line]) = Some (r, h')" by (simp add: io_simps)
  from partsD [OF assms this] obtain u where "h' = (h @ [Log line]) @ u" "filter mark u = L"
    "is_ok r \<longleftrightarrow> all_ok env (h @ [Log line]) u \<and> X \<noteq> None" "is_ok r \<longrightarrow> X = Some (filter collects u)" by blast
  then show "\<exists>u. h' = h @ u \<and> filter mark u = filter mark [Log line] @ L \<and>
      (is_ok r \<longleftrightarrow> all_ok env h u \<and> X \<noteq> None) \<and> (is_ok r \<longrightarrow> X = Some (filter collects u))"
    by (intro exI [of _ "Log line # u"]) simp
qed

text \<open>Collecting errors: the marks of all steps, and no error is left over exactly if every step succeeded.\<close>

lemma parts_collect_errors:
  assumes "list_all2 (case_prod (parts env)) LXs steps" and "collect_errors steps errors h = Some (r, h')"
  shows "\<exists>u errors'. r = Inr errors' \<and> h' = h @ u \<and> filter mark u = concat (map fst LXs) \<and>
    (errors' = [] \<longleftrightarrow> errors = [] \<and> all_ok env h u \<and> all_parts (map snd LXs) \<noteq> None) \<and>
    (errors' = [] \<longrightarrow> all_parts (map snd LXs) = Some (filter collects u))"
  using assms
proof (induction LXs steps arbitrary: errors h rule: list_all2_induct)
  case Nil
  then show ?case by (auto simp: io_simps collect_errors.simps)
next
  case (Cons LX LXs step steps)
  obtain L X where LX: "LX = (L, X)" by fastforce
  from Cons.prems obtain r1 h1 where run: "step h = Some (r1, h1)"
    by (auto simp: collect_errors.simps split: option.splits)
  from Cons.hyps(1) LX have "parts env L X step" by simp
  from partsD [OF this run] obtain u where u: "h1 = h @ u" "filter mark u = L"
    "is_ok r1 \<longleftrightarrow> all_ok env h u \<and> X \<noteq> None" "is_ok r1 \<longrightarrow> X = Some (filter collects u)" by auto
  define errors1 where "errors1 = (case r1 of Inl e \<Rightarrow> errors @ [e] | Inr _ \<Rightarrow> errors)"
  with Cons.prems run have "collect_errors steps errors1 h1 = Some (r, h')"
    by (auto simp: collect_errors.simps split: sum.splits)
  from Cons.IH [OF this] obtain v errors' where v: "r = Inr errors'" "h' = h1 @ v"
    "filter mark v = concat (map fst LXs)"
    "errors' = [] \<longleftrightarrow> errors1 = [] \<and> all_ok env h1 v \<and> all_parts (map snd LXs) \<noteq> None"
    "errors' = [] \<longrightarrow> all_parts (map snd LXs) = Some (filter collects v)" by auto
  show ?case
    by (intro exI [of _ "u @ v"] exI [of _ errors'])
      (use u v LX in \<open>cases r1; cases X; cases "all_parts (map snd LXs)"; auto simp: errors1_def\<close>)
qed

lemma parts_collect:
  assumes "list_all2 (case_prod (parts env)) LXs steps"
    and "\<And>errors. parts env [] (if errors = [] then Y else None) (f errors)"
  shows "parts env (concat (map fst LXs)) (both_parts (all_parts (map snd LXs)) Y) (pio_bind (collect_errors steps []) f)"
  unfolding parts_def
proof (intro allI impI)
  fix h r h'
  let ?X = "all_parts (map snd LXs)"
  assume "pio_bind (collect_errors steps []) f h = Some (r, h')"
  then show "\<exists>u. h' = h @ u \<and> filter mark u = concat (map fst LXs) \<and>
      (is_ok r \<longleftrightarrow> all_ok env h u \<and> both_parts ?X Y \<noteq> None) \<and>
      (is_ok r \<longrightarrow> both_parts ?X Y = Some (filter collects u))"
  proof (cases rule: pio_bind_cases)
    case (fails e)
    with parts_collect_errors [OF assms(1)] show ?thesis by blast
  next
    case (continues errors h1)
    from parts_collect_errors [OF assms(1) continues(1)] obtain u where
      u: "h1 = h @ u" "filter mark u = concat (map fst LXs)"
        "errors = [] \<longleftrightarrow> all_ok env h u \<and> ?X \<noteq> None" "errors = [] \<longrightarrow> ?X = Some (filter collects u)" by auto
    from partsD [OF assms(2) continues(2)] obtain v where v: "h' = h1 @ v" "filter mark v = []"
      "is_ok r \<longleftrightarrow> all_ok env h1 v \<and> (if errors = [] then Y else None) \<noteq> None"
      "is_ok r \<longrightarrow> (if errors = [] then Y else None) = Some (filter collects v)" by auto
    from u v show ?thesis
      by (intro exI [of _ "u @ v"]) (cases "errors = []"; cases ?X; cases Y; auto)
  qed
qed

text \<open>The files of a part, for a list of objects, the pages of a typed resource and those of a dynamic one.\<close>

definition file_part :: "string \<Rightarrow> string \<Rightarrow> ('a list \<Rightarrow> string + string) \<Rightarrow> 'a list \<Rightarrow> part" where
  "file_part root file to_yaml objs =
     (if objs = [] then Some []
      else case to_yaml objs of Inl e \<Rightarrow> None | Inr contents \<Rightarrow> Some [WriteFile root file contents])"

definition typed_part :: "string \<Rightarrow> string \<Rightarrow> ('a list \<Rightarrow> string + string) \<Rightarrow> (kube_error + 'a list) option \<Rightarrow> part" where
  "typed_part root file to_yaml listed = (case listed of
      Some (Inr objs) \<Rightarrow> file_part root file to_yaml objs
    | Some (Inl (KubeApi reason code)) \<Rightarrow> if code = 404 then Some [] else None
    | _ \<Rightarrow> None)"

definition dynamic_part :: "'d dump_env \<Rightarrow> string \<Rightarrow> string \<Rightarrow> string \<Rightarrow> string \<Rightarrow> string \<Rightarrow> part" where
  "dynamic_part env root api_group version kind file =
     (case de_dynamic_api env (de_namespace env) api_group version kind of
        Inl e \<Rightarrow> None
      | Inr None \<Rightarrow> Some []
      | Inr (Some api) \<Rightarrow> (case collect_items api lp_100 [] of
            None \<Rightarrow> None
          | Some (error, items) \<Rightarrow> file_part root file (de_yaml_dynamic env) items))"

definition snapshot_part :: "string \<Rightarrow> string \<Rightarrow> part" where
  "snapshot_part root driver = Some [CreateDir root, VsClasses root driver, VsContents root driver]"

definition lvm_part :: "'d dump_env \<Rightarrow> part" where
  "lvm_part env = (let root = de_dir_path env @ ''/lvm'' in all_parts
     [Some [CreateDir root],
      typed_part root ''lvm_nodes.yaml'' (de_yaml_lvm_nodes env) (list_pages (de_list_lvm_nodes env (de_namespace env)) lp_500 []),
      typed_part root ''lvm_volumes.yaml'' (de_yaml_lvm_volumes env)
        (list_pages (de_list_lvm_volumes env (de_namespace env)) lp_500 []),
      dynamic_part env root ''local.openebs.io'' ''v1alpha1'' ''LVMSnapshot'' ''lvm_snaps.yaml'',
      snapshot_part root ''local.csi.openebs.io''])"

definition zfs_part :: "'d dump_env \<Rightarrow> part" where
  "zfs_part env = (let root = de_dir_path env @ ''/zfs'' in all_parts
     [Some [CreateDir root],
      typed_part root ''zfs_nodes.yaml'' (de_yaml_zfs_nodes env) (list_pages (de_list_zfs_nodes env (de_namespace env)) lp_500 []),
      typed_part root ''zfs_volumes.yaml'' (de_yaml_zfs_volumes env)
        (list_pages (de_list_zfs_volumes env (de_namespace env)) lp_500 []),
      dynamic_part env root ''zfs.openebs.io'' ''v1'' ''ZFSSnapshot'' ''zfs_snaps.yaml'',
      dynamic_part env root ''zfs.openebs.io'' ''v1'' ''ZFSRestore'' ''zfs_restores.yaml'',
      dynamic_part env root ''zfs.openebs.io'' ''v1'' ''ZFSBackup'' ''zfs_backups.yaml'',
      snapshot_part root ''zfs.csi.openebs.io''])"

definition system_part :: "'d dump_env \<Rightarrow> bool \<Rightarrow> part" where
  "system_part env disable_log_collection = all_parts
     [Some (if disable_log_collection then [] else [CollectLoki]), Some [DumpCommonK8s], Some [DumpMayastor],
      zfs_part env, lvm_part env, Some [FillArchive]]"

lemma parts_write_yaml: "objs \<noteq> [] \<Longrightarrow> parts env [] (file_part root file to_yaml objs) (pio_of (write_yaml env root file (to_yaml objs)))"
  by (cases "to_yaml objs") (auto simp: parts_def file_part_def write_yaml_def io_simps map_err_def is_ok_iff split: sum.splits)

lemma parts_file: "parts env [] (file_part root file to_yaml objs)
    (pio_of (io_when (objs \<noteq> []) (write_yaml env root file (to_yaml objs))))"
  by (cases "objs = []") (auto simp: parts_write_yaml io_when_def, simp add: parts_def file_part_def io_simps is_ok_iff)

lemma parts_fail_with:
  "\<not> mark (Log (LogText msg)) \<Longrightarrow> parts env [] (if errors = [] then Some [] else None) (fail_with msg errors)"
  by (auto simp: parts_def fail_with_def io_simps is_ok_iff)

text \<open>The parts of the engine dumps.\<close>

lemma parts_quiet_log:
  "\<not> mark (Log (LogText s)) \<Longrightarrow> parts env [] X (f ()) \<Longrightarrow> parts env [] X (pio_bind (pio_of (log_text s)) f)"
  using parts_log_then [of env "[]" X f "LogText s"] by (simp add: log_text_def)

lemma parts_opt:
  assumes "\<And>x. v = Some x \<Longrightarrow> parts env [] X (f x)"
  shows "parts env [] X (pio_bind (pio_opt (map_option Inr v)) f)"
  using assms by (cases v) (auto simp: parts_def io_simps)

lemma parts_typed:
  assumes "\<not> mark (Log (LogText log))"
  shows "parts env [] (typed_part root file to_yaml listed) (dump_typed_resource env log listed root file to_yaml)"
  unfolding dump_typed_resource_def
proof (rule parts_quiet_log [OF assms], rule parts_opt)
  fix answer
  assume listed: "listed = Some answer"
  show "parts env [] (typed_part root file to_yaml listed) (pio_of (case answer of
      Inl e \<Rightarrow> if (\<exists>reason. e = KubeApi reason 404) then io_ok ()
        else io_err (K8sResourceDumperError (K8sResourceError (ClientError e)))
    | Inr objs \<Rightarrow> io_when (objs \<noteq> []) (write_yaml env root file (to_yaml objs))))"
  proof (cases answer)
    case (Inl e)
    then show ?thesis
      by (cases e) (auto simp: listed typed_part_def parts_def io_simps is_ok_iff)
  next
    case (Inr objs)
    with listed show ?thesis by (simp add: typed_part_def parts_file)
  qed
qed

lemma parts_dynamic:
  assumes "\<not> mark (Log (LogText (CHR 0x09 # '' Collecting '' @ kind @ '' resources'')))"
  shows "parts env [] (dynamic_part env root api_group version kind file)
    (dump_dynamic_resource env root api_group version kind file)"
  unfolding dump_dynamic_resource_def
proof (rule parts_quiet_log [OF assms], cases "de_dynamic_api env (de_namespace env) api_group version kind")
  case (Inl e)
  then show "parts env [] (dynamic_part env root api_group version kind file)
      (case de_dynamic_api env (de_namespace env) api_group version kind of
         Inl error \<Rightarrow> pio_of (io_err (K8sResourceDumperError (K8sResourceError error)))
       | Inr None \<Rightarrow> pio_of (io_ok ())
       | Inr (Some api) \<Rightarrow> pio_bind (pio_opt (map_option Inr (collect_items api lp_100 []))) (\<lambda>(error, all_items).
           pio_bind (pio_of (case error of Some e \<Rightarrow> io_emit (Log (LogListError kind e)) | None \<Rightarrow> io_ok ())) (\<lambda>_.
           pio_of (io_when (all_items \<noteq> []) (write_yaml env root file (de_yaml_dynamic env all_items))))))"
    by (simp add: dynamic_part_def parts_def io_simps is_ok_iff)
next
  case (Inr opt)
  have log: "parts env [] (Some []) (pio_of (case error of Some e \<Rightarrow> io_emit (Log (LogListError kind e)) | None \<Rightarrow> io_ok ()))"
    for error by (cases error) (auto simp: parts_def io_simps is_ok_iff)
  show "parts env [] (dynamic_part env root api_group version kind file)
      (case de_dynamic_api env (de_namespace env) api_group version kind of
         Inl error \<Rightarrow> pio_of (io_err (K8sResourceDumperError (K8sResourceError error)))
       | Inr None \<Rightarrow> pio_of (io_ok ())
       | Inr (Some api) \<Rightarrow> pio_bind (pio_opt (map_option Inr (collect_items api lp_100 []))) (\<lambda>(error, all_items).
           pio_bind (pio_of (case error of Some e \<Rightarrow> io_emit (Log (LogListError kind e)) | None \<Rightarrow> io_ok ())) (\<lambda>_.
           pio_of (io_when (all_items \<noteq> []) (write_yaml env root file (de_yaml_dynamic env all_items))))))"
  proof (cases opt)
    case None
    with Inr show ?thesis by (simp add: dynamic_part_def parts_def io_simps is_ok_iff)
  next
    case (Some api)
    have "parts env [] (file_part root file (de_yaml_dynamic env) items)
        (pio_bind (pio_of (case error of Some e \<Rightarrow> io_emit (Log (LogListError kind e)) | None \<Rightarrow> io_ok ())) (\<lambda>_.
           pio_of (io_when (items \<noteq> []) (write_yaml env root file (de_yaml_dynamic env items)))))" for error items
      using parts_bind [OF log parts_file] by simp
    then show ?thesis
      by (simp add: Inr Some) (rule parts_opt, auto simp: dynamic_part_def Inr Some)
  qed
qed

lemma parts_vscont: "parts env [] (snapshot_part root driver) (dump_vscont_and_vs_class env driver root)"
proof -
  let ?classes = "pio_of (io_call (VsClasses root driver) (\<lambda>h. de_vs_classes env h root driver))"
  let ?contents = "pio_of (io_call (VsContents root driver) (\<lambda>h. de_vs_contents env h root driver))"
  have steps: "list_all2 (case_prod (parts env)) [([], Some [VsClasses root driver]), ([], Some [VsContents root driver])]
      [?classes, ?contents]"
    using parts_call [of "\<lambda>h. de_vs_classes env h root driver" env "VsClasses root driver"]
      parts_call [of "\<lambda>h. de_vs_contents env h root driver" env "VsContents root driver"] by simp
  have verdict: "parts env [] (if errors = [] then Some [] else None)
      (pio_of (if errors \<noteq> [] then io_err (K8sResourceDumperError (DumperMultipleErrors errors)) else io_ok ()))" for errors
    by (auto simp: parts_def io_simps is_ok_iff)
  have "parts env [] (Some [CreateDir root]) (pio_of (io_call (CreateDir root) (\<lambda>h. de_create_dir env h root)))"
    using parts_call [of "\<lambda>h. de_create_dir env h root" env "CreateDir root"] by simp
  from parts_bind [OF this parts_collect [OF steps verdict, simplified]] show ?thesis
    by (simp add: dump_vscont_and_vs_class_def snapshot_part_def)
qed

definition zfs_mark :: dump_call where
  "zfs_mark = Log (LogText ''Collecting ZFS LocalPV Specific Resources...'')"

definition lvm_mark :: dump_call where
  "lvm_mark = Log (LogText ''Collecting LVM LocalPV Specific Resources...'')"

lemma parts_reported:
  assumes "list_all2 (case_prod (parts env)) LXs steps" and "\<not> mark (Log (LogText msg))"
    and "\<And>x. parts env [] (Some []) (f x)"
  shows "parts env (concat (map fst LXs)) (all_parts (map snd LXs))
    (pio_bind (collect_errors steps []) (\<lambda>errors. pio_bind (fail_with msg errors) f))"
  using parts_collect [OF assms(1), where Y = "Some []" and f = "\<lambda>errors. pio_bind (fail_with msg errors) f"]
    parts_bind [OF parts_fail_with [OF assms(2)] assms(3)] by simp

text \<open>The common end of the two engine dumps: the errors are reported, or the dump says it is complete.\<close>

lemma parts_engine_dump:
  assumes "list_all2 (parts env []) Xs steps"
    and "\<not> mark (Log (LogText failed))" and "\<not> mark (Log (LogText complete))"
  shows "parts env [] (all_parts (Some [CreateDir root] # Xs))
    (pio_bind (pio_of (io_call (CreateDir root) (\<lambda>h. de_create_dir env h root))) (\<lambda>_.
     pio_bind (collect_errors steps []) (\<lambda>errors.
     pio_bind (fail_with failed errors) (\<lambda>_. pio_of (log_text complete)))))"
proof -
  have steps: "list_all2 (case_prod (parts env)) (map (Pair []) Xs) steps"
    using assms(1) by (simp add: list.rel_map)
  have complete: "parts env [] (Some []) (pio_of (log_text complete))"
    using assms(3) parts_log [of env "LogText complete"] by (simp add: log_text_def)
  have quiet: "concat (map (\<lambda>X. []) Xs) = ([] :: dump_call list)" by (induction Xs) simp_all
  have "parts env [] (Some [CreateDir root]) (pio_of (io_call (CreateDir root) (\<lambda>h. de_create_dir env h root)))"
    using parts_call [of "\<lambda>h. de_create_dir env h root" env "CreateDir root"] by simp
  moreover have "parts env [] (all_parts Xs) (pio_bind (collect_errors steps []) (\<lambda>errors.
     pio_bind (fail_with failed errors) (\<lambda>_. pio_of (log_text complete))))"
    using parts_reported [OF steps assms(2) complete] by (simp add: quiet comp_def)
  ultimately show ?thesis by (simp only: all_parts.simps) (rule parts_bind)
qed

lemmas lvm_dump_parts = dump_typed_lvm_nodes_def dump_typed_lvm_volumes_def dump_lvm_vscont_and_vs_class_def
  lvm_nodes_def lvm_volumes_def node_list_params_def push_path_def

lemmas zfs_dump_parts = dump_typed_zfs_nodes_def dump_typed_zfs_volumes_def dump_zfs_vscont_and_vs_class_def
  zfs_nodes_def zfs_volumes_def node_list_params_def push_path_def zfs_dynamic_resources_def

lemma parts_lvm_dump: "parts env [lvm_mark] (lvm_part env) (lvm_dump env (de_dir_path env))"
proof -
  have "parts env (filter mark [lvm_mark] @ []) (lvm_part env) (lvm_dump env (de_dir_path env))"
    unfolding lvm_dump_def lvm_part_def Let_def log_text_def [of "''Collecting LVM LocalPV Specific Resources...''"]
      lvm_mark_def push_path_def
    by (rule parts_log_then) (simp del: all_parts.simps, rule parts_engine_dump,
      simp_all add: lvm_dump_parts parts_typed parts_dynamic parts_vscont del: all_parts.simps)
  then show ?thesis by (simp add: lvm_mark_def)
qed

lemma parts_zfs_dump: "parts env [zfs_mark] (zfs_part env) (zfs_dump env (de_dir_path env))"
proof -
  have "parts env (filter mark [zfs_mark] @ []) (zfs_part env) (zfs_dump env (de_dir_path env))"
    unfolding zfs_dump_def zfs_part_def Let_def log_text_def [of "''Collecting ZFS LocalPV Specific Resources...''"]
      zfs_mark_def push_path_def
    by (rule parts_log_then) (simp del: all_parts.simps, rule parts_engine_dump,
      simp_all add: zfs_dump_parts parts_typed parts_dynamic parts_vscont del: all_parts.simps)
  then show ?thesis by (simp add: zfs_mark_def)
qed

definition system_marks :: "bool \<Rightarrow> dump_call list" where
  "system_marks disable_log_collection =
     (if disable_log_collection then [] else [CollectLoki]) @ [DumpCommonK8s, DumpMayastor, zfs_mark, lvm_mark]"

lemma parts_system_dump:
  "parts env (system_marks disable) (all_parts
     [Some (if disable then [] else [CollectLoki]), Some [DumpCommonK8s], Some [DumpMayastor], zfs_part env, lvm_part env])
   (openebs_system_dump env disable)"
proof -
  let ?LXs = "(if disable then [] else [([CollectLoki], Some [CollectLoki])]) @
    [([DumpCommonK8s], Some [DumpCommonK8s]), ([DumpMayastor], Some [DumpMayastor]), ([zfs_mark], zfs_part env),
     ([lvm_mark], lvm_part env)]"
  have "list_all2 (case_prod (parts env)) ?LXs
      ((if \<not> disable then [pio_of (io_call CollectLoki (de_loki env))] else []) @
        [pio_of (io_call DumpCommonK8s (de_common env)),
         pio_of (io_call DumpMayastor (de_mayastor env)),
         zfs_dump env (de_dir_path env),
         lvm_dump env (de_dir_path env)])"
    using parts_call [of "de_loki env" env CollectLoki] parts_call [of "de_common env" env DumpCommonK8s]
      parts_call [of "de_mayastor env" env DumpMayastor]
    by (simp add: parts_zfs_dump parts_lvm_dump)
  from parts_collect [OF this, where Y = "Some []" and f = "fail_with ''Failed to dump system state''"]
  show ?thesis
    unfolding openebs_system_dump_def using parts_fail_with [of "''Failed to dump system state''" env]
    by (cases disable) (simp_all add: system_marks_def)
qed

lemma parts_fill_archive: "parts env [FillArchive] (Some [FillArchive]) (fill_archive env)"
  by (auto simp: parts_def fill_archive_def io_simps split: sum.splits prod.splits)

text \<open>C38: a dump is attempted in full, and its success can be trusted up to lists of dynamic objects. On a
  cluster whose lists end, and if the dumper of Mayastor can be built (it panics otherwise), the command
  returns. Whatever fails, it goes through the logs of loki (unless that is disabled), the common
  resources, Mayastor, the ZFS part, the LVM part and the archive, each once and in this order. It returns
  Ok exactly if every call of these parts, every directory and every file it wrote succeeded, every list
  of typed objects succeeded or its API is missing (404), every dynamic API could be looked up, and every
  list that is not empty could be serialized; then its effects are exactly the ones specified, in their
  order: one file for every typed list that is not empty and for every dynamic kind of which objects were
  collected, and the snapshot classes and contents of both drivers. A failed list request of a dynamic
  kind is no error: what was collected before it is written, and the failure is only logged.\<close>

theorem dump_complete:
  assumes "lists_end env" and "de_new_dumper env h (dump_config_of A) archive_prefix"
  shows "\<exists>r u. execute_resource_dump env A (System disable) h = Some (r, h @ u) \<and>
    filter mark u = system_marks disable @ [FillArchive] \<and>
    (r = Inr () \<longleftrightarrow> all_ok env h u \<and> system_part env disable \<noteq> None) \<and>
    (r = Inr () \<longrightarrow> system_part env disable = Some (filter collects u))"
proof -
  let ?new = "NewSystemDumper (dump_config_of A) archive_prefix"
  let ?rest = "pio_bind (collect_errors [openebs_system_dump env disable, fill_archive env] []) (\<lambda>errors.
     pio_bind (fail_with ''Failed to dump system state'' errors) (\<lambda>_.
     pio_of (io_emit (Println ''Completed collection of dump !!''))))"
  let ?dump = "all_parts
     [Some (if disable then [] else [CollectLoki]), Some [DumpCommonK8s], Some [DumpMayastor], zfs_part env, lvm_part env]"
  have println: "parts env [] (Some []) (pio_of (io_emit (Println s)))" for s
    by (simp add: parts_def io_simps is_ok_iff)
  have "list_all2 (case_prod (parts env)) [(system_marks disable, ?dump), ([FillArchive], Some [FillArchive])]
      [openebs_system_dump env disable, fill_archive env]"
    using parts_system_dump [of env disable] parts_fill_archive [of env] by (simp del: all_parts.simps)
  from parts_reported [OF this, where msg = "''Failed to dump system state''"
      and f = "\<lambda>_. pio_of (io_emit (Println ''Completed collection of dump !!''))", OF _ println]
  have parts: "parts env (system_marks disable @ [FillArchive]) (both_parts ?dump (Some [FillArchive])) ?rest" by simp
  have dump: "both_parts ?dump (Some [FillArchive]) = system_part env disable"
    by (cases "zfs_part env"; cases "lvm_part env") (simp_all add: system_part_def)
  have run: "execute_resource_dump env A (System disable) h = ?rest (h @ [?new])"
    using assms(2) by (simp add: execute_resource_dump_def io_simps)
  obtain r h' where rest: "?rest (h @ [?new]) = Some (r, h')"
    using returnsD [OF returns_execute [OF assms(1)], of A disable h] run by auto
  from partsD [OF parts [unfolded dump] rest] obtain u where "h' = (h @ [?new]) @ u"
    "filter mark u = system_marks disable @ [FillArchive]"
    "is_ok r \<longleftrightarrow> all_ok env (h @ [?new]) u \<and> system_part env disable \<noteq> None"
    "is_ok r \<longrightarrow> system_part env disable = Some (filter collects u)" by auto
  with run rest show ?thesis
    by (intro exI [of _ r] exI [of _ "?new # u"]) (auto simp: is_ok_iff)
qed

section \<open>An example\<close>

text \<open>
  A cluster with two LVM nodes and a dynamic object of every kind, on which every call succeeds but the
  collection of the logs.
\<close>

definition example_node :: "string \<Rightarrow> lvm_node" where
  "example_node name = \<lparr>ln_api_version = ''local.openebs.io/v1alpha1'', ln_kind = ''LVMNode'',
     ln_metadata = example_meta name, ln_volume_groups = []\<rparr>"

definition without_loki :: "string dump_env" where
  "without_loki =
     \<lparr>de_namespace = ''openebs'', de_dir_path = ''/tmp/dump'',
      de_new_dumper = (\<lambda>h config prefix. True),
      de_loki = (\<lambda>h. Inl (OtherDumpError ''no loki'')),
      de_common = (\<lambda>h. Inr ()), de_mayastor = (\<lambda>h. Inr ()), de_fill_archive = (\<lambda>h. Inr ()),
      de_create_dir = (\<lambda>h path. Inr ()), de_write = (\<lambda>h root file contents. Inr ()),
      de_vs_classes = (\<lambda>h root driver. Inr ()), de_vs_contents = (\<lambda>h root driver. Inr ()),
      de_dynamic_api = (\<lambda>ns api_group version kind. Inr (Some (snapshot_server [kind]))),
      de_list_lvm_nodes = (\<lambda>ns. snapshot_server [example_node ''worker-1'', example_node ''worker-2'']),
      de_list_lvm_volumes = (\<lambda>ns. snapshot_server [example_lvm_volume ''pvc-1'']),
      de_list_zfs_nodes = (\<lambda>ns lp. Inl (KubeApi ''NotFound'' 404)),
      de_list_zfs_volumes = (\<lambda>ns lp. Inl (KubeApi ''NotFound'' 404)),
      de_yaml_dynamic = (\<lambda>objs. Inr (concat objs)), de_yaml_lvm_nodes = (\<lambda>objs. Inr ''nodes''),
      de_yaml_lvm_volumes = (\<lambda>objs. Inr ''volumes''), de_yaml_zfs_nodes = (\<lambda>objs. Inr ''nodes''),
      de_yaml_zfs_volumes = (\<lambda>objs. Inr ''volumes'')\<rparr>"

definition example_support_args :: support_args where
  "example_support_args =
     \<lparr>sa_timeout = ''10s'', sa_since = ''24h'', sa_loki_endpoint = None, sa_etcd_endpoint = None,
      sa_output_directory_path = ''./'', sa_namespace = ''openebs'', sa_kubeconfig_path = None,
      sa_kubeconfig_context = None, sa_rest_security = [], sa_tenant_id = ''openebs'',
      sa_logging_label_selectors = ''openebs.io/logging=true''\<rparr>"

lemma without_loki_lists_end: "lists_end without_loki"
  using snapshot.list_pages_returns [of "[example_node ''worker-1'', example_node ''worker-2'']"]
    snapshot.list_pages_returns [of "[example_lvm_volume ''pvc-1'']"] snapshot_100.collect_items_returns
  by (auto simp: lists_end_def without_loki_def lvm_nodes_def lvm_volumes_def zfs_nodes_def zfs_volumes_def
      node_list_params_def list_pages_error)

theorem dump_complete_witness:
  "\<exists>r u. execute_resource_dump without_loki example_support_args (System False) [] = Some (r, u) \<and>
     filter mark u = [CollectLoki, DumpCommonK8s, DumpMayastor, zfs_mark, lvm_mark, FillArchive] \<and> r \<noteq> Inr ()"
proof -
  have "de_new_dumper without_loki [] (dump_config_of example_support_args) archive_prefix"
    by (simp add: without_loki_def)
  from dump_complete [OF without_loki_lists_end this, of False] obtain r u where
    run: "execute_resource_dump without_loki example_support_args (System False) [] = Some (r, u)" and
    marks: "filter mark u = [CollectLoki, DumpCommonK8s, DumpMayastor, zfs_mark, lvm_mark, FillArchive]" and
    ok: "r = Inr () \<longrightarrow> all_ok without_loki [] u"
    by (auto simp: system_marks_def)
  have "CollectLoki \<in> set (filter mark u)" by (simp add: marks)
  then obtain p q where "u = p @ CollectLoki # q" by (auto dest: split_list)
  then have "\<not> all_ok without_loki [] u" by (simp add: without_loki_def)
  with run marks ok show ?thesis by auto
qed

end
