(* ===== verification/Plugin.thy ===== *)
theory Plugin
  imports UpgradeCli Dump
begin

text \<open>
  The kubectl plugin as a program (\<^verbatim>\<open>plugin/src/main.rs\<close>, \<^verbatim>\<open>cli_utils/mod.rs\<close>, \<^verbatim>\<open>cli_utils/mayastor/mod.rs\<close>):
  the context of the command line is handed to the operation, the operation runs, and its result
  becomes the exit code. A process runs one operation, so the calls of an operation start from an
  empty history of its own. The Mayastor operations are code of the \<^verbatim>\<open>kubectl_plugin\<close> crate; parsing the
  command line, tracing and the crypto setup are libraries.
\<close>

section \<open>Errors\<close>

text \<open>\<^verbatim>\<open>kubectl_plugin::resources::Error\<close>; what its variants carry is opaque.\<close>

datatype resources_error =
    ResGeneric string
  | ResUpgrade string
  | ResRestPlugin string
  | ResRestClient string

text \<open>What \<^verbatim>\<open>anyhow::Error\<close> holds here.\<close>

datatype any_error =
    AnyText string
  | AnyUpgrade plugin_error
  | AnyDump dump_error
  | Interrupted string

datatype cli_error =
    MayastorError resources_error
  | LocalpvLvmError lpv_error
  | LocalpvZfsError lpv_error
  | HostpathError lpv_error
  | GenericError any_error

fun from_resources_error :: "resources_error \<Rightarrow> cli_error" where
  "from_resources_error (ResGeneric error) = MayastorError (ResGeneric error)"
| "from_resources_error (ResUpgrade error) = MayastorError (ResUpgrade error)"
| "from_resources_error (ResRestPlugin error) = MayastorError (ResRestPlugin error)"
| "from_resources_error (ResRestClient error) = MayastorError (ResRestClient error)"

section \<open>Operations\<close>

record mayastor_args =
  ma_operation :: string
  ma_rest :: string
  ma_namespace :: string
  ma_kubeconfig :: "string option"
  ma_context :: "string option"

datatype operations =
    OpMayastor mayastor_args
  | OpLvm lvm_get localpv_cli_args
  | OpZfs zfs_get localpv_cli_args
  | OpHostpath hostpath_get localpv_cli_args
  | OpUpgrade upgrade_common_args k8s_ctx_args "upgrade_subcommand option"
  | OpDump dump_resource support_args

text \<open>Calls of the process; \<open>Eprintln\<close> prints an error.\<close>

datatype cli_call =
    OnUpgrade plugin_call
  | OnLocalPv "lpv_record lpv_call"
  | OnDump dump_call
  | InitRest mayastor_args
  | MayastorExecute mayastor_args
  | Eprintln cli_error

type_synonym cli_pio = "(cli_call, cli_error, unit) pio"

text \<open>
  The outside world of the process. \<open>pl_shutdown\<close> is a signal that arrives before the operation is
  done, with the calls the operation had made by then.
\<close>

record ('v, 'u, 'd) plugin_world =
  pl_kube :: kube_conf_env
  pl_upgrade_env :: "k8s_ctx_args \<Rightarrow> 'v plugin_env"
  pl_localpv_env :: "'u lpv_env"
  pl_dump_env :: "support_args \<Rightarrow> 'd dump_env"
  pl_init_rest :: "mayastor_args \<Rightarrow> resources_error + unit"
  pl_mayastor_execute :: "mayastor_args \<Rightarrow> resources_error + unit"
  pl_upgrade_exit_code :: "string \<Rightarrow> 32 word"
  pl_crypto_exit :: "32 word option"
  pl_shutdown :: "(string \<times> cli_call list) option"

text \<open>An operation in its own vocabulary of calls and errors, as one of the process.\<close>

definition embed :: "('c \<Rightarrow> cli_call) \<Rightarrow> ('e \<Rightarrow> cli_error) \<Rightarrow> ('c, 'e, unit) pio \<Rightarrow> cli_pio" where
  "embed call error m = (\<lambda>h. map_option (\<lambda>(r, t). (map_err error r, h @ map call t)) (m []))"

definition operations_execute ::
  "('v :: linorder) semver \<Rightarrow> ('v, 'u, 'd) plugin_world \<Rightarrow> operations \<Rightarrow> cli_pio" where
  "operations_execute S W op = (case op of
      OpMayastor args \<Rightarrow>
        pio_of (io_map_err from_resources_error (io_bind (io_call (InitRest args) (\<lambda>h. pl_init_rest W args)) (\<lambda>_.
          io_call (MayastorExecute args) (\<lambda>h. pl_mayastor_execute W args))))
    | OpLvm cmd args \<Rightarrow> embed OnLocalPv LocalpvLvmError (lvm_execute (pl_localpv_env W) cmd args)
    | OpZfs cmd args \<Rightarrow> embed OnLocalPv LocalpvZfsError (zfs_execute (pl_localpv_env W) cmd args)
    | OpHostpath cmd args \<Rightarrow> embed OnLocalPv HostpathError (hostpath_execute (pl_localpv_env W) cmd args)
    | OpUpgrade args ctx sub \<Rightarrow>
        embed OnUpgrade (\<lambda>e. GenericError (AnyUpgrade e)) (upgrade_execute S (pl_upgrade_env W ctx) args sub)
    | OpDump resource args \<Rightarrow>
        embed OnDump (\<lambda>e. GenericError (AnyDump e)) (execute_resource_dump (pl_dump_env W args) args resource))"

text \<open>\<^verbatim>\<open>CliArgs::execute\<close>: the operation, or the signal, whichever comes first.\<close>

definition cli_execute ::
  "('v :: linorder) semver \<Rightarrow> ('v, 'u, 'd) plugin_world \<Rightarrow> operations \<Rightarrow> cli_pio" where
  "cli_execute S W op = (case pl_shutdown W of
      Some (sig, made) \<Rightarrow> (\<lambda>h. Some (Inl (GenericError (Interrupted sig)), h @ made))
    | None \<Rightarrow> operations_execute S W op)"

section \<open>The command line\<close>

text \<open>\<^verbatim>\<open>CliArgs::args\<close>: the options for the whole plugin are copied into those of the operation.\<close>

definition cli_args :: "kube_conf_env \<Rightarrow> k8s_ctx_args \<Rightarrow> operations \<Rightarrow> string + operations" where
  "cli_args F ctx op = (case op of
      OpMayastor args \<Rightarrow> res_bind (ctx_namespace F ctx) (\<lambda>ns.
        Inr (OpMayastor (args\<lparr>ma_namespace := ns, ma_kubeconfig := cx_kubeconfig ctx, ma_context := cx_context ctx\<rparr>)))
    | OpLvm cmd args \<Rightarrow> Inr (OpLvm cmd (args\<lparr>la_ctx := ctx\<rparr>))
    | OpZfs cmd args \<Rightarrow> Inr (OpZfs cmd (args\<lparr>la_ctx := ctx\<rparr>))
    | OpHostpath cmd args \<Rightarrow> Inr (OpHostpath cmd (args\<lparr>la_ctx := ctx\<rparr>))
    | OpUpgrade args _ sub \<Rightarrow> res_bind (ctx_namespace F ctx) (\<lambda>ns.
        Inr (OpUpgrade (args\<lparr>uc_namespace := ns\<rparr>) ctx sub))
    | OpDump resource args \<Rightarrow> res_bind (ctx_namespace F ctx) (\<lambda>ns.
        Inr (OpDump resource (args\<lparr>sa_kubeconfig_path := cx_kubeconfig ctx, sa_kubeconfig_context := cx_context ctx,
          sa_namespace := ns\<rparr>))))"

section \<open>The end of the process\<close>

text \<open>A panic ends the process as well, with a code of the runtime.\<close>

datatype ending = Exit "32 word" | Panicked

fun panics :: "cli_error \<Rightarrow> bool" where
  "panics (LocalpvLvmError e) = (e = LpvPanic)"
| "panics (LocalpvZfsError e) = (e = LpvPanic)"
| "panics (HostpathError e) = (e = LpvPanic)"
| "panics (GenericError (AnyDump e)) = (e = DumperPanic)"
| "panics (GenericError (AnyUpgrade e)) = (e = ImageError UnwrapPanic)"
| "panics _ = False"

definition exit_code_of :: "('v, 'u, 'd) plugin_world \<Rightarrow> cli_error \<Rightarrow> 32 word" where
  "exit_code_of W error = (case error of
      MayastorError (ResUpgrade e) \<Rightarrow> pl_upgrade_exit_code W e
    | _ \<Rightarrow> 1)"

definition plugin_main ::
  "('v :: linorder) semver \<Rightarrow> ('v, 'u, 'd) plugin_world \<Rightarrow> k8s_ctx_args \<Rightarrow> operations \<Rightarrow>
    (ending \<times> cli_call list) option" where
  "plugin_main S W ctx op = (case cli_args (pl_kube W) ctx op of
      Inl e \<Rightarrow> Some (Exit 1, [Eprintln (GenericError (AnyText e))])
    | Inr op' \<Rightarrow> (case pl_crypto_exit W of
        Some code \<Rightarrow> Some (Exit code, [])
      | None \<Rightarrow> (case cli_execute S W op' [] of
          None \<Rightarrow> None
        | Some (Inr _, h) \<Rightarrow> Some (Exit 0, h)
        | Some (Inl e, h) \<Rightarrow>
            if panics e then Some (Panicked, h) else Some (Exit (exit_code_of W e), h @ [Eprintln e]))))"

section \<open>Exit codes\<close>

text \<open>A process that is not stopped by the crypto setup exits with 0 exactly for an operation that succeeded.\<close>

lemma exit_zero_iff:
  assumes "pl_crypto_exit W = None" and "\<And>e. pl_upgrade_exit_code W e \<noteq> 0"
  shows "plugin_main S W ctx op = Some (Exit 0, calls) \<longleftrightarrow>
    (\<exists>op'. cli_args (pl_kube W) ctx op = Inr op' \<and> cli_execute S W op' [] = Some (Inr (), calls))"
  using assms
  by (auto simp: plugin_main_def exit_code_of_def split: sum.splits option.splits cli_error.splits resources_error.splits if_splits)

text \<open>The errors of an upgrade never have a code of their own.\<close>

lemma upgrade_exit_zero:
  assumes "plugin_main S W ctx (OpUpgrade args c sub) = Some (Exit 0, calls)" and "pl_crypto_exit W = None"
  shows "\<exists>ns t. ctx_namespace (pl_kube W) ctx = Inr ns \<and>
    upgrade_execute S (pl_upgrade_env W ctx) (args\<lparr>uc_namespace := ns\<rparr>) sub [] = Some (Inr (), t) \<and>
    calls = map OnUpgrade t"
proof -
  from assms obtain ns where ns: "ctx_namespace (pl_kube W) ctx = Inr ns"
    by (auto simp: plugin_main_def cli_args_def split: sum.splits)
  let ?up = "upgrade_execute S (pl_upgrade_env W ctx) (args\<lparr>uc_namespace := ns\<rparr>) sub []"
  from assms ns obtain r t where "?up = Some (r, t)"
    by (auto simp: plugin_main_def cli_args_def cli_execute_def operations_execute_def embed_def exit_code_of_def
        split: option.splits sum.splits if_splits)
  with assms ns show ?thesis
    by (cases r) (auto simp: plugin_main_def cli_args_def cli_execute_def operations_execute_def embed_def exit_code_of_def
        split: option.splits if_splits)
qed

lemma upgrade_execute_success:
  assumes "upgrade_execute S env args None h = Some (Inr (), h')"
  shows "\<exists>rel h1 h2. release_name_of env args h = (Inr rel, h1) \<and>
    upgrade_preflight_check S env args rel h1 = Some (Inr (), h2) \<and> apply_upgrade env args rel h2 = (Inr (), h')"
  using assms by (auto simp: upgrade_execute_def pio_bind_Inr_iff pio_apply(1))

text \<open>C39: what exit code 0 of \<^verbatim>\<open>openebs upgrade\<close> means, from the command line down to the cluster, when the setup
  of the crypto provider has not ended the program and the REST server has any finite list of volumes. The namespace
  is the one given or the default of the client; the helm release of that namespace could be read; if
  Mayastor is enabled in it, every preflight check that was not skipped found the installation safe (without
  Mayastor none is run); and each of the five objects of the upgrade was sent to the API server.\<close>

theorem plugin_upgrade_exit_zero:
  assumes "plugin_main S W ctx (OpUpgrade args c None) = Some (Exit 0, calls)" and "pl_crypto_exit W = None"
    and "pl_upgrade_env W ctx = serve_volumes env vols"
  shows "\<exists>ns A rel release h1 data set_file props. ctx_namespace (pl_kube W) ctx = Inr ns \<and>
    A = args\<lparr>uc_namespace := ns\<rparr> \<and>
    new_from_cluster (pe_helm env h1) (uc_helm_storage_driver A) rel ns = Inr release \<and>
    (mayastor_is_enabled release \<longrightarrow> preflight_safe S env vols A release) \<and>
    (\<forall>(target, obj) \<in> set (upgrade_objects (pe_consts env) A rel data (upgrade_job (pe_consts env) A rel set_file props)).
       OnUpgrade (CreateObject (create_target target obj) obj) \<in> set calls)"
proof -
  from upgrade_exit_zero [OF assms(1,2)] obtain ns t where ns: "ctx_namespace (pl_kube W) ctx = Inr ns" and
    run: "upgrade_execute S (serve_volumes env vols) (args\<lparr>uc_namespace := ns\<rparr>) None [] = Some (Inr (), t)" and
    calls: "calls = map OnUpgrade t"
    unfolding assms(3) by blast
  define A where "A = args\<lparr>uc_namespace := ns\<rparr>"
  from upgrade_execute_success [OF run [folded A_def]] obtain rel h1 h2 where
    pre: "upgrade_preflight_check S (serve_volumes env vols) A rel h1 = Some (Inr (), h2)" and
    start: "apply_upgrade (serve_volumes env vols) A rel h2 = (Inr (), t)" by blast
  from preflight_success [OF pre] obtain release where
    release: "new_from_cluster (pe_helm env h1) (uc_helm_storage_driver A) rel ns = Inr release"
      "mayastor_is_enabled release \<longrightarrow> preflight_safe S env vols A release"
    by (auto simp: A_def)
  from apply_upgrade_result [OF start] obtain u v w data set_file props where t: "t = h2 @ u @ v @ w" and
    "list_all (\<lambda>(ns, obj). create_accepted (serve_volumes env vols) (h2 @ u) (h2 @ u @ v) ns obj)
      (upgrade_objects (pe_consts env) A rel data (upgrade_job (pe_consts env) A rel set_file props))"
    by auto
  then have "\<forall>(target, obj) \<in> set (upgrade_objects (pe_consts env) A rel data (upgrade_job (pe_consts env) A rel set_file props)).
       OnUpgrade (CreateObject (create_target target obj) obj) \<in> set calls"
    unfolding calls t list_all_iff create_accepted_def by fastforce
  with ns release show ?thesis unfolding A_def by blast
qed

section \<open>An example\<close>

text \<open>A kind cluster with a 4.2.0 release without Mayastor, and a plugin of version 4.3.0.\<close>

definition example_world :: "(release, 128 word, string) plugin_world" where
  "example_world =
     \<lparr>pl_kube = \<lparr>kf_config_from_kubeconfig = \<lambda>path context. Inr example_client, kf_client_try_from = \<lambda>config. Inr ()\<rparr>,
      pl_upgrade_env = (\<lambda>ctx. cluster_env (Some ''v4.3.0'') (v4_release False (Release 4 2 0 []))),
      pl_localpv_env = empty_env, pl_dump_env = (\<lambda>args. without_loki),
      pl_init_rest = (\<lambda>args. Inr ()), pl_mayastor_execute = (\<lambda>args. Inr ()),
      pl_upgrade_exit_code = (\<lambda>e. 2), pl_crypto_exit = None, pl_shutdown = None\<rparr>"

definition no_ctx :: k8s_ctx_args where
  "no_ctx = \<lparr>cx_namespace = None, cx_kubeconfig = None, cx_context = None\<rparr>"

lemma example_serves_no_volumes: "serve_volumes (cluster_env tag release) [] = cluster_env tag release"
  by (simp add: serve_volumes_def cluster_env_def store_env_def healthy_env_def)

lemma example_namespace: "ctx_namespace (pl_kube example_world) no_ctx = Inr ''openebs''"
  by (simp add: ctx_namespace_def ctx_client_def no_ctx_def example_world_def example_client_def)

lemma example_upgrade:
  "\<exists>calls. plugin_main release_semver example_world no_ctx (OpUpgrade default_args no_ctx None) = Some (Exit 0, calls)"
proof -
  have "default_args\<lparr>uc_namespace := ''openebs''\<rparr> = default_args" by (simp add: default_args_def)
  moreover obtain t where "upgrade_execute release_semver (pl_upgrade_env example_world no_ctx) default_args None [] = Some (Inr (), t)"
    using disabled_execute by (auto simp: example_world_def)
  moreover have "pl_shutdown example_world = None" "pl_crypto_exit example_world = None"
    by (simp_all add: example_world_def)
  ultimately show ?thesis
    by (simp add: plugin_main_def cli_args_def example_namespace cli_execute_def operations_execute_def embed_def)
qed

theorem plugin_upgrade_exit_zero_witness:
  "\<exists>calls target obj. plugin_main release_semver example_world no_ctx (OpUpgrade default_args no_ctx None) = Some (Exit 0, calls) \<and>
     OnUpgrade (CreateObject (create_target target obj) obj) \<in> set calls"
proof -
  obtain calls where run: "plugin_main release_semver example_world no_ctx (OpUpgrade default_args no_ctx None) = Some (Exit 0, calls)"
    using example_upgrade by blast
  moreover have "pl_crypto_exit example_world = None" by (simp add: example_world_def)
  moreover have "pl_upgrade_env example_world no_ctx =
      serve_volumes (cluster_env (Some ''v4.3.0'') (v4_release False (Release 4 2 0 []))) []"
    unfolding example_serves_no_volumes by (simp add: example_world_def)
  ultimately obtain A rel data set_file props where
    "\<forall>(target, obj) \<in> set (upgrade_objects (pe_consts (cluster_env (Some ''v4.3.0'') (v4_release False (Release 4 2 0 [])))) A rel data
        (upgrade_job (pe_consts (cluster_env (Some ''v4.3.0'') (v4_release False (Release 4 2 0 [])))) A rel set_file props)).
       OnUpgrade (CreateObject (create_target target obj) obj) \<in> set calls"
    using plugin_upgrade_exit_zero by blast
  with run show ?thesis by (auto simp: upgrade_objects_def Let_def)
qed

end
