(* ===== verification/JobEnv.thy ===== *)
theory JobEnv
  imports Semver Tasks
begin

text \<open>
  The outside world of the upgrade job (\<^verbatim>\<open>openebs-upgrade\<close>): the calls it makes, its errors
  (\<^verbatim>\<open>error.rs\<close>) and the answers it gets. The helm client, the Kubernetes client, the event recorder
  and the data-plane upgrade come from the \<^verbatim>\<open>upgrade\<close> crate of Mayastor, which is not part of the
  repository; every answer may depend on the calls made before. A panic of the job is an error value,
  \<open>LibPanic\<close> or \<open>JobPanic\<close>, that nothing catches.
\<close>

section \<open>Data\<close>

text \<open>\<^verbatim>\<open>HelmReleaseClient\<close> as it is built here, and the getters of \<^verbatim>\<open>HelmValuesCollection\<close> that are used.\<close>

record helm_release_client =
  hcl_namespace :: string
  hcl_storage_driver :: string

record helm_values =
  fv_mayastor_enabled :: bool
  fv_partial_rebuild_enabled :: bool
  fv_ha_enabled :: bool

record command_output =
  out_success :: bool
  out_stdout :: string
  out_stderr :: string

type_synonym envs = "(string \<times> string) list"

text \<open>Metadata of a path as far as it is looked at.\<close>

datatype file_type = IsDir | IsFile | IsOther

definition is_dir :: "file_type \<Rightarrow> bool" where
  "is_dir m = (m = IsDir)"

definition is_file :: "file_type \<Rightarrow> bool" where
  "is_file m = (m = IsFile)"

record 'v helm_chart_metadata =
  hm_chart :: string
  hm_status :: string
  hm_version :: 'v

section \<open>Errors\<close>

text \<open>
  Errors of the Mayastor crate: its own, and the one that is constructed here. A panic ends the run like
  an error: in a function with errors of that crate it is \<open>LibPanic\<close>, in the others \<open>JobPanic\<close>.
\<close>

datatype lib_error =
    LibError string
  | LibPanic
  | PartialRebuildNotAllowed string string string

datatype 'v upgrade_error =
    FailedTokioCommand string string "string list" envs
  | CommandFailed string "string list" envs command_output
  | ByteVectorToString string
  | TrimVOffFromVersion
  | ParseSemverVersion string
  | InvalidHelmVersion string string
  | FailedYamlVecDeserialize string string
  | InvalidHelmChart string
  | InvalidChartVersion 'v
  | InvalidChartStatus string
  | FailedToGetChartPathMetadata string string
  | MalformedHelmChartDir string
  | FailedTokioSpawn string
  | FailedHelmReleaseClientBuild lib_error
  | FailedToGetLocalChartVersion lib_error
  | DowngradeNotSupported 'v 'v
  | FailedUpgrade lib_error
  | FailedTempFileCreation string string
  | FailedCheckingInstallingCRDs lib_error
  | EventRecorderBuild lib_error
  | JobPanic

section \<open>Calls and answers\<close>

datatype job_call =
    Exec string "string list" envs
  | StatPath string
  | ReadChartVersion string
  | NewTempFile string
  | NewYq
  | ListCrds
  | YqSet string bool string
  | HelmUpgrade helm_release_client string string "string list"
  | HelmGetValues helm_release_client string
  | DeleteLokiSts string string
  | ListJobPods string string
  | LatestRevisionHash string string string
  | DiscoverRest string string "string option list"
  | UpgradeDataPlane string string bool string "string list"
  | SetSourceVersion string
  | SetTargetVersion string
  | PublishNormal string string
  | PublishFatal lib_error string
  | BuildEventRecorder string string string
  | ShutdownWorker

record 'v job_env =
  je_io_engine_label :: string
  je_revision_hash_key :: string
  je_umbrella_chart_name :: string
  je_exec :: "job_call list \<Rightarrow> string \<Rightarrow> string list \<Rightarrow> envs \<Rightarrow> string + command_output"
  je_parse_metadata :: "string \<Rightarrow> string + 'v helm_chart_metadata"
  je_stat :: "job_call list \<Rightarrow> string \<Rightarrow> string + file_type"
  je_chart_version :: "job_call list \<Rightarrow> string \<Rightarrow> lib_error + 'v"
  je_temp_file :: "job_call list \<Rightarrow> string \<Rightarrow> string + string"
  je_yq :: "job_call list \<Rightarrow> lib_error + unit"
  je_yaml_key :: "string \<Rightarrow> lib_error + unit"
  je_list_crds :: "job_call list \<Rightarrow> lib_error + string option list"
  je_yq_set :: "job_call list \<Rightarrow> string \<Rightarrow> bool \<Rightarrow> string \<Rightarrow> lib_error + unit"
  je_client_build :: "helm_release_client \<Rightarrow> lib_error + unit"
  je_helm_upgrade :: "job_call list \<Rightarrow> helm_release_client \<Rightarrow> string \<Rightarrow> string \<Rightarrow> string list \<Rightarrow> lib_error + unit"
  je_get_values :: "job_call list \<Rightarrow> helm_release_client \<Rightarrow> string \<Rightarrow> lib_error + string"
  je_umbrella_values :: "string \<Rightarrow> lib_error + helm_values"
  je_delete_loki :: "job_call list \<Rightarrow> string \<Rightarrow> string \<Rightarrow> lib_error + unit"
  je_list_pods :: "job_call list \<Rightarrow> string \<Rightarrow> string \<Rightarrow> lib_error + string list"
  je_revision_hash :: "job_call list \<Rightarrow> string \<Rightarrow> string \<Rightarrow> string \<Rightarrow> lib_error + string"
  je_discover_rest :: "job_call list \<Rightarrow> string \<Rightarrow> string \<Rightarrow> string option list \<Rightarrow> lib_error + unit"
  je_upgrade_data_plane :: "job_call list \<Rightarrow> string \<Rightarrow> string \<Rightarrow> bool \<Rightarrow> string \<Rightarrow> string list \<Rightarrow> lib_error + unit"
  je_publish_normal :: "job_call list \<Rightarrow> string \<Rightarrow> string \<Rightarrow> lib_error + unit"
  je_build_recorder :: "job_call list \<Rightarrow> lib_error + unit"
  je_toggle_order :: "job_call list \<Rightarrow> (string list \<times> string) list \<Rightarrow> (string list \<times> string) list"
  je_schedule :: "job_call list \<Rightarrow> pick list"
  je_first_error :: "job_call list \<Rightarrow> nat"

type_synonym 'a lib_io = "(job_call, lib_error, 'a) io"
type_synonym ('v, 'a) job_io = "(job_call, 'v upgrade_error, 'a) io"
type_synonym ('v, 'a) job_task = "(job_call, 'v upgrade_error, 'a) task"

section \<open>Kinds of calls\<close>

text \<open>
  A helm upgrade with \<^verbatim>\<open>--dry-run\<close> as its last argument changes nothing (further in front the word may
  be the value of an option).
\<close>

definition is_dry_run :: "string list \<Rightarrow> bool" where
  "is_dry_run args = (args \<noteq> [] \<and> last args = ''--dry-run'')"

text \<open>The calls that change the installation.\<close>

fun changes :: "job_call \<Rightarrow> bool" where
  "changes (HelmUpgrade client rel dir args) = (\<not> is_dry_run args)"
| "changes (DeleteLokiSts rel ns) = True"
| "changes (UpgradeDataPlane ns hash ha label pods) = True"
| "changes _ = False"

text \<open>The actions of the events that are published.\<close>

fun published :: "job_call list \<Rightarrow> string list" where
  "published [] = []"
| "published (PublishNormal note action # cs) = action # published cs"
| "published (PublishFatal err action # cs) = action # published cs"
| "published (_ # cs) = published cs"

lemma published_append [simp]: "published (u @ v) = published u @ published v"
  by (induction u rule: published.induct) auto

definition silent :: "job_call \<Rightarrow> bool" where
  "silent c \<longleftrightarrow> published [c] = []"

lemma silent_simps [simp]:
  "silent (Exec c a e)" "silent (StatPath p)" "silent (ReadChartVersion p)" "silent (NewTempFile p)"
  "silent NewYq" "silent ListCrds" "silent (YqSet k b p)"
  "silent (HelmUpgrade cl r d xs)" "silent (HelmGetValues cl r)" "silent (DeleteLokiSts r n)"
  "silent (ListJobPods n s)" "silent (LatestRevisionHash n l k)" "silent (DiscoverRest n r opts)"
  "silent (UpgradeDataPlane n hs ha lb pods)" "silent (SetSourceVersion s)" "silent (SetTargetVersion s)"
  "silent (BuildEventRecorder pod ns product)" "silent ShutdownWorker"
  by (simp_all add: silent_def)

lemma published_silent: "list_all silent u \<Longrightarrow> published u = []"
proof (induction u)
  case Nil
  then show ?case by simp
next
  case (Cons c u)
  then show ?case using published_append [of "[c]" u] by (simp add: silent_def)
qed

end
