(* ===== verification/HelmUpgrade.thy ===== *)
theory HelmUpgrade
  imports JobEnv
begin

text \<open>
  The upgrade itself: the steps of the umbrella chart (\<^verbatim>\<open>helm/upgrade/upgrader.rs\<close>), the order of
  dry run, upgrade, data plane and events (\<^verbatim>\<open>helm/upgrade.rs\<close>), and the data-plane upgrade
  (\<^verbatim>\<open>helm/data_plane_upgrader.rs\<close>). \<^verbatim>\<open>HelmUpgrader\<close> is a trait object: a record of its three
  methods, with the contract \<open>helm_upgrader_api\<close> that the umbrella upgrader meets.
\<close>

section \<open>The trait\<close>

text \<open>A dry run returns the computation that will do the real upgrade.\<close>

record 'v helm_upgrader =
  hu_dry_run :: "(helm_values lib_io) lib_io"
  hu_source_version :: 'v
  hu_target_version :: 'v

section \<open>The umbrella chart\<close>

record 'v umbrella_upgrader =
  uu_chart_dir :: string
  uu_release_name :: string
  uu_namespace :: string
  uu_client :: helm_release_client
  uu_helm_upgrade_extra_args :: "string list"
  uu_temp_values_file :: string
  uu_source_version :: 'v
  uu_target_version :: 'v

definition helm_upgrade :: "'v job_env \<Rightarrow> 'v umbrella_upgrader \<Rightarrow> string list \<Rightarrow> unit lib_io" where
  "helm_upgrade env U args =
     io_call (HelmUpgrade (uu_client U) (uu_release_name U) (uu_chart_dir U) args)
       (\<lambda>h. je_helm_upgrade env h (uu_client U) (uu_release_name U) (uu_chart_dir U) args)"

definition etcd_selector :: "string \<Rightarrow> string" where
  "etcd_selector release_name =
     ''app.kubernetes.io/name=etcd,app.kubernetes.io/instance='' @ release_name"

definition pre_upgrade_job_args :: "string \<Rightarrow> string list" where
  "pre_upgrade_job_args value = [''--set'', ''mayastor.etcd.preUpgradeJob.enabled='' @ value]"

definition umbrella_runner :: "('v :: linorder) semver \<Rightarrow> 'v job_env \<Rightarrow> 'v umbrella_upgrader \<Rightarrow> helm_values lib_io" where
  "umbrella_runner S env U =
     io_bind (io_when (three_dot_four_dot_one S \<le> uu_source_version U \<and> uu_source_version U < four_dot_three S)
         (io_call (DeleteLokiSts (uu_release_name U) (uu_namespace U))
           (\<lambda>h. je_delete_loki env h (uu_release_name U) (uu_namespace U)))) (\<lambda>_.
     io_bind (if uu_source_version U < four_dot_o S then
           io_bind (io_call (ListJobPods (uu_namespace U) (etcd_selector (uu_release_name U)))
             (\<lambda>h. je_list_pods env h (uu_namespace U) (etcd_selector (uu_release_name U)))) (\<lambda>etcd_pods.
           io_ok (etcd_pods = []))
         else io_ok False) (\<lambda>without_etcd.
     io_bind (if without_etcd then
           io_bind (helm_upgrade env U (uu_helm_upgrade_extra_args U @ pre_upgrade_job_args ''false'')) (\<lambda>_.
           helm_upgrade env U (uu_helm_upgrade_extra_args U @ pre_upgrade_job_args ''true''))
         else helm_upgrade env U (uu_helm_upgrade_extra_args U)) (\<lambda>_.
     io_bind (io_call (HelmGetValues (uu_client U) (uu_release_name U))
         (\<lambda>h. je_get_values env h (uu_client U) (uu_release_name U))) (\<lambda>buf.
     io_res (je_umbrella_values env buf)))))"

definition umbrella_dry_run ::
  "('v :: linorder) semver \<Rightarrow> 'v job_env \<Rightarrow> 'v umbrella_upgrader \<Rightarrow> (helm_values lib_io) lib_io" where
  "umbrella_dry_run S env U =
     io_bind (helm_upgrade env U (uu_helm_upgrade_extra_args U @ [''--dry-run''])) (\<lambda>_.
     io_ok (umbrella_runner S env U))"

definition umbrella_helm_upgrader ::
  "('v :: linorder) semver \<Rightarrow> 'v job_env \<Rightarrow> 'v umbrella_upgrader \<Rightarrow> 'v helm_upgrader" where
  "umbrella_helm_upgrader S env U =
     \<lparr>hu_dry_run = umbrella_dry_run S env U,
      hu_source_version = uu_source_version U,
      hu_target_version = uu_target_version U\<rparr>"

section \<open>The data plane\<close>

record data_plane_upgrader =
  dp_namespace :: string
  dp_release_name :: string
  dp_rest_endpoint :: "string option"
  dp_jwt :: "string option"
  dp_tls_ca_file :: "string option"
  dp_tls_cert_file :: "string option"
  dp_tls_key_file :: "string option"

definition rest_options :: "data_plane_upgrader \<Rightarrow> string option list" where
  "rest_options D = [dp_rest_endpoint D, dp_jwt D, dp_tls_ca_file D, dp_tls_cert_file D, dp_tls_key_file D]"

definition data_plane_run ::
  "'v job_env \<Rightarrow> data_plane_upgrader \<Rightarrow> helm_values \<Rightarrow> string \<Rightarrow> string \<Rightarrow> string list \<Rightarrow> unit lib_io" where
  "data_plane_run env D final_values latest_hash label pods =
     io_bind (io_call (DiscoverRest (dp_namespace D) (dp_release_name D) (rest_options D))
         (\<lambda>h. je_discover_rest env h (dp_namespace D) (dp_release_name D) (rest_options D))) (\<lambda>_.
     io_call (UpgradeDataPlane (dp_namespace D) latest_hash (fv_ha_enabled final_values) label pods)
       (\<lambda>h. je_upgrade_data_plane env h (dp_namespace D) latest_hash (fv_ha_enabled final_values) label pods))"

definition mayastor_partial_rebuild_check ::
  "('v :: linorder) semver \<Rightarrow> string \<Rightarrow> 'v \<Rightarrow> bool \<Rightarrow> lib_error + unit" where
  "mayastor_partial_rebuild_check S umbrella_chart_name source_version partial_rebuild_is_enabled =
     (let extents = partial_rebuild_disable_extents S in
      ensure (\<not> (fst extents \<le> source_version \<and> source_version \<le> snd extents \<and> partial_rebuild_is_enabled))
        (PartialRebuildNotAllowed umbrella_chart_name (ver_to_string S (fst extents)) (ver_to_string S (snd extents))))"

text \<open>Publishing, when there is a recorder. A fatal event is published without looking at the outcome.\<close>

definition publish_normal :: "'v job_env \<Rightarrow> bool \<Rightarrow> string \<Rightarrow> string \<Rightarrow> unit lib_io" where
  "publish_normal env ev note action =
     io_when ev (io_call (PublishNormal note action) (\<lambda>h. je_publish_normal env h note action))"

definition or_fatal :: "bool \<Rightarrow> string \<Rightarrow> 'a lib_io \<Rightarrow> 'a lib_io" where
  "or_fatal ev action m =
     io_or_else m (\<lambda>err. io_bind (io_when ev (io_emit (PublishFatal err action))) (\<lambda>_. io_err err))"

definition mayastor_data_plane_upgrade ::
  "('v :: linorder) semver \<Rightarrow> 'v job_env \<Rightarrow> data_plane_upgrader \<Rightarrow> helm_values \<Rightarrow> 'v \<Rightarrow> bool \<Rightarrow> unit lib_io" where
  "mayastor_data_plane_upgrade S env D final_values source_version ev =
     (if \<not> fv_mayastor_enabled final_values then
        publish_normal env ev ''Data-plane upgrade not required, Mayastor not enabled'' ''DataPlaneUpgradeNotRequired''
      else
        io_bind (io_res (mayastor_partial_rebuild_check S (je_umbrella_chart_name env) source_version
          (fv_partial_rebuild_enabled final_values))) (\<lambda>_.
        io_bind (io_call (LatestRevisionHash (dp_namespace D) (je_io_engine_label env) (je_revision_hash_key env))
          (\<lambda>h. je_revision_hash env h (dp_namespace D) (je_io_engine_label env) (je_revision_hash_key env)))
          (\<lambda>latest.
        (let label = je_io_engine_label env @ '','' @ je_revision_hash_key env @ ''!='' @ latest in
        io_bind (io_call (ListJobPods (dp_namespace D) label) (\<lambda>h. je_list_pods env h (dp_namespace D) label)) (\<lambda>pods.
        io_bind (publish_normal env ev ''Upgrading data-plane'' ''DataPlaneUpgradeStart'') (\<lambda>_.
        io_bind (or_fatal ev ''FailedDataPlaneUpgrade'' (data_plane_run env D final_values latest label pods)) (\<lambda>_.
        publish_normal env ev ''Upgraded data-plane'' ''DataPlaneUpgradeComplete'')))))))"

section \<open>The whole upgrade\<close>

definition upgrade ::
  "('v :: linorder) semver \<Rightarrow> 'v job_env \<Rightarrow> 'v helm_upgrader \<Rightarrow> data_plane_upgrader option \<Rightarrow> bool \<Rightarrow> unit lib_io" where
  "upgrade S env H data_plane ev =
     io_bind (io_when ev (io_bind (io_emit (SetSourceVersion (ver_to_string S (hu_source_version H)))) (\<lambda>_.
       io_emit (SetTargetVersion (ver_to_string S (hu_target_version H)))))) (\<lambda>_.
     io_bind (or_fatal ev ''FailedHelmUpgradeDryRun'' (hu_dry_run H)) (\<lambda>run_helm_upgrade.
     io_bind (publish_normal env ev ''Upgrading helm chart'' ''HelmUpgradeStart'') (\<lambda>_.
     io_bind (or_fatal ev ''FailedHelmUpgrade'' run_helm_upgrade) (\<lambda>final_values.
     io_bind (publish_normal env ev ''Upgraded helm chart'' ''HelmUpgradeComplete'') (\<lambda>_.
     io_bind (case data_plane of
         Some D \<Rightarrow> mayastor_data_plane_upgrade S env D final_values (hu_source_version H) ev
       | None \<Rightarrow> io_ok ()) (\<lambda>_.
     publish_normal env ev ''Upgrade successful'' ''Success''))))))"

section \<open>The contract of the trait\<close>

text \<open>
  A dry run changes nothing, and neither it nor the computation it returns publishes events: that is
  the business of the caller.
\<close>

locale helm_upgrader_api =
  fixes H :: "('v :: linorder) helm_upgrader"
  assumes dry_run_safe: "emits (\<lambda>c. \<not> changes c \<and> silent c) (hu_dry_run H)"
    and runner_silent: "hu_dry_run H h = (Inr runner, h') \<Longrightarrow> emits silent runner"

lemma emits_helm_upgrade [emits_intros]:
  "P (HelmUpgrade (uu_client U) (uu_release_name U) (uu_chart_dir U) args) \<Longrightarrow> emits P (helm_upgrade env U args)"
  unfolding helm_upgrade_def by (rule emits_call)

lemma umbrella_runner_silent: "emits silent (umbrella_runner S env U)"
  unfolding umbrella_runner_def by (intro emits_intros) simp_all

lemma umbrella_dry_run_result:
  "umbrella_dry_run S env U h = (Inr runner, h') \<Longrightarrow> runner = umbrella_runner S env U"
  by (auto simp: umbrella_dry_run_def io_simps split: prod.splits sum.splits)

interpretation umbrella: helm_upgrader_api "umbrella_helm_upgrader S env U"
proof
  show "emits (\<lambda>c. \<not> changes c \<and> silent c) (hu_dry_run (umbrella_helm_upgrader S env U))"
    unfolding umbrella_helm_upgrader_def umbrella_dry_run_def
    by (simp, intro emits_intros) (simp add: is_dry_run_def)
next
  fix h h' and runner :: "helm_values lib_io"
  assume "hu_dry_run (umbrella_helm_upgrader S env U) h = (Inr runner, h')"
  then have "runner = umbrella_runner S env U"
    by (simp add: umbrella_helm_upgrader_def umbrella_dry_run_result)
  then show "emits silent runner" by (simp add: umbrella_runner_silent)
qed

section \<open>The protocol of the events\<close>

datatype ev_state = Idle | Upgrading | Upgraded | RestartingDataPlane | DataPlaneReady | Succeeded | Failed

definition ev_table :: "(ev_state \<times> string \<times> ev_state) list" where
  "ev_table =
    [(Idle, ''FailedHelmUpgradeDryRun'', Failed),
     (Idle, ''HelmUpgradeStart'', Upgrading),
     (Upgrading, ''FailedHelmUpgrade'', Failed),
     (Upgrading, ''HelmUpgradeComplete'', Upgraded),
     (Upgraded, ''DataPlaneUpgradeNotRequired'', DataPlaneReady),
     (Upgraded, ''DataPlaneUpgradeStart'', RestartingDataPlane),
     (Upgraded, ''Success'', Succeeded),
     (RestartingDataPlane, ''FailedDataPlaneUpgrade'', Failed),
     (RestartingDataPlane, ''DataPlaneUpgradeComplete'', DataPlaneReady),
     (DataPlaneReady, ''Success'', Succeeded)]"

inductive ev_step :: "ev_state \<Rightarrow> string \<Rightarrow> ev_state \<Rightarrow> bool" where
  "(s, action, t) \<in> set ev_table \<Longrightarrow> ev_step s action t"

inductive_simps ev_step_simps: "ev_step s action t"

inductive ev_runs :: "ev_state \<Rightarrow> string list \<Rightarrow> ev_state \<Rightarrow> bool" where
  nil: "ev_runs s [] s"
| cons: "ev_step s a t \<Longrightarrow> ev_runs t as u \<Longrightarrow> ev_runs s (a # as) u"

inductive_cases ev_runs_ConsE: "ev_runs s (a # as) u"

lemma ev_runs_append: "ev_runs s as t \<Longrightarrow> ev_runs t bs u \<Longrightarrow> ev_runs s (as @ bs) u"
  by (induction rule: ev_runs.induct) (auto intro: ev_runs.intros)

lemma ev_runs_actions: "ev_runs s as t \<Longrightarrow> set as \<subseteq> (fst \<circ> snd) ` set ev_table"
  by (induction rule: ev_runs.induct) (force simp: ev_step_simps)+

lemma ev_runs_last: "ev_runs s as Succeeded \<Longrightarrow> s \<noteq> Succeeded \<Longrightarrow> last as = ''Success'' \<and> as \<noteq> []"
proof (induction s as Succeeded rule: ev_runs.induct)
  case (cons s a t as)
  show ?case
  proof (cases "t = Succeeded")
    case True
    with cons have "as = []" by (auto simp: ev_step_simps ev_table_def elim: ev_runs.cases)
    with cons True show ?thesis by (auto simp: ev_step_simps ev_table_def)
  next
    case False
    with cons show ?thesis by simp
  qed
qed simp

text \<open>
  \<open>follows s m Q\<close>: started in state \<open>s\<close>, \<open>m\<close> publishes a run of the protocol and ends with a result and a
  state that satisfy \<open>Q\<close>.
\<close>

definition follows :: "ev_state \<Rightarrow> 'a lib_io \<Rightarrow> (lib_error + 'a \<Rightarrow> ev_state \<Rightarrow> bool) \<Rightarrow> bool" where
  "follows s m Q \<longleftrightarrow> (\<forall>h r h'. m h = (r, h') \<longrightarrow> (\<exists>u t. h' = h @ u \<and> ev_runs s (published u) t \<and> Q r t))"

lemma followsD: "follows s m Q \<Longrightarrow> m h = (r, h') \<Longrightarrow> \<exists>u t. h' = h @ u \<and> ev_runs s (published u) t \<and> Q r t"
  by (auto simp: follows_def)

lemma follows_mono: "follows s m Q \<Longrightarrow> (\<And>r t. Q r t \<Longrightarrow> R r t) \<Longrightarrow> follows s m R"
  unfolding follows_def by blast

lemma follows_silent: "emits silent m \<Longrightarrow> follows s m (\<lambda>r t. t = s)"
  unfolding follows_def by (metis emitsD published_silent ev_runs.nil)

lemma follows_bind:
  assumes m: "follows s m Q" and ok: "\<And>x t h h'. m h = (Inr x, h') \<Longrightarrow> Q (Inr x) t \<Longrightarrow> follows t (f x) R" and err: "\<And>e t. Q (Inl e) t \<Longrightarrow> R (Inl e) t"
  shows "follows s (io_bind m f) R"
  unfolding follows_def
proof (intro allI impI)
  fix h r h'
  assume "io_bind m f h = (r, h')"
  then show "\<exists>u t. h' = h @ u \<and> ev_runs s (published u) t \<and> R r t"
  proof (cases rule: io_bind_cases)
    case (fails e)
    with followsD [OF m] err show ?thesis by blast
  next
    case (continues x h1)
    from followsD [OF m continues(1)] obtain u t where u: "h1 = h @ u" "ev_runs s (published u) t" "Q (Inr x) t"
      by blast
    from followsD [OF ok [OF continues(1) u(3)] continues(2)] obtain v t' where "h' = h1 @ v" "ev_runs t (published v) t'" "R r t'"
      by blast
    with u show ?thesis by (intro exI [of _ "u @ v"] exI [of _ t']) (auto intro: ev_runs_append)
  qed
qed

lemma follows_publish:
  assumes "ev_step s action t"
  shows "follows s (publish_normal env True note action) (\<lambda>r t'. t' = t)"
  unfolding follows_def publish_normal_def
  using ev_runs.cons [OF assms ev_runs.nil] by (auto simp: io_simps intro!: exI [of _ "[PublishNormal note action]"])

text \<open>The step after a computation that publishes nothing itself.\<close>

lemma follows_or_fatal:
  assumes "emits silent m" and "ev_step s action Failed"
  shows "follows s (or_fatal True action m) (\<lambda>r t. t = (case r of Inl _ \<Rightarrow> Failed | Inr _ \<Rightarrow> s))"
  unfolding follows_def
proof (intro allI impI)
  fix h r h'
  assume run: "or_fatal True action m h = (r, h')"
  obtain r1 h1 where m: "m h = (r1, h1)" by fastforce
  from emitsD [OF assms(1) m] obtain u where u: "h1 = h @ u" "published u = []"
    using published_silent by blast
  show "\<exists>u t. h' = h @ u \<and> ev_runs s (published u) t \<and> t = (case r of Inl _ \<Rightarrow> Failed | Inr _ \<Rightarrow> s)"
  proof (cases r1)
    case (Inl e)
    with run m have "r = Inl e" "h' = h @ u @ [PublishFatal e action]" by (auto simp: or_fatal_def io_simps u)
    with u ev_runs.cons [OF assms(2) ev_runs.nil] show ?thesis
      by (intro exI [of _ "u @ [PublishFatal e action]"]) simp
  next
    case (Inr x)
    with run m have "r = Inr x" "h' = h @ u" by (auto simp: or_fatal_def io_simps u)
    with u show ?thesis by (auto intro: ev_runs.nil)
  qed
qed

lemma ev_steps:
  "ev_step Idle ''FailedHelmUpgradeDryRun'' Failed"
  "ev_step Idle ''HelmUpgradeStart'' Upgrading"
  "ev_step Upgrading ''FailedHelmUpgrade'' Failed"
  "ev_step Upgrading ''HelmUpgradeComplete'' Upgraded"
  "ev_step Upgraded ''DataPlaneUpgradeNotRequired'' DataPlaneReady"
  "ev_step Upgraded ''DataPlaneUpgradeStart'' RestartingDataPlane"
  "ev_step Upgraded ''Success'' Succeeded"
  "ev_step RestartingDataPlane ''FailedDataPlaneUpgrade'' Failed"
  "ev_step RestartingDataPlane ''DataPlaneUpgradeComplete'' DataPlaneReady"
  "ev_step DataPlaneReady ''Success'' Succeeded"
  by (simp_all add: ev_step_simps ev_table_def)

lemma or_fatal_Inr: "or_fatal ev action m h = (Inr x, h') \<longleftrightarrow> m h = (Inr x, h')"
  by (auto simp: or_fatal_def io_simps split: prod.splits sum.splits)

abbreviation ends_in :: "ev_state set \<Rightarrow> lib_error + unit \<Rightarrow> ev_state \<Rightarrow> bool" where
  "ends_in A r t \<equiv> (case r of Inr _ \<Rightarrow> t \<in> A | Inl _ \<Rightarrow> True)"

lemma data_plane_run_silent: "emits silent (data_plane_run env D vals hash label pods)"
  unfolding data_plane_run_def by (intro emits_intros) simp_all

lemma data_plane_upgrade_follows:
  "follows Upgraded (mayastor_data_plane_upgrade S env D vals src True) (ends_in {DataPlaneReady})"
proof (cases "fv_mayastor_enabled vals")
  case False
  then show ?thesis
    by (auto simp: mayastor_data_plane_upgrade_def split: sum.splits
        intro: follows_mono [OF follows_publish [OF ev_steps(5)]])
next
  case True
  have last: "follows RestartingDataPlane (publish_normal env True ''Upgraded data-plane'' ''DataPlaneUpgradeComplete'')
      (ends_in {DataPlaneReady})"
    by (rule follows_mono [OF follows_publish [OF ev_steps(9)]]) (simp split: sum.splits)
  have run: "follows Upgraded (io_bind (publish_normal env True ''Upgrading data-plane'' ''DataPlaneUpgradeStart'') (\<lambda>_.
      io_bind (or_fatal True ''FailedDataPlaneUpgrade'' (data_plane_run env D vals latest label pods)) (\<lambda>_.
        publish_normal env True ''Upgraded data-plane'' ''DataPlaneUpgradeComplete''))) (ends_in {DataPlaneReady})" for latest label pods
    by (rule follows_bind [OF follows_publish [OF ev_steps(6)]])
      (auto intro!: follows_bind [OF follows_or_fatal [OF data_plane_run_silent ev_steps(8)]] last)
  show ?thesis
    unfolding mayastor_data_plane_upgrade_def Let_def using True
    by (auto intro!: follows_bind [OF follows_silent] emits_intros run)
qed

context helm_upgrader_api
begin

lemma upgrade_follows: "follows Idle (upgrade S env H D True) (ends_in {Succeeded})"
proof -
  have final: "follows t (publish_normal env True ''Upgrade successful'' ''Success'') (ends_in {Succeeded})"
    if "t = Upgraded \<or> t = DataPlaneReady" for t
    using that ev_steps(7,10)
    by (auto intro!: follows_mono [OF follows_publish] split: sum.splits)
  have data_plane: "follows Upgraded (io_bind (case D of
        Some D \<Rightarrow> mayastor_data_plane_upgrade S env D vals (hu_source_version H) True
      | None \<Rightarrow> io_ok ()) (\<lambda>_. publish_normal env True ''Upgrade successful'' ''Success'')) (ends_in {Succeeded})" for vals
  proof (cases D)
    case None
    have "follows Upgraded (io_ok () :: unit lib_io) (\<lambda>r t. t = Upgraded)"
      by (rule follows_silent [OF emits_ok])
    from follows_bind [OF this final] None show ?thesis by simp
  next
    case (Some d)
    from follows_bind [OF data_plane_upgrade_follows [of S env d vals "hu_source_version H"] final] Some show ?thesis by simp
  qed
  have real: "follows Upgrading (io_bind (or_fatal True ''FailedHelmUpgrade'' runner) (\<lambda>vals.
      io_bind (publish_normal env True ''Upgraded helm chart'' ''HelmUpgradeComplete'') (\<lambda>_.
      io_bind (case D of
          Some D \<Rightarrow> mayastor_data_plane_upgrade S env D vals (hu_source_version H) True
        | None \<Rightarrow> io_ok ()) (\<lambda>_. publish_normal env True ''Upgrade successful'' ''Success'')))) (ends_in {Succeeded})"
    if "hu_dry_run H h = (Inr runner, h')" for runner h h'
    by (rule follows_bind [OF follows_or_fatal [OF runner_silent [OF that] ev_steps(3)]])
      (auto intro!: follows_bind [OF follows_publish [OF ev_steps(4)]] data_plane)
  have silent_dry_run: "emits silent (hu_dry_run H)"
    using dry_run_safe by (rule emits_mono) simp
  show ?thesis
    unfolding upgrade_def
  proof (rule follows_bind [OF follows_silent])
    show "emits silent (io_when True (io_bind (io_emit (SetSourceVersion (ver_to_string S (hu_source_version H))))
      (\<lambda>_. io_emit (SetTargetVersion (ver_to_string S (hu_target_version H))))))"
      by (intro emits_intros) simp_all
  next
    fix x :: unit and t h h'
    assume t: "t = Idle"
    show "follows t (io_bind (or_fatal True ''FailedHelmUpgradeDryRun'' (hu_dry_run H)) (\<lambda>run_helm_upgrade.
       io_bind (publish_normal env True ''Upgrading helm chart'' ''HelmUpgradeStart'') (\<lambda>_.
       io_bind (or_fatal True ''FailedHelmUpgrade'' run_helm_upgrade) (\<lambda>final_values.
       io_bind (publish_normal env True ''Upgraded helm chart'' ''HelmUpgradeComplete'') (\<lambda>_.
       io_bind (case D of
           Some D \<Rightarrow> mayastor_data_plane_upgrade S env D final_values (hu_source_version H) True
         | None \<Rightarrow> io_ok ()) (\<lambda>_. publish_normal env True ''Upgrade successful'' ''Success'')))))) (ends_in {Succeeded})"
      unfolding t
      by (rule follows_bind [OF follows_or_fatal [OF silent_dry_run ev_steps(1)]])
        (auto simp: or_fatal_Inr intro!: follows_bind [OF follows_publish [OF ev_steps(2)]] real)
  qed simp
qed

end

text \<open>C25: the events of an upgrade follow the protocol of \<open>ev_table\<close>, whatever the cluster and helm answer.
  The actions published are a run of it from the start; a function that returns Ok has published
  Success last; and after a failure event nothing else is published and the upgrade returns an error.\<close>

theorem upgrade_event_protocol:
  assumes "upgrade S env (umbrella_helm_upgrader S env U) D True h = (r, h')"
  shows "\<exists>u t. h' = h @ u \<and> ev_runs Idle (published u) t \<and> (r = Inr () \<longrightarrow> t = Succeeded)"
  using followsD [OF umbrella.upgrade_follows assms] by (cases r) auto

section \<open>A healthy cluster\<close>

definition healthy_values :: helm_values where
  "healthy_values = \<lparr>fv_mayastor_enabled = True, fv_partial_rebuild_enabled = False, fv_ha_enabled = True\<rparr>"

text \<open>Every call succeeds; \<open>pods\<close> are the pods of any selector.\<close>

definition healthy_job_env :: "'v \<Rightarrow> string list \<Rightarrow> 'v job_env" where
  "healthy_job_env chart_version pods =
     \<lparr>je_io_engine_label = ''app=io-engine'',
      je_revision_hash_key = ''controller-revision-hash'',
      je_umbrella_chart_name = ''openebs'',
      je_exec = (\<lambda>h c args envs. Inr \<lparr>out_success = True, out_stdout = ''v3.14.0'' @ [CHR 0x0A], out_stderr = []\<rparr>),
      je_parse_metadata = (\<lambda>s. Inr \<lparr>hm_chart = ''openebs'', hm_status = ''deployed'', hm_version = chart_version\<rparr>),
      je_stat = (\<lambda>h path. Inr (if last path = CHR ''l'' then IsFile else IsDir)),
      je_chart_version = (\<lambda>h path. Inr chart_version),
      je_temp_file = (\<lambda>h dir. Inr (dir @ ''/tmp'')),
      je_yq = (\<lambda>h. Inr ()),
      je_yaml_key = (\<lambda>s. Inr ()),
      je_list_crds = (\<lambda>h. Inr []),
      je_yq_set = (\<lambda>h k b p. Inr ()),
      je_client_build = (\<lambda>c. Inr ()),
      je_helm_upgrade = (\<lambda>h c rel dir args. Inr ()),
      je_get_values = (\<lambda>h c rel. Inr []),
      je_umbrella_values = (\<lambda>buf. Inr healthy_values),
      je_delete_loki = (\<lambda>h rel ns. Inr ()),
      je_list_pods = (\<lambda>h ns sel. Inr pods),
      je_revision_hash = (\<lambda>h ns l k. Inr ''abc''),
      je_discover_rest = (\<lambda>h ns rel opts. Inr ()),
      je_upgrade_data_plane = (\<lambda>h ns hash ha label pods. Inr ()),
      je_publish_normal = (\<lambda>h note action. Inr ()),
      je_build_recorder = (\<lambda>h. Inr ()),
      je_toggle_order = (\<lambda>h toggles. toggles),
      je_schedule = (\<lambda>h. []),
      je_first_error = (\<lambda>h. 0)\<rparr>"

definition upgrader_from :: "'v \<Rightarrow> 'v umbrella_upgrader" where
  "upgrader_from v = \<lparr>uu_chart_dir = ''/chart'', uu_release_name = ''openebs'', uu_namespace = ''openebs'',
     uu_client = \<lparr>hcl_namespace = ''openebs'', hcl_storage_driver = []\<rparr>,
     uu_helm_upgrade_extra_args = [''--reset-then-reuse-values''], uu_temp_values_file = ''/chart/tmp'',
     uu_source_version = v, uu_target_version = v\<rparr>"

lemma digits: "digit_char 4 = CHR ''4''" "digit_char 2 = CHR ''2''" "digit_char 0 = CHR ''0''"
  by code_simp+

lemma healthy_upgrade_runs:
  "upgrade release_semver (healthy_job_env v []) (umbrella_helm_upgrader release_semver (healthy_job_env v [])
     (upgrader_from (Release 4 2 0 []))) None True [] =
   (Inr (), [SetSourceVersion ''4.2.0'', SetTargetVersion ''4.2.0'',
     HelmUpgrade \<lparr>hcl_namespace = ''openebs'', hcl_storage_driver = []\<rparr> ''openebs'' ''/chart''
       [''--reset-then-reuse-values'', ''--dry-run''],
     PublishNormal ''Upgrading helm chart'' ''HelmUpgradeStart'',
     DeleteLokiSts ''openebs'' ''openebs'',
     HelmUpgrade \<lparr>hcl_namespace = ''openebs'', hcl_storage_driver = []\<rparr> ''openebs'' ''/chart''
       [''--reset-then-reuse-values''],
     HelmGetValues \<lparr>hcl_namespace = ''openebs'', hcl_storage_driver = []\<rparr> ''openebs'',
     PublishNormal ''Upgraded helm chart'' ''HelmUpgradeComplete'',
     PublishNormal ''Upgrade successful'' ''Success''])"
  by (simp add: upgrade_def umbrella_helm_upgrader_def umbrella_dry_run_def umbrella_runner_def
      helm_upgrade_def or_fatal_def publish_normal_def io_simps healthy_job_env_def upgrader_from_def
      version_constants nat_to_dec.simps digits)

theorem upgrade_event_protocol_witness:
  "ev_runs Idle [''HelmUpgradeStart'', ''HelmUpgradeComplete'', ''Success''] Succeeded"
proof -
  from upgrade_event_protocol [OF healthy_upgrade_runs] show ?thesis by simp
qed

section \<open>What a helm upgrade of the umbrella chart does\<close>

definition loki_calls :: "('v :: linorder) semver \<Rightarrow> 'v umbrella_upgrader \<Rightarrow> job_call list" where
  "loki_calls S U =
     (if ver_new S 3 4 1 \<le> uu_source_version U \<and> uu_source_version U < ver_new S 4 3 0
      then [DeleteLokiSts (uu_release_name U) (uu_namespace U)] else [])"

definition upgrade_calls :: "('v :: linorder) semver \<Rightarrow> 'v umbrella_upgrader \<Rightarrow> bool \<Rightarrow> job_call list" where
  "upgrade_calls S U without_etcd =
     (if uu_source_version U < ver_new S 4 0 0 \<and> without_etcd then
        [HelmUpgrade (uu_client U) (uu_release_name U) (uu_chart_dir U)
           (uu_helm_upgrade_extra_args U @ [''--set'', ''mayastor.etcd.preUpgradeJob.enabled=false'']),
         HelmUpgrade (uu_client U) (uu_release_name U) (uu_chart_dir U)
           (uu_helm_upgrade_extra_args U @ [''--set'', ''mayastor.etcd.preUpgradeJob.enabled=true''])]
      else [HelmUpgrade (uu_client U) (uu_release_name U) (uu_chart_dir U) (uu_helm_upgrade_extra_args U)])"

definition etcd_calls :: "('v :: linorder) semver \<Rightarrow> 'v umbrella_upgrader \<Rightarrow> job_call list" where
  "etcd_calls S U = (if uu_source_version U < ver_new S 4 0 0
     then [ListJobPods (uu_namespace U) (etcd_selector (uu_release_name U))] else [])"

text \<open>All calls of a successful upgrade, in order.\<close>

lemma umbrella_runner_calls:
  assumes "umbrella_runner S env U h = (Inr vals, h')"
  shows "\<exists>pods. h' = h @ loki_calls S U @ etcd_calls S U @ upgrade_calls S U (pods = []) @
      [HelmGetValues (uu_client U) (uu_release_name U)] \<and>
    (uu_source_version U < ver_new S 4 0 0 \<longrightarrow>
       je_list_pods env (h @ loki_calls S U) (uu_namespace U) (etcd_selector (uu_release_name U)) = Inr pods)"
proof -
  from assms obtain h1 h2 h3 without_etcd where
    loki: "io_when (ver_new S 3 4 1 \<le> uu_source_version U \<and> uu_source_version U < ver_new S 4 3 0)
      (io_call (DeleteLokiSts (uu_release_name U) (uu_namespace U))
        (\<lambda>h. je_delete_loki env h (uu_release_name U) (uu_namespace U))) h = (Inr (), h1)" and
    etcd: "(if uu_source_version U < ver_new S 4 0 0 then
        io_bind (io_call (ListJobPods (uu_namespace U) (etcd_selector (uu_release_name U)))
          (\<lambda>h. je_list_pods env h (uu_namespace U) (etcd_selector (uu_release_name U)))) (\<lambda>etcd_pods.
        io_ok (etcd_pods = []))
      else io_ok False) h1 = (Inr without_etcd, h2)" and
    ups: "(if without_etcd then
        io_bind (helm_upgrade env U (uu_helm_upgrade_extra_args U @ pre_upgrade_job_args ''false'')) (\<lambda>_.
        helm_upgrade env U (uu_helm_upgrade_extra_args U @ pre_upgrade_job_args ''true''))
      else helm_upgrade env U (uu_helm_upgrade_extra_args U)) h2 = (Inr (), h3)" and
    get: "h' = h3 @ [HelmGetValues (uu_client U) (uu_release_name U)]"
    by (auto simp: umbrella_runner_def version_constants io_bind_Inr_iff [where m = "io_when _ _"]
        io_bind_Inr_iff [where m = "if _ then _ else _"] io_bind_Inr_iff [where m = "io_call (HelmGetValues _ _) _"]
        io_Inr_iff(3,4) simp del: split_paired_Ex)
  have h1: "h1 = h @ loki_calls S U"
    using loki by (auto simp: loki_calls_def io_success split: if_splits)
  obtain pods where pods: "h2 = h1 @ etcd_calls S U" "without_etcd \<longleftrightarrow> uu_source_version U < ver_new S 4 0 0 \<and> pods = []"
    "uu_source_version U < ver_new S 4 0 0 \<longrightarrow>
       je_list_pods env h1 (uu_namespace U) (etcd_selector (uu_release_name U)) = Inr pods"
    using etcd by (auto simp: etcd_calls_def io_success split: if_splits)
  have "h3 = h2 @ upgrade_calls S U (pods = [])"
    using ups pods(2) by (auto simp: upgrade_calls_def helm_upgrade_def pre_upgrade_job_args_def io_success split: if_splits)
  with h1 pods get show ?thesis by auto
qed

lemma runner_changes:
  assumes "umbrella_runner S env U h = (Inr vals, h')" and "\<not> is_dry_run (uu_helm_upgrade_extra_args U)"
  shows "\<exists>u pods. h' = h @ u \<and> filter changes u = loki_calls S U @ upgrade_calls S U (pods = []) \<and>
    (uu_source_version U < ver_new S 4 0 0 \<longrightarrow>
       je_list_pods env (h @ loki_calls S U) (uu_namespace U) (etcd_selector (uu_release_name U)) = Inr pods)"
proof -
  from umbrella_runner_calls [OF assms(1)] obtain pods where
    h': "h' = h @ loki_calls S U @ etcd_calls S U @ upgrade_calls S U (pods = []) @
      [HelmGetValues (uu_client U) (uu_release_name U)]" and
    pods: "uu_source_version U < ver_new S 4 0 0 \<longrightarrow>
      je_list_pods env (h @ loki_calls S U) (uu_namespace U) (etcd_selector (uu_release_name U)) = Inr pods" by blast
  have "filter changes (loki_calls S U) = loki_calls S U" "filter changes (etcd_calls S U) = []"
    "filter changes (upgrade_calls S U b) = upgrade_calls S U b" for b
    using assms(2) by (auto simp: loki_calls_def etcd_calls_def upgrade_calls_def is_dry_run_def)
  with h' pods show ?thesis
    by (intro exI [of _ "loki_calls S U @ etcd_calls S U @ upgrade_calls S U (pods = []) @
      [HelmGetValues (uu_client U) (uu_release_name U)]"] exI [of _ pods]) simp
qed

text \<open>C26: the changes of a successful upgrade of the umbrella chart. The loki set is deleted first exactly
  for source versions from 3.4.1 on and before 4.3.0. The chart is upgraded once with the arguments
  of the user, except when the source is before 4.0.0 and there are no etcd pods: then it is upgraded
  twice, first without the etcd pre-upgrade job and then with it, so that the values left behind have
  the job enabled. Nothing else is changed.\<close>

theorem umbrella_runner_changes:
  assumes "umbrella_runner S env U h = (Inr vals, h')" and "\<not> is_dry_run (uu_helm_upgrade_extra_args U)"
  shows "\<exists>u pods. h' = h @ u \<and> filter changes u = loki_calls S U @ upgrade_calls S U (pods = []) \<and>
    (uu_source_version U < ver_new S 4 0 0 \<longrightarrow>
       je_list_pods env (h @ loki_calls S U) (uu_namespace U) (etcd_selector (uu_release_name U)) = Inr pods)"
  using assms by (rule runner_changes)

theorem umbrella_runner_changes_witness:
  "loki_calls release_semver (upgrader_from (Release 3 9 0 [])) @
     upgrade_calls release_semver (upgrader_from (Release 3 9 0 [])) True =
   filter changes (snd (umbrella_runner release_semver (healthy_job_env (Release 4 3 0 []) [])
     (upgrader_from (Release 3 9 0 [])) []))"
proof -
  let ?U = "upgrader_from (Release 3 9 0 [])" and ?env = "healthy_job_env (Release 4 3 0 []) []"
  obtain h' where run: "umbrella_runner release_semver ?env ?U [] = (Inr healthy_values, h')"
    by (simp add: umbrella_runner_def helm_upgrade_def io_simps healthy_job_env_def upgrader_from_def version_constants)
  have "\<not> is_dry_run (uu_helm_upgrade_extra_args ?U)" by (simp add: is_dry_run_def upgrader_from_def)
  from umbrella_runner_changes [OF run this] run show ?thesis
    by (auto simp: upgrader_from_def healthy_job_env_def)
qed

section \<open>Safety\<close>

definition dry_run_call :: "'v umbrella_upgrader \<Rightarrow> job_call" where
  "dry_run_call U = HelmUpgrade (uu_client U) (uu_release_name U) (uu_chart_dir U)
     (uu_helm_upgrade_extra_args U @ [''--dry-run''])"

lemma dry_run_call_changes_nothing [simp]: "\<not> changes (dry_run_call U)"
  by (simp add: dry_run_call_def is_dry_run_def)

lemma emits_or_fatal [emits_intros]:
  "emits P m \<Longrightarrow> (\<And>e. P (PublishFatal e action)) \<Longrightarrow> emits P (or_fatal ev action m)"
  unfolding or_fatal_def by (intro emits_intros) auto

lemma emits_publish_normal [emits_intros]:
  "P (PublishNormal note action) \<Longrightarrow> emits P (publish_normal env ev note action)"
  unfolding publish_normal_def by (intro emits_intros) auto

lemma emits_data_plane_upgrade [emits_intros]:
  assumes "\<And>c. P c"
  shows "emits P (mayastor_data_plane_upgrade S env D vals src ev)"
  unfolding mayastor_data_plane_upgrade_def data_plane_run_def Let_def by (intro emits_intros assms)

definition upgrade_prefix :: "'v semver \<Rightarrow> 'v umbrella_upgrader \<Rightarrow> job_call list" where
  "upgrade_prefix S U = [SetSourceVersion (ver_to_string S (uu_source_version U)),
     SetTargetVersion (ver_to_string S (uu_target_version U)), dry_run_call U]"

lemma upgrade_start:
  assumes "upgrade S env (umbrella_helm_upgrader S env U) D True h = (r, h @ u)"
  shows "filter changes u = [] \<or>
    (\<exists>v. u = upgrade_prefix S U @ PublishNormal ''Upgrading helm chart'' ''HelmUpgradeStart'' # v \<and>
       je_helm_upgrade env (h @ butlast (upgrade_prefix S U)) (uu_client U) (uu_release_name U) (uu_chart_dir U)
         (uu_helm_upgrade_extra_args U @ [''--dry-run'']) = Inr ())"
proof -
  let ?set = "[SetSourceVersion (ver_to_string S (uu_source_version U)), SetTargetVersion (ver_to_string S (uu_target_version U))]"
  let ?rest = "\<lambda>runner. io_bind (or_fatal True ''FailedHelmUpgrade'' runner) (\<lambda>vals.
      io_bind (publish_normal env True ''Upgraded helm chart'' ''HelmUpgradeComplete'') (\<lambda>_.
      io_bind (case D of
          Some D \<Rightarrow> mayastor_data_plane_upgrade S env D vals (uu_source_version U) True
        | None \<Rightarrow> io_ok ()) (\<lambda>_. publish_normal env True ''Upgrade successful'' ''Success'')))"
  have anything: "emits (\<lambda>c. True) (?rest (umbrella_runner S env U))"
    unfolding umbrella_runner_def by (intro emits_intros) auto
  show ?thesis
  proof (cases "je_helm_upgrade env (h @ ?set) (uu_client U) (uu_release_name U) (uu_chart_dir U)
      (uu_helm_upgrade_extra_args U @ [''--dry-run''])")
    case (Inl e)
    with assms have "u = ?set @ [dry_run_call U, PublishFatal e ''FailedHelmUpgradeDryRun'']"
      by (simp add: upgrade_def umbrella_helm_upgrader_def umbrella_dry_run_def helm_upgrade_def or_fatal_def
          io_simps dry_run_call_def)
    then show ?thesis by simp
  next
    case ok: (Inr x)
    let ?h = "h @ ?set @ [dry_run_call U]"
    show ?thesis
    proof (cases "je_publish_normal env ?h ''Upgrading helm chart'' ''HelmUpgradeStart''")
      case (Inl e)
      with assms ok have "u = ?set @ [dry_run_call U, PublishNormal ''Upgrading helm chart'' ''HelmUpgradeStart'']"
        by (simp add: upgrade_def umbrella_helm_upgrader_def umbrella_dry_run_def helm_upgrade_def or_fatal_def
            publish_normal_def io_simps dry_run_call_def)
      then show ?thesis by simp
    next
      case (Inr y)
      let ?h1 = "?h @ [PublishNormal ''Upgrading helm chart'' ''HelmUpgradeStart'']"
      have "upgrade S env (umbrella_helm_upgrader S env U) D True h = ?rest (umbrella_runner S env U) ?h1"
        using ok Inr
        by (simp add: upgrade_def umbrella_helm_upgrader_def umbrella_dry_run_def helm_upgrade_def or_fatal_def [of _ "''FailedHelmUpgradeDryRun''"]
            publish_normal_def [of _ _ "''Upgrading helm chart''"] io_bind_apply [of "io_when _ _"]
            io_bind_apply [of "io_or_else _ _"] io_bind_apply [of "io_bind _ _"] io_bind_apply [of "io_call _ _"]
            io_bind_apply [of "io_emit _"] io_apply io_when_apply io_or_else_apply dry_run_call_def cong: option.case_cong)
      with assms have "?rest (umbrella_runner S env U) ?h1 = (r, h @ u)" by simp
      from emitsD [OF anything this] ok show ?thesis
        by (auto simp: upgrade_prefix_def)
    qed
  qed
qed

lemma prefix_before: "v @ c # w = pre @ rest \<Longrightarrow> c \<notin> set pre \<Longrightarrow> \<exists>q. v = pre @ q"
proof (induction pre arbitrary: v)
  case (Cons x pre)
  then show ?case by (cases v) auto
qed simp

text \<open>C27: nothing is changed before a successful rehearsal. Every call of an upgrade that changes the
  installation comes after a dry run of the same release, chart and arguments that helm accepted,
  and after the event that announces the upgrade.\<close>

theorem upgrade_rehearsed:
  assumes "upgrade S env (umbrella_helm_upgrader S env U) D True h = (r, h @ v @ c # w)" and "changes c"
  shows "\<exists>p q. v = p @ dry_run_call U # PublishNormal ''Upgrading helm chart'' ''HelmUpgradeStart'' # q \<and>
    je_helm_upgrade env (h @ p) (uu_client U) (uu_release_name U) (uu_chart_dir U)
      (uu_helm_upgrade_extra_args U @ [''--dry-run'']) = Inr ()"
proof -
  let ?pre = "upgrade_prefix S U @ [PublishNormal ''Upgrading helm chart'' ''HelmUpgradeStart'']"
  from upgrade_start [OF assms(1)] assms(2) obtain rest where rest: "v @ c # w = ?pre @ rest"
    and ok: "je_helm_upgrade env (h @ butlast (upgrade_prefix S U)) (uu_client U) (uu_release_name U) (uu_chart_dir U)
      (uu_helm_upgrade_extra_args U @ [''--dry-run'']) = Inr ()" by auto
  have "c \<notin> set ?pre" using assms(2) by (auto simp: upgrade_prefix_def)
  from prefix_before [OF rest this] obtain q where "v = ?pre @ q" ..
  with ok show ?thesis
    by (intro exI [of _ "butlast (upgrade_prefix S U)"] exI [of _ q]) (simp add: upgrade_prefix_def)
qed

theorem upgrade_rehearsed_witness:
  "\<exists>p q. [SetSourceVersion ''4.2.0'', SetTargetVersion ''4.2.0'',
     HelmUpgrade \<lparr>hcl_namespace = ''openebs'', hcl_storage_driver = []\<rparr> ''openebs'' ''/chart''
       [''--reset-then-reuse-values'', ''--dry-run''],
     PublishNormal ''Upgrading helm chart'' ''HelmUpgradeStart''] =
     p @ dry_run_call (upgrader_from (Release 4 2 0 [])) # PublishNormal ''Upgrading helm chart'' ''HelmUpgradeStart'' # q"
proof -
  have "upgrade release_semver (healthy_job_env (Release 4 3 0 []) []) (umbrella_helm_upgrader release_semver
      (healthy_job_env (Release 4 3 0 []) []) (upgrader_from (Release 4 2 0 []))) None True [] =
    (Inr (), [] @ [SetSourceVersion ''4.2.0'', SetTargetVersion ''4.2.0'',
     HelmUpgrade \<lparr>hcl_namespace = ''openebs'', hcl_storage_driver = []\<rparr> ''openebs'' ''/chart''
       [''--reset-then-reuse-values'', ''--dry-run''],
     PublishNormal ''Upgrading helm chart'' ''HelmUpgradeStart''] @
     DeleteLokiSts ''openebs'' ''openebs'' #
     [HelmUpgrade \<lparr>hcl_namespace = ''openebs'', hcl_storage_driver = []\<rparr> ''openebs'' ''/chart''
       [''--reset-then-reuse-values''],
     HelmGetValues \<lparr>hcl_namespace = ''openebs'', hcl_storage_driver = []\<rparr> ''openebs'',
     PublishNormal ''Upgraded helm chart'' ''HelmUpgradeComplete'',
     PublishNormal ''Upgrade successful'' ''Success''])"
    using healthy_upgrade_runs by simp
  from upgrade_rehearsed [OF this] show ?thesis by auto
qed

text \<open>C28: the data plane is restarted only when that is wanted and safe. Mayastor is enabled in the values
  that are in force after the helm upgrade, partial rebuild is off if the source version needs that,
  the hash is the latest one of the io-engine daemon set, and the pods are those listed with the
  label that leaves out the pods of that hash.\<close>

theorem data_plane_upgrade_guarded:
  assumes "mayastor_data_plane_upgrade S env D vals src ev h = (r, h @ u)"
    and "UpgradeDataPlane ns hash ha label pods \<in> set u"
  shows "fv_mayastor_enabled vals \<and> ha = fv_ha_enabled vals \<and> ns = dp_namespace D \<and>
    (fv_partial_rebuild_enabled vals \<longrightarrow> src < ver_new S 3 7 0 \<or> ver_new S 3 10 0 < src) \<and>
    label = je_io_engine_label env @ '','' @ je_revision_hash_key env @ ''!='' @ hash \<and>
    je_revision_hash env h ns (je_io_engine_label env) (je_revision_hash_key env) = Inr hash \<and>
    je_list_pods env (h @ [LatestRevisionHash ns (je_io_engine_label env) (je_revision_hash_key env)]) ns label = Inr pods"
  using assms
  by (auto simp: mayastor_data_plane_upgrade_def mayastor_partial_rebuild_check_def publish_normal_def or_fatal_def
      data_plane_run_def io_simps version_constants Let_def ensure_def not_le
      split: if_splits sum.splits prod.splits)

definition default_data_plane :: data_plane_upgrader where
  "default_data_plane = \<lparr>dp_namespace = ''openebs'', dp_release_name = ''openebs'', dp_rest_endpoint = None,
     dp_jwt = None, dp_tls_ca_file = None, dp_tls_cert_file = None, dp_tls_key_file = None\<rparr>"

theorem data_plane_upgrade_guarded_witness:
  "je_list_pods (healthy_job_env () [''io-engine-1'']) [LatestRevisionHash ''openebs'' ''app=io-engine'' ''controller-revision-hash'']
     ''openebs'' ''app=io-engine,controller-revision-hash!=abc'' = Inr [''io-engine-1'']"
proof -
  let ?label = "''app=io-engine,controller-revision-hash!=abc''"
  let ?env = "healthy_job_env (Release 4 2 0 []) [''io-engine-1'']"
  have "mayastor_data_plane_upgrade release_semver ?env default_data_plane healthy_values (Release 4 2 0 []) False [] =
    (Inr (), [] @ [LatestRevisionHash ''openebs'' ''app=io-engine'' ''controller-revision-hash'',
       ListJobPods ''openebs'' ?label, DiscoverRest ''openebs'' ''openebs'' [None, None, None, None, None],
       UpgradeDataPlane ''openebs'' ''abc'' True ?label [''io-engine-1'']])"
    by (simp add: mayastor_data_plane_upgrade_def mayastor_partial_rebuild_check_def publish_normal_def or_fatal_def
        data_plane_run_def io_simps version_constants Let_def ensure_def healthy_job_env_def healthy_values_def
        default_data_plane_def rest_options_def)
  from data_plane_upgrade_guarded [OF this, of "''openebs''" "''abc''" True ?label "[''io-engine-1'']"]
  show ?thesis by (simp add: healthy_job_env_def)
qed

end
