(* ===== verification/Validate.thy ===== *)
theory Validate
  imports HelmUpgrade
begin

text \<open>
  What the job checks before it upgrades, and how it builds the umbrella upgrader
  (\<^verbatim>\<open>helm/upgrade/config.rs\<close>, \<^verbatim>\<open>helm/metadata.rs\<close>, \<^verbatim>\<open>helm/values.rs\<close>, \<^verbatim>\<open>utils.rs\<close>, \<^verbatim>\<open>lib.rs\<close>): the metadata of
  the release, the version of helm, the chart directory, the values file that turns off the
  installation of existing CRDs, and the arguments of helm. The three checks are spawned tasks.
\<close>

section \<open>Commands and paths\<close>

definition exec_tokio_command :: "'v job_env \<Rightarrow> string \<Rightarrow> string list \<Rightarrow> envs option \<Rightarrow> ('v, command_output) job_task" where
  "exec_tokio_command env command args maybe_envs =
     (let envs = unwrap_or maybe_envs [] in
      t_bind (t_call (Exec command args envs)
        (\<lambda>h. map_err (\<lambda>source. FailedTokioCommand source command args envs) (je_exec env h command args envs)))
        (\<lambda>output. t_bind (t_res (ensure (out_success output) (CommandFailed command args envs output))) (\<lambda>_.
          t_ok output)))"

text \<open>A check of a path is one call; its outcome is looked at when all calls of a \<^verbatim>\<open>try_join!\<close> are made.\<close>

definition check_path :: "'v job_env \<Rightarrow> string \<Rightarrow> (file_type \<Rightarrow> bool) \<Rightarrow> ('v, 'v upgrade_error + bool) job_task" where
  "check_path env path predicate = t_call (StatPath path)
     (\<lambda>h. Inr (map_err (\<lambda>source. FailedToGetChartPathMetadata source path) (map_sum id predicate (je_stat env h path))))"

definition path_join :: "string \<Rightarrow> string \<Rightarrow> string" where
  "path_join dir name = dir @ ''/'' @ name"

section \<open>Metadata of the release\<close>

definition helm_storage_driver_env :: string where
  "helm_storage_driver_env = ''HELM_DRIVER''"

definition new_chart_metadata :: "'v job_env \<Rightarrow> string \<Rightarrow> string \<Rightarrow> string \<Rightarrow> ('v, 'v helm_chart_metadata) job_io" where
  "new_chart_metadata env release_name ns storage_driver =
     io_bind (run_task (exec_tokio_command env ''helm'' [''get'', ''metadata'', release_name, ''-n'', ns, ''-oyaml'']
       (Some [(helm_storage_driver_env, storage_driver)]))) (\<lambda>output.
     io_res (map_err (\<lambda>source. FailedYamlVecDeserialize source (out_stdout output))
       (je_parse_metadata env (out_stdout output))))"

section \<open>The checks\<close>

text \<open>\<^verbatim>\<open>String::from_utf8\<close> keeps the bytes if they are well-formed UTF-8.\<close>

definition in_range :: "nat \<Rightarrow> nat \<Rightarrow> char \<Rightarrow> bool" where
  "in_range lo hi c = (lo \<le> of_char c \<and> of_char c \<le> hi)"

fun utf8_valid :: "string \<Rightarrow> bool" where
  "utf8_valid [] = True"
| "utf8_valid (a # s) =
     (if in_range 0 127 a then utf8_valid s
      else (case s of
          [] \<Rightarrow> False
        | b # s1 \<Rightarrow>
            if in_range 194 223 a then in_range 128 191 b \<and> utf8_valid s1
            else (case s1 of
                [] \<Rightarrow> False
              | c # s2 \<Rightarrow>
                  if in_range 224 239 a then
                    in_range (if in_range 224 224 a then 160 else 128) (if in_range 237 237 a then 159 else 191) b \<and>
                    in_range 128 191 c \<and> utf8_valid s2
                  else (case s2 of
                      [] \<Rightarrow> False
                    | d # s3 \<Rightarrow>
                        in_range 240 244 a \<and>
                        in_range (if in_range 240 240 a then 144 else 128) (if in_range 244 244 a then 143 else 191) b \<and>
                        in_range 128 191 c \<and> in_range 128 191 d \<and> utf8_valid s3))))"

definition from_utf8 :: "string \<Rightarrow> 'v upgrade_error + string" where
  "from_utf8 bytes = (if utf8_valid bytes then Inr bytes else Inl (ByteVectorToString bytes))"

text \<open>
  \<open>ok_or\<close> comes before the parser, whose error carries the untrimmed text.
\<close>

definition helm_version_of :: "'v semver \<Rightarrow> string \<Rightarrow> 'v upgrade_error + 'v" where
  "helm_version_of S bytes =
     res_bind (from_utf8 bytes) (\<lambda>stdout.
     res_bind (ok_or (strip_prefix_char CHR ''v'' (trim_str stdout)) TrimVOffFromVersion) (\<lambda>v.
     ok_or (ver_parse S v) (ParseSemverVersion stdout)))"

definition check_helm_v3_14_in_path :: "('v :: linorder) semver \<Rightarrow> 'v job_env \<Rightarrow> ('v, unit) job_task" where
  "check_helm_v3_14_in_path S env =
     t_bind (exec_tokio_command env ''helm'' [''version'', ''--short''] None) (\<lambda>output.
     t_bind (t_res (helm_version_of S (out_stdout output))) (\<lambda>helm_v.
     t_res (ensure (ver_new S 3 14 0 \<le> helm_v) (InvalidHelmVersion (ver_to_string S helm_v) ''>=3.14.0''))))"

definition release_checks :: "('v :: linorder) semver \<Rightarrow> 'v job_env \<Rightarrow> 'v helm_chart_metadata \<Rightarrow> 'v upgrade_error + unit" where
  "release_checks S env M =
     res_bind (ensure (hm_chart M = je_umbrella_chart_name env) (InvalidHelmChart (hm_chart M))) (\<lambda>_.
     res_bind (ensure (umbrella_chart_version_lowerbound S \<le> hm_version M) (InvalidChartVersion (hm_version M))) (\<lambda>_.
     ensure (hm_status M = ''deployed'') (InvalidChartStatus (hm_status M))))"

definition check_helm_release :: "('v :: linorder) semver \<Rightarrow> 'v job_env \<Rightarrow> 'v helm_chart_metadata \<Rightarrow> ('v, unit) job_task" where
  "check_helm_release S env M = t_res (release_checks S env M)"

text \<open>
  \<^verbatim>\<open>try_join!\<close> of futures of one task: all of them make their call, then the results count. Which
  error is seen first when several fail is up to the runtime (\<open>k\<close>).
\<close>

definition errors_of :: "('e + 'a) list \<Rightarrow> 'e list" where
  "errors_of rs = List.map_filter (\<lambda>r. case r of Inl e \<Rightarrow> Some e | Inr _ \<Rightarrow> None) rs"

definition settle :: "nat \<Rightarrow> ('e + 'a) list \<Rightarrow> 'e + 'a list" where
  "settle k rs = (case errors_of rs of
      [] \<Rightarrow> traverse id rs
    | es \<Rightarrow> Inl (es ! (k mod length es)))"

definition chart_parts :: "string \<Rightarrow> (string \<times> (file_type \<Rightarrow> bool)) list" where
  "chart_parts path = [(path, is_dir), (path_join path ''Chart.yaml'', is_file),
     (path_join path ''templates'', is_dir), (path_join path ''values.yaml'', is_file)]"

fun check_paths :: "'v job_env \<Rightarrow> (string \<times> (file_type \<Rightarrow> bool)) list \<Rightarrow> ('v, ('v upgrade_error + bool) list) job_task" where
  "check_paths env [] = t_ok []"
| "check_paths env ((path, predicate) # parts) =
     t_bind (check_path env path predicate) (\<lambda>r. t_bind (check_paths env parts) (\<lambda>rs. t_ok (r # rs)))"

text \<open>The verdict on one chart once its four paths were looked at.\<close>

definition chart_is_valid :: "nat \<Rightarrow> string \<Rightarrow> ('v upgrade_error + bool) list \<Rightarrow> 'v upgrade_error + unit" where
  "chart_is_valid k path results =
     res_bind (settle k results) (\<lambda>res. ensure (list_all id res) (MalformedHelmChartDir path))"

definition check_helm_chart_dir :: "'v job_env \<Rightarrow> nat \<Rightarrow> string \<Rightarrow> ('v, unit) job_task" where
  "check_helm_chart_dir env k path =
     (let crds = path_join path ''charts/openebs-crds'' in
      t_bind (check_paths env (chart_parts crds)) (\<lambda>crds_results.
      t_bind (check_paths env (chart_parts path)) (\<lambda>path_results.
      t_bind (t_res (settle k [chart_is_valid k crds crds_results, chart_is_valid k path path_results])) (\<lambda>_.
      t_ok ()))))"

definition validate_inputs ::
  "('v :: linorder) semver \<Rightarrow> 'v job_env \<Rightarrow> string \<Rightarrow> 'v helm_chart_metadata \<Rightarrow> ('v, unit) job_io" where
  "validate_inputs S env chart_dir M = (\<lambda>h.
     io_bind (try_join (je_schedule env)
       [check_helm_v3_14_in_path S env, check_helm_release S env M,
        check_helm_chart_dir env (je_first_error env h) chart_dir]) (\<lambda>_. io_ok ()) h)"

section \<open>The values file\<close>

definition crd_toggle_list :: "(string list \<times> string) list" where
  "crd_toggle_list =
    [([''volumesnapshotclasses.snapshot.storage.k8s.io'', ''volumesnapshotcontents.snapshot.storage.k8s.io'',
       ''volumesnapshots.snapshot.storage.k8s.io''], ''.openebs-crds.csi.volumeSnapshots.enabled''),
     ([''jaegers.jaegertracing.io''], ''.mayastor.crds.jaeger.enabled''),
     ([''zfsvolumes.zfs.openebs.io'', ''zfsnodes.zfs.openebs.io'', ''zfsbackups.zfs.openebs.io'',
       ''zfsrestores.zfs.openebs.io'', ''zfssnapshots.zfs.openebs.io''], ''.zfs-localpv.crds.zfsLocalPv.enabled''),
     ([''lvmvolumes.local.openebs.io'', ''lvmnodes.local.openebs.io'', ''lvmsnapshots.local.openebs.io''],
       ''.lvm-localpv.crds.lvmLocalPv.enabled'')]"

text \<open>The keys are parsed one after the other (\<^verbatim>\<open>YamlKey::try_from\<close>).\<close>

definition crd_names_to_helm_toggles :: "'v job_env \<Rightarrow> lib_error + (string list \<times> string) list" where
  "crd_names_to_helm_toggles env =
     traverse (\<lambda>(names, key). res_bind (je_yaml_key env key) (\<lambda>_. Inr (names, key))) crd_toggle_list"

fun disable_toggles :: "'v job_env \<Rightarrow> string list \<Rightarrow> string \<Rightarrow> (string list \<times> string) list \<Rightarrow> unit lib_io" where
  "disable_toggles env all_crd_names path [] = io_ok ()"
| "disable_toggles env all_crd_names path ((crd_set, helm_toggle) # toggles) =
     io_bind (io_when (list_ex (\<lambda>name. name \<in> set crd_set) all_crd_names)
       (io_call (YqSet helm_toggle False path) (\<lambda>h. je_yq_set env h helm_toggle False path))) (\<lambda>_.
     disable_toggles env all_crd_names path toggles)"

text \<open>The map is drained in the order of its hash table, which the environment picks.\<close>

definition safe_crd_install :: "'v job_env \<Rightarrow> string \<Rightarrow> unit lib_io" where
  "safe_crd_install env path =
     io_bind (io_call NewYq (je_yq env)) (\<lambda>_.
     io_bind (io_res (crd_names_to_helm_toggles env)) (\<lambda>toggles.
     io_bind (io_call ListCrds (je_list_crds env)) (\<lambda>crds.
     io_bind (io_res (traverse (\<lambda>name. ok_or name LibPanic) crds)) (\<lambda>all_crd_names.
     (\<lambda>h. disable_toggles env all_crd_names path (je_toggle_order env h toggles) h)))))"

definition generate_values_file ::
  "('v :: linorder) semver \<Rightarrow> 'v job_env \<Rightarrow> string \<Rightarrow> 'v \<Rightarrow> 'v \<Rightarrow> ('v, string) job_io" where
  "generate_values_file S env chart_dir source_version target_version =
     io_bind (io_map_err (\<lambda>source. FailedTempFileCreation source chart_dir)
       (io_call (NewTempFile chart_dir) (\<lambda>h. je_temp_file env h chart_dir))) (\<lambda>values_file.
     io_bind (io_when (source_version < four_dot_o S \<and> \<not> target_version < four_dot_o S)
       (io_map_err FailedCheckingInstallingCRDs (safe_crd_install env values_file))) (\<lambda>_.
     io_ok values_file))"

section \<open>The configuration\<close>

record helm_upgrade_config =
  uc_rel_name :: string
  uc_ns :: string
  uc_chart_dir :: string
  uc_skip_path_validation :: bool
  uc_args_set :: "string option"
  uc_args_set_file :: "string option"
  uc_storage_driver :: string

definition helm_upgrade_extra_args :: "helm_upgrade_config \<Rightarrow> string \<Rightarrow> string list" where
  "helm_upgrade_extra_args C values_file =
     concat (List.map_filter id
       [map_option (\<lambda>val. [''--set'', val]) (uc_args_set C),
        map_option (\<lambda>val. [''--set-file'', val]) (uc_args_set_file C),
        Some [''-f'', values_file]]) @ [''--reset-then-reuse-values'']"

definition validate_and_build_helm_upgrader ::
  "('v :: linorder) semver \<Rightarrow> 'v job_env \<Rightarrow> helm_upgrade_config \<Rightarrow> ('v, 'v umbrella_upgrader) job_io" where
  "validate_and_build_helm_upgrader S env C =
     io_bind (new_chart_metadata env (uc_rel_name C) (uc_ns C) (uc_storage_driver C)) (\<lambda>M.
     io_bind (validate_inputs S env (uc_chart_dir C) M) (\<lambda>_.
     (let source_version = hm_version M in
     io_bind (io_map_err FailedToGetLocalChartVersion (io_call (ReadChartVersion (path_join (uc_chart_dir C) ''Chart.yaml''))
       (\<lambda>h. je_chart_version env h (path_join (uc_chart_dir C) ''Chart.yaml'')))) (\<lambda>target_version.
     io_bind (io_when (\<not> uc_skip_path_validation C)
       (io_res (ensure (source_version \<le> target_version) (DowngradeNotSupported source_version target_version)))) (\<lambda>_.
     io_bind (generate_values_file S env (uc_chart_dir C) source_version target_version) (\<lambda>temp_values_file.
     (let client = \<lparr>hcl_namespace = uc_ns C, hcl_storage_driver = uc_storage_driver C\<rparr> in
     io_bind (io_res (map_err FailedHelmReleaseClientBuild (je_client_build env client))) (\<lambda>_.
     io_bind (io_res (ensure (utf8_valid temp_values_file) JobPanic)) (\<lambda>_.
     io_ok \<lparr>uu_chart_dir = uc_chart_dir C, uu_release_name = uc_rel_name C, uu_namespace = uc_ns C,
       uu_client = client,
       uu_helm_upgrade_extra_args = helm_upgrade_extra_args C temp_values_file,
       uu_temp_values_file = temp_values_file,
       uu_source_version = source_version, uu_target_version = target_version\<rparr>)))))))))"

text \<open>\<^verbatim>\<open>lib.rs\<close>: validate, then upgrade.\<close>

definition validate_and_upgrade ::
  "('v :: linorder) semver \<Rightarrow> 'v job_env \<Rightarrow> helm_upgrade_config \<Rightarrow> data_plane_upgrader option \<Rightarrow> bool \<Rightarrow> ('v, unit) job_io" where
  "validate_and_upgrade S env C data_plane ev =
     io_bind (validate_and_build_helm_upgrader S env C) (\<lambda>U.
     io_map_err FailedUpgrade (upgrade S env (umbrella_helm_upgrader S env U) data_plane ev))"

section \<open>What the checks establish\<close>

lemma task_emits_call_bind [emits_intros]:
  "task_emits P (exec_tokio_command env command args maybe_envs)" if "\<And>e. P (Exec command args e)"
  unfolding exec_tokio_command_def Let_def by (intro emits_intros that)

lemma emits_run_task: "task_emits P t \<Longrightarrow> emits P (run_task t)"
proof (induction t)
  case (Finished r)
  then show ?case by (simp add: emits_def)
next
  case (Act a)
  show ?case
    unfolding emits_def
  proof
    fix h
    obtain c t where a: "a h = (c, t)" by fastforce
    from task_emits_ActD [OF Act.prems a] Act.IH [OF a] obtain u
      where "snd (run_task t (h @ [c])) = (h @ [c]) @ u" "list_all P u" "P c"
      unfolding emits_def by blast
    with a show "\<exists>u. snd (run_task (Act a) h) = h @ u \<and> list_all P u"
      by (intro exI [of _ "c # u"]) simp
  qed
qed

lemma exec_tokio_command_result:
  "task_reach h H (exec_tokio_command env command args maybe_envs) (Finished (Inr out)) \<Longrightarrow>
     \<exists>p. je_exec env (h @ p) command args (unwrap_or maybe_envs []) = Inr out \<and> out_success out"
  unfolding exec_tokio_command_def Let_def
  by (auto dest!: task_reach_bind_Inr task_reach_callD simp: task_reach_leaf)

lemma check_helm_result:
  assumes "task_reach h H (check_helm_v3_14_in_path S env) (Finished (Inr u))"
  shows "\<exists>p out v. je_exec env (h @ p) ''helm'' [''version'', ''--short''] [] = Inr out \<and> out_success out \<and>
       helm_version_of S (out_stdout out) = Inr v \<and> ver_new S 3 14 0 \<le> v"
proof -
  from assms obtain out v where
    "task_reach h H (exec_tokio_command env ''helm'' [''version'', ''--short''] None) (Finished (Inr out))"
    "helm_version_of S (out_stdout out) = Inr v" "ver_new S 3 14 0 \<le> v"
    unfolding check_helm_v3_14_in_path_def
    by (auto dest!: task_reach_bind_Inr simp: task_reach_leaf)
  with exec_tokio_command_result [OF this(1)] show ?thesis by auto
qed

definition part_ok :: "'v job_env \<Rightarrow> string \<times> (file_type \<Rightarrow> bool) \<Rightarrow> bool" where
  "part_ok env part \<longleftrightarrow> (\<exists>h m. je_stat env h (fst part) = Inr m \<and> snd part m)"

lemma check_paths_result:
  "task_reach h H (check_paths env parts) (Finished (Inr rs)) \<Longrightarrow>
     list_all2 (\<lambda>part r. \<exists>p. map_err (\<lambda>source. FailedToGetChartPathMetadata source (fst part))
       (map_sum id (snd part) (je_stat env (h @ p) (fst part))) = r) parts rs"
proof (induction parts arbitrary: rs)
  case Nil
  then show ?case by (simp add: task_reach_leaf)
next
  case (Cons part parts)
  obtain path predicate where part: "part = (path, predicate)" by fastforce
  from Cons.prems obtain r rs' where rs: "rs = r # rs'"
    and head: "task_reach h H (check_path env path predicate) (Finished (Inr r))"
    and rest: "task_reach h H (check_paths env parts) (Finished (Inr rs'))"
    by (auto simp: part task_reach_leaf dest!: task_reach_bind_Inr)
  from task_reach_callD [OF head [unfolded check_path_def]] Cons.IH [OF rest]
  show ?case by (auto simp: rs part id_def)
qed

lemma set_errors_of: "set (errors_of rs) = {e. Inl e \<in> set rs}"
  by (induction rs) (auto simp: errors_of_def map_filter_simps split: sum.splits)

lemma settle_Inr_iff: "settle k rs = Inr xs \<longleftrightarrow> rs = map Inr xs"
proof (cases "errors_of rs")
  case Nil
  with set_errors_of [of rs] have "\<forall>r \<in> set rs. \<exists>x. r = Inr x" by (auto, metis sumE)
  with Nil show ?thesis
    by (auto simp: settle_def traverse_Inr_iff list_all2_conv_all_nth intro: nth_equalityI)
next
  case (Cons e es)
  with set_errors_of [of rs] have "Inl e \<in> set rs" by auto
  with Cons show ?thesis by (auto simp: settle_def)
qed

lemma chart_is_valid_result:
  assumes "chart_is_valid k path rs = Inr u"
    and "list_all2 (\<lambda>part r. \<exists>p. map_err (\<lambda>source. FailedToGetChartPathMetadata source (fst part))
       (map_sum id (snd part) (je_stat env (h @ p) (fst part))) = r) parts rs"
  shows "list_all (part_ok env) parts"
proof -
  from assms(1) obtain bs where rs: "rs = map Inr bs" and bs: "list_all id bs"
    by (auto simp: chart_is_valid_def settle_Inr_iff)
  show ?thesis
    unfolding list_all_length
  proof (intro allI impI)
    fix i
    assume i: "i < length parts"
    then have "i < length bs" using rs list_all2_lengthD [OF assms(2)] by simp
    with bs rs list_all2_nthD [OF assms(2) i] obtain p where
      "map_err (\<lambda>source. FailedToGetChartPathMetadata source (fst (parts ! i)))
        (map_sum id (snd (parts ! i)) (je_stat env (h @ p) (fst (parts ! i)))) = Inr True"
      by (auto simp: list_all_length)
    then show "part_ok env (parts ! i)"
      by (cases "je_stat env (h @ p) (fst (parts ! i))") (auto simp: part_ok_def)
  qed
qed

lemma check_helm_chart_dir_result:
  assumes "task_reach h H (check_helm_chart_dir env k path) (Finished (Inr u))"
  shows "list_all (part_ok env) (chart_parts (path_join path ''charts/openebs-crds'') @ chart_parts path)"
proof -
  let ?crds = "path_join path ''charts/openebs-crds''"
  from assms obtain rs1 rs2 us where
    "task_reach h H (check_paths env (chart_parts ?crds)) (Finished (Inr rs1))"
    "task_reach h H (check_paths env (chart_parts path)) (Finished (Inr rs2))"
    "settle k [chart_is_valid k ?crds rs1, chart_is_valid k path rs2] = Inr us"
    unfolding check_helm_chart_dir_def Let_def
    by (auto dest!: task_reach_bind_Inr simp: task_reach_leaf)
  then show ?thesis
    using chart_is_valid_result [OF _ check_paths_result] by (auto simp: settle_Inr_iff Cons_eq_map_conv)
qed

text \<open>What a passed validation says.\<close>

definition inputs_valid :: "('v :: linorder) semver \<Rightarrow> 'v job_env \<Rightarrow> string \<Rightarrow> 'v helm_chart_metadata \<Rightarrow> bool" where
  "inputs_valid S env chart_dir M \<longleftrightarrow>
     (\<exists>h out v. je_exec env h ''helm'' [''version'', ''--short''] [] = Inr out \<and> out_success out \<and>
        helm_version_of S (out_stdout out) = Inr v \<and> ver_new S 3 14 0 \<le> v) \<and>
     hm_chart M = je_umbrella_chart_name env \<and> ver_new S 3 0 0 \<le> hm_version M \<and> hm_status M = ''deployed'' \<and>
     list_all (part_ok env) (chart_parts (path_join chart_dir ''charts/openebs-crds'') @ chart_parts chart_dir)"

lemma validate_inputs_ok:
  assumes "validate_inputs S env chart_dir M h = (Inr (), h')"
  shows "inputs_valid S env chart_dir M"
proof -
  let ?k = "je_first_error env h"
  let ?tasks = "[check_helm_v3_14_in_path S env, check_helm_release S env M, check_helm_chart_dir env ?k chart_dir]"
  from assms obtain us where "try_join (je_schedule env) ?tasks h = (Inr us, h')"
    by (auto simp: validate_inputs_def io_success)
  note all_ok = try_join_ok_all [OF try_join_runs [OF this]]
  obtain u1 u2 u3 where reach:
    "task_reach h h' (check_helm_v3_14_in_path S env) (Finished (Inr u1))"
    "task_reach h h' (check_helm_release S env M) (Finished (Inr u2))"
    "task_reach h h' (check_helm_chart_dir env ?k chart_dir) (Finished (Inr u3))"
    using all_ok [of "check_helm_v3_14_in_path S env"] all_ok [of "check_helm_release S env M"]
      all_ok [of "check_helm_chart_dir env ?k chart_dir"] by auto
  from reach(2) have "release_checks S env M = Inr u2"
    by (simp add: check_helm_release_def task_reach_leaf)
  then have "hm_chart M = je_umbrella_chart_name env \<and> ver_new S 3 0 0 \<le> hm_version M \<and> hm_status M = ''deployed''"
    by (simp add: release_checks_def umbrella_chart_version_lowerbound_def)
  with check_helm_result [of h h' S env] reach(1) check_helm_chart_dir_result [OF reach(3)]
  show ?thesis by (auto simp: inputs_valid_def)
qed

text \<open>The metadata that helm has given of the release, in the call that the job starts with.\<close>

definition metadata_read :: "'v job_env \<Rightarrow> job_call list \<Rightarrow> helm_upgrade_config \<Rightarrow> 'v helm_chart_metadata \<Rightarrow> bool" where
  "metadata_read env h C M \<longleftrightarrow> (\<exists>out.
     je_exec env h ''helm'' [''get'', ''metadata'', uc_rel_name C, ''-n'', uc_ns C, ''-oyaml'']
       [(''HELM_DRIVER'', uc_storage_driver C)] = Inr out \<and>
     out_success out \<and> je_parse_metadata env (out_stdout out) = Inr M)"

text \<open>The upgrader of a configuration for a release with the metadata \<open>M\<close>.\<close>

definition upgrader_of :: "'v job_env \<Rightarrow> helm_upgrade_config \<Rightarrow> ('v :: linorder) helm_chart_metadata \<Rightarrow> 'v umbrella_upgrader \<Rightarrow> bool" where
  "upgrader_of env C M U \<longleftrightarrow>
     uu_release_name U = uc_rel_name C \<and> uu_namespace U = uc_ns C \<and> uu_chart_dir U = uc_chart_dir C \<and>
     uu_client U = \<lparr>hcl_namespace = uc_ns C, hcl_storage_driver = uc_storage_driver C\<rparr> \<and>
     uu_helm_upgrade_extra_args U = helm_upgrade_extra_args C (uu_temp_values_file U) \<and>
     (\<exists>h. je_temp_file env h (uc_chart_dir C) = Inr (uu_temp_values_file U)) \<and>
     uu_source_version U = hm_version M \<and>
     (\<exists>h. je_chart_version env h (path_join (uc_chart_dir C) ''Chart.yaml'') = Inr (uu_target_version U)) \<and>
     (uc_skip_path_validation C \<or> hm_version M \<le> uu_target_version U)"

lemma metadata_result:
  "new_chart_metadata env (uc_rel_name C) (uc_ns C) (uc_storage_driver C) h = (Inr M, h') \<Longrightarrow> metadata_read env h C M"
  by (auto simp: new_chart_metadata_def exec_tokio_command_def Let_def metadata_read_def helm_storage_driver_env_def
      io_success io_simps ensure_def map_err_def split: sum.splits if_splits)

lemma build_result:
  assumes "validate_and_build_helm_upgrader S env C h = (Inr U, h')"
  shows "\<exists>M. metadata_read env h C M \<and> inputs_valid S env (uc_chart_dir C) M \<and> upgrader_of env C M U"
  using assms validate_inputs_ok metadata_result
  by (fastforce simp: validate_and_build_helm_upgrader_def generate_values_file_def upgrader_of_def io_success Let_def
      split: if_splits)

text \<open>C29: what holds when the job has built its upgrader, whatever order the checks ran in. The metadata that
  helm reported for the release, in the namespace and with the storage driver of the configuration, say
  that it is a deployed one of the right chart and at least 3.0.0; helm is 3.14 or newer; both chart
  directories have their four parts. The upgrader carries the release, the namespace, the driver, the chart
  and the arguments of the configuration, the version in that metadata as its source, and that of the
  chart as its target, which is not older unless that check was skipped.\<close>

theorem validated_upgrader:
  assumes "validate_and_build_helm_upgrader S env C h = (Inr U, h')"
  shows "\<exists>M. metadata_read env h C M \<and> inputs_valid S env (uc_chart_dir C) M \<and> upgrader_of env C M U"
  using assms by (rule build_result)

definition default_config :: helm_upgrade_config where
  "default_config = \<lparr>uc_rel_name = ''openebs'', uc_ns = ''openebs'', uc_chart_dir = ''/chart'',
     uc_skip_path_validation = False, uc_args_set = Some ''a=b'', uc_args_set_file = None, uc_storage_driver = []\<rparr>"

lemma healthy_helm_version: "helm_version_of release_semver (''v3.14.0'' @ [CHR 0x0A]) = Inr (Release 3 14 0 [])"
proof -
  have "utf8_valid (''v3.14.0'' @ [CHR 0x0A])" by code_simp
  moreover have "strip_prefix_char CHR ''v'' (trim_str (''v3.14.0'' @ [CHR 0x0A])) = Some ''3.14.0''" by code_simp
  ultimately show ?thesis
    by (simp only: helm_version_of_def from_utf8_def if_True res_bind_simps ok_or_simps release_semver_simps
        release_parse_examples(1))
qed

lemma healthy_stat: "je_stat (healthy_job_env v pods) h path = Inr (if last path = CHR ''l'' then IsFile else IsDir)"
  by (simp add: healthy_job_env_def)

lemma healthy_paths:
  assumes "path \<noteq> []" and "last path \<noteq> CHR ''l''"
  shows "\<exists>h'. run_task (check_paths (healthy_job_env v pods) (chart_parts path)) h =
     (Inr [Inr True, Inr True, Inr True, Inr True], h')"
  using assms
  by (simp add: chart_parts_def check_path_def io_simps healthy_stat path_join_def is_dir_def is_file_def)

lemma healthy_exec:
  "je_exec (healthy_job_env v pods) h c args envs = Inr \<lparr>out_success = True, out_stdout = ''v3.14.0'' @ [CHR 0x0A], out_stderr = []\<rparr>"
  by (simp add: healthy_job_env_def)

lemma settle_oks:
  "settle k [Inr True, Inr True, Inr True, Inr True] = Inr [True, True, True, True]"
  "settle k [Inr (), Inr ()] = Inr [(), ()]"
  by (simp_all add: settle_Inr_iff)

lemma healthy_checks:
  "\<exists>h'. run_task (check_helm_v3_14_in_path release_semver (healthy_job_env v pods)) h = (Inr (), h')"
  "\<exists>h'. run_task (check_helm_chart_dir (healthy_job_env v pods) k ''/chart'') h = (Inr (), h')"
proof -
  show "\<exists>h'. run_task (check_helm_v3_14_in_path release_semver (healthy_job_env v pods)) h = (Inr (), h')"
    by (simp add: check_helm_v3_14_in_path_def exec_tokio_command_def Let_def io_simps healthy_exec ensure_def
        healthy_helm_version [simplified])
next
  have "path_join ''/chart'' ''charts/openebs-crds'' = ''/chart/charts/openebs-crds''" by (simp add: path_join_def)
  moreover obtain h1 where "run_task (check_paths (healthy_job_env v pods) (chart_parts ''/chart/charts/openebs-crds'')) h
      = (Inr [Inr True, Inr True, Inr True, Inr True], h1)"
    using healthy_paths [of "''/chart/charts/openebs-crds''" v pods h] by auto
  moreover obtain h2 where "run_task (check_paths (healthy_job_env v pods) (chart_parts ''/chart'')) h1
      = (Inr [Inr True, Inr True, Inr True, Inr True], h2)"
    using healthy_paths [of "''/chart''" v pods h1] by auto
  ultimately show "\<exists>h'. run_task (check_helm_chart_dir (healthy_job_env v pods) k ''/chart'') h = (Inr (), h')"
    by (simp add: check_helm_chart_dir_def Let_def io_simps chart_is_valid_def settle_oks)
qed

lemma healthy_validates:
  "\<exists>h'. validate_inputs release_semver (healthy_job_env v pods) ''/chart''
     \<lparr>hm_chart = ''openebs'', hm_status = ''deployed'', hm_version = Release 4 2 0 []\<rparr> h = (Inr (), h')"
proof -
  let ?env = "healthy_job_env v pods"
  let ?M = "\<lparr>hm_chart = ''openebs'', hm_status = ''deployed'', hm_version = Release 4 2 0 []\<rparr>"
  have "release_checks release_semver ?env ?M = Inr ()"
    by (simp add: release_checks_def umbrella_chart_version_lowerbound_def healthy_job_env_def)
  moreover obtain h1 where "run_task (check_helm_v3_14_in_path release_semver ?env) h = (Inr (), h1)"
    using healthy_checks(1) by blast
  moreover obtain h2 where "run_task (check_helm_chart_dir ?env (je_first_error ?env h) ''/chart'') h1 = (Inr (), h2)"
    using healthy_checks(2) by blast
  moreover have "je_schedule ?env h = []" by (simp add: healthy_job_env_def)
  ultimately show ?thesis
    by (simp add: validate_inputs_def try_join_def io_simps check_helm_release_def)
qed

lemma healthy_job_simps:
  "je_chart_version (healthy_job_env v pods) = (\<lambda>h path. Inr v)"
  "je_temp_file (healthy_job_env v pods) = (\<lambda>h dir. Inr (dir @ ''/tmp''))"
  "je_client_build (healthy_job_env v pods) = (\<lambda>c. Inr ())"
  by (simp_all add: healthy_job_env_def)

lemma healthy_values_file: "utf8_valid ''/chart/tmp''"
  by code_simp

lemma healthy_build:
  "\<exists>U h'. validate_and_build_helm_upgrader release_semver (healthy_job_env (Release 4 2 0 []) pods) default_config h = (Inr U, h')"
proof -
  let ?env = "healthy_job_env (Release 4 2 0 []) pods"
  let ?M = "\<lparr>hm_chart = ''openebs'', hm_status = ''deployed'', hm_version = Release 4 2 0 []\<rparr>"
  obtain h1 where "new_chart_metadata ?env ''openebs'' ''openebs'' [] h = (Inr ?M, h1)"
    by (simp add: new_chart_metadata_def exec_tokio_command_def Let_def io_simps healthy_job_env_def ensure_def)
  moreover obtain h2 where "validate_inputs release_semver ?env ''/chart'' ?M h1 = (Inr (), h2)"
    using healthy_validates by blast
  ultimately show ?thesis
    by (simp add: validate_and_build_helm_upgrader_def default_config_def io_simps Let_def generate_values_file_def
        four_dot_o_def healthy_job_simps healthy_values_file ensure_def del: utf8_valid.simps)
qed

theorem validated_upgrader_witness:
  "\<exists>U h' M. validate_and_build_helm_upgrader release_semver (healthy_job_env (Release 4 2 0 []) []) default_config [] = (Inr U, h') \<and>
     metadata_read (healthy_job_env (Release 4 2 0 []) []) [] default_config M \<and>
     inputs_valid release_semver (healthy_job_env (Release 4 2 0 []) []) ''/chart'' M \<and> hm_version M \<le> uu_target_version U"
proof -
  obtain U h' where run: "validate_and_build_helm_upgrader release_semver (healthy_job_env (Release 4 2 0 []) [])
      default_config [] = (Inr U, h')" using healthy_build by blast
  from validated_upgrader [OF run] run show ?thesis
    by (auto simp: upgrader_of_def default_config_def simp del: release_order)
qed

section \<open>Validation changes nothing\<close>

lemma emits_check_paths [emits_intros]: "(\<And>p. P (StatPath p)) \<Longrightarrow> task_emits P (check_paths env parts)"
  by (induction env parts rule: check_paths.induct) (auto simp: check_path_def intro!: emits_intros)

lemma emits_disable_toggles [emits_intros]:
  "(\<And>k b p. P (YqSet k b p)) \<Longrightarrow> emits P (disable_toggles env crds path toggles)"
  by (induction env crds path toggles rule: disable_toggles.induct) (auto intro!: emits_intros)

lemma emits_fun: "(\<And>h. emits P (f h)) \<Longrightarrow> emits P (\<lambda>h. f h h)"
  unfolding emits_def by blast

lemma emits_safe_crd_install [emits_intros]:
  "P NewYq \<Longrightarrow> P ListCrds \<Longrightarrow> (\<And>k b p. P (YqSet k b p)) \<Longrightarrow> emits P (safe_crd_install env path)"
  unfolding safe_crd_install_def
  by (intro emits_bind emits_call emits_res emits_fun [where f = "\<lambda>h. disable_toggles env _ path (je_toggle_order env h _)"]
      emits_disable_toggles)

lemma emits_validate_inputs [emits_intros]:
  assumes "\<And>c a e. P (Exec c a e)" and "\<And>p. P (StatPath p)"
  shows "emits P (validate_inputs S env dir M)"
proof -
  have "task_emits P (check_helm_v3_14_in_path S env)" "task_emits P (check_helm_release S env M)"
    "task_emits P (check_helm_chart_dir env k dir)" for k
    unfolding check_helm_v3_14_in_path_def check_helm_release_def check_helm_chart_dir_def Let_def
    by (intro emits_intros assms)+
  then have "emits P (io_bind (try_join (je_schedule env) [check_helm_v3_14_in_path S env, check_helm_release S env M,
      check_helm_chart_dir env k dir]) (\<lambda>_. io_ok ()))" for k
    by (intro emits_intros) auto
  then show ?thesis
    unfolding validate_inputs_def emits_def by blast
qed

lemma emits_build_calls:
  assumes "\<And>c a e. P (Exec c a e)" and "\<And>p. P (StatPath p)" and "\<And>p. P (ReadChartVersion p)"
    and "\<And>d. P (NewTempFile d)" and "P NewYq" and "P ListCrds" and "\<And>k b p. P (YqSet k b p)"
  shows "emits P (validate_and_build_helm_upgrader S env C)"
  unfolding validate_and_build_helm_upgrader_def new_chart_metadata_def generate_values_file_def Let_def
  by (intro emits_intros emits_run_task assms)

lemma emits_build:
  "emits (\<lambda>c. \<not> changes c \<and> silent c) (validate_and_build_helm_upgrader S env C)"
  by (rule emits_build_calls) simp_all

text \<open>C30: validation is silent. When the job fails before the upgrade proper, that is with any error but
  FailedUpgrade, it has changed nothing in the installation, and it has published no event either:
  an observer of the events cannot tell a failed validation from a job that has not started.\<close>

theorem failed_validation_silent:
  assumes "validate_and_upgrade S env C D ev h = (Inl e, h')" and "\<And>err. e \<noteq> FailedUpgrade err"
  shows "\<exists>u. h' = h @ u \<and> filter changes u = [] \<and> published u = []"
proof -
  from assms(1) have "validate_and_build_helm_upgrader S env C h = (Inl e, h')"
    unfolding validate_and_upgrade_def
  proof (cases rule: io_bind_cases)
    case (continues U h1)
    then show ?thesis
      using assms(2) by (auto simp: io_map_err_def map_err_def split: prod.splits sum.splits)
  qed simp
  from emitsD [OF emits_build this] obtain u where u: "h' = h @ u" and "list_all (\<lambda>c. \<not> changes c \<and> silent c) u"
    by blast
  then have "list_all silent u" "list_all (\<lambda>c. \<not> changes c) u" by (auto simp: list_all_iff)
  with u published_silent show ?thesis by (auto simp: list_all_iff filter_empty_conv)
qed

theorem failed_validation_silent_witness:
  "\<exists>e h'. validate_and_upgrade release_semver ((healthy_job_env (Release 4 2 0 []) [])\<lparr>je_exec := (\<lambda>h c args envs. Inl ''not found'')\<rparr>)
     default_config None True [] = (Inl e, h') \<and> published h' = []"
proof -
  let ?env = "(healthy_job_env (Release 4 2 0 []) [])\<lparr>je_exec := (\<lambda>h c args envs. Inl ''not found'')\<rparr>"
  let ?args = "[''get'', ''metadata'', ''openebs'', ''-n'', ''openebs'', ''-oyaml'']"
  have run: "validate_and_upgrade release_semver ?env default_config None True [] =
      (Inl (FailedTokioCommand ''not found'' ''helm'' ?args [(''HELM_DRIVER'', [])]), [Exec ''helm'' ?args [(''HELM_DRIVER'', [])]])"
    by (simp add: validate_and_upgrade_def validate_and_build_helm_upgrader_def new_chart_metadata_def
        exec_tokio_command_def Let_def io_simps default_config_def helm_storage_driver_env_def)
  from failed_validation_silent [OF run] show ?thesis by (auto simp: run)
qed

section \<open>The arguments and the values file\<close>

lemma not_dry_run: "\<not> is_dry_run (helm_upgrade_extra_args C values_file)"
  by (simp add: helm_upgrade_extra_args_def is_dry_run_def)

lemma disable_toggles_calls:
  "disable_toggles env crds path toggles h = (Inr (), h') \<Longrightarrow>
     h' = h @ map (\<lambda>(names, key). YqSet key False path) (filter (\<lambda>(names, key). set names \<inter> set crds \<noteq> {}) toggles)"
proof (induction env crds path toggles arbitrary: h rule: disable_toggles.induct)
  case (1 env crds path)
  then show ?case by (simp add: io_success)
next
  case (2 env crds path names key toggles)
  from "2.prems" obtain h1 where
    "io_when (list_ex (\<lambda>name. name \<in> set names) crds)
      (io_call (YqSet key False path) (\<lambda>h. je_yq_set env h key False path)) h = (Inr (), h1)"
    and rest: "disable_toggles env crds path toggles h1 = (Inr (), h')"
    by (auto simp: io_bind_Inr_iff)
  then have "h1 = h @ (if set names \<inter> set crds \<noteq> {} then [YqSet key False path] else [])"
    by (auto simp: io_success list_ex_iff disjoint_iff split: if_splits)
  with "2.IH" [OF rest] show ?case by auto
qed

lemma crd_names_to_helm_toggles_ok:
  "crd_names_to_helm_toggles env = Inr toggles \<Longrightarrow> toggles = crd_toggle_list"
proof -
  have "traverse (\<lambda>(names, key). res_bind (je_yaml_key env key) (\<lambda>_. Inr (names, key))) ts = Inr toggles \<Longrightarrow> toggles = ts" for ts
    by (induction ts arbitrary: toggles) auto
  then show "crd_names_to_helm_toggles env = Inr toggles \<Longrightarrow> toggles = crd_toggle_list"
    by (simp add: crd_names_to_helm_toggles_def)
qed

lemma all_named_crds: "traverse (\<lambda>name. ok_or name e) crds = Inr names \<longleftrightarrow> crds = map Some names"
  by (induction crds arbitrary: names) (auto simp: Cons_eq_map_conv)

text \<open>C32: which custom resource definitions a v4 chart does not install again. Whatever order the hash
  table is drained in, the toggles that are turned off are exactly those with at least one of their
  definitions in the cluster; no toggle is turned on, and no other file is touched.\<close>

theorem safe_crd_install_toggles:
  assumes "safe_crd_install env path h = (Inr (), h')"
    and "set (je_toggle_order env (h @ [NewYq, ListCrds]) crd_toggle_list) = set crd_toggle_list"
  shows "\<exists>crds u. je_list_crds env (h @ [NewYq]) = Inr (map Some crds) \<and> h' = h @ NewYq # ListCrds # u \<and>
    set u = (\<lambda>(names, key). YqSet key False path) ` set (filter (\<lambda>(names, key). list_ex (\<lambda>n. n \<in> set crds) names) crd_toggle_list)"
proof -
  from assms(1) obtain crds where crds: "je_list_crds env (h @ [NewYq]) = Inr (map Some crds)"
    and "disable_toggles env crds path (je_toggle_order env (h @ [NewYq, ListCrds]) crd_toggle_list) (h @ [NewYq, ListCrds]) = (Inr (), h')"
    by (auto simp: safe_crd_install_def io_success all_named_crds dest!: crd_names_to_helm_toggles_ok)
  note calls = disable_toggles_calls [OF this(2)]
  have "list_ex (\<lambda>n. n \<in> set crds) names \<longleftrightarrow> set names \<inter> set crds \<noteq> {}" for names
    by (auto simp: list_ex_iff)
  with calls assms(2) crds show ?thesis by simp
qed

theorem safe_crd_install_toggles_witness:
  "\<exists>h'. safe_crd_install ((healthy_job_env () [])\<lparr>je_list_crds := (\<lambda>h. Inr [Some ''lvmnodes.local.openebs.io''])\<rparr>) ''/tmp'' [] = (Inr (), h') \<and>
     set h' = {NewYq, ListCrds, YqSet ''.lvm-localpv.crds.lvmLocalPv.enabled'' False ''/tmp''}"
proof -
  let ?env = "(healthy_job_env () [])\<lparr>je_list_crds := (\<lambda>h. Inr [Some ''lvmnodes.local.openebs.io''])\<rparr>"
  have env: "je_list_crds ?env = (\<lambda>h. Inr [Some ''lvmnodes.local.openebs.io''])" "je_yaml_key ?env = (\<lambda>s. Inr ())"
    "je_yq ?env = (\<lambda>h. Inr ())" "je_toggle_order ?env = (\<lambda>h ts. ts)" "je_yq_set ?env = (\<lambda>h k b p. Inr ())"
    by (simp_all add: healthy_job_env_def)
  have "\<exists>h'. disable_toggles ?env crds path ts h = (Inr (), h')" for crds path ts h
    by (induction ts arbitrary: h) (auto simp: io_simps env)
  moreover have "crd_names_to_helm_toggles ?env = Inr crd_toggle_list"
    by (simp add: crd_names_to_helm_toggles_def env crd_toggle_list_def)
  moreover obtain h' where "disable_toggles ?env [''lvmnodes.local.openebs.io''] ''/tmp'' crd_toggle_list [NewYq, ListCrds] = (Inr (), h')"
    using calculation(1) by blast
  ultimately have run: "safe_crd_install ?env ''/tmp'' [] = (Inr (), h')"
    by (simp add: safe_crd_install_def io_simps env)
  have "set (je_toggle_order ?env ([] @ [NewYq, ListCrds]) crd_toggle_list) = set crd_toggle_list" by (simp add: env)
  from safe_crd_install_toggles [OF run this] obtain crds u where crds: "crds = [''lvmnodes.local.openebs.io'']"
    and h': "h' = NewYq # ListCrds # u"
    and u: "set u = (\<lambda>(names, key). YqSet key False ''/tmp'') `
      set (filter (\<lambda>(names, key). list_ex (\<lambda>n. n \<in> set crds) names) crd_toggle_list)"
    by (auto simp: env simp del: set_filter)
  have "filter (\<lambda>(names, key). list_ex (\<lambda>n. n \<in> set crds) names) crd_toggle_list =
      [([''lvmvolumes.local.openebs.io'', ''lvmnodes.local.openebs.io'', ''lvmsnapshots.local.openebs.io''],
        ''.lvm-localpv.crds.lvmLocalPv.enabled'')]"
    unfolding crds by code_simp
  with u h' run show ?thesis by simp
qed

end
