(* ===== verification/JobMain.thy ===== *)
theory JobMain
  imports Validate
begin

text \<open>
  The upgrade job as a program (\<^verbatim>\<open>bin/upgrade-job/main.rs\<close>, \<^verbatim>\<open>cli_args.rs\<close>): from the arguments of its
  command line to its end. The options it declares are in \<open>JobArgs\<close>; tracing and the crypto setup are not modelled.
\<close>

record job_cli_args =
  ca_rest_endpoint :: "string option"
  ca_tls_ca_file :: "string option"
  ca_tls_cert_file :: "string option"
  ca_tls_key_file :: "string option"
  ca_jwt :: "string option"
  ca_namespace :: string
  ca_release_name :: string
  ca_chart_dir :: string
  ca_skip_data_plane_restart :: bool
  ca_skip_upgrade_path_validation :: bool
  ca_pod_name :: string
  ca_helm_args_set :: "string option"
  ca_helm_args_set_file :: "string option"
  ca_helm_storage_driver :: string

definition data_plane_upgrader_of :: "job_cli_args \<Rightarrow> data_plane_upgrader option" where
  "data_plane_upgrader_of A =
     (if ca_skip_data_plane_restart A then None
      else Some \<lparr>dp_namespace = ca_namespace A, dp_release_name = ca_release_name A,
        dp_rest_endpoint = ca_rest_endpoint A, dp_jwt = ca_jwt A, dp_tls_ca_file = ca_tls_ca_file A,
        dp_tls_cert_file = ca_tls_cert_file A, dp_tls_key_file = ca_tls_key_file A\<rparr>)"

definition config_of :: "job_cli_args \<Rightarrow> helm_upgrade_config" where
  "config_of A = \<lparr>uc_rel_name = ca_release_name A, uc_ns = ca_namespace A, uc_chart_dir = ca_chart_dir A,
     uc_skip_path_validation = ca_skip_upgrade_path_validation A, uc_args_set = ca_helm_args_set A,
     uc_args_set_file = ca_helm_args_set_file A, uc_storage_driver = ca_helm_storage_driver A\<rparr>"

definition job_main :: "('v :: linorder) semver \<Rightarrow> 'v job_env \<Rightarrow> job_cli_args \<Rightarrow> ('v, unit) job_io" where
  "job_main S env A =
     io_bind (io_map_err EventRecorderBuild (io_call (BuildEventRecorder (ca_pod_name A) (ca_namespace A) ''Openebs'')
       (je_build_recorder env))) (\<lambda>_.
     io_bind (validate_and_upgrade S env (config_of A) (data_plane_upgrader_of A) True) (\<lambda>_.
     io_emit ShutdownWorker))"

section \<open>The changes of a successful upgrade\<close>

text \<open>The computation that the dry run returns is always the same one.\<close>

lemma dry_run_bind:
  "io_bind (or_fatal ev action (hu_dry_run (umbrella_helm_upgrader S env U))) f =
   io_bind (or_fatal ev action (helm_upgrade env U (uu_helm_upgrade_extra_args U @ [''--dry-run''])))
     (\<lambda>_. f (umbrella_runner S env U))"
  by (rule ext) (simp add: umbrella_helm_upgrader_def umbrella_dry_run_def or_fatal_def io_simps
      split: prod.splits sum.splits)

lemma io_bind_InrE:
  assumes "io_bind m f h = (Inr y, h')"
  obtains x h1 where "m h = (Inr x, h1)" and "f x h1 = (Inr y, h')"
  using assms by (auto simp: io_bind_Inr_iff)

lemma emits_upgrade:
  assumes "\<And>c. c \<noteq> ShutdownWorker \<Longrightarrow> P c"
  shows "emits P (upgrade S env (umbrella_helm_upgrader S env U) D ev)"
  unfolding upgrade_def dry_run_bind umbrella_runner_def mayastor_data_plane_upgrade_def data_plane_run_def Let_def
  by (intro emits_intros assms) simp_all

text \<open>Every helm upgrade of a job carries the release, chart, driver and arguments of its configuration.\<close>

fun helm_call_of :: "helm_upgrade_config \<Rightarrow> job_call \<Rightarrow> bool" where
  "helm_call_of C (HelmUpgrade client rel dir xs) \<longleftrightarrow>
     client = \<lparr>hcl_namespace = uc_ns C, hcl_storage_driver = uc_storage_driver C\<rparr> \<and> rel = uc_rel_name C \<and> dir = uc_chart_dir C \<and>
     (\<exists>values_file ys. xs = helm_upgrade_extra_args C values_file @ ys \<and>
        ys \<in> {[], [''--dry-run''], pre_upgrade_job_args ''false'', pre_upgrade_job_args ''true''})"
| "helm_call_of C _ = True"

lemma helm_calls_of_upgrader:
  assumes "upgrader_of env C M U" and "ys \<in> {[], [''--dry-run''], pre_upgrade_job_args ''false'', pre_upgrade_job_args ''true''}"
  shows "helm_call_of C (HelmUpgrade (uu_client U) (uu_release_name U) (uu_chart_dir U) (uu_helm_upgrade_extra_args U @ ys))"
  using assms unfolding upgrader_of_def by auto

lemma emits_helm_calls_upgrade:
  assumes "upgrader_of env' C M U"
  shows "emits (helm_call_of C) (upgrade S env (umbrella_helm_upgrader S env U) D ev)"
  using helm_calls_of_upgrader [OF assms, of "[]"]
  unfolding upgrade_def dry_run_bind umbrella_runner_def mayastor_data_plane_upgrade_def data_plane_run_def Let_def
  by (intro emits_intros helm_calls_of_upgrader [OF assms]) simp_all

lemma emits_helm_calls: "emits (helm_call_of (config_of A)) (job_main S env A)"
  unfolding job_main_def validate_and_upgrade_def
proof (intro emits_bind_result emits_map_err emits_call emits_emit)
  show "emits (helm_call_of (config_of A)) (validate_and_build_helm_upgrader S env (config_of A))"
    by (rule emits_build_calls) simp_all
  fix U h h'
  assume "validate_and_build_helm_upgrader S env (config_of A) h = (Inr U, h')"
  with build_result obtain M where "upgrader_of env (config_of A) M U" by blast
  then show "emits (helm_call_of (config_of A))
      (upgrade S env (umbrella_helm_upgrader S env U) (data_plane_upgrader_of A) True)"
    by (rule emits_helm_calls_upgrade)
qed simp_all

lemma publish_quiet:
  "publish_normal env ev note action h = (Inr (), h') \<Longrightarrow> \<exists>u. h' = h @ u \<and> filter changes u = []"
  by (auto simp: publish_normal_def io_success split: if_splits)

lemma data_plane_upgrade_changes:
  assumes "mayastor_data_plane_upgrade S env D vals src ev h = (Inr (), h')"
  shows "\<exists>u hash ha label pods. h' = h @ u \<and> filter changes u =
    (if fv_mayastor_enabled vals then [UpgradeDataPlane (dp_namespace D) hash ha label pods] else [])"
proof (cases "fv_mayastor_enabled vals")
  case False
  with assms publish_quiet show ?thesis by (auto simp: mayastor_data_plane_upgrade_def)
next
  case True
  with assms obtain latest label pods h1 h2 h3 where
    "h1 = h @ [LatestRevisionHash (dp_namespace D) (je_io_engine_label env) (je_revision_hash_key env),
      ListJobPods (dp_namespace D) label]"
    "publish_normal env ev ''Upgrading data-plane'' ''DataPlaneUpgradeStart'' h1 = (Inr (), h2)"
    "h3 = h2 @ [DiscoverRest (dp_namespace D) (dp_release_name D) (rest_options D),
      UpgradeDataPlane (dp_namespace D) latest (fv_ha_enabled vals) label pods]"
    "publish_normal env ev ''Upgraded data-plane'' ''DataPlaneUpgradeComplete'' h3 = (Inr (), h')"
    by (auto simp: mayastor_data_plane_upgrade_def Let_def io_success or_fatal_Inr data_plane_run_def)
  with publish_quiet [of env ev _ _ h1 h2] publish_quiet [of env ev _ _ h3 h'] True show ?thesis by fastforce
qed

definition data_plane_changes :: "data_plane_upgrader option \<Rightarrow> job_call list \<Rightarrow> bool" where
  "data_plane_changes D cs \<longleftrightarrow> cs = [] \<or>
     (\<exists>d hash ha label pods. D = Some d \<and> cs = [UpgradeDataPlane (dp_namespace d) hash ha label pods])"

text \<open>The pods of etcd are looked for when the source is before 4.0.0.\<close>

definition etcd_pods_read :: "('v :: linorder) semver \<Rightarrow> 'v job_env \<Rightarrow> 'v umbrella_upgrader \<Rightarrow> string list \<Rightarrow> bool" where
  "etcd_pods_read S env U pods \<longleftrightarrow> (uu_source_version U < ver_new S 4 0 0 \<longrightarrow>
     (\<exists>h. je_list_pods env h (uu_namespace U) (etcd_selector (uu_release_name U)) = Inr pods))"

lemma upgrade_success:
  assumes "upgrade S env (umbrella_helm_upgrader S env U) D ev h = (Inr (), h')"
    and args: "\<not> is_dry_run (uu_helm_upgrade_extra_args U)"
  shows "\<exists>u pods dp. h' = h @ u \<and> filter changes u = loki_calls S U @ upgrade_calls S U (pods = []) @ dp \<and>
    etcd_pods_read S env U pods \<and> data_plane_changes D dp"
proof -
  let ?start = "(io_when ev (io_bind (io_emit (SetSourceVersion (ver_to_string S (hu_source_version (umbrella_helm_upgrader S env U)))))
      (\<lambda>_. io_emit (SetTargetVersion (ver_to_string S (hu_target_version (umbrella_helm_upgrader S env U)))))) :: unit lib_io)"
  from assms(1) obtain x1 h1 x2 h2 x3 h3 vals h4 x5 h5 x6 h6 where
    "?start h = (Inr x1, h1)"
    "helm_upgrade env U (uu_helm_upgrade_extra_args U @ [''--dry-run'']) h1 = (Inr x2, h2)"
    "publish_normal env ev ''Upgrading helm chart'' ''HelmUpgradeStart'' h2 = (Inr x3, h3)" and
    run: "umbrella_runner S env U h3 = (Inr vals, h4)" and
    "publish_normal env ev ''Upgraded helm chart'' ''HelmUpgradeComplete'' h4 = (Inr x5, h5)"
    "(case D of Some D \<Rightarrow> mayastor_data_plane_upgrade S env D vals (hu_source_version (umbrella_helm_upgrader S env U)) ev
      | None \<Rightarrow> io_ok ()) h5 = (Inr x6, h6)" and
    pub3: "publish_normal env ev ''Upgrade successful'' ''Success'' h6 = (Inr (), h')"
  proof -
    from assms(1) [unfolded upgrade_def dry_run_bind] show thesis
      by (elim io_bind_InrE, simp only: or_fatal_Inr) (rule that)
  qed
  moreover have "x1 = ()" "x2 = ()" "x3 = ()" "x5 = ()" "x6 = ()" by simp_all
  ultimately have start: "?start h = (Inr (), h1)" and
    dry: "helm_upgrade env U (uu_helm_upgrade_extra_args U @ [''--dry-run'']) h1 = (Inr (), h2)" and
    pub1: "publish_normal env ev ''Upgrading helm chart'' ''HelmUpgradeStart'' h2 = (Inr (), h3)" and
    pub2: "publish_normal env ev ''Upgraded helm chart'' ''HelmUpgradeComplete'' h4 = (Inr (), h5)" and
    plane: "(case D of Some D \<Rightarrow> mayastor_data_plane_upgrade S env D vals (hu_source_version (umbrella_helm_upgrader S env U)) ev
      | None \<Rightarrow> io_ok ()) h5 = (Inr (), h6)" by simp_all
  from start obtain u1 where u1: "h1 = h @ u1" "filter changes u1 = []"
    by (auto simp: io_success split: if_splits)
  from dry have u2: "h2 = h1 @ [dry_run_call U]" by (simp add: helm_upgrade_def io_success dry_run_call_def)
  from runner_changes [OF run args] obtain u3 pods where
    u3: "h4 = h3 @ u3" "filter changes u3 = loki_calls S U @ upgrade_calls S U (pods = [])"
    "etcd_pods_read S env U pods" unfolding etcd_pods_read_def by blast
  obtain u4 dp where u4: "h6 = h5 @ u4" "filter changes u4 = dp" "data_plane_changes D dp"
  proof (cases D)
    case None
    with plane that [of "[]" "[]"] show thesis by (simp add: io_success data_plane_changes_def)
  next
    case (Some d)
    with plane data_plane_upgrade_changes obtain u hash ha label pods where "h6 = h5 @ u"
      "filter changes u = (if fv_mayastor_enabled vals then [UpgradeDataPlane (dp_namespace d) hash ha label pods] else [])"
      by fastforce
    with that Some show thesis by (auto simp: data_plane_changes_def split: if_splits)
  qed
  obtain v1 v2 v3 where "h3 = h2 @ v1" "h5 = h4 @ v2" "h' = h6 @ v3"
    "filter changes v1 = []" "filter changes v2 = []" "filter changes v3 = []"
    using publish_quiet [OF pub1] publish_quiet [OF pub2] publish_quiet [OF pub3] by blast
  with u1 u2 u3 u4 show ?thesis
    by (intro exI [of _ "u1 @ [dry_run_call U] @ v1 @ u3 @ v2 @ u4 @ v3"] exI [of _ pods] exI [of _ dp]) simp
qed

lemma job_success:
  assumes "job_main S env A h = (Inr (), h')"
  shows "\<exists>M U u pods dp. metadata_read env (h @ [BuildEventRecorder (ca_pod_name A) (ca_namespace A) ''Openebs'']) (config_of A) M \<and>
    inputs_valid S env (ca_chart_dir A) M \<and> upgrader_of env (config_of A) M U \<and>
    h' = h @ u \<and> filter changes u = loki_calls S U @ upgrade_calls S U (pods = []) @ dp \<and>
    etcd_pods_read S env U pods \<and> data_plane_changes (data_plane_upgrader_of A) dp \<and> last (published u) = ''Success'' \<and> published u \<noteq> []"
proof -
  let ?rec = "BuildEventRecorder (ca_pod_name A) (ca_namespace A) ''Openebs''"
  from assms obtain U h1 h2 where
    build: "validate_and_build_helm_upgrader S env (config_of A) (h @ [?rec]) = (Inr U, h1)" and
    up: "upgrade S env (umbrella_helm_upgrader S env U) (data_plane_upgrader_of A) True h1 = (Inr (), h2)" and
    h': "h' = h2 @ [ShutdownWorker]"
    by (auto simp: job_main_def validate_and_upgrade_def io_success)
  from build_result [OF build] obtain M where M: "metadata_read env (h @ [?rec]) (config_of A) M"
    "inputs_valid S env (ca_chart_dir A) M" "upgrader_of env (config_of A) M U"
    by (auto simp: config_of_def)
  from emitsD [OF emits_build build] obtain v where v: "h1 = h @ ?rec # v" "filter changes v = []" "published v = []"
    using published_silent [of "_ :: job_call list"] by (auto simp: list_all_iff filter_empty_conv)
  have "\<not> is_dry_run (uu_helm_upgrade_extra_args U)"
    using M(3) by (simp add: upgrader_of_def not_dry_run)
  from upgrade_success [OF up this] obtain w pods dp where w: "h2 = h1 @ w"
    "filter changes w = loki_calls S U @ upgrade_calls S U (pods = []) @ dp" "etcd_pods_read S env U pods" "data_plane_changes (data_plane_upgrader_of A) dp" by blast
  from followsD [OF umbrella.upgrade_follows up] w(1) have "ev_runs Idle (published w) Succeeded" by auto
  then have "last (published w) = ''Success'' \<and> published w \<noteq> []" by (rule ev_runs_last) simp
  then have "last (published (?rec # v @ w @ [ShutdownWorker])) = ''Success''"
    and "published (?rec # v @ w @ [ShutdownWorker]) \<noteq> []"
    using v(3) by simp_all
  with M v w h' show ?thesis
    by (intro exI [of _ M] exI [of _ U] exI [of _ "?rec # v @ w @ [ShutdownWorker]"] exI [of _ pods] exI [of _ dp]) simp
qed

text \<open>C33: what a job that ends well has done to the installation, from its command line. The metadata that helm
  reported for the release of the command line, and its other inputs, have passed the checks. The changes
  are those of the umbrella chart for the version in that metadata, made with the release, namespace,
  driver, chart directory and arguments of the command line: the chart is upgraded twice if the source is
  before 4.0.0 and no pod of etcd was found, and once otherwise. They are followed by at most one restart
  of the data plane in that namespace, and by none if that was skipped. The last event says Success.\<close>

theorem job_main_success:
  assumes "job_main S env A h = (Inr (), h')"
  shows "\<exists>M U u pods dp. metadata_read env (h @ [BuildEventRecorder (ca_pod_name A) (ca_namespace A) ''Openebs'']) (config_of A) M \<and>
    inputs_valid S env (ca_chart_dir A) M \<and> upgrader_of env (config_of A) M U \<and>
    h' = h @ u \<and> filter changes u = loki_calls S U @ upgrade_calls S U (pods = []) @ dp \<and>
    etcd_pods_read S env U pods \<and> data_plane_changes (data_plane_upgrader_of A) dp \<and> last (published u) = ''Success''"
  using job_success [OF assms] by blast

text \<open>C34: the event worker, which sends the events in the background, is waited for only when the upgrade
  succeeds: in every run that ends with an error the job exits without shutting it down.\<close>

theorem shutdown_only_on_success:
  "case job_main S env A h of (r, h') \<Rightarrow> \<exists>u. h' = h @ u \<and> (ShutdownWorker \<in> set u \<longleftrightarrow> is_ok r)"
proof -
  obtain r h' where run: "job_main S env A h = (r, h')" by fastforce
  let ?m = "io_bind (io_map_err EventRecorderBuild (io_call (BuildEventRecorder (ca_pod_name A) (ca_namespace A) ''Openebs'')
      (je_build_recorder env))) (\<lambda>_. validate_and_upgrade S env (config_of A) (data_plane_upgrader_of A) True)"
  have "emits (\<lambda>c. c \<noteq> ShutdownWorker) ?m"
    unfolding validate_and_upgrade_def
    by (intro emits_intros emits_upgrade emits_build_calls) simp_all
  moreover obtain r1 h1 where m: "?m h = (r1, h1)" by fastforce
  ultimately obtain u where u: "h1 = h @ u" "ShutdownWorker \<notin> set u"
    unfolding emits_def list_all_iff by (metis snd_conv)
  have "job_main S env A h = io_bind ?m (\<lambda>_. io_emit ShutdownWorker) h"
    by (auto simp: job_main_def io_bind_def split: prod.splits sum.splits)
  with run m u show ?thesis by (cases r1) (auto simp: io_simps)
qed

definition example_args :: job_cli_args where
  "example_args = \<lparr>ca_rest_endpoint = None, ca_tls_ca_file = None, ca_tls_cert_file = None, ca_tls_key_file = None,
     ca_jwt = None, ca_namespace = ''openebs'', ca_release_name = ''openebs'', ca_chart_dir = ''/chart'',
     ca_skip_data_plane_restart = True, ca_skip_upgrade_path_validation = False, ca_pod_name = ''job'',
     ca_helm_args_set = Some ''a=b'', ca_helm_args_set_file = None, ca_helm_storage_driver = []\<rparr>"

lemma healthy_upgrade:
  "\<exists>h'. upgrade release_semver (healthy_job_env v []) (umbrella_helm_upgrader release_semver (healthy_job_env v []) U)
     None True h = (Inr (), h')"
  unfolding upgrade_def dry_run_bind
  by (simp add: umbrella_runner_def helm_upgrade_def or_fatal_def publish_normal_def io_simps healthy_job_env_def
      del: release_order)

lemma healthy_job: "\<exists>h'. job_main release_semver (healthy_job_env (Release 4 2 0 []) []) example_args [] = (Inr (), h')"
proof -
  let ?env = "healthy_job_env (Release 4 2 0 []) []"
  have config: "config_of example_args = default_config" "data_plane_upgrader_of example_args = None"
    by (simp_all add: config_of_def example_args_def default_config_def data_plane_upgrader_of_def)
  obtain U h1 where "validate_and_build_helm_upgrader release_semver ?env default_config [BuildEventRecorder ''job'' ''openebs'' ''Openebs''] = (Inr U, h1)"
    using healthy_build by blast
  moreover obtain h2 where "upgrade release_semver ?env (umbrella_helm_upgrader release_semver ?env U) None True h1 = (Inr (), h2)"
    using healthy_upgrade by blast
  moreover have "je_build_recorder ?env = (\<lambda>h. Inr ())" by (simp add: healthy_job_env_def)
  ultimately show ?thesis
    by (simp add: job_main_def validate_and_upgrade_def config io_simps) (simp add: example_args_def io_simps)
qed

theorem job_main_success_witness:
  "\<exists>h' M. job_main release_semver (healthy_job_env (Release 4 2 0 []) []) example_args [] = (Inr (), h') \<and>
     metadata_read (healthy_job_env (Release 4 2 0 []) []) [BuildEventRecorder ''job'' ''openebs'' ''Openebs''] (config_of example_args) M \<and>
     inputs_valid release_semver (healthy_job_env (Release 4 2 0 []) []) (ca_chart_dir example_args) M \<and>
     last (published h') = ''Success''"
proof -
  obtain h' where run: "job_main release_semver (healthy_job_env (Release 4 2 0 []) []) example_args [] = (Inr (), h')"
    using healthy_job by blast
  have "ca_pod_name example_args = ''job''" "ca_namespace example_args = ''openebs''" by (simp_all add: example_args_def)
  with job_main_success [OF run] run show ?thesis by (auto simp del: release_order)
qed

end
