(* ===== verification/JobArgs.thy ===== *)
theory JobArgs
  imports PluginEnv JobMain
begin

text \<open>
  The command line of the upgrade job: its options as \<^verbatim>\<open>upgrade-job/cli_args.rs\<close> declares them, the struct
  that is filled from their values, and the arguments and environment of the container that the
  plugin creates (\<^verbatim>\<open>upgrade_job\<close> in \<^verbatim>\<open>plugin/src/cli_utils/upgrade/mod.rs\<close>). The parser is clap, a library:
  it is a parameter, and \<open>clap_documented\<close> states the part of its documentation that is relied on.
\<close>

section \<open>The options of the job\<close>

text \<open>What clap is told about an argument; \<open>arg_type\<close> is the type of the field, which selects the value parser.\<close>

datatype arg_type = TString | TPath | TUrl | TFlag | TOther

record cli_arg =
  arg_id :: string
  arg_short :: "char option"
  arg_long :: "string option"
  arg_env :: "string option"
  arg_default :: "string option"
  arg_required :: bool
  arg_requires :: "string option"
  arg_type :: arg_type

text \<open>\<^verbatim>\<open>#[arg(long)]\<close> names the option after the field, with dashes; without \<^verbatim>\<open>long\<close> the argument is positional.\<close>

definition kebab :: "string \<Rightarrow> string" where
  "kebab = replace_char CHR ''_'' CHR ''-''"

definition positional :: "string \<Rightarrow> arg_type \<Rightarrow> cli_arg" where
  "positional field ty = \<lparr>arg_id = field, arg_short = None, arg_long = None, arg_env = None, arg_default = None,
     arg_required = False, arg_requires = None, arg_type = ty\<rparr>"

definition long_option :: "string \<Rightarrow> arg_type \<Rightarrow> cli_arg" where
  "long_option field ty = (positional field ty)\<lparr>arg_long := Some (kebab field)\<rparr>"

text \<open>\<open>crypto\<close> are the arguments of the flattened \<^verbatim>\<open>CryptoArgs\<close> of the \<^verbatim>\<open>utils\<close> crate, \<open>pretty\<close> its default style.\<close>

definition job_options :: "string \<Rightarrow> cli_arg list \<Rightarrow> cli_arg list" where
  "job_options pretty crypto =
     [(long_option ''rest_endpoint'' TUrl)\<lparr>arg_short := Some CHR ''e''\<rparr>,
      long_option ''tls_ca_file'' TPath,
      (long_option ''tls_cert_file'' TPath)\<lparr>arg_requires := Some ''tls_key_file''\<rparr>,
      (long_option ''tls_key_file'' TPath)\<lparr>arg_requires := Some ''tls_cert_file''\<rparr>,
      long_option ''jwt'' TPath,
      (long_option ''namespace'' TString)\<lparr>arg_short := Some CHR ''n'', arg_required := True\<rparr>,
      (long_option ''release_name'' TString)\<lparr>arg_required := True\<rparr>,
      (long_option ''chart_dir'' TPath)\<lparr>arg_env := Some ''CHART_DIR'', arg_required := True\<rparr>,
      (long_option ''skip_data_plane_restart'' TFlag)\<lparr>arg_default := Some ''false''\<rparr>,
      (long_option ''skip_upgrade_path_validation'' TFlag)\<lparr>arg_default := Some ''false''\<rparr>,
      (positional ''pod_name'' TString)\<lparr>arg_env := Some ''POD_NAME'', arg_required := True\<rparr>,
      long_option ''helm_args_set'' TString,
      long_option ''helm_args_set_file'' TString,
      (long_option ''fmt_style'' TOther)\<lparr>arg_short := Some CHR ''f'', arg_default := Some pretty\<rparr>,
      (long_option ''ansi_colors'' TFlag)\<lparr>arg_default := Some ''true''\<rparr>,
      (positional ''helm_storage_driver'' TString)\<lparr>arg_env := Some ''HELM_DRIVER'', arg_default := Some []\<rparr>,
      (long_option ''tracing_tags'' TOther)\<lparr>arg_short := Some CHR ''t'', arg_env := Some ''TRACING_TAGS''\<rparr>] @ crypto"

text \<open>The struct from the values that clap found, as \<^verbatim>\<open>derive(Parser)\<close> fills it.\<close>

type_synonym arg_matches = "string \<Rightarrow> string option"

definition from_matches :: "arg_matches \<Rightarrow> job_cli_args option" where
  "from_matches m =
     Option.bind (m ''namespace'') (\<lambda>namespace.
     Option.bind (m ''release_name'') (\<lambda>release_name.
     Option.bind (m ''chart_dir'') (\<lambda>chart_dir.
     Option.bind (m ''pod_name'') (\<lambda>pod_name.
     Option.bind (m ''helm_storage_driver'') (\<lambda>helm_storage_driver.
     Some \<lparr>ca_rest_endpoint = m ''rest_endpoint'', ca_tls_ca_file = m ''tls_ca_file'',
       ca_tls_cert_file = m ''tls_cert_file'', ca_tls_key_file = m ''tls_key_file'', ca_jwt = m ''jwt'',
       ca_namespace = namespace, ca_release_name = release_name, ca_chart_dir = chart_dir,
       ca_skip_data_plane_restart = (m ''skip_data_plane_restart'' = Some ''true''),
       ca_skip_upgrade_path_validation = (m ''skip_upgrade_path_validation'' = Some ''true''),
       ca_pod_name = pod_name, ca_helm_args_set = m ''helm_args_set'',
       ca_helm_args_set_file = m ''helm_args_set_file'', ca_helm_storage_driver = helm_storage_driver\<rparr>)))))"

datatype 'e usage_error = ClapError 'e | MissingArgument

type_synonym 'e arg_parser = "cli_arg list \<Rightarrow> string list \<Rightarrow> (string \<rightharpoonup> string) \<Rightarrow> 'e + arg_matches"

definition parse_job_args :: "'e arg_parser \<Rightarrow> string \<Rightarrow> cli_arg list \<Rightarrow> string list \<Rightarrow> (string \<rightharpoonup> string) \<Rightarrow>
    'e usage_error + job_cli_args" where
  "parse_job_args parse pretty crypto argv environ =
     res_bind (map_err ClapError (parse (job_options pretty crypto) argv environ)) (\<lambda>m.
     ok_or (from_matches m) MissingArgument)"

section \<open>What clap documents\<close>

text \<open>
  The two forms of argument that the plugin writes; names of options are distinct and hold no equals sign. A value on the command line comes before one from
  the environment, and that before the default. Texts are accepted as they are, paths if they are not
  empty; nothing is said of the other types.
\<close>

datatype cli_item = ValueItem string string | FlagItem string

fun item_name :: "cli_item \<Rightarrow> string" where
  "item_name (ValueItem n v) = n"
| "item_name (FlagItem n) = n"

fun item_text :: "cli_item \<Rightarrow> string" where
  "item_text (ValueItem n v) = ''--'' @ n @ ''='' @ v"
| "item_text (FlagItem n) = ''--'' @ n"

fun item_value :: "cli_item list \<Rightarrow> string \<Rightarrow> string option" where
  "item_value [] name = None"
| "item_value (ValueItem n v # items) name = (if n = name then Some v else item_value items name)"
| "item_value (FlagItem n # items) name = (if n = name then Some ''true'' else item_value items name)"

definition given :: "cli_item list \<Rightarrow> (string \<rightharpoonup> string) \<Rightarrow> cli_arg \<Rightarrow> string option" where
  "given items environ a = (case Option.bind (arg_long a) (item_value items) of
      Some v \<Rightarrow> Some v
    | None \<Rightarrow> Option.bind (arg_env a) environ)"

definition arg_value :: "cli_item list \<Rightarrow> (string \<rightharpoonup> string) \<Rightarrow> cli_arg \<Rightarrow> string option" where
  "arg_value items environ a = (case given items environ a of Some v \<Rightarrow> Some v | None \<Rightarrow> arg_default a)"

definition accepts :: "cli_arg \<Rightarrow> string \<Rightarrow> bool" where
  "accepts a v \<longleftrightarrow> arg_type a = TString \<or> arg_type a = TPath \<and> v \<noteq> []"

fun item_ok :: "cli_arg list \<Rightarrow> cli_item \<Rightarrow> bool" where
  "item_ok opts (ValueItem n v) = list_ex (\<lambda>a. arg_long a = Some n \<and> accepts a v) opts"
| "item_ok opts (FlagItem n) = list_ex (\<lambda>a. arg_long a = Some n \<and> arg_type a = TFlag) opts"

definition options_ok :: "cli_arg list \<Rightarrow> bool" where
  "options_ok opts \<longleftrightarrow> distinct (map arg_id opts) \<and> distinct (List.map_filter arg_long opts) \<and>
     list_all (\<lambda>n. CHR ''='' \<notin> set n) (List.map_filter arg_long opts)"

definition arg_ok :: "cli_arg list \<Rightarrow> cli_item list \<Rightarrow> (string \<rightharpoonup> string) \<Rightarrow> cli_arg \<Rightarrow> bool" where
  "arg_ok opts items environ a \<longleftrightarrow>
     (arg_required a \<longrightarrow> given items environ a \<noteq> None) \<and>
     (case Option.bind (arg_env a) environ of None \<Rightarrow> True | Some v \<Rightarrow> accepts a v) \<and>
     (given items environ a = None \<or> (case arg_requires a of None \<Rightarrow> True
       | Some needed \<Rightarrow> list_ex (\<lambda>b. arg_id b = needed \<and> given items environ b \<noteq> None) opts))"

definition line_ok :: "cli_arg list \<Rightarrow> cli_item list \<Rightarrow> (string \<rightharpoonup> string) \<Rightarrow> bool" where
  "line_ok opts items environ \<longleftrightarrow> distinct (map item_name items) \<and> list_all (item_ok opts) items \<and>
     list_all (arg_ok opts items environ) opts"

definition matches_of :: "cli_arg list \<Rightarrow> cli_item list \<Rightarrow> (string \<rightharpoonup> string) \<Rightarrow> arg_matches" where
  "matches_of opts items environ = (\<lambda>id. Option.bind (find (\<lambda>a. arg_id a = id) opts) (arg_value items environ))"

definition clap_documented :: "'e arg_parser \<Rightarrow> bool" where
  "clap_documented parse \<longleftrightarrow> (\<forall>opts items environ. options_ok opts \<and> line_ok opts items environ \<longrightarrow>
     parse opts (map item_text items) environ = Inr (matches_of opts items environ))"

section \<open>The container of the job\<close>

text \<open>
  Kubernetes replaces references \<^verbatim>\<open>$(NAME)\<close> in the arguments and the values of variables by the variables
  that are defined before, and \<^verbatim>\<open>$$\<close> by \<^verbatim>\<open>$\<close>. The replacement \<open>expand\<close> is a parameter; what is relied on is that a
  text without those two forms stays as it is.
\<close>

fun has_reference :: "string \<Rightarrow> bool" where
  "has_reference (c # d # s) = (c = CHR ''$'' \<and> (d = CHR ''$'' \<or> d = CHR ''('') \<or> has_reference (d # s))"
| "has_reference _ = False"

type_synonym expander = "(string \<rightharpoonup> string) \<Rightarrow> string \<Rightarrow> string"

definition expansion_documented :: "expander \<Rightarrow> bool" where
  "expansion_documented expand \<longleftrightarrow> (\<forall>vars s. \<not> has_reference s \<longrightarrow> expand vars s = s)"

text \<open>
  The environment of a container: that of its image, and over it the variables of the job. \<open>pod_field\<close> are
  the fields of the pod that a variable may refer to.
\<close>

definition container_vars :: "expander \<Rightarrow> (string \<Rightarrow> string) \<Rightarrow> job_container \<Rightarrow> (string \<rightharpoonup> string)" where
  "container_vars expand pod_field c = foldl (\<lambda>vars e. vars(ev_name e \<mapsto> (case ev_value e of
      EnvValue v \<Rightarrow> expand vars v | EnvFieldRef path \<Rightarrow> pod_field path))) Map.empty (jc_env c)"

definition container_environ :: "expander \<Rightarrow> (string \<Rightarrow> string) \<Rightarrow> (string \<rightharpoonup> string) \<Rightarrow> job_container \<Rightarrow> (string \<rightharpoonup> string)" where
  "container_environ expand pod_field image_env c = image_env ++ container_vars expand pod_field c"

definition container_argv :: "expander \<Rightarrow> (string \<Rightarrow> string) \<Rightarrow> job_container \<Rightarrow> string list" where
  "container_argv expand pod_field c = map (expand (container_vars expand pod_field c)) (jc_args c)"

lemma container_argv_plain:
  "expansion_documented expand \<Longrightarrow> list_all (\<lambda>s. \<not> has_reference s) (jc_args c) \<Longrightarrow>
     container_argv expand pod_field c = jc_args c"
  by (simp add: container_argv_def expansion_documented_def list_all_iff map_idI)

definition job_items :: "upgrade_common_args \<Rightarrow> string \<Rightarrow> string \<Rightarrow> cli_item list" where
  "job_items args release_name set_file =
     [ValueItem ''namespace'' (uc_namespace args), ValueItem ''release-name'' release_name,
      ValueItem ''helm-args-set'' (join_with '','' (uc_set args)), ValueItem ''helm-args-set-file'' set_file]
     @ (if uc_skip_data_plane_restart args then [FlagItem ''skip-data-plane-restart''] else [])
     @ (if uc_skip_upgrade_path_validation_for_unsupported_version args
        then [FlagItem ''skip-upgrade-path-validation''] else [])"

lemma job_args_items: "job_args args rel set_file = map item_text (job_items args rel set_file)"
  by (simp add: job_args_def job_items_def)

definition upgrade_container :: "plugin_consts \<Rightarrow> upgrade_common_args \<Rightarrow> string \<Rightarrow> string \<Rightarrow> image_properties \<Rightarrow> job_container" where
  "upgrade_container C args release_name set_file props =
     hd (jp_containers (job_pod_spec (upgrade_job C args release_name set_file props)))"

lemma upgrade_container_args: "jc_args (upgrade_container C args rel set_file props) = map item_text (job_items args rel set_file)"
  by (simp add: upgrade_container_def upgrade_job_def Let_def job_args_items)

lemma upgrade_container_environ:
  assumes "expansion_documented expand" and "\<not> has_reference (uc_helm_storage_driver args)"
    and "c = upgrade_container C args rel set_file props"
  shows "container_environ expand pod_field image_env c ''POD_NAME'' = Some (pod_field ''metadata.name'')"
    "container_environ expand pod_field image_env c ''HELM_DRIVER'' = Some (uc_helm_storage_driver args)"
    "name \<notin> {''RUST_LOG'', ''POD_NAME'', ''HELM_DRIVER''} \<Longrightarrow>
       container_environ expand pod_field image_env c name = image_env name"
  using assms
  by (auto simp: container_environ_def container_vars_def upgrade_container_def upgrade_job_def Let_def
      expansion_documented_def map_add_def)

section \<open>The job reads what the plugin wrote\<close>

lemmas option_simps = long_option_def positional_def kebab_def replace_char_def

lemma job_items_names: "distinct (map item_name (job_items args rel set_file))"
  by (simp add: job_items_def)

lemma job_items_ok: "list_all (item_ok (job_options pretty crypto)) (job_items args rel set_file)"
  by (simp add: job_items_def job_options_def option_simps accepts_def)

lemma item_value_None_iff: "item_value items name = None \<longleftrightarrow> name \<notin> item_name ` set items"
  by (induction items name rule: item_value.induct) auto

text \<open>Arguments of other crates that the job's command line says nothing about.\<close>

definition stays_out :: "(string \<rightharpoonup> string) \<Rightarrow> cli_arg list \<Rightarrow> bool" where
  "stays_out environ crypto \<longleftrightarrow> list_all (\<lambda>a. \<not> arg_required a \<and> Option.bind (arg_env a) environ = None) crypto"

lemma foreign_option_absent:
  assumes "options_ok (job_options pretty crypto)" and "a \<in> set crypto"
  shows "Option.bind (arg_long a) (item_value (job_items args rel set_file)) = None"
proof (cases "arg_long a")
  case (Some n)
  with assms(2) have "n \<in> set (List.map_filter arg_long crypto)" by (auto simp: List.map_filter_def intro!: image_eqI [of _ _ a])
  with assms(1) have "n \<notin> {''namespace'', ''release-name'', ''helm-args-set'', ''helm-args-set-file'',
      ''skip-data-plane-restart'', ''skip-upgrade-path-validation''}"
    by (auto simp: options_ok_def job_options_def option_simps map_filter_simps)
  with Some show ?thesis by (auto simp: item_value_None_iff job_items_def)
qed simp

lemma foreign_arg_ok:
  assumes "options_ok (job_options pretty crypto)" and "stays_out environ crypto" and "a \<in> set crypto"
  shows "arg_ok opts (job_items args rel set_file) environ a"
  using assms by (simp add: arg_ok_def given_def foreign_option_absent stays_out_def list_all_iff)

lemma job_line_ok:
  assumes "options_ok (job_options pretty crypto)" and "stays_out environ crypto"
    and "environ ''CHART_DIR'' = Some dir" "dir \<noteq> []" "environ ''POD_NAME'' = Some pod"
    "environ ''TRACING_TAGS'' = None"
  shows "line_ok (job_options pretty crypto) (job_items args rel set_file) environ"
proof -
  have "list_all (arg_ok opts (job_items args rel set_file) environ) (job_options pretty [])" for opts
    using assms(3-) by (auto simp: job_options_def option_simps arg_ok_def given_def accepts_def job_items_def
        split: option.splits)
  then have "list_all (arg_ok opts (job_items args rel set_file) environ) (job_options pretty crypto)" for opts
    using foreign_arg_ok [OF assms(1,2)] by (simp add: job_options_def list_all_iff)
  then show ?thesis by (simp add: line_ok_def job_items_names job_items_ok)
qed

text \<open>The values that the fields of the struct get.\<close>

lemma job_matches:
  "matches_of (job_options pretty crypto) (job_items args rel set_file) environ ''namespace'' = Some (uc_namespace args)"
  "matches_of (job_options pretty crypto) (job_items args rel set_file) environ ''release_name'' = Some rel"
  "matches_of (job_options pretty crypto) (job_items args rel set_file) environ ''chart_dir'' = environ ''CHART_DIR''"
  "matches_of (job_options pretty crypto) (job_items args rel set_file) environ ''pod_name'' = environ ''POD_NAME''"
  "matches_of (job_options pretty crypto) (job_items args rel set_file) environ ''helm_args_set'' = Some (join_with '','' (uc_set args))"
  "matches_of (job_options pretty crypto) (job_items args rel set_file) environ ''helm_args_set_file'' = Some set_file"
  "matches_of (job_options pretty crypto) (job_items args rel set_file) environ ''helm_storage_driver'' =
     (case environ ''HELM_DRIVER'' of Some v \<Rightarrow> Some v | None \<Rightarrow> Some [])"
  "matches_of (job_options pretty crypto) (job_items args rel set_file) environ ''skip_data_plane_restart'' =
     Some (if uc_skip_data_plane_restart args then ''true'' else ''false'')"
  "matches_of (job_options pretty crypto) (job_items args rel set_file) environ ''skip_upgrade_path_validation'' =
     Some (if uc_skip_upgrade_path_validation_for_unsupported_version args then ''true'' else ''false'')"
  "matches_of (job_options pretty crypto) (job_items args rel set_file) environ ''rest_endpoint'' = None"
  "matches_of (job_options pretty crypto) (job_items args rel set_file) environ ''tls_ca_file'' = None"
  "matches_of (job_options pretty crypto) (job_items args rel set_file) environ ''tls_cert_file'' = None"
  "matches_of (job_options pretty crypto) (job_items args rel set_file) environ ''tls_key_file'' = None"
  "matches_of (job_options pretty crypto) (job_items args rel set_file) environ ''jwt'' = None"
  by (simp_all add: matches_of_def job_options_def option_simps arg_value_def given_def job_items_def split: option.splits)

text \<open>C31: the job understands the plugin. In the container that \<^verbatim>\<open>openebs upgrade\<close> creates, with an image that says
  where its chart is, and unless a text that the user gave refers to a variable in the way of Kubernetes,
  the command line of the job parses, and every option of the upgrade arrives where
  it belongs: namespace, release, both skip options, the helm driver, the set values and set files, the
  pod. No option of the REST client is set, so it is discovered. Whatever then happens in the job, every helm
  upgrade that it runs, dry or not, is one of that release, namespace, driver and chart, and gets the
  set values and set files, always both, even if empty, and after them the values file of the job.\<close>

theorem job_reads_upgrade_container:
  assumes "clap_documented parse" and "expansion_documented expand" and "options_ok (job_options pretty crypto)"
    and "stays_out (container_environ expand pod_field image_env c) crypto"
    and "c = upgrade_container C args rel set_file props"
    and "list_all (\<lambda>s. \<not> has_reference s) (uc_helm_storage_driver args # jc_args c)"
    and "image_env ''CHART_DIR'' = Some dir" "dir \<noteq> []" "image_env ''TRACING_TAGS'' = None"
  shows "\<exists>A. parse_job_args parse pretty crypto (container_argv expand pod_field c)
      (container_environ expand pod_field image_env c) = Inr A \<and>
    ca_pod_name A = pod_field ''metadata.name'' \<and>
    config_of A = \<lparr>uc_rel_name = rel, uc_ns = uc_namespace args, uc_chart_dir = dir,
      uc_skip_path_validation = uc_skip_upgrade_path_validation_for_unsupported_version args,
      uc_args_set = Some (join_with '','' (uc_set args)), uc_args_set_file = Some set_file,
      uc_storage_driver = uc_helm_storage_driver args\<rparr> \<and>
    data_plane_upgrader_of A = (if uc_skip_data_plane_restart args then None
      else Some \<lparr>dp_namespace = uc_namespace args, dp_release_name = rel, dp_rest_endpoint = None, dp_jwt = None,
        dp_tls_ca_file = None, dp_tls_cert_file = None, dp_tls_key_file = None\<rparr>) \<and>
    helm_upgrade_extra_args (config_of A) values_file =
      [''--set'', join_with '','' (uc_set args), ''--set-file'', set_file, ''-f'', values_file, ''--reset-then-reuse-values''] \<and>
    emits (helm_call_of (config_of A)) (job_main S env A)"
proof -
  let ?environ = "container_environ expand pod_field image_env c" and ?opts = "job_options pretty crypto"
    and ?items = "job_items args rel set_file"
  from assms(6) have plain: "\<not> has_reference (uc_helm_storage_driver args)" "list_all (\<lambda>s. \<not> has_reference s) (jc_args c)"
    by simp_all
  note lookup = upgrade_container_environ [OF assms(2) plain(1) assms(5), where pod_field = pod_field and image_env = image_env]
  have environ: "?environ ''CHART_DIR'' = Some dir" "?environ ''POD_NAME'' = Some (pod_field ''metadata.name'')"
    "?environ ''HELM_DRIVER'' = Some (uc_helm_storage_driver args)" "?environ ''TRACING_TAGS'' = None"
    using assms(7,9) lookup by simp_all
  have "line_ok ?opts ?items ?environ"
    using job_line_ok [OF assms(3,4) environ(1) assms(8) environ(2,4)] .
  with assms(1,3) have "parse ?opts (jc_args c) ?environ = Inr (matches_of ?opts ?items ?environ)"
    unfolding assms(5) upgrade_container_args clap_documented_def by blast
  then have "parse ?opts (container_argv expand pod_field c) ?environ = Inr (matches_of ?opts ?items ?environ)"
    by (simp add: container_argv_plain [OF assms(2) plain(2)])
  then show ?thesis
    by (simp add: parse_job_args_def from_matches_def job_matches environ emits_helm_calls)
      (simp add: config_of_def data_plane_upgrader_of_def helm_upgrade_extra_args_def map_filter_simps)
qed

section \<open>An example\<close>

text \<open>A parser that does what is documented for lines of those two forms, and refuses all others.\<close>

definition read_item :: "string \<Rightarrow> cli_item" where
  "read_item arg = (let t = drop 2 arg in
     if CHR ''='' \<in> set t
     then ValueItem (takeWhile (\<lambda>c. c \<noteq> CHR ''='') t) (tl (dropWhile (\<lambda>c. c \<noteq> CHR ''='') t))
     else FlagItem t)"

definition two_form_parser :: "string arg_parser" where
  "two_form_parser opts argv environ = (let items = map read_item argv in
     if map item_text items = argv \<and> line_ok opts items environ
     then Inr (matches_of opts items environ) else Inl ''usage'')"

lemma dropWhile_until: "c \<notin> set xs \<Longrightarrow> dropWhile (\<lambda>x. x \<noteq> c) (xs @ c # ys) = c # ys"
  by (induction xs) auto

lemma read_item_text: "CHR ''='' \<notin> set (item_name item) \<Longrightarrow> read_item (item_text item) = item"
  by (cases item) (auto simp: read_item_def Let_def takeWhile_tail dropWhile_until)

lemma item_ok_declared: "item_ok opts item \<Longrightarrow> item_name item \<in> set (List.map_filter arg_long opts)"
  by (cases item) (force simp: list_ex_iff List.map_filter_def)+

lemma two_form_parser_documented: "clap_documented two_form_parser"
  unfolding clap_documented_def
proof (intro allI impI)
  fix opts items environ
  assume ok: "options_ok opts \<and> line_ok opts items environ"
  then have "list_all (\<lambda>item. CHR ''='' \<notin> set (item_name item)) items"
    unfolding options_ok_def line_ok_def by (auto simp: list_all_iff dest!: item_ok_declared)
  then have "map read_item (map item_text items) = items"
    by (induction items) (simp_all add: read_item_text)
  with ok show "two_form_parser opts (map item_text items) environ = Inr (matches_of opts items environ)"
    unfolding two_form_parser_def Let_def by simp
qed

text \<open>The replacement of references as it is documented: unknown names are left as they are.\<close>

function expand_refs :: expander where
  "expand_refs vars [] = []"
| "expand_refs vars [c] = [c]"
| "expand_refs vars (c # d # s) =
     (if c \<noteq> CHR ''$'' then c # expand_refs vars (d # s)
      else if d = CHR ''$'' then CHR ''$'' # expand_refs vars s
      else if d = CHR ''('' \<and> CHR '')'' \<in> set s then
        (let name = takeWhile (\<lambda>x. x \<noteq> CHR '')'') s in
         unwrap_or (vars name) (''$('' @ name @ '')'') @ expand_refs vars (drop (Suc (length name)) s))
      else c # d # expand_refs vars s)"
  by pat_completeness auto

termination
  by (relation "measure (length \<circ> snd)") auto

lemma expand_refs_documented: "expansion_documented expand_refs"
proof -
  have "\<not> has_reference s \<Longrightarrow> expand_refs vars s = s" for vars s
  proof (induction vars s rule: expand_refs.induct)
    case (3 vars c d s)
    have "\<not> has_reference s" using "3.prems" by (cases s) auto
    with 3 show ?case by auto
  qed simp_all
  then show ?thesis by (simp add: expansion_documented_def)
qed

definition example_upgrade_args :: upgrade_common_args where
  "example_upgrade_args = default_args\<lparr>uc_set := [''a=b'', ''c=$d''], uc_skip_data_plane_restart := True\<rparr>"

definition example_container :: job_container where
  "example_container = upgrade_container
     \<lparr>pc_version_tag = Some ''v4.3.0'', pc_loki_logging_key = ''openebs.io/logging'', pc_rust_log = None\<rparr>
     example_upgrade_args ''release'' []
     \<lparr>ip_pull_secrets = None, ip_registry = ''docker.io'', ip_pull_policy = None\<rparr>"

lemma example_plain: "list_all (\<lambda>s. \<not> has_reference s) (uc_helm_storage_driver example_upgrade_args # jc_args example_container)"
  by (simp add: example_container_def upgrade_container_def upgrade_job_def job_args_def Let_def
      example_upgrade_args_def default_args_def)

theorem job_reads_upgrade_container_witness:
  "\<exists>A. parse_job_args two_form_parser ''pretty'' [] (container_argv expand_refs (\<lambda>path. ''job-pod'') example_container)
       (container_environ expand_refs (\<lambda>path. ''job-pod'') [''CHART_DIR'' \<mapsto> ''/chart''] example_container) = Inr A \<and>
     uc_args_set (config_of A) = Some ''a=b,c=$d'' \<and> data_plane_upgrader_of A = None"
proof -
  have "options_ok (job_options ''pretty'' [])"
    by (simp add: options_ok_def job_options_def option_simps map_filter_simps)
  moreover have "stays_out environ []" for environ by (simp add: stays_out_def)
  ultimately obtain A where "parse_job_args two_form_parser ''pretty'' [] (container_argv expand_refs (\<lambda>path. ''job-pod'') example_container)
       (container_environ expand_refs (\<lambda>path. ''job-pod'') [''CHART_DIR'' \<mapsto> ''/chart''] example_container) = Inr A"
    "uc_args_set (config_of A) = Some (join_with '','' (uc_set example_upgrade_args))"
    "data_plane_upgrader_of A = None"
    using job_reads_upgrade_container [OF two_form_parser_documented expand_refs_documented _ _ example_container_def example_plain,
        where pretty = "''pretty''" and crypto = "[]" and image_env = "[''CHART_DIR'' \<mapsto> ''/chart'']"
        and dir = "''/chart''" and pod_field = "\<lambda>path. ''job-pod''" and values_file = "[]"
        and S = release_semver and env = "healthy_job_env (Release 4 2 0 []) []"]
    by (auto simp: example_upgrade_args_def)
  then show ?thesis by (auto simp: example_upgrade_args_def default_args_def)
qed

end
