(* ===== verification/Spec2Isabelle.thy ===== *)
theory Spec2Isabelle
  imports Plugin JobMain JobArgs
begin

text \<open>
  A verification library for the Rust code of OpenEBS: the kubectl plugin (\<^verbatim>\<open>src/plugin\<close>) and the job that
  upgrades the umbrella helm chart (\<^verbatim>\<open>src/openebs-upgrade\<close>).

  \<^bold>\<open>The program.\<close> \<^verbatim>\<open>openebs upgrade\<close> checks the cluster, creates a service account, a cluster role with its
  binding, a ConfigMap and a job, and waits for the first event of the job. The job (\<^verbatim>\<open>upgrade-job\<close>)
  validates its inputs, rehearses the helm upgrade, runs it, restarts the data plane of Mayastor, and
  publishes events about all that. \<^verbatim>\<open>openebs upgrade status\<close> shows the latest event, \<^verbatim>\<open>openebs upgrade
  delete\<close> removes the objects. \<^verbatim>\<open>openebs localpv-lvm\<close>, \<^verbatim>\<open>localpv-zfs\<close> and \<^verbatim>\<open>localpv-hostpath\<close> list the objects of
  the local engines, \<^verbatim>\<open>openebs dump system\<close> collects state and logs into an archive.

  \<^bold>\<open>Conventions.\<close> A fallible function returns \<open>'e + 'a\<close>. A function with effects takes the history of the
  calls made so far and returns its result and the longer history; the answers of the outside world are
  a parameter (an environment record) and may depend on the history. Every early return and panic of
  the source is a branch of the model. Loops over pages have no bound of their own: they are
  \<^theory_text>\<open>partial_function (option)\<close>, and a claim about them says that they return. Code outside the repository
  (the \<^verbatim>\<open>upgrade\<close>, \<^verbatim>\<open>plugin\<close>, \<^verbatim>\<open>kubectl_plugin\<close> and \<^verbatim>\<open>supportability\<close> crates of Mayastor, helm, kube, serde,
  semver, base64, gzip, byte_unit) is a field of an environment record and is never defined here.

  \<^bold>\<open>Theories.\<close>
  \<^item> \<open>Prelude\<close>: results, effects, strings, decimal numbers and \<^verbatim>\<open>str::parse::<u128>\<close>. \<open>Kube\<close>: effects that may
    not return, API errors, lists in pages with the locale \<open>paginated_api\<close>. \<open>Semver\<close>: the interface of
    versions (\<open>semver_api\<close>) and the version bounds of \<^verbatim>\<open>openebs-upgrade/src/constants.rs\<close>. \<open>Tasks\<close>: spawned tasks as
    resumptions, their interleavings and \<^verbatim>\<open>try_join!\<close>.
  \<^item> \<open>Names\<close>, \<open>SetFile\<close>, \<open>HelmValues\<close>, \<open>HelmRelease\<close>, \<open>Resources\<close>: pure parts of the plugin's upgrade
    (\<^verbatim>\<open>plugin/src/constants.rs\<close>, \<^verbatim>\<open>cli_utils/upgrade/k8s\<close>, \<^verbatim>\<open>helm_values.rs\<close>, \<^verbatim>\<open>upgrade_job\<close> of \<^verbatim>\<open>upgrade/mod.rs\<close>): names,
    the set-file arguments, which engine is enabled, the helm release of the cluster, the objects
    that are created.
  \<^item> \<open>PluginEnv\<close>, \<open>UpgradePath\<close>, \<open>Preflight\<close>, \<open>Lifecycle\<close>, \<open>UpgradeCli\<close>: the commands of \<^verbatim>\<open>cli_utils/upgrade\<close>.
    \<open>Preflight\<close> has the locale \<open>volume_pages\<close> of the REST server, \<open>Lifecycle\<close> the locale \<open>object_store\<close> of an
    API server that remembers its objects. Deletion is in the foreground: a deleted object is marked and
    its key stays taken until the server has finished with it, whenever that is.
  \<^item> \<open>JobEnv\<close>, \<open>HelmUpgrade\<close>, \<open>Validate\<close>, \<open>JobMain\<close>: the upgrade job, from \<^verbatim>\<open>helm/upgrade.rs\<close>, \<^verbatim>\<open>helm/upgrade/*.rs\<close>,
    \<^verbatim>\<open>helm/*.rs\<close> to \<^verbatim>\<open>bin/upgrade-job/main.rs\<close>. \<open>HelmUpgrade\<close> has the locale \<open>helm_upgrader_api\<close> of the trait
    \<^verbatim>\<open>HelmUpgrader\<close> and the abstract protocol of the events (\<open>ev_table\<close>).
  \<^item> \<open>JobArgs\<close>: the options of the job (\<^verbatim>\<open>bin/upgrade-job/cli_args.rs\<close>) and the container that the plugin
    creates for it; clap is a parameter, of which the documented reading of \<^verbatim>\<open>--name=value\<close> and flags is used. So is the
    expansion of variables in the arguments of a container, which Kubernetes does before the job starts:
    a text without references arrives unchanged, and the downward API gives the pod's name and namespace.
  \<^item> \<open>LocalPv\<close>, \<open>Lvm\<close>, \<open>Zfs\<close>, \<open>Hostpath\<close>, \<open>LocalPvCli\<close>: \<^verbatim>\<open>cli_utils/localpv\<close>. \<open>LocalPv\<close> has the locale
    \<open>pv_conversion\<close>, which \<open>Lvm\<close> and \<open>Zfs\<close> interpret with their conversions to table rows. \<open>LocalPvCli\<close> says which
    objects the table of a command has to show (\<open>lvm_table\<close>, \<open>zfs_table\<close>, \<open>hostpath_table\<close>).
  \<^item> \<open>Dump\<close>: \<^verbatim>\<open>cli_utils/supportability\<close> and the \<^verbatim>\<open>supportability.rs\<close> of LVM and ZFS.
  \<^item> \<open>Plugin\<close>: \<^verbatim>\<open>plugin/src/main.rs\<close> and \<^verbatim>\<open>cli_utils/mod.rs\<close>: options, dispatch and exit codes.

  \<^bold>\<open>What is shown.\<close> C1 to C9: the set-file arguments survive the way into the job; the
  release and its values are read as documented; the objects of an upgrade fit together and hand out no
  privilege without need; which upgrade paths pass. C10 to C13: the preflight check sees all pages, guarantees
  what it checks, reads only, and ends. C14, C15, C17 and C18: creating and deleting the objects under every
  interleaving of the tasks; on a server that remembers its objects, creating leaves all five of them present
  (but for one that was already being deleted) and can be repeated, and deleting then leaves none that is not on its way out. C19 to C24: the commands around
  the job. C25 to C34: the events of the job, the order and the guards of its changes, its validation, its end.
  C29 and C33 tie what the job upgrades to the metadata of the release that its checks have read; C31: its
  command line reads back what the plugin wrote into its container, and these values are in all of its helm
  upgrades. C16 and C35 to C37: the tables of the local engines, for every answer and over all pages of a
  cluster. C38: a dump tries everything, and it succeeds exactly if its calls, typed lists, lookups of APIs and
  serialisations do, with the effects that are specified; failed lists of dynamic kinds are only logged. C39 and C40 compose the parts: the exit code of \<^verbatim>\<open>openebs
  upgrade\<close>, and the events of the job as the plugin reads them.

  \<^bold>\<open>Bounds.\<close> The waiting loop of \<^verbatim>\<open>apply_upgrade\<close> has the six rounds of the source. Page sizes are those of the
  source (500, and 100 for the dump); the page loops are proved for any number of pages. The schedulers
  take a list of picks and finish every task when it is used up, so no run is cut short. There is no
  fuel.

  \<^bold>\<open>Not modelled.\<close> The parser of clap (the records of parsed arguments are modelled, and for
  the job the declared options), tracing, the crypto setup, the text of log lines where only their presence
  matters, the serialisation of tables to JSON and YAML, and the signal handler, which is a parameter of
  \<open>Plugin\<close>. The commands of \<^verbatim>\<open>openebs mayastor\<close> are code of another
  repository. That a spawned task of the plugin is aborted or panics (a \<^verbatim>\<open>JoinError\<close>) is
  not modelled. Test modules are not modelled.
\<close>

section \<open>The events of the job, read by the plugin\<close>

text \<open>Whatever happens in the job, the actions it publishes are those of the event protocol.\<close>

lemma job_actions:
  assumes "job_main S env A h = (r, h @ u)"
  shows "set (published u) \<subseteq> (fst \<circ> snd) ` set ev_table"
proof -
  have quiet: "published v = []" if "list_all silent v" for v
    using that by (rule published_silent)
  let ?rec = "BuildEventRecorder (ca_pod_name A) (ca_namespace A) ''Openebs''"
  have build: "\<exists>v. h2 = h1 @ v \<and> published v = []"
    if run: "validate_and_build_helm_upgrader S env (config_of A) h1 = (x, h2)" for x h1 h2
  proof -
    from emitsD [OF emits_build run] obtain v where "h2 = h1 @ v" "list_all (\<lambda>c. \<not> changes c \<and> silent c) v" by blast
    then show ?thesis using quiet by (auto simp: list_all_iff)
  qed
  have up: "\<exists>v. h2 = h1 @ v \<and> set (published v) \<subseteq> (fst \<circ> snd) ` set ev_table"
    if run: "upgrade S env (umbrella_helm_upgrader S env U) D True h1 = (x, h2)" for U D x h1 h2
    using followsD [OF umbrella.upgrade_follows run] ev_runs_actions by blast
  from assms [unfolded job_main_def] show ?thesis
  proof (cases rule: io_bind_cases)
    case (fails e)
    then show ?thesis by (auto simp: io_simps map_err_def split: sum.splits)
  next
    case (continues x h1)
    then have h1: "h1 = h @ [?rec]" by (auto simp: io_simps map_err_def split: sum.splits)
    show ?thesis
      using continues(2) unfolding h1 validate_and_upgrade_def
      by (auto simp: io_simps split: sum.splits prod.splits dest!: build up) blast
  qed
qed

text \<open>C40: the plugin and the job disagree about failure. The plugin deletes the resources of an upgrade when
  the first event says that the validation failed; but no event that a job publishes, in any run and
  whatever goes wrong, has that meaning for the plugin: it reports every one of them, the failures
  included, as the start of the upgrade and changes nothing.\<close>

theorem job_events_reported_as_started:
  assumes "job_main S env A h = (r, h @ u)" and "evt_action e = Some action" and "action \<in> set (published u)"
  shows "handle_upgrade_event penv e rel ns g = (Inr (), g @ [Info UpgradeStartedNotice])"
proof -
  have "action \<noteq> ''Validation Failed''"
    using job_actions [OF assms(1)] assms(3) by (auto simp: ev_table_def)
  with assms(2) show ?thesis by (simp add: handle_upgrade_event_def io_simps)
qed

text \<open>A job on a healthy cluster publishes Success, and the plugin takes it for the start.\<close>

definition success_event :: event where
  "success_event = \<lparr>evt_reason = Some ''OpenebsUpgrade'', evt_action = Some ''Success'', evt_note = None, evt_time = None\<rparr>"

lemma healthy_job_publishes:
  "\<exists>u. job_main release_semver (healthy_job_env (Release 4 2 0 []) []) example_args [] = (Inr (), [] @ u) \<and>
     ''Success'' \<in> set (published u)"
proof -
  obtain h' where run: "job_main release_semver (healthy_job_env (Release 4 2 0 []) []) example_args [] = (Inr (), h')"
    using healthy_job by blast
  from job_success [OF run] have "published h' \<noteq> [] \<and> last (published h') = ''Success''" by auto
  with run show ?thesis by (metis append_Nil last_in_set)
qed

theorem job_events_reported_as_started_witness:
  "handle_upgrade_event (cluster_env (Some ''v4.3.0'') (v4_release True (Release 4 2 0 []))) success_event
     ''openebs'' ''openebs'' [] = (Inr (), [Info UpgradeStartedNotice])"
proof -
  obtain u where job: "job_main release_semver (healthy_job_env (Release 4 2 0 []) []) example_args [] = (Inr (), [] @ u)"
    and published: "''Success'' \<in> set (published u)"
    using healthy_job_publishes by blast
  have "evt_action success_event = Some ''Success''" by (simp add: success_event_def)
  from job_events_reported_as_started [OF job this published, of _ _ _ "[]"] show ?thesis by simp
qed

end
